(* ===== verification/Prelude.thy ===== *)
theory Prelude
  imports "HOL-Library.Word" "HOL-Library.Monad_Syntax" "HOL-Library.Sublist"
begin

text \<open>
  Shared vocabulary of the development: C strings and the heap oracle, the
  string functions of the C library the SDK calls (strstr, strtoll, atoi, the
  decimal conversions of printf), the bounds-checked copies of securec, and the
  generic lemmas the component theories use.

  A C string is the list of its characters before the terminating NUL; a
  \<open>char *\<close> that may be NULL is a \<open>string option\<close>.  Undefined behaviour of the C
  code (a NULL dereference, an access outside an array, a division by zero, a
  missing return value) is the value \<^term>\<open>None\<close> of an outer option.
\<close>

section \<open>Strings, results and collections\<close>

type_synonym cstr = "string option"

text \<open>The heap oracle: whether a request of this many bytes succeeds.\<close>

type_synonym heap = "nat \<Rightarrow> bool"

abbreviation (input) heap_ok :: "heap \<Rightarrow> bool" where
  "heap_ok mem \<equiv> (\<forall>n. mem n)"

named_theorems ub_simps \<open>unfolding of the undefined-behaviour monad\<close>
named_theorems c_defs \<open>definitions of the C library and securec functions\<close>
named_theorems exec_defs \<open>definitions unfolded when a concrete run is evaluated\<close>

definition guard_ub :: "bool \<Rightarrow> unit option" where
  "guard_ub b = (if b then Some () else None)"

lemma guard_ub_simps [simp]:
  "guard_ub True = Some ()" "guard_ub False = None"
  by (simp_all add: guard_ub_def)

lemma guard_ub_eq_Some [simp]: "guard_ub b = Some u \<longleftrightarrow> b"
  by (simp add: guard_ub_def)

text \<open>Dereferencing a pointer: undefined on NULL.\<close>

definition deref :: "'a option \<Rightarrow> 'a option" where
  "deref p = p"

lemma deref_simps [simp]: "deref (Some x) = Some x" "deref None = None"
  by (simp_all add: deref_def)

section \<open>Error codes\<close>

definition IOTA_SUCCESS :: int where "IOTA_SUCCESS = 0"
definition IOTA_FAILURE :: int where "IOTA_FAILURE = -1"
definition IOTA_PARAMETER_EMPTY :: int where "IOTA_PARAMETER_EMPTY = -101"
definition IOTA_RESOURCE_NOT_AVAILABLE :: int where "IOTA_RESOURCE_NOT_AVAILABLE = -102"
definition IOTA_INITIALIZATION_REPEATED :: int where "IOTA_INITIALIZATION_REPEATED = -103"
definition IOTA_LIBRARY_LOAD_FAILED :: int where "IOTA_LIBRARY_LOAD_FAILED = -104"
definition IOTA_SECRET_ENCRYPT_FAILED :: int where "IOTA_SECRET_ENCRYPT_FAILED = -105"
definition IOTA_MQTT_CONNECT_FAILED :: int where "IOTA_MQTT_CONNECT_FAILED = -106"
definition IOTA_MQTT_CONNECT_EXISTED :: int where "IOTA_MQTT_CONNECT_EXISTED = -107"
definition IOTA_CERTIFICATE_NOT_FOUND :: int where "IOTA_CERTIFICATE_NOT_FOUND = -108"
definition IOTA_MQTT_DISCONNECT_FAILED :: int where "IOTA_MQTT_DISCONNECT_FAILED = -109"
definition IOTA_PARSE_JSON_FAILED :: int where "IOTA_PARSE_JSON_FAILED = -110"
definition IOTA_PARAMETER_ERROR :: int where "IOTA_PARAMETER_ERROR = -111"
definition IOTA_NUMBER_EXCEEDS :: int where "IOTA_NUMBER_EXCEEDS = -112"

lemmas error_codes =
  IOTA_SUCCESS_def IOTA_FAILURE_def IOTA_PARAMETER_EMPTY_def
  IOTA_RESOURCE_NOT_AVAILABLE_def IOTA_INITIALIZATION_REPEATED_def
  IOTA_LIBRARY_LOAD_FAILED_def IOTA_SECRET_ENCRYPT_FAILED_def
  IOTA_MQTT_CONNECT_FAILED_def IOTA_MQTT_CONNECT_EXISTED_def
  IOTA_CERTIFICATE_NOT_FOUND_def IOTA_MQTT_DISCONNECT_FAILED_def
  IOTA_PARSE_JSON_FAILED_def IOTA_PARAMETER_ERROR_def IOTA_NUMBER_EXCEEDS_def

section \<open>Characters and decimal numerals\<close>

definition chr :: "char \<Rightarrow> nat" where
  "chr c = of_char c"

definition is_digit :: "char \<Rightarrow> bool" where
  "is_digit c \<longleftrightarrow> 48 \<le> chr c \<and> chr c \<le> 57"

definition digit_val :: "char \<Rightarrow> nat" where
  "digit_val c = chr c - 48"

definition digit_char :: "nat \<Rightarrow> char" where
  "digit_char n = char_of (48 + n)"

definition is_space :: "char \<Rightarrow> bool" where
  "is_space c \<longleftrightarrow> chr c = 32 \<or> (9 \<le> chr c \<and> chr c \<le> 13)"

text \<open>The value tolower returns.\<close>

definition to_lower :: "char \<Rightarrow> nat" where
  "to_lower c = (if 65 \<le> chr c \<and> chr c \<le> 90 then chr c + 32 else chr c)"

lemma chr_digit_char [simp]: "n < 10 \<Longrightarrow> chr (digit_char n) = 48 + n"
  by (simp add: chr_def digit_char_def)

lemma is_digit_digit_char [simp]: "n < 10 \<Longrightarrow> is_digit (digit_char n)"
  by (simp add: is_digit_def)

lemma digit_val_digit_char [simp]: "n < 10 \<Longrightarrow> digit_val (digit_char n) = n"
  by (simp add: digit_val_def)

lemma digit_char_table [exec_defs]:
  "digit_char 0 = CHR ''0''"
  "digit_char 1 = CHR ''1''"
  "digit_char 2 = CHR ''2''"
  "digit_char 3 = CHR ''3''"
  "digit_char 4 = CHR ''4''"
  "digit_char 5 = CHR ''5''"
  "digit_char 6 = CHR ''6''"
  "digit_char 7 = CHR ''7''"
  "digit_char 8 = CHR ''8''"
  "digit_char 9 = CHR ''9''"
  by code_simp+

lemma digit_char_one [exec_defs]: "digit_char (Suc 0) = CHR ''1''"
  by code_simp

definition read_nat :: "string \<Rightarrow> nat" where
  "read_nat ds = foldl (\<lambda>a c. 10 * a + digit_val c) 0 ds"

function dec_nat :: "nat \<Rightarrow> string" where
  "dec_nat n = (if n < 10 then [digit_char n]
                else dec_nat (n div 10) @ [digit_char (n mod 10)])"
  by auto
termination by (relation "measure id") auto

declare dec_nat.simps [simp del]

definition dec_int :: "int \<Rightarrow> string" where
  "dec_int i = (if i < 0 then CHR ''-'' # dec_nat (nat (- i)) else dec_nat (nat i))"

lemma dec_nat_digits: "list_all is_digit (dec_nat n)"
  by (induction n rule: dec_nat.induct) (subst dec_nat.simps, auto)

lemma dec_nat_set: "c \<in> set (dec_nat n) \<Longrightarrow> is_digit c"
  using dec_nat_digits [of n] by (auto simp: list_all_iff)

lemma dec_nat_not_Nil [simp]: "dec_nat n \<noteq> []"
  by (subst dec_nat.simps) simp

lemma read_nat_snoc [simp]: "read_nat (ds @ [c]) = 10 * read_nat ds + digit_val c"
  by (simp add: read_nat_def)

lemma read_nat_Nil [simp]: "read_nat [] = 0"
  by (simp add: read_nat_def)

lemma read_dec_nat [simp]: "read_nat (dec_nat n) = n"
proof (induction n rule: dec_nat.induct)
  case (1 n)
  show ?case
  proof (cases "n < 10")
    case True
    then show ?thesis
      using read_nat_snoc [of "[]" "digit_char n"] by (simp add: dec_nat.simps)
  next
    case False
    then show ?thesis using 1 by (simp add: dec_nat.simps [of n])
  qed
qed

lemma dec_nat_inject [simp]: "dec_nat m = dec_nat n \<longleftrightarrow> m = n"
  using read_dec_nat by metis

lemma length_dec_nat: "n < 10 ^ k \<Longrightarrow> 0 < k \<Longrightarrow> length (dec_nat n) \<le> k"
proof (induction k arbitrary: n)
  case (Suc k)
  show ?case
  proof (cases "n < 10")
    case False
    then have "0 < k" using Suc.prems by (cases k) auto
    moreover have "n div 10 < 10 ^ k" using Suc.prems by (simp add: less_mult_imp_div_less mult.commute)
    ultimately show ?thesis using Suc.IH [of "n div 10"] False by (simp add: dec_nat.simps [of n])
  qed (simp add: dec_nat.simps [of n])
qed simp

lemma read_nat_bound: "list_all is_digit ds \<Longrightarrow> read_nat ds < 10 ^ length ds"
proof (induction ds rule: rev_induct)
  case (snoc c ds)
  then have "digit_val c < 10" by (auto simp: digit_val_def is_digit_def)
  with snoc show ?case by auto
qed simp

text \<open>strtol and strtoll on the 64-bit targets of the SDK: leading white space,
  an optional sign, digits up to the first other character, saturation.\<close>

definition strto64 :: "string \<Rightarrow> int" where
  "strto64 s =
    (let t = dropWhile is_space s;
         (neg, u) = (case t of [] \<Rightarrow> (False, [])
           | c # r \<Rightarrow> if c = CHR ''-'' then (True, r) else if c = CHR ''+'' then (False, r) else (False, t));
         v = int (read_nat (takeWhile is_digit u));
         w = (if neg then - v else v)
     in max (- (2 ^ 63)) (min (2 ^ 63 - 1) w))"

definition atoi :: "string \<Rightarrow> int" where
  "atoi s = signed_take_bit 31 (strto64 s)"

lemma not_space_digit [simp]: "is_digit c \<Longrightarrow> \<not> is_space c"
  by (auto simp: is_digit_def is_space_def)

lemma digit_not_sign: "is_digit c \<Longrightarrow> c \<noteq> CHR ''-'' \<and> c \<noteq> CHR ''+''"
  by (auto simp: is_digit_def chr_def)

lemma strto64_digits:
  assumes "list_all is_digit ds"
  shows "strto64 ds = min (2 ^ 63 - 1) (int (read_nat ds))"
proof (cases ds)
  case Nil
  then show ?thesis by (simp add: strto64_def)
next
  case (Cons c r)
  then have "is_digit c" "takeWhile is_digit r = r"
    using assms by (auto simp: list_all_iff takeWhile_eq_all_conv)
  then show ?thesis using Cons digit_not_sign [of c] by (simp add: strto64_def Let_def del: takeWhile_eq_all_conv)
qed

section \<open>strstr\<close>

fun strstr :: "string \<Rightarrow> string \<Rightarrow> string option" where
  "strstr [] t = (if t = [] then Some [] else None)"
| "strstr (c # s) t = (if prefix t (c # s) then Some (c # s) else strstr s t)"

definition contains :: "string \<Rightarrow> string \<Rightarrow> bool" where
  "contains s t \<longleftrightarrow> strstr s t \<noteq> None"

lemma strstr_prefix: "strstr s t = Some r \<Longrightarrow> prefix t r \<and> suffix r s"
  by (induction s) (auto split: if_splits simp: suffix_Cons)

lemma strstr_None_iff: "strstr s t = None \<longleftrightarrow> \<not> sublist t s"
  by (induction s) (auto simp: sublist_Cons_right)

lemma contains_iff: "contains s t \<longleftrightarrow> sublist t s"
  by (simp add: contains_def strstr_None_iff)

lemma strstr_skip:
  assumes "\<And>p q. p @ q = s \<Longrightarrow> q \<noteq> [] \<Longrightarrow> \<not> prefix t (q @ r)"
  shows "strstr (s @ r) t = strstr r t"
  using assms
proof (induction s)
  case (Cons c s)
  have "\<not> prefix t (c # s @ r)" using Cons.prems [of "[]" "c # s"] by simp
  moreover have "\<And>p q. p @ q = s \<Longrightarrow> q \<noteq> [] \<Longrightarrow> \<not> prefix t (q @ r)"
    using Cons.prems [of "c # _"] by simp
  ultimately show ?case using Cons.IH by simp
qed simp

lemma strstr_self: "prefix t r \<Longrightarrow> strstr r t = Some r"
  by (cases r) auto

section \<open>The bounds-checked string functions\<close>

text \<open>strcpy_s, strcat_s, strncpy_s and strncat_s fail (a value other than EOK)
  when the source is NULL or when the result with its NUL does not fit in the
  destination.\<close>

definition strcpy_s :: "nat \<Rightarrow> cstr \<Rightarrow> cstr" where
  [c_defs]: "strcpy_s destMax src = (case src of None \<Rightarrow> None
     | Some s \<Rightarrow> if length s < destMax then Some s else None)"

definition strcat_s :: "string \<Rightarrow> nat \<Rightarrow> cstr \<Rightarrow> cstr" where
  [c_defs]: "strcat_s dst destMax src = (case src of None \<Rightarrow> None
     | Some s \<Rightarrow> if length dst + length s < destMax then Some (dst @ s) else None)"

definition strncpy_s :: "nat \<Rightarrow> cstr \<Rightarrow> nat \<Rightarrow> cstr" where
  [c_defs]: "strncpy_s destMax src n = (case src of None \<Rightarrow> None
     | Some s \<Rightarrow> if length (take n s) < destMax then Some (take n s) else None)"

definition strncat_s :: "string \<Rightarrow> nat \<Rightarrow> cstr \<Rightarrow> nat \<Rightarrow> cstr" where
  [c_defs]: "strncat_s dst destMax src n = (case src of None \<Rightarrow> None
     | Some s \<Rightarrow> if length dst + length (take n s) < destMax then Some (dst @ take n s) else None)"

section \<open>Generic lemmas\<close>

lemma fold_invariant:
  assumes "P s" and "\<And>x s. x \<in> set xs \<Longrightarrow> P s \<Longrightarrow> P (f x s)"
  shows "P (fold f xs s)"
  using assms by (induction xs arbitrary: s) auto

lemma takeWhile_app_all: "list_all P xs \<Longrightarrow> takeWhile P (xs @ ys) = xs @ takeWhile P ys"
  by (induction xs) auto

lemma dropWhile_app_all: "list_all P xs \<Longrightarrow> dropWhile P (xs @ ys) = dropWhile P ys"
  by (induction xs) auto

lemma bind_Some_iff: "Option.bind x f = Some y \<longleftrightarrow> (\<exists>a. x = Some a \<and> f a = Some y)"
  by (cases x) auto

lemma bind_SomeE:
  assumes "Option.bind x f = Some y"
  obtains a where "x = Some a" "f a = Some y"
  using assms by (cases x) auto

end
