(* ===== verification/Strings.thy ===== *)
theory Strings
  imports Prelude
begin

text \<open>
  The string utilities of src/util/string_util.c: one definition per function.
  Lengths are natural numbers (the code keeps them in int and size_t; strings
  longer than INT_MAX are outside the model), malloc is the heap oracle, and
  the broken-down time of gmtime and localtime is an argument.
\<close>

section \<open>Definitions\<close>

definition StringLength :: "cstr \<Rightarrow> nat" where
  "StringLength str = (case str of None \<Rightarrow> 0 | Some s \<Rightarrow> length s)"

definition StrInStr :: "cstr \<Rightarrow> cstr \<Rightarrow> cstr" where
  "StrInStr str subStr = (case (str, subStr) of
     (Some s, Some t) \<Rightarrow> strstr s t | _ \<Rightarrow> None)"

definition String2Int :: "cstr \<Rightarrow> int" where
  "String2Int value = (case value of None \<Rightarrow> -1 | Some v \<Rightarrow> atoi v)"

text \<open>The value of \<open>*str\<close> after \<open>StringMalloc(&str, length)\<close>.\<close>

definition StringMalloc :: "heap \<Rightarrow> cstr \<Rightarrow> int \<Rightarrow> cstr" where
  "StringMalloc mem str len =
     (if len \<le> 0 then str else if mem (nat len) then Some [] else None)"

text \<open>The loop over the variadic arguments: \<open>k\<close> is \<open>strAmount\<close> after its
  decrement, \<open>len\<close> the running buffer size, \<open>result\<close> the buffer so far.  Reading
  past the arguments that were passed is undefined.\<close>

fun CombineStrings_loop :: "heap \<Rightarrow> nat \<Rightarrow> nat \<Rightarrow> string \<Rightarrow> cstr list \<Rightarrow> cstr option" where
  "CombineStrings_loop mem 0 len result args = Some (Some result)"
| "CombineStrings_loop mem (Suc k) len result [] = None"
| "CombineStrings_loop mem (Suc k) len result (None # args) =
     CombineStrings_loop mem k len result args"
| "CombineStrings_loop mem (Suc k) len result (Some tem # args) =
    (let len' = len + StringLength (Some tem) in
     if \<not> mem len' then Some None
     else case strcpy_s len' (Some result) of None \<Rightarrow> Some None
     | Some p \<Rightarrow> (case strcat_s p len' (Some tem) of None \<Rightarrow> Some None
       | Some p' \<Rightarrow> CombineStrings_loop mem k len' p' args))"

definition CombineStrings :: "heap \<Rightarrow> nat \<Rightarrow> cstr \<Rightarrow> cstr list \<Rightarrow> cstr option" where
  "CombineStrings mem strAmount str1 args =
    (let len = StringLength str1 + 1 in
     if len = 1 then Some None
     else if \<not> mem len then Some None
     else case strcpy_s len str1 of None \<Rightarrow> Some None
     | Some result \<Rightarrow> CombineStrings_loop mem (strAmount - 1) len result args)"

text \<open>\<open>dst\<close> is \<^term>\<open>None\<close> for a NULL \<open>char **\<close>, else the old \<open>*dst\<close>; the result
  is the return value and the new \<open>*dst\<close>.\<close>

definition CopyStrValue :: "heap \<Rightarrow> cstr option \<Rightarrow> cstr \<Rightarrow> int \<Rightarrow> int \<times> cstr option" where
  "CopyStrValue mem dst src len =
    (if len \<le> 0 \<or> dst = None then (0, dst)
     else if \<not> mem (nat len + 1) then (-1, Some None)
     else case strncat_s [] (nat len + 1) src (nat len) of
       None \<Rightarrow> (-1, Some None)
     | Some s \<Rightarrow> (0, Some (Some s)))"

record tm =
  tm_year :: int
  tm_mon :: int
  tm_mday :: int
  tm_hour :: int
  tm_min :: int
  tm_sec :: int

text \<open>The conversion \<open>%.2d\<close>: at least two digits.\<close>

definition fmt2 :: "int \<Rightarrow> string" where
  "fmt2 i = (let d = dec_nat (nat \<bar>i\<bar>); e = (if length d < 2 then CHR ''0'' # d else d)
             in if i < 0 then CHR ''-'' # e else e)"

definition fmt3 :: "int \<Rightarrow> string" where
  "fmt3 i = (let d = dec_int i in replicate (3 - length d) (CHR ''0'') @ d)"

definition EVENT_TIME_LENGTH :: nat where "EVENT_TIME_LENGTH = 16"
definition CLIENT_TIME_LENGTH :: nat where "CLIENT_TIME_LENGTH = 10"
definition LOCAL_TIME_LENGTH :: nat where "LOCAL_TIME_LENGTH = 19"
definition LOCAL_TIME_WITH_MS_LENGTH :: nat where "LOCAL_TIME_WITH_MS_LENGTH = 23"
definition LOCAL_TIME_COMPACT_LENGTH :: nat where "LOCAL_TIME_COMPACT_LENGTH = 14"
definition SUB_STERING_MAX_LENGTH :: nat where "SUB_STERING_MAX_LENGTH = 20"
definition LONG_LONG_MAX_LENGTH :: nat where "LONG_LONG_MAX_LENGTH = 20"

definition GetEventTimesStamp :: "heap \<Rightarrow> tm option \<Rightarrow> cstr" where
  "GetEventTimesStamp mem gmtime = (case gmtime of None \<Rightarrow> None
   | Some lt \<Rightarrow>
     if \<not> mem (EVENT_TIME_LENGTH + 1) then None
     else Some (take EVENT_TIME_LENGTH
       (dec_int (tm_year lt + 1900) @ fmt2 (tm_mon lt + 1) @ fmt2 (tm_mday lt) @ ''T'' @
        fmt2 (tm_hour lt) @ fmt2 (tm_min lt) @ fmt2 (tm_sec lt) @ ''Z'')))"

definition getTime :: "int \<Rightarrow> int \<Rightarrow> 64 word" where
  "getTime tv_sec tv_usec = word_of_int (tv_sec * 1000 + tv_usec div 1000)"

definition GetClientTimesStamp :: "heap \<Rightarrow> tm option \<Rightarrow> cstr" where
  "GetClientTimesStamp mem gmtime = (case gmtime of None \<Rightarrow> None
   | Some lt \<Rightarrow>
     if \<not> mem (CLIENT_TIME_LENGTH + 1) then None
     else Some (take CLIENT_TIME_LENGTH
       (dec_int (tm_year lt + 1900) @ fmt2 (tm_mon lt + 1) @ fmt2 (tm_mday lt) @ fmt2 (tm_hour lt))))"

text \<open>strftime writes nothing and returns 0 when the text with its NUL does not fit.\<close>

definition strftime_s :: "nat \<Rightarrow> string \<Rightarrow> cstr" where
  "strftime_s maxsize text = (if length text < maxsize then Some text else None)"

definition GetClientTimesStampWithSec :: "heap \<Rightarrow> tm option \<Rightarrow> cstr option" where
  "GetClientTimesStampWithSec mem localtime =
    (if \<not> mem (LOCAL_TIME_COMPACT_LENGTH + 1) then Some None
     else do { lt \<leftarrow> localtime;
       Some (strftime_s (LOCAL_TIME_COMPACT_LENGTH + 1)
         (dec_int (tm_year lt + 1900) @ fmt2 (tm_mon lt + 1) @ fmt2 (tm_mday lt) @
          fmt2 (tm_hour lt) @ fmt2 (tm_min lt) @ fmt2 (tm_sec lt))) })"

definition Timeval2Str :: "heap \<Rightarrow> (int \<Rightarrow> tm option) \<Rightarrow> (int \<times> int) option \<Rightarrow> cstr option" where
  "Timeval2Str mem localtime tv = (case tv of None \<Rightarrow> Some None
   | Some (tv_sec, tv_usec) \<Rightarrow> do { lt \<leftarrow> localtime tv_sec;
       case strftime_s (LOCAL_TIME_LENGTH + 1)
         (dec_int (tm_year lt + 1900) @ ''-'' @ fmt2 (tm_mon lt + 1) @ ''-'' @ fmt2 (tm_mday lt) @ '' '' @
          fmt2 (tm_hour lt) @ '':'' @ fmt2 (tm_min lt) @ '':'' @ fmt2 (tm_sec lt)) of
         None \<Rightarrow> Some None
       | Some timeSec \<Rightarrow>
         if \<not> mem (LOCAL_TIME_WITH_MS_LENGTH + 1) then Some None
         else Some (strcpy_s (LOCAL_TIME_WITH_MS_LENGTH + 1)
                      (Some (timeSec @ ''.'' @ fmt3 (tv_usec div 1000)))) })"

definition PrependLocalTimeWithMs ::
  "heap \<Rightarrow> (int \<Rightarrow> tm option) \<Rightarrow> int \<times> int \<Rightarrow> cstr \<Rightarrow> cstr option" where
  "PrependLocalTimeWithMs mem localtime now s = do {
     t \<leftarrow> Timeval2Str mem localtime (Some now);
     if t = None then Some None else CombineStrings mem 3 t [Some '' '', s] }"

fun GetSubStrIndex_loop :: "string \<Rightarrow> string \<Rightarrow> nat \<Rightarrow> int" where
  "GetSubStrIndex_loop rest substr n =
    (if length substr \<le> length rest then
       (case strncpy_s SUB_STERING_MAX_LENGTH (Some rest) (length substr) of
          None \<Rightarrow> -1
        | Some tmp \<Rightarrow> if substr = tmp then int n
            else (case rest of [] \<Rightarrow> -1
                  | _ # rest' \<Rightarrow> GetSubStrIndex_loop rest' substr (n + 1)))
     else -1)"

declare GetSubStrIndex_loop.simps [simp del]

definition GetSubStrIndex :: "cstr \<Rightarrow> cstr \<Rightarrow> int" where
  "GetSubStrIndex str substr = (case (str, substr) of
     (Some s, Some t) \<Rightarrow>
       if length s = 0 \<or> SUB_STERING_MAX_LENGTH \<le> length t then -1
       else GetSubStrIndex_loop s t 0
   | _ \<Rightarrow> -1)"

definition StrEndWith :: "cstr \<Rightarrow> cstr \<Rightarrow> bool" where
  "StrEndWith str suf = (case (str, suf) of
     (Some s, Some t) \<Rightarrow>
       if length t > length s then False
       else take (length t) (drop (length s - length t) s) = t
   | _ \<Rightarrow> False)"

text \<open>The loop that copies the first run of digits into \<open>buf\<close>, whose last element
  is index 20; \<^term>\<open>None\<close> is the early return of -1.\<close>

fun llong_scan :: "string \<Rightarrow> string \<Rightarrow> string option" where
  "llong_scan [] buf = Some buf"
| "llong_scan (c # s) buf =
    (if is_digit c then
       (if length buf + 1 > LONG_LONG_MAX_LENGTH then None else llong_scan s (buf @ [c]))
     else if length buf > 0 then Some buf
     else llong_scan s buf)"

definition getLLongValueFromStr :: "cstr \<Rightarrow> cstr \<Rightarrow> int" where
  "getLLongValueFromStr str subStr = (case (str, subStr) of
     (Some s, Some t) \<Rightarrow> (case strstr s t of None \<Rightarrow> -1
        | Some version_tmp \<Rightarrow> (case llong_scan version_tmp [] of None \<Rightarrow> -1
            | Some buf \<Rightarrow> strto64 buf))
   | _ \<Rightarrow> -1)"

text \<open>The returned text; the old block is freed only when the copy succeeded.\<close>

definition ReassignMemory :: "heap \<Rightarrow> cstr \<Rightarrow> nat \<Rightarrow> cstr" where
  "ReassignMemory mem oldMemory resultLen = (case oldMemory of None \<Rightarrow> None
   | Some old \<Rightarrow>
     if resultLen = 0 \<or> \<not> mem resultLen then oldMemory
     else case strncat_s [] resultLen oldMemory (length old) of
       None \<Rightarrow> oldMemory | Some result \<Rightarrow> Some result)"

section \<open>CombineStrings\<close>

definition joined :: "cstr list \<Rightarrow> string" where
  "joined args = concat (map (\<lambda>a. case a of None \<Rightarrow> [] | Some s \<Rightarrow> s) args)"

lemma joined_simps [simp]:
  "joined [] = []"
  "joined (Some s # args) = s @ joined args"
  "joined (None # args) = joined args"
  by (simp_all add: joined_def)

lemma CombineStrings_loop_fits:
  assumes "length result < len" "k \<le> length args"
  shows "\<exists>r. CombineStrings_loop mem k len result args = Some r
     \<and> (r = None \<or> r = Some (result @ joined (take k args)))
     \<and> (heap_ok mem \<longrightarrow> r \<noteq> None)"
  using assms
proof (induction mem k len result args rule: CombineStrings_loop.induct)
  case (4 mem k len result tem args)
  show ?case
    using 4 "4.IH" [of "len + length tem" result "result @ tem"]
    by (auto simp: Let_def StringLength_def strcpy_s_def strcat_s_def)
qed auto

lemma CombineStrings_total:
  assumes "strAmount \<le> Suc (length args)" "0 < strAmount"
  shows "\<exists>r. CombineStrings mem strAmount str1 args = Some r
     \<and> (r = None \<or> r = Some (the str1 @ joined (take (strAmount - 1) args)))
     \<and> (heap_ok mem \<and> str1 \<noteq> None \<and> str1 \<noteq> Some [] \<longrightarrow> r \<noteq> None)"
proof (cases str1)
  case None
  then show ?thesis by (simp add: CombineStrings_def StringLength_def)
next
  case (Some s)
  then show ?thesis
    using CombineStrings_loop_fits [of s "Suc (length s)" "strAmount - 1" args mem] assms
    by (auto simp: CombineStrings_def StringLength_def strcpy_s_def)
qed

lemma CombineStrings_ok:
  assumes "heap_ok mem" "s \<noteq> []" "strAmount = Suc (length args)"
  shows "CombineStrings mem strAmount (Some s) args = Some (Some (s @ joined args))"
  using CombineStrings_total [of strAmount args mem "Some s"] assms by auto

text \<open>
  CombineStrings never overruns its buffers: each strcpy_s and strcat_s fits the
  size it computed, so the call returns either NULL (empty or NULL first
  argument, or a failed malloc) or the first argument followed by the first
  strAmount - 1 variadic arguments, the NULL ones skipped; and it returns the
  text whenever malloc succeeds and the first argument is not empty.\<close>

theorem CombineStrings_spec:
  assumes "strAmount = Suc (length args)"
  shows "CombineStrings mem strAmount str1 args = Some None
         \<and> (str1 = None \<or> str1 = Some [] \<or> \<not> heap_ok mem)
       \<or> (\<exists>s. str1 = Some s \<and> s \<noteq> []
           \<and> CombineStrings mem strAmount str1 args = Some (Some (s @ joined args)))"
proof (cases "str1 = None \<or> str1 = Some []")
  case True
  then show ?thesis by (auto simp: CombineStrings_def StringLength_def)
next
  case False
  then show ?thesis using CombineStrings_total [of strAmount args mem str1] assms by auto
qed

theorem CombineStrings_spec_witness:
  "CombineStrings (\<lambda>n. n < 6) 3 (Some ''ab'') [None, Some ''cd''] = Some (Some ''abcd'')
   \<and> CombineStrings (\<lambda>n. n < 4) 3 (Some ''ab'') [None, Some ''cd''] = Some None"
proof -
  have "CombineStrings (\<lambda>n. n < 6) 3 (Some ''ab'') [None, Some ''cd''] \<noteq> Some None"
    by (simp add: CombineStrings_def StringLength_def strcpy_s_def strcat_s_def numeral_eq_Suc)
  moreover have "CombineStrings (\<lambda>n. n < 4) 3 (Some ''ab'') [None, Some ''cd''] = Some None"
    by (simp add: CombineStrings_def StringLength_def strcpy_s_def strcat_s_def numeral_eq_Suc)
  ultimately show ?thesis
    using CombineStrings_spec [of 3 "[None, Some ''cd'']" "\<lambda>n. n < 6" "Some ''ab''"] by simp
qed

section \<open>Searching\<close>

lemma StrEndWith_suffix: "StrEndWith (Some s) (Some t) \<longleftrightarrow> suffix t s"
proof (cases "length t \<le> length s")
  case True
  then have "take (length t) (drop (length s - length t) s) = drop (length s - length t) s"
    by simp
  with True show ?thesis
    by (auto simp: StrEndWith_def suffix_def) (metis append_take_drop_id)
next
  case False
  then show ?thesis by (auto simp: StrEndWith_def suffix_def)
qed

lemma GetSubStrIndex_loop_strstr:
  assumes "length t < SUB_STERING_MAX_LENGTH"
  shows "GetSubStrIndex_loop s t n =
    (case strstr s t of None \<Rightarrow> -1 | Some r \<Rightarrow> int (n + length s - length r))"
  using assms
proof (induction s arbitrary: n)
  case Nil
  then show ?case
    by (subst GetSubStrIndex_loop.simps) (auto simp: strncpy_s_def)
next
  case (Cons c s)
  have len: "length r \<le> length s" if "strstr s t = Some r" for r
    using strstr_prefix [OF that] by (simp add: suffix_length_le)
  have pre: "prefix t (c # s) \<longleftrightarrow> length t \<le> Suc (length s) \<and> t = take (length t) (c # s)"
    by (metis append_eq_conv_conj length_Cons prefix_def prefix_length_le)
  have short: "strstr s t = None" if "Suc (length s) < length t"
  proof (cases "strstr s t")
    case (Some a)
    then have "length t \<le> length a" "length a \<le> length s"
      using strstr_prefix [OF Some] by (auto dest: prefix_length_le suffix_length_le)
    with that show ?thesis by simp
  qed
  show ?case
    using Cons.prems Cons.IH [of "Suc n"] pre len short
    by (subst GetSubStrIndex_loop.simps)
       (auto simp: strncpy_s_def Suc_diff_le split: option.splits)
qed

text \<open>
  GetSubStrIndex agrees with strstr: for a non-empty text and a pattern shorter
  than its 20-byte window it returns the index of the first occurrence, and -1
  when there is none; a pattern of 20 characters or more is never found.\<close>

theorem GetSubStrIndex_strstr:
  "GetSubStrIndex (Some s) (Some t) =
    (if s = [] \<or> 20 \<le> length t then -1
     else case strstr s t of None \<Rightarrow> -1 | Some r \<Rightarrow> int (length s - length r))"
  by (simp add: GetSubStrIndex_def GetSubStrIndex_loop_strstr SUB_STERING_MAX_LENGTH_def
      cong: option.case_cong)

section \<open>getLLongValueFromStr\<close>

lemma llong_scan_run:
  assumes "list_all is_digit buf" "length buf \<le> LONG_LONG_MAX_LENGTH"
  shows "llong_scan s buf =
    (let run = (if buf = [] then takeWhile is_digit (dropWhile (\<lambda>c. \<not> is_digit c) s)
                else buf @ takeWhile is_digit s)
     in if length run > LONG_LONG_MAX_LENGTH then None else Some run)"
  using assms by (induction s buf rule: llong_scan.induct) (auto simp: Let_def)

lemma digit_run_of_text:
  assumes "list_all (\<lambda>c. \<not> is_digit c) p" "r = [] \<or> \<not> is_digit (hd r)"
  shows "takeWhile is_digit (dropWhile (\<lambda>c. \<not> is_digit c) (p @ dec_nat n @ r)) = dec_nat n"
proof -
  obtain d ds where d: "dec_nat n = d # ds" by (cases "dec_nat n") auto
  then have "is_digit d" using dec_nat_set [of d n] by simp
  then have "dropWhile (\<lambda>c. \<not> is_digit c) (p @ dec_nat n @ r) = dec_nat n @ r"
    using assms(1) d by (simp add: dropWhile_app_all)
  moreover have "takeWhile is_digit r = []" using assms(2) by (cases r) auto
  ultimately show ?thesis by (simp add: takeWhile_app_all dec_nat_digits)
qed

text \<open>
  Round trip of the version reader: when the key first occurs as key, a run of
  non-digits, the decimal text of n and then something that is not a digit,
  getLLongValueFromStr returns n, for every n of the long long range.\<close>

theorem getLLongValueFromStr_reads:
  assumes "strstr s t = Some (t @ q @ dec_nat n @ r)"
    and "list_all (\<lambda>c. \<not> is_digit c) (t @ q)"
    and "r = [] \<or> \<not> is_digit (hd r)"
    and "n < 2 ^ 63"
  shows "getLLongValueFromStr (Some s) (Some t) = int n"
proof -
  have "length (dec_nat n) \<le> 20" using assms(4) by (intro length_dec_nat) auto
  then have "llong_scan (t @ q @ dec_nat n @ r) [] = Some (dec_nat n)"
    using digit_run_of_text [of "t @ q" r n] assms(2,3)
    by (simp add: llong_scan_run LONG_LONG_MAX_LENGTH_def)
  then show ?thesis
    using assms(1,4) by (simp add: getLLongValueFromStr_def strto64_digits dec_nat_digits)
qed

theorem getLLongValueFromStr_reads_witness:
  "getLLongValueFromStr (Some ''{version : 27, x : 3}'') (Some ''version'') = 27"
proof -
  have d: "dec_nat 27 = ''27''" by (simp add: dec_nat.simps exec_defs)
  have "getLLongValueFromStr (Some ''{version : 27, x : 3}'') (Some ''version'') = int 27"
    by (rule getLLongValueFromStr_reads [where q = "'' : ''" and r = "'', x : 3}''"])
       (simp_all add: d is_digit_def chr_def)
  then show ?thesis by simp
qed

section \<open>Time stamps and reassignment\<close>

lemma length_fmt2: "0 \<le> i \<Longrightarrow> i < 100 \<Longrightarrow> length (fmt2 i) = 2"
proof -
  assume i: "0 \<le> i" "i < 100"
  have "length (dec_nat (nat i)) \<le> 2" using i by (intro length_dec_nat) auto
  moreover have "0 < length (dec_nat (nat i))" by simp
  ultimately have "length (dec_nat (nat i)) = 1 \<or> length (dec_nat (nat i)) = 2" by linarith
  then show ?thesis using i by (auto simp: fmt2_def Let_def abs_of_nonneg)
qed

lemma length_year:
  assumes "1000 \<le> y" "y < 10000" shows "length (dec_int y) = 4"
proof -
  have "dec_nat (nat y) = dec_nat (nat y div 10 div 10 div 10)
      @ [digit_char (nat y div 10 div 10 mod 10), digit_char (nat y div 10 mod 10), digit_char (nat y mod 10)]"
    using assms
    by (subst dec_nat.simps, subst dec_nat.simps, subst dec_nat.simps) (auto simp: div_less)
  moreover have "length (dec_nat (nat y div 10 div 10 div 10)) = 1"
    using assms by (subst dec_nat.simps) auto
  ultimately show ?thesis using assms by (simp add: dec_int_def)
qed

definition valid_tm :: "tm \<Rightarrow> bool" where
  "valid_tm lt \<longleftrightarrow> -900 \<le> tm_year lt \<and> tm_year lt < 8100 \<and> 0 \<le> tm_mon lt \<and> tm_mon lt < 12
     \<and> 1 \<le> tm_mday lt \<and> tm_mday lt \<le> 31 \<and> 0 \<le> tm_hour lt \<and> tm_hour lt < 24
     \<and> 0 \<le> tm_min lt \<and> tm_min lt < 60 \<and> 0 \<le> tm_sec lt \<and> tm_sec lt \<le> 60"

lemma GetEventTimesStamp_length:
  assumes "valid_tm lt" "mem 17"
  shows "\<exists>s. GetEventTimesStamp mem (Some lt) = Some s \<and> length s = 16 \<and> last s = CHR ''Z''"
  using assms length_year [of "tm_year lt + 1900"]
  by (auto simp: GetEventTimesStamp_def valid_tm_def length_fmt2 EVENT_TIME_LENGTH_def)

lemma ReassignMemory_keeps_text:
  "ReassignMemory mem oldMemory resultLen = oldMemory"
  by (auto simp: ReassignMemory_def strncat_s_def split: option.splits)

end
