(* ===== verification/Json.thy ===== *)
theory Json
  imports Strings Complex_Main
begin

text \<open>
  The JSON trees of cJSON as a datatype and the wrappers of src/util/json_util.c
  over them.  cJSON itself is vendored: its tree operations are given here by
  their documented behaviour (object lookup ignores case and returns the first
  match, absent objects and names give NULL), its text parser and printer are
  parameters of the components that use them.  Node allocation is assumed to
  succeed; finite doubles are exact rationals.
\<close>

section \<open>Trees and the cJSON operations\<close>

datatype json = JNull | JFalse | JTrue | JNumber rat | JString string
  | JArray "json list" | JObject "(string \<times> json) list"

definition INT_MAX :: int where "INT_MAX = 2147483647"
definition INT_MIN :: int where "INT_MIN = -2147483648"

definition trunc_rat :: "rat \<Rightarrow> int" where
  "trunc_rat r = (if 0 \<le> r then floor r else - floor (- r))"

definition double_to_int_sat :: "rat \<Rightarrow> int" where
  "double_to_int_sat r = (if of_int INT_MAX \<le> r then INT_MAX
     else if r \<le> of_int INT_MIN then INT_MIN else trunc_rat r)"

lemma trunc_rat_of_int [simp]: "trunc_rat (of_int i) = i"
proof -
  have "floor (- (of_int i :: rat)) = - i"
    by (metis floor_of_int of_int_minus)
  then show ?thesis by (simp add: trunc_rat_def)
qed

lemma double_to_int_sat_int [simp]:
  "INT_MIN \<le> i \<Longrightarrow> i \<le> INT_MAX \<Longrightarrow> double_to_int_sat (of_int i) = i"
  by (auto simp: double_to_int_sat_def)

lemma double_to_int_sat_numerals [simp]:
  "double_to_int_sat 0 = 0" "double_to_int_sat 1 = 1"
  "int (numeral n) \<le> INT_MAX \<Longrightarrow> double_to_int_sat (numeral n) = numeral n"
proof -
  show "double_to_int_sat 0 = 0" "double_to_int_sat 1 = 1"
    using double_to_int_sat_int [of 0] double_to_int_sat_int [of 1] by (simp_all add: INT_MIN_def INT_MAX_def)
  show "int (numeral n) \<le> INT_MAX \<Longrightarrow> double_to_int_sat (numeral n) = numeral n"
    using double_to_int_sat_int [of "numeral n"] by (simp add: INT_MIN_def)
qed

fun children :: "json \<Rightarrow> (cstr \<times> json) list" where
  "children (JArray xs) = map (\<lambda>x. (None, x)) xs"
| "children (JObject kvs) = map (\<lambda>(k, v). (Some k, v)) kvs"
| "children _ = []"

text \<open>\<open>cJSON_ArrayForEach\<close> accepts a NULL container.\<close>

definition child_list :: "json option \<Rightarrow> (cstr \<times> json) list" where
  "child_list j = (case j of None \<Rightarrow> [] | Some v \<Rightarrow> children v)"

fun valuestring :: "json \<Rightarrow> cstr" where
  "valuestring (JString s) = Some s"
| "valuestring _ = None"

fun valuedouble :: "json \<Rightarrow> rat" where
  "valuedouble (JNumber r) = r"
| "valuedouble _ = 0"

fun valueint :: "json \<Rightarrow> int" where
  "valueint (JNumber r) = double_to_int_sat r"
| "valueint JTrue = 1"
| "valueint _ = 0"

fun IsNumber :: "json option \<Rightarrow> bool" where
  "IsNumber (Some (JNumber _)) = True"
| "IsNumber _ = False"

fun IsString :: "json option \<Rightarrow> bool" where
  "IsString (Some (JString _)) = True"
| "IsString _ = False"

fun IsNull :: "json option \<Rightarrow> bool" where
  "IsNull (Some JNull) = True"
| "IsNull _ = False"

definition same_key :: "string \<Rightarrow> string \<Rightarrow> bool" where
  "same_key a b \<longleftrightarrow> map to_lower a = map to_lower b"

fun find_key :: "string \<Rightarrow> (string \<times> json) list \<Rightarrow> json option" where
  "find_key k [] = None"
| "find_key k ((k', v) # kvs) = (if same_key k k' then Some v else find_key k kvs)"

text \<open>Only an object has named children, so any other tree answers NULL.\<close>

definition GetObjectItem :: "json option \<Rightarrow> string \<Rightarrow> json option" where
  "GetObjectItem obj name = (case obj of Some (JObject kvs) \<Rightarrow> find_key name kvs | _ \<Rightarrow> None)"

definition GetStringValue :: "json option \<Rightarrow> cstr" where
  "GetStringValue j = (case j of None \<Rightarrow> None | Some v \<Rightarrow> valuestring v)"

definition GetArrayItem :: "json option \<Rightarrow> int \<Rightarrow> json option" where
  "GetArrayItem arr i = (let xs = child_list arr in
     if i < 0 \<or> int (length xs) \<le> i then None else Some (snd (xs ! nat i)))"

definition CreateString :: "cstr \<Rightarrow> json option" where
  "CreateString s = map_option JString s"

fun AddItemToObject :: "json \<Rightarrow> string \<Rightarrow> json option \<Rightarrow> json" where
  "AddItemToObject (JObject kvs) k (Some v) = JObject (kvs @ [(k, v)])"
| "AddItemToObject obj k item = obj"

fun AddItemToArray :: "json \<Rightarrow> json option \<Rightarrow> json" where
  "AddItemToArray (JArray xs) (Some v) = JArray (xs @ [v])"
| "AddItemToArray arr item = arr"

section \<open>The wrappers of json\_util.c\<close>

definition JSON_CreateObject :: json where "JSON_CreateObject = JObject []"
definition JSON_CreateArray :: json where "JSON_CreateArray = JArray []"

definition JSON_CreateIntArray :: "int list \<Rightarrow> json" where
  "JSON_CreateIntArray ns = JArray (map (\<lambda>i. JNumber (of_int i)) ns)"

definition JSON_CreateFloatArray :: "rat list \<Rightarrow> json" where
  "JSON_CreateFloatArray ns = JArray (map JNumber ns)"

definition JSON_CreateDoubleArray :: "rat list \<Rightarrow> json" where
  "JSON_CreateDoubleArray ns = JArray (map JNumber ns)"

definition JSON_CreateStringArray :: "string list \<Rightarrow> json" where
  "JSON_CreateStringArray ss = JArray (map JString ss)"

definition JSON_AddStringToObject :: "json \<Rightarrow> string \<Rightarrow> cstr \<Rightarrow> json" where
  "JSON_AddStringToObject obj key v = AddItemToObject obj key (CreateString v)"

definition JSON_AddNumberToObject :: "json \<Rightarrow> string \<Rightarrow> rat \<Rightarrow> json" where
  "JSON_AddNumberToObject obj key v = AddItemToObject obj key (Some (JNumber v))"

definition JSON_AddBoolToObject :: "json \<Rightarrow> string \<Rightarrow> bool \<Rightarrow> json" where
  "JSON_AddBoolToObject obj key v = AddItemToObject obj key (Some (if v then JTrue else JFalse))"

definition JSON_AddObjectToObject :: "json \<Rightarrow> string \<Rightarrow> json option \<Rightarrow> json" where
  "JSON_AddObjectToObject obj key v = AddItemToObject obj key v"

definition JSON_AddObjectToArray :: "json \<Rightarrow> json option \<Rightarrow> json" where
  "JSON_AddObjectToArray arr v = AddItemToArray arr v"

definition JSON_GetIntFromObject :: "json option \<Rightarrow> string \<Rightarrow> int \<Rightarrow> int" where
  "JSON_GetIntFromObject obj key d =
     (case GetObjectItem obj key of None \<Rightarrow> d | Some v \<Rightarrow> valueint v)"

definition JSON_GetBoolFromObject :: "json option \<Rightarrow> string \<Rightarrow> int \<Rightarrow> int" where
  "JSON_GetBoolFromObject obj key d =
     (case GetObjectItem obj key of None \<Rightarrow> d | Some v \<Rightarrow> valueint v)"

definition JSON_GetDoubleFromObject :: "json option \<Rightarrow> string \<Rightarrow> rat \<Rightarrow> rat" where
  "JSON_GetDoubleFromObject obj key d =
     (case GetObjectItem obj key of None \<Rightarrow> d | Some v \<Rightarrow> valuedouble v)"

definition JSON_GetStringFromObject :: "json option \<Rightarrow> string \<Rightarrow> cstr \<Rightarrow> cstr" where
  "JSON_GetStringFromObject obj key d =
     (case GetObjectItem obj key of None \<Rightarrow> d | Some v \<Rightarrow> valuestring v)"

definition JSON_GetObjectFromObject :: "json option \<Rightarrow> string \<Rightarrow> json option" where
  "JSON_GetObjectFromObject obj key = GetObjectItem obj key"

definition JSON_GetArraySize :: "json option \<Rightarrow> int" where
  "JSON_GetArraySize arr = (case arr of None \<Rightarrow> 0 | Some v \<Rightarrow> int (length (children v)))"

definition JSON_GetIntFromArray :: "json option \<Rightarrow> int \<Rightarrow> int \<Rightarrow> int" where
  "JSON_GetIntFromArray arr i d =
     (case GetArrayItem arr i of None \<Rightarrow> d | Some v \<Rightarrow> valueint v)"

definition JSON_GetBoolFromArray :: "json option \<Rightarrow> int \<Rightarrow> int \<Rightarrow> int" where
  "JSON_GetBoolFromArray arr i d =
     (case GetArrayItem arr i of None \<Rightarrow> d | Some v \<Rightarrow> valueint v)"

definition JSON_GetDoubleFromArray :: "json option \<Rightarrow> int \<Rightarrow> rat \<Rightarrow> rat" where
  "JSON_GetDoubleFromArray arr i d =
     (case GetArrayItem arr i of None \<Rightarrow> d | Some v \<Rightarrow> valuedouble v)"

definition JSON_GetStringFromArray :: "json option \<Rightarrow> int \<Rightarrow> cstr \<Rightarrow> cstr" where
  "JSON_GetStringFromArray arr i d =
     (case GetArrayItem arr i of None \<Rightarrow> d | Some v \<Rightarrow> valuestring v)"

definition JSON_GetObjectFromArray :: "json option \<Rightarrow> int \<Rightarrow> json option" where
  "JSON_GetObjectFromArray arr i = GetArrayItem arr i"

lemmas json_builders =
  JSON_CreateObject_def JSON_CreateArray_def JSON_AddStringToObject_def
  JSON_AddNumberToObject_def JSON_AddBoolToObject_def JSON_AddObjectToObject_def
  JSON_AddObjectToArray_def CreateString_def

lemmas json_getters =
  JSON_GetIntFromObject_def JSON_GetBoolFromObject_def JSON_GetDoubleFromObject_def
  JSON_GetStringFromObject_def JSON_GetObjectFromObject_def JSON_GetArraySize_def
  JSON_GetIntFromArray_def JSON_GetObjectFromArray_def GetStringValue_def

section \<open>Laws\<close>

lemma same_key_refl [simp]: "same_key k k"
  by (simp add: same_key_def)

lemma find_key_append:
  "find_key k (kvs @ kvs') = (case find_key k kvs of None \<Rightarrow> find_key k kvs' | Some v \<Rightarrow> Some v)"
  by (induction kvs) auto

lemma GetObjectItem_simps [simp]:
  "GetObjectItem None k = None"
  "GetObjectItem (Some (JObject kvs)) k = find_key k kvs"
  "GetObjectItem (Some JNull) k = None"
  "GetObjectItem (Some JTrue) k = None"
  "GetObjectItem (Some JFalse) k = None"
  "GetObjectItem (Some (JNumber r)) k = None"
  "GetObjectItem (Some (JString s)) k = None"
  "GetObjectItem (Some (JArray xs)) k = None"
  by (simp_all add: GetObjectItem_def)

lemma GetStringValue_simps [simp]:
  "GetStringValue None = None"
  "GetStringValue (Some v) = valuestring v"
  by (simp_all add: GetStringValue_def)

lemma child_list_simps [simp]:
  "child_list None = []" "child_list (Some v) = children v"
  by (simp_all add: child_list_def)

lemma IsNumber_iff: "IsNumber j \<longleftrightarrow> (\<exists>r. j = Some (JNumber r))"
  by (cases j rule: IsNumber.cases) auto

lemma GetObjectItem_Add:
  "GetObjectItem (Some (AddItemToObject (JObject kvs) k (Some v))) k' =
     (case find_key k' kvs of Some w \<Rightarrow> Some w
      | None \<Rightarrow> if same_key k' k then Some v else None)"
  by (simp add: find_key_append split: option.splits)

text \<open>The interface of a keyed store, as the payload builders use objects: what is
  read back after an addition.\<close>

locale keyed_store =
  fixes get :: "'s \<Rightarrow> 'k \<Rightarrow> 'v option"
    and add :: "'s \<Rightarrow> 'k \<Rightarrow> 'v \<Rightarrow> 's"
    and ok :: "'s \<Rightarrow> bool"
    and alike :: "'k \<Rightarrow> 'k \<Rightarrow> bool"
  assumes get_add: "ok s \<Longrightarrow>
      get (add s k v) k' = (case get s k' of Some w \<Rightarrow> Some w
        | None \<Rightarrow> if alike k' k then Some v else None)"
    and ok_add: "ok s \<Longrightarrow> ok (add s k v)"
    and alike_refl: "alike k k"
begin

definition add_all :: "'s \<Rightarrow> ('k \<times> 'v) list \<Rightarrow> 's" where
  "add_all s kvs = foldl (\<lambda>s (k, v). add s k v) s kvs"

lemma ok_add_all: "ok s \<Longrightarrow> ok (add_all s kvs)"
  by (induction kvs arbitrary: s) (auto simp: add_all_def ok_add)

lemma get_add_fresh: "ok s \<Longrightarrow> get s k = None \<Longrightarrow> get (add s k v) k = Some v"
  by (simp add: get_add alike_refl)

lemma get_add_other: "ok s \<Longrightarrow> \<not> alike k' k \<Longrightarrow> get (add s k v) k' = get s k'"
  by (simp add: get_add split: option.splits)

lemma first_add_wins: "ok s \<Longrightarrow> get s k' = Some w \<Longrightarrow> get (add_all s kvs) k' = Some w"
  by (induction kvs arbitrary: s) (auto simp: add_all_def get_add ok_add)

lemma get_add_all_absent:
  "ok s \<Longrightarrow> get s k' = None \<Longrightarrow> list_all (\<lambda>(k, v). \<not> alike k' k) kvs
    \<Longrightarrow> get (add_all s kvs) k' = None"
  by (induction kvs arbitrary: s) (auto simp: add_all_def get_add ok_add)

end

fun is_object :: "json \<Rightarrow> bool" where
  "is_object (JObject _) = True" | "is_object _ = False"

interpretation js: keyed_store
  "\<lambda>s k. GetObjectItem (Some s) k" "\<lambda>s k v. AddItemToObject s k (Some v)" is_object same_key
proof unfold_locales
  fix s k v k' assume "is_object s"
  then show "GetObjectItem (Some (AddItemToObject s k (Some v))) k' =
      (case GetObjectItem (Some s) k' of Some w \<Rightarrow> Some w
        | None \<Rightarrow> if same_key k' k then Some v else None)"
    by (cases s) (simp_all add: GetObjectItem_Add find_key_append split: option.splits)
next
  fix s k v assume "is_object s"
  then show "is_object (AddItemToObject s k (Some v))" by (cases s) simp_all
qed simp

end
