(* ===== verification/DynArray.thy ===== *)
theory DynArray
  imports Json
begin

text \<open>
  The growable arrays of src/service/device\_rule/rule\_util.c.  An array is its
  size, its reserved size and its block of reserved slots; an element pointer is
  an index into the block; \<open>calloc\<close> and \<open>malloc\<close> ask the heap oracle; the element
  constructor and destructor are arguments, and the operations that destroy an
  element report which one.  The interface \<open>seq_store\<close> gives the laws a client of
  the array relies on, and its interpretation proves them for this code.
\<close>

section \<open>Definitions\<close>

definition GetIntValueFromJson :: "json option \<Rightarrow> int option" where
  "GetIntValueFromJson item =
     (if \<not> IsNumber item then None else map_option valueint item)"

definition INT32_MAX :: nat where "INT32_MAX = 2147483647"

text \<open>The result is the returned flag and the new value of \<open>*self\<close>.\<close>

definition CStrDuplicate :: "heap \<Rightarrow> cstr \<Rightarrow> cstr \<Rightarrow> bool \<times> cstr" where
  "CStrDuplicate mem self s = (case s of None \<Rightarrow> (True, None)
   | Some t \<Rightarrow> let bufferLen = length t + 1 in
       if INT32_MAX \<le> bufferLen then (False, self)
       else if \<not> mem bufferLen then (False, self)
       else (True, Some t))"

definition CStrDuplicateNotNULL :: "heap \<Rightarrow> cstr \<Rightarrow> cstr \<Rightarrow> bool \<times> cstr" where
  "CStrDuplicateNotNULL mem self s =
     (if s = None then (False, self) else CStrDuplicate mem self s)"

record 'a dynarray =
  d_size :: nat
  d_reserved :: nat
  d_items :: "'a list"

definition EXPEND_SIZE :: nat where "EXPEND_SIZE = 8"
definition DEFAULT_RESERVE_SIZE :: nat where "DEFAULT_RESERVE_SIZE = 2"
definition SIZE_MAX :: nat where "SIZE_MAX = 2 ^ 64 - 1"
definition SECUREC_MEM_MAX_LEN :: nat where "SECUREC_MEM_MAX_LEN = 2147483647"

text \<open>memcpy\_s and memmove\_s reject an empty or oversized destination and a count
  beyond it.\<close>

definition mem_s_ok :: "nat \<Rightarrow> nat \<Rightarrow> bool" where
  "mem_s_ok destMax count \<longleftrightarrow> 0 < destMax \<and> destMax \<le> SECUREC_MEM_MAX_LEN \<and> count \<le> destMax"

definition DynamicArrayGetItem :: "'a dynarray \<Rightarrow> nat \<Rightarrow> 'a option" where
  "DynamicArrayGetItem arr i =
     (if i < length (d_items arr) then Some (d_items arr ! i) else None)"

definition DynamicArrayCtor :: "heap \<Rightarrow> nat \<Rightarrow> 'a \<Rightarrow> bool \<times> 'a dynarray" where
  "DynamicArrayCtor mem itemSize zero =
    (let ok = mem (DEFAULT_RESERVE_SIZE * itemSize) in
     (ok, \<lparr>d_size = 0, d_reserved = DEFAULT_RESERVE_SIZE,
           d_items = (if ok then replicate DEFAULT_RESERVE_SIZE zero else [])\<rparr>))"

text \<open>The elements given to the destructor, in order.\<close>

definition DynamicArrayDtor :: "'a dynarray \<Rightarrow> 'a list" where
  "DynamicArrayDtor arr = map (\<lambda>i. d_items arr ! i) [0..<d_size arr]"

definition DynamicArrayGrow :: "heap \<Rightarrow> nat \<Rightarrow> 'a \<Rightarrow> 'a dynarray \<Rightarrow> 'a dynarray option" where
  "DynamicArrayGrow mem itemSize zero arr =
    (if d_reserved arr > SIZE_MAX - EXPEND_SIZE then None
     else let targetReservedSize = d_reserved arr + EXPEND_SIZE in
       if itemSize = 0 then None
       else if SIZE_MAX div itemSize < targetReservedSize then None
       else if \<not> mem (targetReservedSize * itemSize) then None
       else if d_reserved arr \<noteq> 0 \<and>
               \<not> mem_s_ok (targetReservedSize * itemSize) (d_reserved arr * itemSize) then None
       else Some (arr \<lparr>d_items := d_items arr @ replicate EXPEND_SIZE zero,
                       d_reserved := targetReservedSize\<rparr>))"

text \<open>The new array and the index of the pushed element, \<^term>\<open>None\<close> for NULL.\<close>

definition DynamicArrayPush ::
  "heap \<Rightarrow> nat \<Rightarrow> 'a \<Rightarrow> ('a \<Rightarrow> bool \<times> 'a) \<Rightarrow> 'a dynarray \<Rightarrow> 'a dynarray \<times> nat option" where
  "DynamicArrayPush mem itemSize zero funcItemCtor arr =
    (let index = d_size arr in
     case (if index = d_reserved arr then DynamicArrayGrow mem itemSize zero arr else Some arr) of
       None \<Rightarrow> (arr, None)
     | Some arr' \<Rightarrow>
        (let (ok, x) = funcItemCtor (d_items arr' ! index);
             arr'' = arr' \<lparr>d_items := (d_items arr')[index := x]\<rparr>
         in if \<not> ok then (arr'', None)
            else (arr'' \<lparr>d_size := Suc index\<rparr>, Some index)))"

definition DynamicEmpty :: "'a dynarray \<Rightarrow> bool" where
  "DynamicEmpty arr \<longleftrightarrow> d_size arr = 0"

text \<open>The new array and the destroyed element; an element outside the array is
  undefined.\<close>

definition DynamicArrayRemoveItem :: "nat \<Rightarrow> 'a dynarray \<Rightarrow> nat \<Rightarrow> ('a dynarray \<times> 'a) option" where
  "DynamicArrayRemoveItem itemSize arr element = do {
     guard_ub (element < d_size arr \<and> d_size arr \<le> length (d_items arr));
     let destroyed = d_items arr ! element;
     let n = d_size arr - (element + 1);
     let size' = n * itemSize;
     let arr' = arr \<lparr>d_size := d_size arr - 1\<rparr>;
     if size' = 0 then Some (arr', destroyed)
     else if \<not> mem_s_ok size' size' then Some (arr', destroyed)
     else Some (arr' \<lparr>d_items := take element (d_items arr)
                  @ take n (drop (element + 1) (d_items arr))
                  @ drop (element + n) (d_items arr)\<rparr>, destroyed) }"

definition DynamicArrayPopNoDtor :: "heap \<Rightarrow> nat \<Rightarrow> 'a dynarray \<Rightarrow> bool \<times> 'a dynarray" where
  "DynamicArrayPopNoDtor mem itemSize arr =
    (if d_size arr = 0 then (False, arr)
     else let arr' = arr \<lparr>d_size := d_size arr - 1\<rparr> in
       if d_reserved arr' - d_size arr' \<ge> EXPEND_SIZE then
         (if \<not> mem (d_size arr' * itemSize) then (False, arr')
          else if \<not> mem_s_ok (d_size arr' * itemSize) (d_size arr' * itemSize) then (False, arr')
          else (True, arr' \<lparr>d_reserved := d_size arr', d_items := take (d_size arr') (d_items arr')\<rparr>))
       else (True, arr'))"

text \<open>The destructor runs first, on the slot before index 0 when the array is empty.\<close>

definition DynamicArrayPop :: "heap \<Rightarrow> nat \<Rightarrow> 'a dynarray \<Rightarrow> (bool \<times> 'a dynarray \<times> 'a) option" where
  "DynamicArrayPop mem itemSize arr = do {
     guard_ub (0 < d_size arr);
     destroyed \<leftarrow> DynamicArrayGetItem arr (d_size arr - 1);
     let (ok, arr') = DynamicArrayPopNoDtor mem itemSize arr;
     Some (ok, arr', destroyed) }"

section \<open>Abstraction and invariant\<close>

definition elems :: "'a dynarray \<Rightarrow> 'a list" where
  "elems arr = take (d_size arr) (d_items arr)"

definition arr_inv :: "nat \<Rightarrow> 'a dynarray \<Rightarrow> bool" where
  "arr_inv itemSize arr \<longleftrightarrow> length (d_items arr) = d_reserved arr \<and> d_size arr \<le> d_reserved arr
     \<and> 0 < itemSize \<and> EXPEND_SIZE * itemSize \<le> SECUREC_MEM_MAX_LEN
     \<and> d_reserved arr * itemSize \<le> SECUREC_MEM_MAX_LEN"

lemma reserve_bound:
  assumes "arr_inv k arr" "n \<le> d_reserved arr"
  shows "n * k \<le> SECUREC_MEM_MAX_LEN"
proof -
  have "n * k \<le> d_reserved arr * k" using assms(2) by (rule mult_le_mono1)
  also have "\<dots> \<le> SECUREC_MEM_MAX_LEN" using assms(1) by (simp add: arr_inv_def)
  finally show ?thesis .
qed

lemma length_elems: "arr_inv k arr \<Longrightarrow> length (elems arr) = d_size arr"
  by (simp add: arr_inv_def elems_def)

lemma DynamicArrayDtor_elems: "arr_inv k arr \<Longrightarrow> DynamicArrayDtor arr = elems arr"
  by (rule nth_equalityI) (auto simp: DynamicArrayDtor_def elems_def arr_inv_def)

lemma DynamicArrayCtor_ok:
  assumes "DynamicArrayCtor mem k z = (True, arr)" "0 < k" "EXPEND_SIZE * k \<le> SECUREC_MEM_MAX_LEN"
  shows "arr_inv k arr \<and> elems arr = []"
  using assms
  by (auto simp: DynamicArrayCtor_def Let_def arr_inv_def elems_def DEFAULT_RESERVE_SIZE_def
      EXPEND_SIZE_def split: if_splits)

lemma DynamicArrayGrow_ok:
  assumes "arr_inv k arr" "DynamicArrayGrow mem k z arr = Some arr'"
  shows "arr_inv k arr' \<and> elems arr' = elems arr \<and> d_size arr' = d_size arr
    \<and> d_size arr' < length (d_items arr')"
  using assms
  by (auto simp: DynamicArrayGrow_def arr_inv_def elems_def mem_s_ok_def EXPEND_SIZE_def Let_def
      split: if_splits)

lemma DynamicArrayPush_ok:
  assumes inv: "arr_inv k arr" and push: "DynamicArrayPush mem k z ctor arr = (arr', r)"
  shows "arr_inv k arr'"
    and "case r of None \<Rightarrow> elems arr' = elems arr
       | Some i \<Rightarrow> i = d_size arr \<and> (\<exists>x0 x. ctor x0 = (True, x) \<and> elems arr' = elems arr @ [x])"
proof -
  let ?g = "if d_size arr = d_reserved arr then DynamicArrayGrow mem k z arr else Some arr"
  have "arr_inv k arr' \<and> (case r of None \<Rightarrow> elems arr' = elems arr
       | Some i \<Rightarrow> i = d_size arr \<and> (\<exists>x0 x. ctor x0 = (True, x) \<and> elems arr' = elems arr @ [x]))"
  proof (cases ?g)
    case None
    then show ?thesis using inv push by (auto simp: DynamicArrayPush_def split: if_splits)
  next
    case (Some b)
    then have b: "arr_inv k b" "elems b = elems arr" "d_size b = d_size arr" "d_size b < length (d_items b)"
      using DynamicArrayGrow_ok [OF inv, of mem z b] inv by (auto simp: arr_inv_def split: if_splits)
    obtain ok x where x: "ctor (d_items b ! d_size b) = (ok, x)" by fastforce
    show ?thesis
      using b x push Some
      by (cases ok) (auto simp: DynamicArrayPush_def Let_def arr_inv_def elems_def
          take_Suc_conv_app_nth)
  qed
  then show "arr_inv k arr'" and "case r of None \<Rightarrow> elems arr' = elems arr
       | Some i \<Rightarrow> i = d_size arr \<and> (\<exists>x0 x. ctor x0 = (True, x) \<and> elems arr' = elems arr @ [x])"
    by blast+
qed

lemma DynamicArrayRemoveItem_ok:
  assumes inv: "arr_inv k arr" and i: "i < d_size arr"
  shows "\<exists>arr'. DynamicArrayRemoveItem k arr i = Some (arr', elems arr ! i) \<and> arr_inv k arr'
     \<and> elems arr' = take i (elems arr) @ drop (Suc i) (elems arr)"
proof -
  let ?n = "d_size arr - Suc i"
  have fits: "mem_s_ok (?n * k) (?n * k)" if "?n \<noteq> 0"
    using that inv reserve_bound [OF inv, of ?n] by (auto simp: mem_s_ok_def arr_inv_def)
  have last: "d_size arr = Suc i" if "?n = 0" using that i by simp
  show ?thesis
    using inv i fits last
    by (cases "?n = 0")
       (auto simp: DynamicArrayRemoveItem_def Let_def arr_inv_def elems_def min_def
         drop_take take_drop [symmetric] simp del: take_drop)
qed

lemma DynamicArrayPopNoDtor_ok:
  assumes inv: "arr_inv k arr" and "0 < d_size arr" "DynamicArrayPopNoDtor mem k arr = (ok, arr')"
  shows "arr_inv k arr' \<and> elems arr' = butlast (elems arr)"
proof -
  have "(d_size arr - 1) * k \<le> SECUREC_MEM_MAX_LEN"
    using reserve_bound [OF inv, of "d_size arr - 1"] inv by (auto simp: arr_inv_def)
  then show ?thesis
    using assms
    by (auto simp: DynamicArrayPopNoDtor_def Let_def arr_inv_def elems_def butlast_take
        split: if_splits)
qed

section \<open>The sequence interface\<close>

fun remove1_by :: "('a \<Rightarrow> bool) \<Rightarrow> 'a list \<Rightarrow> 'a list" where
  "remove1_by P [] = []"
| "remove1_by P (x # xs) = (if P x then xs else x # remove1_by P xs)"

fun index_by :: "('a \<Rightarrow> bool) \<Rightarrow> 'a list \<Rightarrow> nat option" where
  "index_by P [] = None"
| "index_by P (x # xs) = (if P x then Some 0 else map_option Suc (index_by P xs))"

lemma index_by_None: "index_by P xs = None \<Longrightarrow> remove1_by P xs = xs"
  by (induction xs) (auto split: if_splits)

lemma index_by_None_iff: "index_by P xs = None \<longleftrightarrow> (\<forall>x\<in>set xs. \<not> P x)"
  by (induction xs) auto

lemma index_by_Some:
  "index_by P xs = Some i \<Longrightarrow> i < length xs \<and> P (xs ! i) \<and> remove1_by P xs = take i xs @ drop (Suc i) xs"
  by (induction xs arbitrary: i) (auto split: if_splits)

lemma set_remove1_by: "set (remove1_by P xs) \<subseteq> set xs"
  by (induction xs) auto

lemma map_remove1_by:
  "map f (remove1_by (\<lambda>x. f x = k) xs) = remove1 k (map f xs)"
  by (induction xs) auto

lemma remove1_by_distinct:
  assumes "distinct (map f xs)"
  shows "remove1_by (\<lambda>x. f x = k) xs = filter (\<lambda>x. f x \<noteq> k) xs"
  using assms
proof (induction xs)
  case (Cons x xs)
  have "filter (\<lambda>y. f y \<noteq> f x) xs = xs"
    using Cons.prems by (auto simp: filter_id_conv image_iff)
  with Cons show ?case by auto
qed simp

locale seq_store =
  fixes els :: "'s \<Rightarrow> 'a list"
    and inv :: "'s \<Rightarrow> bool"
    and push :: "'a \<Rightarrow> 's \<Rightarrow> 's option"
    and remove :: "nat \<Rightarrow> 's \<Rightarrow> 's"
    and pop :: "'s \<Rightarrow> 's"
  assumes push_law: "inv s \<Longrightarrow> push x s = Some s' \<Longrightarrow> inv s' \<and> els s' = els s @ [x]"
    and remove_law: "inv s \<Longrightarrow> i < length (els s) \<Longrightarrow>
      inv (remove i s) \<and> els (remove i s) = take i (els s) @ drop (Suc i) (els s)"
    and pop_law: "inv s \<Longrightarrow> els s \<noteq> [] \<Longrightarrow> inv (pop s) \<and> els (pop s) = butlast (els s)"
begin

text \<open>The search loops of the clients: delete the first element that matches.\<close>

definition delete_first :: "('a \<Rightarrow> bool) \<Rightarrow> 's \<Rightarrow> 's" where
  "delete_first P s = (case index_by P (els s) of None \<Rightarrow> s | Some i \<Rightarrow> remove i s)"

definition delete_all :: "('d \<Rightarrow> 'a \<Rightarrow> bool) \<Rightarrow> 'd list \<Rightarrow> 's \<Rightarrow> 's" where
  "delete_all match ds s = fold (\<lambda>d. delete_first (match d)) ds s"

lemma delete_first_els:
  "inv s \<Longrightarrow> inv (delete_first P s) \<and> els (delete_first P s) = remove1_by P (els s)"
  using remove_law [of s]
  by (auto simp: delete_first_def split: option.splits dest: index_by_None index_by_Some)

lemma delete_all_els:
  "inv s \<Longrightarrow> inv (delete_all match ds s)
     \<and> els (delete_all match ds s) = fold (\<lambda>d. remove1_by (match d)) ds (els s)"
  by (induction ds arbitrary: s) (auto simp: delete_all_def delete_first_els)

text \<open>Appending and then undoing it when the element turns out bad.\<close>

lemma push_pop: "inv s \<Longrightarrow> push x s = Some s' \<Longrightarrow> inv (pop s') \<and> els (pop s') = els s"
  using push_law [of s x s'] pop_law [of s'] by auto

end

definition arr_push :: "heap \<Rightarrow> nat \<Rightarrow> 'a \<Rightarrow> 'a \<Rightarrow> 'a dynarray \<Rightarrow> 'a dynarray option" where
  "arr_push mem k z x arr = (case DynamicArrayPush mem k z (\<lambda>_. (True, x)) arr of
     (arr', Some _) \<Rightarrow> Some arr' | (_, None) \<Rightarrow> None)"

definition arr_remove :: "nat \<Rightarrow> nat \<Rightarrow> 'a dynarray \<Rightarrow> 'a dynarray" where
  "arr_remove k i arr = (case DynamicArrayRemoveItem k arr i of
     None \<Rightarrow> arr | Some (arr', _) \<Rightarrow> arr')"

definition arr_pop :: "heap \<Rightarrow> nat \<Rightarrow> 'a dynarray \<Rightarrow> 'a dynarray" where
  "arr_pop mem k arr = (case DynamicArrayPop mem k arr of
     None \<Rightarrow> arr | Some (_, arr', _) \<Rightarrow> arr')"

interpretation dyn: seq_store elems "arr_inv k" "arr_push mem k z" "arr_remove k" "arr_pop mem k"
proof unfold_locales
  fix arr :: "'a dynarray" and x arr'
  assume "arr_inv k arr" "arr_push mem k z x arr = Some arr'"
  then show "arr_inv k arr' \<and> elems arr' = elems arr @ [x]"
    using DynamicArrayPush_ok [of k arr mem z "\<lambda>_. (True, x)"]
    by (fastforce simp: arr_push_def split: prod.splits option.splits)
next
  fix arr :: "'a dynarray" and i
  assume "arr_inv k arr" "i < length (elems arr)"
  then show "arr_inv k (arr_remove k i arr)
      \<and> elems (arr_remove k i arr) = take i (elems arr) @ drop (Suc i) (elems arr)"
    using DynamicArrayRemoveItem_ok [of k arr i] by (auto simp: arr_remove_def length_elems)
next
  fix arr :: "'a dynarray"
  assume inv: "arr_inv k arr" "elems arr \<noteq> []"
  then have "0 < d_size arr" "d_size arr - 1 < length (d_items arr)"
    by (auto simp: elems_def arr_inv_def)
  with inv show "arr_inv k (arr_pop mem k arr) \<and> elems (arr_pop mem k arr) = butlast (elems arr)"
    using DynamicArrayPopNoDtor_ok [OF inv(1)]
    by (auto simp: arr_pop_def DynamicArrayPop_def DynamicArrayGetItem_def split: prod.splits)
qed

section \<open>Properties\<close>

text \<open>
  C9. The growable array refines a list: on an array that satisfies its invariant
  DynamicArrayPush either returns NULL and leaves the elements as they were or
  appends exactly the element its constructor built, DynamicArrayRemoveItem
  destroys the element it is given and closes the gap in order, and
  DynamicArrayPop destroys the last element and drops it, also when the shrinking
  allocation fails; the invariant (size, reserve and block length agree, the
  block stays within the securec limit) holds after each.\<close>

theorem DynamicArray_refines_list:
  assumes "arr_inv k arr"
  shows "(case DynamicArrayPush mem k z ctor arr of
      (arr', None) \<Rightarrow> arr_inv k arr' \<and> elems arr' = elems arr
    | (arr', Some i) \<Rightarrow> arr_inv k arr' \<and> i = length (elems arr)
        \<and> (\<exists>x0 x. ctor x0 = (True, x) \<and> elems arr' = elems arr @ [x]))
   \<and> (i < length (elems arr) \<longrightarrow> (\<exists>arr'. DynamicArrayRemoveItem k arr i = Some (arr', elems arr ! i)
        \<and> arr_inv k arr' \<and> elems arr' = take i (elems arr) @ drop (Suc i) (elems arr)))
   \<and> (elems arr \<noteq> [] \<longrightarrow> (\<exists>ok arr'. DynamicArrayPop mem k arr = Some (ok, arr', last (elems arr))
        \<and> arr_inv k arr' \<and> elems arr' = butlast (elems arr)))"
proof (intro conjI impI)
  show "case DynamicArrayPush mem k z ctor arr of
      (arr', None) \<Rightarrow> arr_inv k arr' \<and> elems arr' = elems arr
    | (arr', Some i) \<Rightarrow> arr_inv k arr' \<and> i = length (elems arr)
        \<and> (\<exists>x0 x. ctor x0 = (True, x) \<and> elems arr' = elems arr @ [x])"
  proof -
    obtain arr' r where p: "DynamicArrayPush mem k z ctor arr = (arr', r)" by fastforce
    note facts = DynamicArrayPush_ok [OF assms p]
    show ?thesis
    proof (cases r)
      case None
      then show ?thesis using facts by (simp add: p)
    next
      case (Some j)
      have "j = length (elems arr)" using facts(2) Some length_elems [OF assms] by simp
      moreover have "\<exists>x0 x. ctor x0 = (True, x) \<and> elems arr' = elems arr @ [x]"
        using facts(2) Some by simp
      ultimately show ?thesis
        using facts(1) unfolding p Some prod.case option.case by blast
    qed
  qed
  assume "i < length (elems arr)"
  then show "\<exists>arr'. DynamicArrayRemoveItem k arr i = Some (arr', elems arr ! i)
        \<and> arr_inv k arr' \<and> elems arr' = take i (elems arr) @ drop (Suc i) (elems arr)"
    using DynamicArrayRemoveItem_ok [OF assms] by (simp add: length_elems [OF assms])
next
  assume ne: "elems arr \<noteq> []"
  then have n: "0 < d_size arr" "d_size arr \<le> length (d_items arr)"
    using assms by (auto simp: elems_def arr_inv_def)
  then have l: "d_items arr ! (d_size arr - 1) = last (elems arr)"
    using ne by (simp add: last_conv_nth elems_def min_def)
  obtain ok arr' where p: "DynamicArrayPopNoDtor mem k arr = (ok, arr')" by fastforce
  have "DynamicArrayPop mem k arr = Some (ok, arr', last (elems arr))"
    using n unfolding DynamicArrayPop_def DynamicArrayGetItem_def l p by simp
  with DynamicArrayPopNoDtor_ok [OF assms n(1) p]
  show "\<exists>ok arr'. DynamicArrayPop mem k arr = Some (ok, arr', last (elems arr))
        \<and> arr_inv k arr' \<and> elems arr' = butlast (elems arr)"
    by blast
qed

definition sample_array :: "nat dynarray" where
  "sample_array = \<lparr>d_size = 2, d_reserved = 2, d_items = [5, 7]\<rparr>"

theorem DynamicArray_refines_list_witness:
  "elems (fst (DynamicArrayPush (\<lambda>_. True) 4 0 (\<lambda>_. (True, 9)) sample_array)) = [5, 7, 9]"
proof -
  have inv: "arr_inv 4 sample_array"
    by (simp add: arr_inv_def sample_array_def EXPEND_SIZE_def SECUREC_MEM_MAX_LEN_def)
  have "snd (DynamicArrayPush (\<lambda>_. True) 4 0 (\<lambda>_. (True, 9)) sample_array) = Some 2"
    by (simp add: DynamicArrayPush_def DynamicArrayGrow_def sample_array_def EXPEND_SIZE_def
        SIZE_MAX_def SECUREC_MEM_MAX_LEN_def mem_s_ok_def)
  then show ?thesis
    using DynamicArray_refines_list [OF inv, where mem = "\<lambda>_. True" and z = 0
        and ctor = "\<lambda>_. (True, 9)" and i = 0]
    by (auto simp: elems_def sample_array_def split: prod.splits)
qed

end
