(* ===== verification/RuleModel.thy ===== *)
theory RuleModel
  imports DynArray
begin

text \<open>
  The data of the device rules: src/service/device\_rule/rule\_condition.c,
  rule\_action.c and rule\_info.c.  The C union of a condition with its type tag is
  one datatype; DaysOfWeekRecord is an \<open>8 word\<close> whose bits 1 to 7 are Sunday to
  Saturday; the dynamic arrays appear as the lists they refine (theory DynArray).
  The fields sscanf reads and the seconds computed from them are integers: texts
  whose values overflow int are outside the model.
\<close>

unbundle bit_operations_syntax

section \<open>Data\<close>

record command =
  commandName :: cstr
  commandBody :: "json option"
  command_serviceId :: cstr

record action =
  action_type :: cstr
  action_status :: cstr
  action_deviceId :: cstr
  action_command :: command

type_synonym daysOfWeekRecord = "8 word"

record dailyTimerCondition =
  dt_time :: int
  dt_daysOfWeek :: daysOfWeekRecord
  dt_lastExecutedTime :: "int list"

record deviceInfo =
  di_deviceId :: cstr
  di_path :: cstr

record deviceDataCondition =
  dd_operator :: cstr
  dd_value :: cstr
  dd_deviceInfo :: deviceInfo

record simpleTimerCondition =
  st_startTime :: int
  st_repeatInterval :: int
  st_repeatCount :: int

datatype conditionType = ConditionTypeEmpty | ConditionTypeDailyTimer
  | ConditionTypeDeviceData | ConditionTypeSimpleTimer

datatype condition = ConditionEmpty
  | DailyTimer dailyTimerCondition
  | DeviceData deviceDataCondition
  | SimpleTimer simpleTimerCondition

record timeRange =
  tr_startTime :: int
  tr_endTime :: int
  tr_daysOfWeek :: daysOfWeekRecord

record ruleInfo =
  ri_ruleId :: cstr
  ri_ruleName :: cstr
  ri_logic :: cstr
  ri_timeRange :: timeRange
  ri_status :: cstr
  ri_conditions :: "condition list"
  ri_actions :: "action list"
  ri_version :: int

definition DAYS_PER_WEEK :: nat where "DAYS_PER_WEEK = 7"

section \<open>Constructors: every field zero\<close>

definition CommandCtor :: command where
  "CommandCtor = \<lparr>commandName = None, commandBody = None, command_serviceId = None\<rparr>"

definition ActionCtor :: action where
  "ActionCtor = \<lparr>action_type = None, action_status = None, action_deviceId = None,
     action_command = CommandCtor\<rparr>"

definition DeviceInfoCtor :: deviceInfo where
  "DeviceInfoCtor = \<lparr>di_deviceId = None, di_path = None\<rparr>"

definition DailyTimerConditionCtor :: dailyTimerCondition where
  "DailyTimerConditionCtor = \<lparr>dt_time = 0, dt_daysOfWeek = 0,
     dt_lastExecutedTime = replicate DAYS_PER_WEEK 0\<rparr>"

definition DeviceDataConditionCtor :: deviceDataCondition where
  "DeviceDataConditionCtor = \<lparr>dd_operator = None, dd_value = None, dd_deviceInfo = DeviceInfoCtor\<rparr>"

definition SimpleTimerConditionCtor :: simpleTimerCondition where
  "SimpleTimerConditionCtor = \<lparr>st_startTime = 0, st_repeatInterval = 0, st_repeatCount = 0\<rparr>"

definition ConditionCtor :: condition where
  "ConditionCtor = ConditionEmpty"

definition TimeRangeCtor :: timeRange where
  "TimeRangeCtor = \<lparr>tr_startTime = 0, tr_endTime = 0, tr_daysOfWeek = 0\<rparr>"

definition sizeof_Condition :: nat where "sizeof_Condition = 72"
definition sizeof_Action :: nat where "sizeof_Action = 48"

text \<open>The two element lists are allocated with the default reserve.\<close>

definition RuleInfoCtor :: "heap \<Rightarrow> bool \<times> ruleInfo" where
  "RuleInfoCtor mem =
    (mem (DEFAULT_RESERVE_SIZE * sizeof_Condition) \<and> mem (DEFAULT_RESERVE_SIZE * sizeof_Action),
     \<lparr>ri_ruleId = None, ri_ruleName = None, ri_logic = None, ri_timeRange = TimeRangeCtor,
      ri_status = None, ri_conditions = [], ri_actions = [], ri_version = 0\<rparr>)"

definition empty_rule :: ruleInfo where
  "empty_rule = snd (RuleInfoCtor (\<lambda>_. True))"

definition TimeRangeIsNuLL :: "timeRange \<Rightarrow> bool" where
  "TimeRangeIsNuLL self \<longleftrightarrow> tr_daysOfWeek self = 0"

section \<open>Condition types\<close>

definition ConditionTypeFromStr :: "string \<Rightarrow> conditionType" where
  "ConditionTypeFromStr t =
    (if t = ''DEVICE_DATA'' then ConditionTypeDeviceData
     else if t = ''SIMPLE_TIMER'' then ConditionTypeSimpleTimer
     else if t = ''DAILY_TIMER'' then ConditionTypeDailyTimer
     else ConditionTypeEmpty)"

fun ConditionTypeToStr :: "conditionType \<Rightarrow> string" where
  "ConditionTypeToStr ConditionTypeEmpty = ''EMPTY''"
| "ConditionTypeToStr ConditionTypeDailyTimer = ''DAILY_TIMER''"
| "ConditionTypeToStr ConditionTypeDeviceData = ''DEVICE_DATA''"
| "ConditionTypeToStr ConditionTypeSimpleTimer = ''SIMPLE_TIMER''"

fun type_of_condition :: "condition \<Rightarrow> conditionType" where
  "type_of_condition ConditionEmpty = ConditionTypeEmpty"
| "type_of_condition (DailyTimer _) = ConditionTypeDailyTimer"
| "type_of_condition (DeviceData _) = ConditionTypeDeviceData"
| "type_of_condition (SimpleTimer _) = ConditionTypeSimpleTimer"

lemma ConditionType_round_trip [simp]: "ConditionTypeFromStr (ConditionTypeToStr t) = t"
  by (cases t) (simp_all add: ConditionTypeFromStr_def)

section \<open>SaveDaysOfWeek\<close>

definition is_sep :: "char \<Rightarrow> bool" where
  "is_sep c \<longleftrightarrow> c = CHR '' '' \<or> c = CHR '',''"

lemma day_char_digit:
  assumes "1 \<le> (word_of_nat (chr c) :: 8 word) - 48" "(word_of_nat (chr c) :: 8 word) - 48 \<le> 7"
  shows "is_digit c"
proof -
  let ?w = "word_of_nat (chr c) :: 8 word"
  have c: "chr c < 256" by (simp add: chr_def)
  then have u: "unat ?w = chr c" by (simp add: unat_of_nat)
  obtain v where v: "?w = v + 48" "?w - 48 = v" by (metis diff_add_cancel)
  then have "1 \<le> unat v" "unat v \<le> 7"
    using assms by (simp_all add: word_le_nat_alt)
  moreover have "chr c = unat v + 48"
    using u v(1) \<open>unat v \<le> 7\<close> by (simp add: unat_word_ariths)
  ultimately show ?thesis by (simp add: is_digit_def)
qed

text \<open>The loop of \<open>SaveDaysOfWeek\<close>: the text from \<open>startOfNumber\<close> and the record so
  far.  At the terminating NUL the byte minus '0' is 208, which is not a day.\<close>

function save_days_loop :: "string \<Rightarrow> daysOfWeekRecord \<Rightarrow> bool \<times> daysOfWeekRecord" where
  "save_days_loop s d =
    (if s = [] then (True, d)
     else case dropWhile is_sep s of
       [] \<Rightarrow> (False, d)
     | c # r \<Rightarrow>
        let day = (word_of_nat (chr c) :: 8 word) - 48 in
        if 1 \<le> day \<and> day \<le> 7
        then save_days_loop (dropWhile is_digit (c # r)) (d OR push_bit (unat day) 1)
        else (False, d))"
  by pat_completeness auto

termination
proof (relation "measure (\<lambda>(s, d). length s)")
  fix s :: string and d c r and day :: "8 word"
  assume a: "dropWhile is_sep s = c # r" "day = word_of_nat (chr c) - 48" "1 \<le> day \<and> day \<le> 7"
  have "is_digit c" using a day_char_digit by blast
  then have "length (dropWhile is_digit (c # r)) \<le> length r"
    by (simp add: length_dropWhile_le)
  also have "\<dots> < length (c # r)" by simp
  also have "\<dots> \<le> length s" unfolding a(1) [symmetric] by (rule length_dropWhile_le)
  finally show "((dropWhile is_digit (c # r), d OR push_bit (unat day) 1), s, d) \<in> measure (\<lambda>(s, d). length s)"
    by simp
qed simp

declare save_days_loop.simps [simp del]

definition SaveDaysOfWeek :: "daysOfWeekRecord \<Rightarrow> cstr \<Rightarrow> bool \<times> daysOfWeekRecord" where
  "SaveDaysOfWeek daysOfWeek s = (case s of None \<Rightarrow> (False, daysOfWeek)
   | Some t \<Rightarrow> save_days_loop t 0)"

definition days_mask :: "nat list \<Rightarrow> daysOfWeekRecord \<Rightarrow> daysOfWeekRecord" where
  "days_mask ds d = fold (\<lambda>k w. w OR push_bit k 1) ds d"

text \<open>The text form of a list of days: single digits separated by commas.\<close>

fun days_text :: "nat list \<Rightarrow> string" where
  "days_text [] = []"
| "days_text [d] = [digit_char d]"
| "days_text (d # ds) = digit_char d # CHR '','' # days_text ds"

lemma bit_days_mask:
  "k < 8 \<Longrightarrow> bit (days_mask ds d) k \<longleftrightarrow> bit d k \<or> k \<in> set ds"
proof (induction ds arbitrary: d)
  case (Cons a ds)
  then have "bit (d OR push_bit a 1) k \<longleftrightarrow> bit d k \<or> k = a"
    by (auto simp: bit_simps)
  with Cons show ?case by (auto simp: days_mask_def)
qed (simp add: days_mask_def)

lemma digit_char_cases:
  "1 \<le> d \<Longrightarrow> d \<le> 7 \<Longrightarrow> d = 1 \<or> d = 2 \<or> d = 3 \<or> d = 4 \<or> d = 5 \<or> d = 6 \<or> d = (7::nat)"
  by arith

lemma digit_char_day:
  assumes "1 \<le> d" "d \<le> 7"
  shows "\<not> is_sep (digit_char d)"
    and "(word_of_nat (chr (digit_char d)) :: 8 word) - 48 = word_of_nat d"
    and "unat (word_of_nat d :: 8 word) = d"
    and "(1 :: 8 word) \<le> word_of_nat d" and "(word_of_nat d :: 8 word) \<le> 7"
proof -
  show "\<not> is_sep (digit_char d)"
    using digit_char_cases [OF assms] by (auto simp: is_sep_def exec_defs)
  show "(word_of_nat (chr (digit_char d)) :: 8 word) - 48 = word_of_nat d"
    using assms by simp
  show u: "unat (word_of_nat d :: 8 word) = d"
    using assms by (simp add: unat_of_nat)
  show "(1 :: 8 word) \<le> word_of_nat d" "(word_of_nat d :: 8 word) \<le> 7"
    using assms u by (simp_all add: word_le_nat_alt)
qed

lemma not_digit_comma [simp]: "\<not> is_digit (CHR '','')"
  by (simp add: is_digit_def chr_def)

lemma save_days_loop_text:
  assumes "list_all (\<lambda>d. 1 \<le> d \<and> d \<le> 7) ds"
  shows "save_days_loop (days_text ds) d = (True, days_mask ds d)"
  using assms
proof (induction ds arbitrary: d rule: days_text.induct)
  case 1
  then show ?case by (simp add: save_days_loop.simps days_mask_def)
next
  case (2 a)
  then have a: "1 \<le> a" "a \<le> 7" by simp_all
  have "save_days_loop [] e = (True, e)" for e by (simp add: save_days_loop.simps)
  then show ?case
    using a digit_char_day [OF a]
    by (subst save_days_loop.simps) (simp add: days_mask_def)
next
  case (3 a b ds)
  then have a: "1 \<le> a" "a \<le> 7" by simp_all
  let ?t = "days_text (b # ds)"
  have comma: "save_days_loop (CHR '','' # ?t) e = save_days_loop ?t e" for e
  proof -
    have ne: "?t \<noteq> []" by (cases ds) auto
    have nosep: "dropWhile is_sep ?t = ?t"
      using 3(2) digit_char_day(1) [of b] by (cases ds) auto
    show ?thesis
      by (subst (1 2) save_days_loop.simps) (simp add: ne nosep is_sep_def)
  qed
  have "save_days_loop (digit_char a # CHR '','' # ?t) d
      = save_days_loop (CHR '','' # ?t) (d OR push_bit a 1)"
    using a digit_char_day [OF a]
    by (subst save_days_loop.simps) simp
  then show ?case using comma 3 by (simp add: days_mask_def)
qed

text \<open>
  SaveDaysOfWeek reads back every list of days: for a comma-separated text of
  day numbers 1 to 7 it succeeds, and bit k of the record is set exactly when k is
  one of the days.\<close>

theorem SaveDaysOfWeek_reads:
  assumes "list_all (\<lambda>d. 1 \<le> d \<and> d \<le> 7) ds" and "k < 8"
  shows "\<exists>w. SaveDaysOfWeek old (Some (days_text ds)) = (True, w) \<and> (bit w k \<longleftrightarrow> k \<in> set ds)"
  using save_days_loop_text [OF assms(1), of 0] bit_days_mask [OF assms(2), of ds 0]
  by (simp add: SaveDaysOfWeek_def)

theorem SaveDaysOfWeek_reads_witness:
  "\<exists>w. SaveDaysOfWeek 0 (Some ''2,6'') = (True, w) \<and> bit w 6 \<and> \<not> bit w 1"
proof -
  have t: "days_text [2, 6] = ''2,6''" by (simp add: exec_defs)
  show ?thesis
    using SaveDaysOfWeek_reads [of "[2, 6]" 6 0] SaveDaysOfWeek_reads [of "[2, 6]" 1 0]
    unfolding t by auto
qed

lemma SaveDaysOfWeek_trailing_separator: "fst (SaveDaysOfWeek w (Some ''1,'')) = False"
  by (simp add: SaveDaysOfWeek_def save_days_loop.simps is_sep_def is_digit_def chr_def)

section \<open>Times\<close>

definition HHMMSStoSecond :: "int \<Rightarrow> int \<Rightarrow> int \<Rightarrow> int" where
  "HHMMSStoSecond hour minute second = (hour * 60 + minute) * 60 + second"

text \<open>The \<open>%d\<close> conversion: white space, an optional sign, at least one digit.\<close>

definition scan_int :: "string \<Rightarrow> (int \<times> string) option" where
  "scan_int s =
    (let t = dropWhile is_space s;
         (neg, u) = (case t of [] \<Rightarrow> (False, [])
           | c # r \<Rightarrow> if c = CHR ''-'' then (True, r) else if c = CHR ''+'' then (False, r) else (False, t));
         ds = takeWhile is_digit u
     in if ds = [] then None
        else Some (if neg then - int (read_nat ds) else int (read_nat ds), dropWhile is_digit u))"

text \<open>A format of \<open>%d\<close> conversions between single separators; a blank separator
  matches any white space.  The values converted before the first mismatch.\<close>

fun scan_fields :: "string \<Rightarrow> string \<Rightarrow> int list" where
  "scan_fields [] s = (case scan_int s of None \<Rightarrow> [] | Some (v, r) \<Rightarrow> [v])"
| "scan_fields (sep # seps) s = (case scan_int s of None \<Rightarrow> []
   | Some (v, r) \<Rightarrow> v #
      (if sep = CHR '' '' then scan_fields seps r
       else case r of [] \<Rightarrow> [] | c # r' \<Rightarrow> if c = sep then scan_fields seps r' else []))"

text \<open>sscanf\_s returns -1, here \<^term>\<open>None\<close>, when the input ends before the first conversion.\<close>

definition sscanf_ints :: "string \<Rightarrow> string \<Rightarrow> int list option" where
  "sscanf_ints seps s = (if dropWhile is_space s = [] then None else Some (scan_fields seps s))"

definition field :: "int list \<Rightarrow> nat \<Rightarrow> int" where
  "field vs i = (if i < length vs then vs ! i else 0)"

definition ConvertTimeStrToSeconds :: "int \<Rightarrow> cstr \<Rightarrow> bool \<times> int" where
  "ConvertTimeStrToSeconds secondInDay s = (case s of None \<Rightarrow> (False, secondInDay)
   | Some t \<Rightarrow> (case sscanf_ints ''::'' t of
       Some vs \<Rightarrow> (True, HHMMSStoSecond (field vs 0) (field vs 1) (field vs 2))
     | None \<Rightarrow> (case sscanf_ints '':'' t of
         Some vs \<Rightarrow> (True, HHMMSStoSecond (field vs 0) (field vs 1) 0)
       | None \<Rightarrow> (False, secondInDay))))"

text \<open>timegm on the proleptic Gregorian calendar, months normalised.\<close>

definition days_from_civil :: "int \<Rightarrow> int \<Rightarrow> int \<Rightarrow> int" where
  "days_from_civil y m d =
    (let y' = (if m \<le> 2 then y - 1 else y);
         era = y' div 400;
         yoe = y' - era * 400;
         doy = (153 * (if m > 2 then m - 3 else m + 9) + 2) div 5 + d - 1;
         doe = yoe * 365 + yoe div 4 - yoe div 100 + doy
     in era * 146097 + doe - 719468)"

definition timegm :: "tm \<Rightarrow> int" where
  "timegm t =
    (let y = tm_year t + 1900 + tm_mon t div 12; m = tm_mon t mod 12 + 1
     in days_from_civil y m (tm_mday t) * 86400
        + tm_hour t * 3600 + tm_min t * 60 + tm_sec t)"

text \<open>A text with fewer than six numbers leaves fields of the local struct
  uninitialised, which timegm then reads: undefined.\<close>

definition GMTTimestampFromStr :: "int \<Rightarrow> cstr \<Rightarrow> (bool \<times> int) option" where
  "GMTTimestampFromStr time s = (case s of None \<Rightarrow> Some (False, time)
   | Some t \<Rightarrow> (case sscanf_ints ''-- ::'' t of
       None \<Rightarrow> Some (False, time)
     | Some vs \<Rightarrow> do {
         guard_ub (length vs = 6);
         Some (True, timegm \<lparr>tm_year = vs ! 0 - 1900, tm_mon = vs ! 1 - 1, tm_mday = vs ! 2,
                            tm_hour = vs ! 3, tm_min = vs ! 4, tm_sec = vs ! 5\<rparr>) }))"

lemma scan_int_dec:
  assumes "r = [] \<or> \<not> is_digit (hd r)"
  shows "scan_int (dec_nat n @ r) = Some (int n, r)"
proof -
  obtain d ds where d: "dec_nat n = d # ds" by (cases "dec_nat n") auto
  have dd: "is_digit d" "list_all is_digit ds" using dec_nat_digits [of n] d by simp_all
  have w: "takeWhile is_digit r = []" "dropWhile is_digit r = r" using assms by (cases r; simp)+
  have "read_nat (d # ds) = n" using d read_dec_nat [of n] by simp
  with dd w show ?thesis
    using digit_not_sign [OF dd(1)]
    by (simp add: scan_int_def d takeWhile_app_all dropWhile_app_all)
qed

lemma dec_nat_not_blank: "dropWhile is_space (dec_nat n @ r) \<noteq> []"
proof -
  obtain d ds where d: "dec_nat n = d # ds" by (cases "dec_nat n") auto
  then have "is_digit d" using dec_nat_set [of d n] by simp
  with d show ?thesis by simp
qed

lemma not_digit_colon [simp]: "\<not> is_digit (CHR '':'')"
  by (simp add: is_digit_def chr_def)

lemma not_digit_dash [simp]: "\<not> is_digit (CHR ''-'')"
  by (simp add: is_digit_def chr_def)

lemma not_digit_blank [simp]: "\<not> is_digit (CHR '' '')"
  by (simp add: is_digit_def chr_def)

lemma is_space_blank [simp]: "is_space (CHR '' '')"
  by (simp add: is_space_def chr_def)

lemma not_space_seps [simp]: "\<not> is_space (CHR '':'')" "\<not> is_space (CHR ''-'')"
  by (simp_all add: is_space_def chr_def)

lemma scan_int_blank [simp]: "scan_int (CHR '' '' # s) = scan_int s"
  by (simp add: scan_int_def)

lemma scan_fields_blank [simp]: "scan_fields seps (CHR '' '' # s) = scan_fields seps s"
  by (cases seps) simp_all

lemma scan_fields_dec:
  assumes "r = [] \<or> \<not> is_digit (hd r)"
  shows "scan_fields [] (dec_nat n @ r) = [int n]"
    and "scan_fields (sep # seps) (dec_nat n @ r) = int n #
      (if sep = CHR '' '' then scan_fields seps r
       else case r of [] \<Rightarrow> [] | c # r' \<Rightarrow> if c = sep then scan_fields seps r' else [])"
  by (simp_all add: scan_int_dec [OF assms])

lemma scan_fields_last: "scan_fields [] (dec_nat n) = [int n]"
  using scan_fields_dec(1) [of "[]" n] by (simp del: scan_fields.simps)

text \<open>
  ConvertTimeStrToSeconds reads back times of day: the texts HH:MM:SS and HH:MM
  of any hour, minute and second are accepted and give the seconds since midnight
  (a missing second counts as 0).\<close>

theorem ConvertTimeStrToSeconds_reads:
  "ConvertTimeStrToSeconds old (Some (dec_nat h @ '':'' @ dec_nat m @ '':'' @ dec_nat s))
     = (True, int (3600 * h + 60 * m + s))
   \<and> ConvertTimeStrToSeconds old (Some (dec_nat h @ '':'' @ dec_nat m))
     = (True, int (3600 * h + 60 * m))"
proof -
  have one: "scan_fields ''::'' (dec_nat h @ CHR '':'' # dec_nat m @ CHR '':'' # dec_nat s)
      = [int h, int m, int s]"
    by (simp add: scan_fields_dec scan_fields_last del: scan_fields.simps)
  have two: "scan_fields ''::'' (dec_nat h @ CHR '':'' # dec_nat m) = [int h, int m]"
    using scan_fields_dec(2) [of "[]" "CHR '':''" "[]" m]
    by (simp add: scan_fields_dec del: scan_fields.simps)
  show ?thesis
    by (simp add: ConvertTimeStrToSeconds_def sscanf_ints_def dec_nat_not_blank one two field_def
        HHMMSStoSecond_def del: scan_fields.simps)
qed

text \<open>
  A text that holds no number at all is still accepted by
  ConvertTimeStrToSeconds, as midnight: sscanf\_s returns 0, not -1, when its first
  conversion does not match, so a malformed time in a rule is never rejected.\<close>

theorem ConvertTimeStrToSeconds_accepts_garbage:
  assumes "\<not> is_space c" "\<not> is_digit c" "c \<noteq> CHR ''-''" "c \<noteq> CHR ''+''"
  shows "ConvertTimeStrToSeconds old (Some (c # s)) = (True, 0)"
proof -
  have "scan_int (c # s) = None" using assms by (simp add: scan_int_def)
  then show ?thesis
    using assms by (simp add: ConvertTimeStrToSeconds_def sscanf_ints_def field_def HHMMSStoSecond_def)
qed

theorem ConvertTimeStrToSeconds_accepts_garbage_witness:
  "ConvertTimeStrToSeconds 77 (Some ''noon'') = (True, 0)"
  by (rule ConvertTimeStrToSeconds_accepts_garbage)
     (simp_all add: is_space_def is_digit_def chr_def)

text \<open>The time stamp of a text with all six fields.\<close>

lemma GMTTimestampFromStr_full:
  "GMTTimestampFromStr old (Some (dec_nat y @ ''-'' @ dec_nat mo @ ''-'' @ dec_nat d @ '' '' @
      dec_nat h @ '':'' @ dec_nat mi @ '':'' @ dec_nat s))
   = Some (True, timegm \<lparr>tm_year = int y - 1900, tm_mon = int mo - 1, tm_mday = int d,
      tm_hour = int h, tm_min = int mi, tm_sec = int s\<rparr>)"
proof -
  have "scan_fields ''-- ::'' (dec_nat y @ CHR ''-'' # dec_nat mo @ CHR ''-'' # dec_nat d @ CHR '' '' #
      dec_nat h @ CHR '':'' # dec_nat mi @ CHR '':'' # dec_nat s)
      = [int y, int mo, int d, int h, int mi, int s]"
    by (simp add: scan_fields_dec scan_fields_last del: scan_fields.simps)
  then show ?thesis
    by (simp add: GMTTimestampFromStr_def sscanf_ints_def dec_nat_not_blank del: scan_fields.simps)
qed

lemma GMTTimestampFromStr_short_undefined:
  "GMTTimestampFromStr old (Some (dec_nat y)) = None"
  using scan_fields_dec(2) [of "[]" "CHR ''-''" "''- ::''" y] dec_nat_not_blank [of y "[]"]
  by (simp add: GMTTimestampFromStr_def sscanf_ints_def del: scan_fields.simps)

lemma timegm_epoch:
  "timegm \<lparr>tm_year = 70, tm_mon = 0, tm_mday = 1, tm_hour = 0, tm_min = 0, tm_sec = 0\<rparr> = 0"
  "timegm \<lparr>tm_year = 123, tm_mon = 0, tm_mday = 28, tm_hour = 15, tm_min = 38, tm_sec = 29\<rparr> = 1674920309"
  by (simp_all add: timegm_def days_from_civil_def Let_def)

end
