(* ===== verification/RuleParser.thy ===== *)
theory RuleParser
  imports RuleModel
begin

text \<open>
  src/service/device\_rule/rule\_parser.c: parsing of device rules out of a JSON
  payload, their versioned replacement in the rule list, and the computation and
  deletion of outdated rules.  A parsing function answers \<^term>\<open>None\<close> for
  undefined behaviour, \<^term>\<open>Some None\<close> for ERRVAL and the parsed object otherwise;
  the object it had begun to fill is dropped by its caller in every error case.
  The pushes onto the lists of length n succeed as the heap oracle says.
\<close>

section \<open>Definitions\<close>

record rheap =
  rh_str :: heap
  rh_rule :: "nat \<Rightarrow> bool"
  rh_cond :: "nat \<Rightarrow> bool"
  rh_act :: "nat \<Rightarrow> bool"

definition rheap_ok :: rheap where
  "rheap_ok = \<lparr>rh_str = \<lambda>_. True, rh_rule = \<lambda>_. True, rh_cond = \<lambda>_. True, rh_act = \<lambda>_. True\<rparr>"

type_synonym 'a parsed = "'a option option"

definition get_str :: "json option \<Rightarrow> string \<Rightarrow> cstr" where
  "get_str j k = GetStringValue (GetObjectItem j k)"

text \<open>A CHECK\_FALSE\_RETURN\_ERRVAL of CStrDuplicateNotNULL into an empty field.\<close>

definition dup_field :: "rheap \<Rightarrow> cstr \<Rightarrow> cstr option" where
  "dup_field h s = (case CStrDuplicateNotNULL (rh_str h) None s of
     (True, v) \<Rightarrow> Some v | (False, _) \<Rightarrow> None)"

text \<open>The index of the first rule with this id; comparing a NULL id is undefined.\<close>

fun RuleListCheckExistence :: "ruleInfo list \<Rightarrow> cstr \<Rightarrow> nat option option" where
  "RuleListCheckExistence [] ruleId = Some None"
| "RuleListCheckExistence (r # rs) ruleId = do {
     a \<leftarrow> deref (ri_ruleId r);
     b \<leftarrow> deref ruleId;
     if a = b then Some (Some 0)
     else map_option (map_option Suc) (RuleListCheckExistence rs ruleId) }"

definition ParseCmdAction :: "rheap \<Rightarrow> json option \<Rightarrow> action option" where
  "ParseCmdAction h actionCJSON = do {
     type \<leftarrow> dup_field h (get_str actionCJSON ''type'');
     status \<leftarrow> dup_field h (get_str actionCJSON ''status'');
     deviceId \<leftarrow> dup_field h (get_str actionCJSON ''deviceId'');
     let command = GetObjectItem actionCJSON ''command'';
     name \<leftarrow> dup_field h (get_str command ''commandName'');
     serviceId \<leftarrow> dup_field h (get_str command ''serviceId'');
     body \<leftarrow> GetObjectItem command ''commandBody'';
     Some \<lparr>action_type = type, action_status = status, action_deviceId = deviceId,
           action_command = \<lparr>commandName = name, commandBody = Some body,
                             command_serviceId = serviceId\<rparr>\<rparr> }"

definition ParseDeviceInfo :: "rheap \<Rightarrow> json option \<Rightarrow> deviceInfo option" where
  "ParseDeviceInfo h jsonObj = do {
     deviceId \<leftarrow> dup_field h (get_str jsonObj ''deviceId'');
     path \<leftarrow> dup_field h (get_str jsonObj ''path'');
     Some \<lparr>di_deviceId = deviceId, di_path = path\<rparr> }"

definition ParsePropCondition :: "rheap \<Rightarrow> json option \<Rightarrow> deviceDataCondition option" where
  "ParsePropCondition h contentInJson = do {
     operator \<leftarrow> dup_field h (get_str contentInJson ''operator'');
     v \<leftarrow> dup_field h (get_str contentInJson ''value'');
     info \<leftarrow> GetObjectItem contentInJson ''deviceInfo'';
     di \<leftarrow> ParseDeviceInfo h (Some info);
     Some \<lparr>dd_operator = operator, dd_value = v, dd_deviceInfo = di\<rparr> }"

definition ParseSimpleTimerCondition :: "json option \<Rightarrow> simpleTimerCondition parsed" where
  "ParseSimpleTimerCondition contentInJson = do {
     (ok, t) \<leftarrow> GMTTimestampFromStr 0 (get_str contentInJson ''startTime'');
     if \<not> ok then Some None
     else Some (do {
       i \<leftarrow> GetIntValueFromJson (GetObjectItem contentInJson ''repeatInterval'');
       n \<leftarrow> GetIntValueFromJson (GetObjectItem contentInJson ''repeatCount'');
       Some \<lparr>st_startTime = t, st_repeatInterval = i, st_repeatCount = n\<rparr> }) }"

definition ParseDailyTimerCondition :: "json option \<Rightarrow> dailyTimerCondition option" where
  "ParseDailyTimerCondition contentInJson =
    (let (ok1, t) = ConvertTimeStrToSeconds 0 (get_str contentInJson ''time'');
         (ok2, d) = SaveDaysOfWeek 0 (get_str contentInJson ''daysOfWeek'')
     in if ok1 \<and> ok2 then Some (DailyTimerConditionCtor \<lparr>dt_time := t, dt_daysOfWeek := d\<rparr>) else None)"

definition ParseSingleCondition :: "rheap \<Rightarrow> json option \<Rightarrow> condition parsed" where
  "ParseSingleCondition h contentInJson = (case get_str contentInJson ''type'' of
     None \<Rightarrow> Some None
   | Some type \<Rightarrow> (case ConditionTypeFromStr type of
       ConditionTypeDeviceData \<Rightarrow> Some (map_option DeviceData (ParsePropCondition h contentInJson))
     | ConditionTypeSimpleTimer \<Rightarrow>
         map_option (map_option SimpleTimer) (ParseSimpleTimerCondition contentInJson)
     | ConditionTypeDailyTimer \<Rightarrow> Some (map_option DailyTimer (ParseDailyTimerCondition contentInJson))
     | ConditionTypeEmpty \<Rightarrow> Some None))"

fun parse_conditions :: "rheap \<Rightarrow> json list \<Rightarrow> condition list \<Rightarrow> condition list parsed" where
  "parse_conditions h [] cs = Some (Some cs)"
| "parse_conditions h (one # rest) cs =
    (if \<not> rh_cond h (length cs) then Some None
     else case ParseSingleCondition h (Some one) of
       None \<Rightarrow> None
     | Some None \<Rightarrow> Some None
     | Some (Some c) \<Rightarrow> parse_conditions h rest (cs @ [c]))"

fun parse_actions :: "rheap \<Rightarrow> json list \<Rightarrow> action list \<Rightarrow> action list option" where
  "parse_actions h [] as = Some as"
| "parse_actions h (one # rest) as =
    (if \<not> rh_act h (length as) then None
     else case ParseCmdAction h (Some one) of
       None \<Rightarrow> None
     | Some a \<Rightarrow> parse_actions h rest (as @ [a]))"

definition ParseTimeRange :: "json option \<Rightarrow> timeRange option" where
  "ParseTimeRange tr =
    (if tr = None \<or> IsNull tr then Some TimeRangeCtor
     else let (ok1, t1) = ConvertTimeStrToSeconds 0 (get_str tr ''startTime'');
              (ok2, t2) = ConvertTimeStrToSeconds 0 (get_str tr ''endTime'');
              (ok3, d) = SaveDaysOfWeek 0 (get_str tr ''daysOfWeek'')
          in if ok1 \<and> ok2 \<and> ok3
             then Some \<lparr>tr_startTime = t1, tr_endTime = t2 + 59, tr_daysOfWeek = d\<rparr> else None)"

definition ParseSingleRule :: "rheap \<Rightarrow> json option \<Rightarrow> ruleInfo parsed" where
  "ParseSingleRule h rule =
    (case do {
       ruleId \<leftarrow> dup_field h (get_str rule ''ruleId'');
       ruleName \<leftarrow> dup_field h (get_str rule ''ruleName'');
       status \<leftarrow> dup_field h (get_str rule ''status'');
       logic \<leftarrow> dup_field h (get_str rule ''logic'');
       version \<leftarrow> GetIntValueFromJson (GetObjectItem rule ''ruleVersionInShadow'');
       tr \<leftarrow> ParseTimeRange (GetObjectItem rule ''timeRange'');
       conds \<leftarrow> GetObjectItem rule ''conditions'';
       Some (empty_rule \<lparr>ri_ruleId := ruleId, ri_ruleName := ruleName, ri_status := status,
               ri_logic := logic, ri_version := version, ri_timeRange := tr\<rparr>, conds) } of
       None \<Rightarrow> Some None
     | Some (r, conds) \<Rightarrow>
        (case parse_conditions h (map snd (children conds)) [] of
           None \<Rightarrow> None
         | Some None \<Rightarrow> Some None
         | Some (Some cs) \<Rightarrow>
            (case parse_actions h (map snd (child_list (GetObjectItem rule ''actions''))) [] of
               None \<Rightarrow> Some None
             | Some as \<Rightarrow> Some (Some (r \<lparr>ri_conditions := cs, ri_actions := as\<rparr>)))))"

text \<open>The hook sees each removed and each added rule; its target is a state.\<close>

type_synonym 's hook = "bool \<Rightarrow> json \<Rightarrow> 's \<Rightarrow> 's"

definition remove_at :: "nat \<Rightarrow> 'a list \<Rightarrow> 'a list" where
  "remove_at i xs = take i xs @ drop (Suc i) xs"

text \<open>Pushing and parsing one rule; the flag is whether the loop goes on.\<close>

definition insert_rule ::
  "rheap \<Rightarrow> 's hook \<Rightarrow> json \<Rightarrow> ruleInfo list \<Rightarrow> 's \<Rightarrow> (bool \<times> ruleInfo list \<times> 's) option" where
  "insert_rule h hook rule list s =
    (let s' = hook False rule s in
     if \<not> rh_rule h (length list) then Some (False, list, s')
     else case ParseSingleRule h (Some rule) of
       None \<Rightarrow> None
     | Some None \<Rightarrow> Some (False, list, s')
     | Some (Some r) \<Rightarrow> Some (True, list @ [r], s'))"

text \<open>One iteration of the loop over the rules of the payload.\<close>

definition rule_step ::
  "rheap \<Rightarrow> 's hook \<Rightarrow> json \<Rightarrow> ruleInfo list \<Rightarrow> 's \<Rightarrow> (bool \<times> ruleInfo list \<times> 's) option" where
  "rule_step h hook rule list s =
    (case get_str (Some rule) ''ruleId'' of
       None \<Rightarrow> Some (False, list, s)
     | Some ruleId \<Rightarrow>
        (case GetIntValueFromJson (GetObjectItem (Some rule) ''ruleVersionInShadow'') of
           None \<Rightarrow> Some (False, list, s)
         | Some version \<Rightarrow> do {
             found \<leftarrow> RuleListCheckExistence list (Some ruleId);
             case found of
               Some i \<Rightarrow>
                 if version > ri_version (list ! i) then
                   insert_rule h hook rule (remove_at i list) (hook True rule s)
                 else Some (True, list, s)
             | None \<Rightarrow> insert_rule h hook rule list s }))"

fun parse_rules :: "rheap \<Rightarrow> 's hook \<Rightarrow> json list \<Rightarrow> ruleInfo list \<Rightarrow> 's \<Rightarrow> (ruleInfo list \<times> 's) option" where
  "parse_rules h hook [] list s = Some (list, s)"
| "parse_rules h hook (rule # rest) list s = do {
     (go, list', s') \<leftarrow> rule_step h hook rule list s;
     if go then parse_rules h hook rest list' s' else Some (list', s') }"

definition ParseDeviceRuleWithHook ::
  "rheap \<Rightarrow> ruleInfo list \<Rightarrow> json option \<Rightarrow> 's \<Rightarrow> 's hook \<Rightarrow> (ruleInfo list \<times> 's) option" where
  "ParseDeviceRuleWithHook h ruleInfos paras s hook = (case paras of
     None \<Rightarrow> Some (ruleInfos, s)
   | Some _ \<Rightarrow> (case GetObjectItem paras ''rulesInfos'' of
       None \<Rightarrow> Some (ruleInfos, s)
     | Some rules \<Rightarrow> parse_rules h hook (map snd (children rules)) ruleInfos s))"

definition ParseDeviceRule :: "rheap \<Rightarrow> ruleInfo list \<Rightarrow> json option \<Rightarrow> ruleInfo list option" where
  "ParseDeviceRule h ruleInfos paras =
     map_option fst (ParseDeviceRuleWithHook h ruleInfos paras () (\<lambda>_ _ s. s))"

text \<open>A push of an id with its version onto the deletion or addition list.  When the
  push itself fails the code still pops: the element before it, or nothing on an
  empty list, which is undefined.\<close>

definition push_id :: "rheap \<Rightarrow> cstr \<Rightarrow> int \<Rightarrow> ruleInfo list \<Rightarrow> (bool \<times> ruleInfo list) option" where
  "push_id h ruleId version list =
    (if \<not> rh_rule h (length list) then
       (if list = [] then None else Some (False, butlast list))
     else case CStrDuplicate (rh_str h) None ruleId of
       (False, _) \<Rightarrow> Some (False, list)
     | (True, i) \<Rightarrow> Some (True, list @ [empty_rule \<lparr>ri_ruleId := i, ri_version := version\<rparr>]))"

fun get_rule_info ::
  "rheap \<Rightarrow> ruleInfo list \<Rightarrow> (cstr \<times> json) list \<Rightarrow> ruleInfo list \<Rightarrow> ruleInfo list
    \<Rightarrow> (bool \<times> ruleInfo list \<times> ruleInfo list) option" where
  "get_rule_info h list [] dels adds = Some (True, dels, adds)"
| "get_rule_info h list ((ruleId, oneProperty) # rest) dels adds =
    (case GetIntValueFromJson (GetObjectItem (Some oneProperty) ''version'') of
       None \<Rightarrow> Some (False, dels, adds)
     | Some version \<Rightarrow> do {
         oneRule \<leftarrow> RuleListCheckExistence list ruleId;
         if version = -1 then do {
           (ok, dels') \<leftarrow> push_id h ruleId version dels;
           if ok then get_rule_info h list rest dels' adds else Some (False, dels', adds) }
         else if (case oneRule of None \<Rightarrow> True | Some i \<Rightarrow> version > ri_version (list ! i)) then do {
           (ok, adds') \<leftarrow> push_id h ruleId version adds;
           if ok then get_rule_info h list rest dels adds' else Some (False, dels, adds') }
         else get_rule_info h list rest dels adds })"

definition GetRuleInfoList ::
  "rheap \<Rightarrow> ruleInfo list \<Rightarrow> json option \<Rightarrow> ruleInfo list \<Rightarrow> ruleInfo list
    \<Rightarrow> (bool \<times> ruleInfo list \<times> ruleInfo list) option" where
  "GetRuleInfoList h list propertiesCJSON delList addList =
     get_rule_info h list (child_list propertiesCJSON) delList addList"

fun DeletRulesFromList :: "ruleInfo list \<Rightarrow> ruleInfo list \<Rightarrow> ruleInfo list option" where
  "DeletRulesFromList list [] = Some list"
| "DeletRulesFromList list (d # delList) = do {
     found \<leftarrow> RuleListCheckExistence list (ri_ruleId d);
     DeletRulesFromList (case found of None \<Rightarrow> list | Some i \<Rightarrow> remove_at i list) delList }"

section \<open>Well-formed rules\<close>

definition wf_action :: "action \<Rightarrow> bool" where
  "wf_action a \<longleftrightarrow> action_type a \<noteq> None \<and> action_status a \<noteq> None \<and> action_deviceId a \<noteq> None
     \<and> commandName (action_command a) \<noteq> None \<and> command_serviceId (action_command a) \<noteq> None
     \<and> commandBody (action_command a) \<noteq> None"

fun wf_condition :: "condition \<Rightarrow> bool" where
  "wf_condition ConditionEmpty = False"
| "wf_condition (DailyTimer t) = (length (dt_lastExecutedTime t) = DAYS_PER_WEEK)"
| "wf_condition (DeviceData d) = (dd_operator d \<noteq> None \<and> dd_value d \<noteq> None
     \<and> di_deviceId (dd_deviceInfo d) \<noteq> None \<and> di_path (dd_deviceInfo d) \<noteq> None)"
| "wf_condition (SimpleTimer t) = True"

definition wf_rule :: "ruleInfo \<Rightarrow> bool" where
  "wf_rule r \<longleftrightarrow> ri_ruleId r \<noteq> None \<and> ri_ruleName r \<noteq> None \<and> ri_status r \<noteq> None \<and> ri_logic r \<noteq> None
     \<and> list_all wf_condition (ri_conditions r) \<and> list_all wf_action (ri_actions r)"

definition rules_inv :: "ruleInfo list \<Rightarrow> bool" where
  "rules_inv rs \<longleftrightarrow> list_all wf_rule rs \<and> distinct (map ri_ruleId rs)"

section \<open>Lemmas on the parsing functions\<close>

lemma dup_field_Some: "dup_field h s = Some v \<Longrightarrow> v = s \<and> s \<noteq> None"
  by (auto simp: dup_field_def CStrDuplicateNotNULL_def CStrDuplicate_def Let_def
      split: if_splits option.splits bool.splits)

lemma ParseCmdAction_wf: "ParseCmdAction h j = Some a \<Longrightarrow> wf_action a"
  by (auto simp: ParseCmdAction_def wf_action_def Let_def bind_Some_iff dest!: dup_field_Some)

lemma ParseDailyTimerCondition_wf:
  "ParseDailyTimerCondition j = Some t \<Longrightarrow> wf_condition (DailyTimer t)"
  by (auto simp: ParseDailyTimerCondition_def DailyTimerConditionCtor_def DAYS_PER_WEEK_def
      split: prod.splits if_splits)

lemma ParsePropCondition_wf:
  "ParsePropCondition h j = Some d \<Longrightarrow> wf_condition (DeviceData d)"
  by (auto simp: ParsePropCondition_def ParseDeviceInfo_def bind_Some_iff dest!: dup_field_Some)

lemma ParseSingleCondition_wf:
  "ParseSingleCondition h j = Some (Some c) \<Longrightarrow> wf_condition c"
  by (auto simp: ParseSingleCondition_def simp del: wf_condition.simps(2,3)
      split: option.splits conditionType.splits
      dest: ParseDailyTimerCondition_wf ParsePropCondition_wf)

lemma parse_conditions_wf:
  "parse_conditions h js cs = Some (Some cs') \<Longrightarrow> list_all wf_condition cs
    \<Longrightarrow> list_all wf_condition cs' \<and> length cs' = length cs + length js"
  by (induction h js cs rule: parse_conditions.induct)
     (auto split: if_splits option.splits dest: ParseSingleCondition_wf)

lemma parse_actions_wf:
  "parse_actions h js as = Some as' \<Longrightarrow> list_all wf_action as
    \<Longrightarrow> list_all wf_action as' \<and> length as' = length as + length js"
  by (induction h js as rule: parse_actions.induct)
     (auto split: if_splits option.splits dest: ParseCmdAction_wf)

lemma ParseSingleRule_wf:
  assumes "ParseSingleRule h rule = Some (Some r)"
  shows "wf_rule r \<and> ri_ruleId r = get_str rule ''ruleId''
    \<and> Some (ri_version r) = GetIntValueFromJson (GetObjectItem rule ''ruleVersionInShadow'')"
  using assms
  by (auto simp: ParseSingleRule_def wf_rule_def bind_Some_iff split: option.splits
      dest!: dup_field_Some parse_conditions_wf parse_actions_wf)

section \<open>The rule list: invariant and versions\<close>

lemma RuleListCheckExistence_index:
  assumes "list_all (\<lambda>r. ri_ruleId r \<noteq> None) rs" "ruleId \<noteq> None"
  shows "RuleListCheckExistence rs ruleId = Some (index_by (\<lambda>r. ri_ruleId r = ruleId) rs)"
  using assms by (induction rs) auto

lemma rules_inv_ids: "rules_inv rs \<Longrightarrow> list_all (\<lambda>r. ri_ruleId r \<noteq> None) rs"
  by (auto simp: rules_inv_def wf_rule_def list_all_iff)

lemma remove_at_index:
  "index_by P rs = Some i \<Longrightarrow> remove_at i rs = remove1_by P rs"
  by (auto simp: remove_at_def dest: index_by_Some)

lemma rules_inv_remove1_by: "rules_inv rs \<Longrightarrow> rules_inv (remove1_by (\<lambda>r. ri_ruleId r = i) rs)"
  using set_remove1_by [of "\<lambda>r. ri_ruleId r = i" rs]
  by (auto simp: rules_inv_def list_all_iff map_remove1_by distinct_remove1)

lemma in_remove1_by:
  assumes "distinct (map f rs)"
  shows "r \<in> set (remove1_by (\<lambda>r. f r = i) rs) \<longleftrightarrow> r \<in> set rs \<and> f r \<noteq> i"
  using remove1_by_distinct [OF assms, of i] by auto

text \<open>What one iteration may do to a list that satisfies the invariant.\<close>

definition newer_than :: "ruleInfo list \<Rightarrow> cstr \<Rightarrow> int \<Rightarrow> bool" where
  "newer_than list i v \<longleftrightarrow> list_all (\<lambda>r. ri_ruleId r = i \<longrightarrow> ri_version r < v) list"

lemma rule_step_cases:
  assumes inv: "rules_inv list" and step: "rule_step h hook rule list s = Some (go, list', s')"
  obtains (unchanged) "list' = list"
  | (dropped) i where "i = get_str (Some rule) ''ruleId''" "\<not> go"
      "list' = remove1_by (\<lambda>r. ri_ruleId r = i) list"
  | (replaced) i r where "i = get_str (Some rule) ''ruleId''" "go"
      "ParseSingleRule h (Some rule) = Some (Some r)" "ri_ruleId r = i" "newer_than list i (ri_version r)"
      "list' = remove1_by (\<lambda>r. ri_ruleId r = i) list @ [r]"
proof -
  let ?id = "get_str (Some rule) ''ruleId''"
  let ?P = "\<lambda>r. ri_ruleId r = ?id"
  consider "list' = list" | i v where "?id = Some i"
      "GetIntValueFromJson (GetObjectItem (Some rule) ''ruleVersionInShadow'') = Some v"
      "index_by ?P list = None" "insert_rule h hook rule list s = Some (go, list', s')"
    | i v j s1 where "?id = Some i"
      "GetIntValueFromJson (GetObjectItem (Some rule) ''ruleVersionInShadow'') = Some v"
      "index_by ?P list = Some j" "ri_version (list ! j) < v"
      "insert_rule h hook rule (remove1_by ?P list) s1 = Some (go, list', s')"
    using step RuleListCheckExistence_index [OF rules_inv_ids [OF inv]]
    by (auto simp: rule_step_def bind_Some_iff remove_at_index split: option.splits if_splits)
  then show ?thesis
  proof cases
    case 1
    then show ?thesis by (rule unchanged)
  next
    case (2 i v)
    have rm: "remove1_by ?P list = list" using 2(3) by (rule index_by_None)
    have "newer_than list ?id v"
      using 2(3) by (induction list) (auto simp: newer_than_def split: if_splits)
    with 2 rm show ?thesis
      using unchanged replaced ParseSingleRule_wf [of h "Some rule"]
      by (fastforce simp: insert_rule_def Let_def split: if_splits option.splits)
  next
    case (3 i v j s1)
    have j: "j < length list" "ri_ruleId (list ! j) = ?id" using index_by_Some [OF 3(3)] by simp_all
    have "newer_than list ?id v"
      unfolding newer_than_def list_all_length
    proof (intro allI impI)
      fix k assume "k < length list" "ri_ruleId (list ! k) = ?id"
      then have "k = j" using j inv
        by (metis rules_inv_def nth_eq_iff_index_eq length_map nth_map)
      then show "ri_version (list ! k) < v" using 3(4) by simp
    qed
    with 3 show ?thesis
      using dropped replaced ParseSingleRule_wf [of h "Some rule"]
      by (fastforce simp: insert_rule_def Let_def split: if_splits option.splits)
  qed
qed

lemma rule_step_inv:
  assumes "rules_inv list" "rule_step h hook rule list s = Some (go, list', s')"
  shows "rules_inv list'"
  using assms
proof (cases rule: rule_step_cases)
  case (replaced i r)
  have "wf_rule r" using ParseSingleRule_wf [OF replaced(3)] by simp
  moreover have "i \<notin> ri_ruleId ` set (remove1_by (\<lambda>r. ri_ruleId r = i) list)"
    using assms(1) by (auto simp: rules_inv_def in_remove1_by)
  ultimately show ?thesis
    using replaced rules_inv_remove1_by [OF assms(1), of i] by (auto simp: rules_inv_def)
qed (auto intro: rules_inv_remove1_by assms(1))

text \<open>No rule goes back to an older version, and a rule the payload does not name
  stays as it is.\<close>

definition upgrades :: "cstr set \<Rightarrow> ruleInfo list \<Rightarrow> ruleInfo list \<Rightarrow> bool" where
  "upgrades ids list list' \<longleftrightarrow>
     (\<forall>r\<in>set list. \<forall>r'\<in>set list'. ri_ruleId r' = ri_ruleId r \<longrightarrow> ri_version r \<le> ri_version r')
   \<and> (\<forall>r\<in>set list. ri_ruleId r \<notin> ids \<longrightarrow> r \<in> set list')"

definition keeps :: "ruleInfo list \<Rightarrow> ruleInfo list \<Rightarrow> bool" where
  "keeps list list' \<longleftrightarrow>
     (\<forall>r\<in>set list. \<exists>r'\<in>set list'. ri_ruleId r' = ri_ruleId r \<and> ri_version r \<le> ri_version r')"

lemma same_id: "rules_inv rs \<Longrightarrow> r \<in> set rs \<Longrightarrow> r' \<in> set rs \<Longrightarrow> ri_ruleId r = ri_ruleId r' \<Longrightarrow> r = r'"
  by (auto simp: rules_inv_def distinct_map inj_on_def)

lemma rule_step_upgrades:
  assumes inv: "rules_inv list" and step: "rule_step h hook rule list s = Some (go, list', s')"
  shows "upgrades {get_str (Some rule) ''ruleId''} list list' \<and> (go \<longrightarrow> keeps list list')"
  using inv step
proof (cases rule: rule_step_cases)
  case unchanged
  then show ?thesis using same_id [OF inv] by (auto simp: upgrades_def keeps_def)
next
  case (dropped i)
  then have "set list' = {r \<in> set list. ri_ruleId r \<noteq> i}"
    using inv by (auto simp: rules_inv_def in_remove1_by)
  then have "upgrades {i} list list'"
    unfolding upgrades_def using same_id [OF inv] by (metis (mono_tags, lifting) insertI1 mem_Collect_eq order_refl)
  then show ?thesis using dropped by simp
next
  case (replaced i r)
  have newer: "ri_version r0 < ri_version r" if "r0 \<in> set list" "ri_ruleId r0 = i" for r0
    using replaced(5) that by (auto simp: newer_than_def list_all_iff)
  have mem: "set list' = insert r {r \<in> set list. ri_ruleId r \<noteq> i}"
    using inv replaced(6) by (auto simp: rules_inv_def in_remove1_by)
  have "upgrades {i} list list'"
    unfolding upgrades_def mem
    using newer same_id [OF inv] replaced(4) by (fastforce intro: less_imp_le)
  moreover have "keeps list list'"
    unfolding keeps_def mem
  proof
    fix r0 assume "r0 \<in> set list"
    then show "\<exists>r'\<in>insert r {r \<in> set list. ri_ruleId r \<noteq> i}.
        ri_ruleId r' = ri_ruleId r0 \<and> ri_version r0 \<le> ri_version r'"
      using newer [of r0] replaced(4) by (cases "ri_ruleId r0 = i") (auto intro: less_imp_le)
  qed
  ultimately show ?thesis using replaced(1) by simp
qed

lemma upgrades_mono: "upgrades A l l' \<Longrightarrow> A \<subseteq> B \<Longrightarrow> upgrades B l l'"
  by (auto simp: upgrades_def)

lemma upgradesD:
  "upgrades B l l' \<Longrightarrow> q \<in> set l \<Longrightarrow> r' \<in> set l' \<Longrightarrow> ri_ruleId r' = ri_ruleId q
    \<Longrightarrow> ri_version q \<le> ri_version r'"
  unfolding upgrades_def by blast

lemma upgradesI:
  assumes "\<And>r r'. r \<in> set l \<Longrightarrow> r' \<in> set l' \<Longrightarrow> ri_ruleId r' = ri_ruleId r \<Longrightarrow> ri_version r \<le> ri_version r'"
    and "\<And>r. r \<in> set l \<Longrightarrow> ri_ruleId r \<notin> B \<Longrightarrow> r \<in> set l'"
  shows "upgrades B l l'"
  using assms unfolding upgrades_def by blast

lemma upgrades_trans:
  assumes "keeps l1 l2" "upgrades A l1 l2" "upgrades B l2 l3" "rules_inv l2"
  shows "upgrades (A \<union> B) l1 l3"
proof (rule upgradesI)
  fix r r' assume r: "r \<in> set l1" "r' \<in> set l3" "ri_ruleId r' = ri_ruleId r"
  obtain q where q: "q \<in> set l2" "ri_ruleId q = ri_ruleId r" "ri_version r \<le> ri_version q"
    using assms(1) r(1) unfolding keeps_def by blast
  have "ri_version q \<le> ri_version r'"
    by (rule upgradesD [OF assms(3) q(1) r(2)]) (simp add: r(3) q(2))
  with q(3) show "ri_version r \<le> ri_version r'" by (rule order_trans)
next
  fix r assume "r \<in> set l1" "ri_ruleId r \<notin> A \<union> B"
  then show "r \<in> set l3" using assms(2,3) unfolding upgrades_def by blast
qed

lemma parse_rules_correct:
  "rules_inv list \<Longrightarrow> parse_rules h hook rules list s = Some (list', s')
    \<Longrightarrow> rules_inv list' \<and> upgrades ((\<lambda>r. get_str (Some r) ''ruleId'') ` set rules) list list'"
proof (induction rules arbitrary: list s)
  case Nil
  then show ?case using same_id by (auto simp: upgrades_def)
next
  case (Cons rule rules)
  then obtain go list1 s1 where step: "rule_step h hook rule list s = Some (go, list1, s1)"
    and rest: "if go then parse_rules h hook rules list1 s1 = Some (list', s') else list' = list1"
    by (auto simp: bind_Some_iff split: if_splits)
  note inv1 = rule_step_inv [OF Cons.prems(1) step]
  note up1 = rule_step_upgrades [OF Cons.prems(1) step]
  show ?case
  proof (cases go)
    case True
    then have "rules_inv list' \<and> upgrades ((\<lambda>r. get_str (Some r) ''ruleId'') ` set rules) list1 list'"
      using Cons.IH [OF inv1, of s1] rest by simp
    with True up1 inv1 show ?thesis
      using upgrades_trans [of list list1 "{get_str (Some rule) ''ruleId''}"] by auto
  next
    case False
    with rest up1 inv1 show ?thesis by (auto intro: upgrades_mono)
  qed
qed

section \<open>Properties\<close>

definition payload_ids :: "json option \<Rightarrow> cstr set" where
  "payload_ids paras =
     (\<lambda>r. get_str (Some r) ''ruleId'') ` set (map snd (child_list (GetObjectItem paras ''rulesInfos'')))"

lemma ParseDeviceRuleWithHook_correct:
  assumes "rules_inv list" "ParseDeviceRuleWithHook h list paras s hook = Some (list', s')"
  shows "rules_inv list' \<and> upgrades (payload_ids paras) list list'"
proof (cases "GetObjectItem paras ''rulesInfos''")
  case None
  then have "list' = list" using assms(2)
    by (auto simp: ParseDeviceRuleWithHook_def split: option.splits)
  then show ?thesis using assms(1) same_id [OF assms(1)] by (auto intro: upgradesI)
next
  case (Some rules)
  then have "parse_rules h hook (map snd (children rules)) list s = Some (list', s')"
    using assms(2) by (cases paras) (simp_all add: ParseDeviceRuleWithHook_def)
  from parse_rules_correct [OF assms(1) this] show ?thesis
    by (simp add: payload_ids_def Some)
qed

text \<open>
  C3. Parsing a rule payload keeps the invariant of the rule list, whatever the
  payload holds and whichever allocations fail: rule ids stay distinct, every
  rule has its id, name, status and logic, every condition has a known type with
  all its fields, and every action has all its strings and its body.\<close>

theorem ParseDeviceRule_inv:
  assumes "rules_inv list" and "ParseDeviceRuleWithHook h list paras s hook = Some (list', s')"
  shows "rules_inv list'"
  using ParseDeviceRuleWithHook_correct [OF assms] by simp

definition sample_action_json :: json where
  "sample_action_json = JObject [(''type'', JString ''DEVICE_CMD''), (''status'', JString ''enable''),
     (''deviceId'', JString ''d2''),
     (''command'', JObject [(''commandName'', JString ''on''), (''serviceId'', JString ''lamp''),
        (''commandBody'', JObject [])])]"

definition sample_rule_json :: "string \<Rightarrow> int \<Rightarrow> json" where
  "sample_rule_json i v = JObject [(''ruleId'', JString i), (''ruleName'', JString ''n''),
     (''status'', JString ''active''), (''logic'', JString ''or''),
     (''ruleVersionInShadow'', JNumber (of_int v)),
     (''conditions'', JArray [JObject [(''type'', JString ''DAILY_TIMER''),
        (''time'', JString ''8:30''), (''daysOfWeek'', JString ''1,2'')]]),
     (''actions'', JArray [sample_action_json])]"

definition sample_action :: action where
  "sample_action = \<lparr>action_type = Some ''DEVICE_CMD'', action_status = Some ''enable'',
     action_deviceId = Some ''d2'', action_command = \<lparr>commandName = Some ''on'',
       commandBody = Some (JObject []), command_serviceId = Some ''lamp''\<rparr>\<rparr>"

definition sample_rule :: "string \<Rightarrow> int \<Rightarrow> ruleInfo" where
  "sample_rule i v = \<lparr>ri_ruleId = Some i, ri_ruleName = Some ''n'', ri_logic = Some ''or'',
     ri_timeRange = TimeRangeCtor, ri_status = Some ''active'',
     ri_conditions = [DailyTimer \<lparr>dt_time = 30600, dt_daysOfWeek = 6, dt_lastExecutedTime = replicate 7 0\<rparr>],
     ri_actions = [sample_action], ri_version = v\<rparr>"

definition payload_of :: "json list \<Rightarrow> json option" where
  "payload_of rules = Some (JObject [(''rulesInfos'', JArray rules)])"

lemma dup_field_ok: "length s + 1 < INT32_MAX \<Longrightarrow> dup_field rheap_ok (Some s) = Some (Some s)"
  by (simp add: dup_field_def CStrDuplicateNotNULL_def CStrDuplicate_def rheap_ok_def Let_def)

lemmas sample_eval = sample_rule_json_def sample_action_json_def sample_rule_def sample_action_def
  empty_rule_def RuleInfoCtor_def get_str_def same_key_def to_lower_def chr_def

lemma rheap_ok_rule [simp]: "rh_rule rheap_ok n" "rh_cond rheap_ok n" "rh_act rheap_ok n"
  by (simp_all add: rheap_ok_def)

lemma sample_time: "ConvertTimeStrToSeconds 0 (Some ''8:30'') = (True, 30600)"
  by (simp add: ConvertTimeStrToSeconds_def sscanf_ints_def scan_int_def is_space_def is_digit_def
      chr_def read_nat_def digit_val_def field_def HHMMSStoSecond_def)

lemma sample_days: "SaveDaysOfWeek 0 (Some ''1,2'') = (True, 6)"
  by (simp add: SaveDaysOfWeek_def save_days_loop.simps is_sep_def is_digit_def chr_def)

lemma sample_rule_parses:
  assumes "INT_MIN \<le> v" "v \<le> INT_MAX" "length i < 100"
  shows "ParseSingleRule rheap_ok (Some (sample_rule_json i v)) = Some (Some (sample_rule i v))"
  using assms
  by (simp add: ParseSingleRule_def sample_eval dup_field_ok INT32_MAX_def GetIntValueFromJson_def
      ParseTimeRange_def ParseSingleCondition_def ConditionTypeFromStr_def ParseDailyTimerCondition_def
      sample_time sample_days ParseCmdAction_def rheap_ok_rule DailyTimerConditionCtor_def DAYS_PER_WEEK_def)

lemma ParseDeviceRule_correct:
  assumes "rules_inv list" "ParseDeviceRule h list paras = Some list'"
  shows "rules_inv list' \<and> upgrades (payload_ids paras) list list'"
proof -
  obtain s' where "ParseDeviceRuleWithHook h list paras () (\<lambda>_ _ s. s) = Some (list', s')"
    using assms(2) unfolding ParseDeviceRule_def map_option_eq_Some by (metis prod.collapse)
  from ParseDeviceRuleWithHook_correct [OF assms(1) this] show ?thesis .
qed

text \<open>
  C5. Parsing never downgrades a rule and never touches a rule the payload does not
  name: after it, a rule with the id of an old one has at least the old version,
  and every old rule whose id is not among the payload's is still there unchanged.\<close>

theorem ParseDeviceRule_versions:
  assumes "rules_inv list" and "ParseDeviceRule h list paras = Some list'"
  shows "(\<forall>r\<in>set list. \<forall>r'\<in>set list'. ri_ruleId r' = ri_ruleId r \<longrightarrow> ri_version r \<le> ri_version r')
    \<and> (\<forall>r\<in>set list. ri_ruleId r \<notin> payload_ids paras \<longrightarrow> r \<in> set list')"
  using ParseDeviceRule_correct [OF assms] unfolding upgrades_def by blast

lemma sample_rule_fields [simp]:
  "ri_ruleId (sample_rule i v) = Some i" "ri_version (sample_rule i v) = v"
  by (simp_all add: sample_rule_def)

lemma sample_rule_wf: "wf_rule (sample_rule i v)"
  by (simp add: wf_rule_def wf_action_def sample_rule_def sample_action_def DAYS_PER_WEEK_def)

lemma sample_payload [simp]:
  "GetObjectItem (payload_of rules) ''rulesInfos'' = Some (JArray rules)"
  by (simp add: payload_of_def)

lemma sample_rule_keys [simp]:
  "get_str (Some (sample_rule_json i v)) ''ruleId'' = Some i"
  "INT_MIN \<le> v \<Longrightarrow> v \<le> INT_MAX \<Longrightarrow> GetIntValueFromJson
     (GetObjectItem (Some (sample_rule_json i v)) ''ruleVersionInShadow'') = Some v"
  by (simp_all add: sample_eval GetIntValueFromJson_def)

lemma sample_replaces:
  assumes "INT_MIN \<le> v" "v \<le> INT_MAX" "w < v"
  shows "ParseDeviceRuleWithHook rheap_ok [sample_rule ''r1'' w] (payload_of [sample_rule_json ''r1'' v]) s
    (\<lambda>_ _ s. s) = Some ([sample_rule ''r1'' v], s)"
proof -
  show ?thesis
    using assms sample_payload [of "[sample_rule_json ''r1'' v]"]
    by (simp add: ParseDeviceRuleWithHook_def payload_of_def rule_step_def insert_rule_def
        remove_at_def sample_rule_parses Let_def)
qed

theorem ParseDeviceRule_inv_witness:
  "rules_inv [sample_rule ''r1'' 3]"
  by (rule ParseDeviceRule_inv [OF _ sample_replaces [of 3 2 "()"]])
     (simp_all add: rules_inv_def sample_rule_wf INT_MIN_def INT_MAX_def)

theorem ParseDeviceRule_versions_witness:
  "ParseDeviceRule rheap_ok [sample_rule ''r1'' 2] (payload_of [sample_rule_json ''r1'' 3])
      = Some [sample_rule ''r1'' 3]
   \<and> ri_version (sample_rule ''r1'' 2) \<le> ri_version (sample_rule ''r1'' 3)"
proof -
  have run: "ParseDeviceRule rheap_ok [sample_rule ''r1'' 2] (payload_of [sample_rule_json ''r1'' 3])
      = Some [sample_rule ''r1'' 3]"
    unfolding ParseDeviceRule_def by (subst sample_replaces) (simp_all add: INT_MIN_def INT_MAX_def)
  have "rules_inv [sample_rule ''r1'' 2]" by (simp add: rules_inv_def sample_rule_wf)
  from ParseDeviceRule_versions [OF this run] run show ?thesis
    by (simp add: sample_rule_def)
qed

text \<open>
  An update that turns out malformed loses the rule it was meant to replace: when
  the payload holds a newer version of an existing rule that does not parse, the
  old rule has already been removed and nothing takes its place.\<close>

theorem ParseDeviceRule_failed_update_loses_rule:
  assumes "rules_inv list" "r \<in> set list" "ri_ruleId r = get_str (Some rule) ''ruleId''"
    and "GetIntValueFromJson (GetObjectItem (Some rule) ''ruleVersionInShadow'') = Some v"
    and "ri_version r < v" and "ParseSingleRule h (Some rule) = Some None"
  shows "ParseDeviceRule h list (payload_of (rule # rest))
    = Some (filter (\<lambda>q. ri_ruleId q \<noteq> ri_ruleId r) list)"
proof -
  have "ri_ruleId r \<noteq> None"
    using assms(1,2) by (auto simp: rules_inv_def wf_rule_def list_all_iff)
  then obtain i where i: "get_str (Some rule) ''ruleId'' = Some i"
    using assms(3) by auto
  let ?P = "\<lambda>q. ri_ruleId q = Some i"
  obtain j where j: "index_by ?P list = Some j"
    using assms(2,3) i index_by_None_iff [of ?P list] by (cases "index_by ?P list") auto
  have "list ! j = r"
    using index_by_Some [OF j] same_id [OF assms(1), of "list ! j" r] assms(2,3) i by auto
  moreover have "remove_at j list = filter (\<lambda>q. ri_ruleId q \<noteq> ri_ruleId r) list"
    using remove_at_index [OF j] assms(1,3) i by (simp add: rules_inv_def remove1_by_distinct)
  ultimately show ?thesis
    using assms i j RuleListCheckExistence_index [OF rules_inv_ids [OF assms(1)], of "Some i"]
    by (simp add: ParseDeviceRule_def ParseDeviceRuleWithHook_def payload_of_def rule_step_def
        insert_rule_def Let_def)
qed

definition bad_rule_json :: json where
  "bad_rule_json = JObject [(''ruleId'', JString ''r1''), (''ruleVersionInShadow'', JNumber 3)]"

theorem ParseDeviceRule_failed_update_loses_rule_witness:
  "ParseDeviceRule rheap_ok [sample_rule ''r1'' 2] (payload_of [bad_rule_json]) = Some []"
proof -
  have "ParseDeviceRule rheap_ok [sample_rule ''r1'' 2] (payload_of [bad_rule_json])
    = Some (filter (\<lambda>q. ri_ruleId q \<noteq> ri_ruleId (sample_rule ''r1'' 2)) [sample_rule ''r1'' 2])"
    by (rule ParseDeviceRule_failed_update_loses_rule [where v = 3])
       (simp_all add: rules_inv_def sample_rule_wf bad_rule_json_def get_str_def same_key_def to_lower_def
          chr_def sample_rule_fields GetIntValueFromJson_def
          ParseSingleRule_def dup_field_def CStrDuplicateNotNULL_def CStrDuplicate_def INT32_MAX_def rheap_ok_def
          INT_MAX_def Let_def)
  then show ?thesis by simp
qed

section \<open>Deletion and the version report\<close>

lemma DeletRulesFromList_fold:
  assumes "list_all (\<lambda>r. ri_ruleId r \<noteq> None) list" "list_all (\<lambda>d. ri_ruleId d \<noteq> None) dels"
  shows "DeletRulesFromList list dels
    = Some (fold (\<lambda>d. remove1_by (\<lambda>r. ri_ruleId r = ri_ruleId d)) dels list)"
  using assms
proof (induction list dels rule: DeletRulesFromList.induct)
  case (2 list d dels)
  let ?P = "\<lambda>r. ri_ruleId r = ri_ruleId d"
  have found: "RuleListCheckExistence list (ri_ruleId d) = Some (index_by ?P list)"
    using 2 by (intro RuleListCheckExistence_index) auto
  have step: "(case index_by ?P list of None \<Rightarrow> list | Some i \<Rightarrow> remove_at i list) = remove1_by ?P list"
    by (auto simp: remove_at_index split: option.splits dest: index_by_None)
  have "list_all (\<lambda>r. ri_ruleId r \<noteq> None) (remove1_by ?P list)"
    using 2(2) set_remove1_by [of ?P list] by (auto simp: list_all_iff)
  then show ?case using 2 found step by simp
qed simp

lemma fold_remove1_by:
  "rules_inv list \<Longrightarrow> fold (\<lambda>d. remove1_by (\<lambda>r. ri_ruleId r = ri_ruleId d)) dels list
     = filter (\<lambda>r. ri_ruleId r \<notin> ri_ruleId ` set dels) list"
proof (induction dels arbitrary: list)
  case (Cons d dels)
  have "remove1_by (\<lambda>r. ri_ruleId r = ri_ruleId d) list = filter (\<lambda>r. ri_ruleId r \<noteq> ri_ruleId d) list"
    using Cons.prems by (intro remove1_by_distinct) (simp add: rules_inv_def)
  then show ?case
    using Cons.IH [OF rules_inv_remove1_by [OF Cons.prems, of "ri_ruleId d"]]
    by (auto intro: filter_cong)
qed simp

text \<open>
  DeletRulesFromList, run as the search and RemoveItem loops on the growable
  array, removes exactly the rules whose id is in the deletion list and keeps the
  others in order; the array stays well formed.\<close>

theorem DeletRulesFromList_removes:
  assumes "arr_inv k arr" "rules_inv (elems arr)" "list_all (\<lambda>d. ri_ruleId d \<noteq> None) dels"
  shows "DeletRulesFromList (elems arr) dels
      = Some (filter (\<lambda>r. ri_ruleId r \<notin> ri_ruleId ` set dels) (elems arr))
    \<and> elems (seq_store.delete_all elems (arr_remove k) (\<lambda>d r. ri_ruleId r = ri_ruleId d) dels arr)
      = filter (\<lambda>r. ri_ruleId r \<notin> ri_ruleId ` set dels) (elems arr)
    \<and> arr_inv k (seq_store.delete_all elems (arr_remove k) (\<lambda>d r. ri_ruleId r = ri_ruleId d) dels arr)"
  using DeletRulesFromList_fold [OF rules_inv_ids [OF assms(2)] assms(3)]
    fold_remove1_by [OF assms(2), of dels]
    dyn.delete_all_els [OF assms(1), of "\<lambda>d r. ri_ruleId r = ri_ruleId d" dels]
  by simp

theorem DeletRulesFromList_removes_witness:
  "DeletRulesFromList [sample_rule ''r1'' 2, sample_rule ''r2'' 5] [sample_rule ''r1'' 0]
     = Some [sample_rule ''r2'' 5]"
proof -
  let ?arr = "\<lparr>d_size = 2, d_reserved = 2, d_items = [sample_rule ''r1'' 2, sample_rule ''r2'' 5]\<rparr>"
  have "arr_inv 104 ?arr" by (simp add: arr_inv_def EXPEND_SIZE_def SECUREC_MEM_MAX_LEN_def)
  moreover have e: "elems ?arr = [sample_rule ''r1'' 2, sample_rule ''r2'' 5]" by (simp add: elems_def)
  moreover have "rules_inv (elems ?arr)" unfolding e by (simp add: rules_inv_def sample_rule_wf)
  ultimately show ?thesis
    using DeletRulesFromList_removes [of 104 ?arr "[sample_rule ''r1'' 0]"] by simp
qed

text \<open>What the cloud's report of versions means for the device: \<open>-1\<close> asks for the
  deletion of a rule, a version newer than the one held for its request.\<close>

definition reported_version :: "json \<Rightarrow> int option" where
  "reported_version p = GetIntValueFromJson (GetObjectItem (Some p) ''version'')"

definition to_delete :: "string \<times> json \<Rightarrow> bool" where
  "to_delete = (\<lambda>(i, p). reported_version p = Some (-1))"

definition to_add :: "ruleInfo list \<Rightarrow> string \<times> json \<Rightarrow> bool" where
  "to_add list = (\<lambda>(i, p). reported_version p \<noteq> Some (-1)
     \<and> list_all (\<lambda>r. ri_ruleId r = Some i \<longrightarrow> ri_version r < the (reported_version p)) list)"

definition id_rule :: "string \<times> json \<Rightarrow> ruleInfo" where
  "id_rule = (\<lambda>(i, p). empty_rule \<lparr>ri_ruleId := Some i, ri_version := the (reported_version p)\<rparr>)"

lemma newest_check:
  assumes "rules_inv list"
  shows "(case index_by (\<lambda>r. ri_ruleId r = Some i) list of None \<Rightarrow> True | Some j \<Rightarrow> ri_version (list ! j) < v)
    \<longleftrightarrow> list_all (\<lambda>r. ri_ruleId r = Some i \<longrightarrow> ri_version r < v) list"
proof (cases "index_by (\<lambda>r. ri_ruleId r = Some i) list")
  case None
  then have "\<forall>r\<in>set list. ri_ruleId r \<noteq> Some i" by (simp add: index_by_None_iff)
  then show ?thesis using None by (simp add: list_all_iff)
next
  case (Some j)
  have j: "list ! j \<in> set list" "ri_ruleId (list ! j) = Some i" using index_by_Some [OF Some] by auto
  have "ri_version (list ! j) < v \<longleftrightarrow> (\<forall>r\<in>set list. ri_ruleId r = Some i \<longrightarrow> ri_version r < v)"
  proof
    assume lt: "ri_version (list ! j) < v"
    show "\<forall>r\<in>set list. ri_ruleId r = Some i \<longrightarrow> ri_version r < v"
    proof (intro ballI impI)
      fix r assume "r \<in> set list" "ri_ruleId r = Some i"
      then have "r = list ! j" using same_id [OF assms, of r "list ! j"] j by simp
      then show "ri_version r < v" using lt by simp
    qed
  qed (use j in blast)
  then show ?thesis by (simp add: Some list_all_iff)
qed

lemma GetRuleInfoList_split:
  assumes "rules_inv list"
    and "list_all (\<lambda>(i, p). reported_version p \<noteq> None \<and> length i + 1 < INT32_MAX) kvs"
  shows "GetRuleInfoList rheap_ok list (Some (JObject kvs)) dels adds
    = Some (True, dels @ map id_rule (filter to_delete kvs), adds @ map id_rule (filter (to_add list) kvs))"
proof -
  have "get_rule_info rheap_ok list (map (\<lambda>(k, v). (Some k, v)) kvs) dels adds
    = Some (True, dels @ map id_rule (filter to_delete kvs), adds @ map id_rule (filter (to_add list) kvs))"
    using assms(2)
  proof (induction kvs arbitrary: dels adds)
    case (Cons kv kvs)
    obtain i p where kv: "kv = (i, p)" by (cases kv)
    obtain v where v: "reported_version p = Some v" using Cons.prems kv by auto
    have push: "push_id rheap_ok (Some i) v l = Some (True, l @ [id_rule (i, p)])" for l
      using Cons.prems kv v
      by (simp add: push_id_def CStrDuplicate_def id_rule_def Let_def) (simp add: rheap_ok_def)
    have "list_all (\<lambda>(i, p). reported_version p \<noteq> None \<and> length i + 1 < INT32_MAX) kvs"
      using Cons.prems by simp
    note IH = Cons.IH [OF this]
    note found = RuleListCheckExistence_index [OF rules_inv_ids [OF assms(1)], of "Some i"]
    have ver: "GetIntValueFromJson (GetObjectItem (Some p) ''version'') = Some v"
      using v by (simp add: reported_version_def)
    show ?case
    proof (cases "v = -1")
      case True
      then show ?thesis
        using push ver v IH found by (simp add: kv to_delete_def to_add_def)
    next
      case False
      then show ?thesis
        using push ver v IH found newest_check [OF assms(1), where i = i and v = v]
        by (simp add: kv to_delete_def to_add_def)
    qed
  qed simp
  then show ?thesis by (simp add: GetRuleInfoList_def)
qed

text \<open>
  GetRuleInfoList splits the reported versions correctly: when allocations succeed
  and every reported version is a number, the deletion list receives, in order,
  the rules reported with version -1 and the addition list those with a version
  newer than the one held (or not held at all); rules that are up to date go in
  neither.\<close>

theorem GetRuleInfoList_splits:
  assumes "rules_inv list"
    and "list_all (\<lambda>(i, p). reported_version p \<noteq> None \<and> length i + 1 < INT32_MAX) kvs"
  shows "GetRuleInfoList rheap_ok list (Some (JObject kvs)) dels adds
    = Some (True, dels @ map id_rule (filter to_delete kvs), adds @ map id_rule (filter (to_add list) kvs))"
  using assms by (rule GetRuleInfoList_split)

theorem GetRuleInfoList_splits_witness:
  "GetRuleInfoList rheap_ok [sample_rule ''r1'' 2]
     (Some (JObject [(''r1'', JObject [(''version'', JNumber 3)]), (''r2'', JObject [(''version'', JNumber (-1))])])) [] []
   = Some (True, [empty_rule \<lparr>ri_ruleId := Some ''r2'', ri_version := -1\<rparr>],
                 [empty_rule \<lparr>ri_ruleId := Some ''r1'', ri_version := 3\<rparr>])"
proof -
  have sat: "double_to_int_sat (-1) = -1"
    using double_to_int_sat_int [of "-1"] by (simp add: INT_MIN_def INT_MAX_def)
  have v: "reported_version (JObject [(''version'', JNumber 3)]) = Some 3"
    "reported_version (JObject [(''version'', JNumber (-1))]) = Some (-1)"
    by (simp_all add: reported_version_def GetIntValueFromJson_def sat INT_MAX_def)
  have inv: "rules_inv [sample_rule ''r1'' 2]" by (simp add: rules_inv_def sample_rule_wf)
  let ?kvs = "[(''r1'', JObject [(''version'', JNumber 3)]), (''r2'', JObject [(''version'', JNumber (-1))])]"
  have short: "list_all (\<lambda>(i, p). reported_version p \<noteq> None \<and> length i + 1 < INT32_MAX) ?kvs"
    by (simp add: v INT32_MAX_def)
  have "map id_rule (filter to_delete ?kvs) = [empty_rule \<lparr>ri_ruleId := Some ''r2'', ri_version := -1\<rparr>]"
    "map id_rule (filter (to_add [sample_rule ''r1'' 2]) ?kvs)
       = [empty_rule \<lparr>ri_ruleId := Some ''r1'', ri_version := 3\<rparr>]"
    by (simp_all add: v to_delete_def to_add_def id_rule_def)
  then show ?thesis
    using GetRuleInfoList_splits [OF inv short, of "[]" "[]"] by (simp only: append_Nil)
qed

end
