(* ===== verification/RuleExec.thy ===== *)
theory RuleExec
  imports RuleParser "HOL-Library.Signed_Division"
begin

text \<open>
  src/service/device\_rule/rule\_execution.c: evaluation of the conditions of the
  rules at a point in time and execution of the actions of those that hold.
  \<^term>\<open>None\<close> is undefined behaviour, \<^term>\<open>Some None\<close> the returned HW\_FALSE.  The
  property callback may also return HW\_TRUE without writing the value, which the
  caller then reads uninitialised.  Times are seconds since the epoch; gmtime\_r is
  computed on them; strtod is exact on decimal notation (hexadecimal numbers,
  infinities and NaN are outside the model).
\<close>

section \<open>Property values\<close>

datatype propertyValue = PVInt int | PVDouble rat | PVFloat | PVCStr string

datatype propertyType = TInt | TDouble | TFloat | TCStr

fun pv_type :: "propertyValue \<Rightarrow> propertyType" where
  "pv_type (PVInt _) = TInt"
| "pv_type (PVDouble _) = TDouble"
| "pv_type PVFloat = TFloat"
| "pv_type (PVCStr _) = TCStr"

definition PropertyValueSetInt :: "int \<Rightarrow> propertyValue" where
  "PropertyValueSetInt val = PVInt val"

definition PropertyValueSetDouble :: "rat \<Rightarrow> propertyValue" where
  "PropertyValueSetDouble val = PVDouble val"

definition PropertyValueSetCStr :: "string \<Rightarrow> propertyValue" where
  "PropertyValueSetCStr val = PVCStr val"

text \<open>The sign of strcmp.\<close>

fun strcmp :: "string \<Rightarrow> string \<Rightarrow> int" where
  "strcmp [] [] = 0"
| "strcmp [] (_ # _) = -1"
| "strcmp (_ # _) [] = 1"
| "strcmp (a # s) (b # t) =
    (if chr a < chr b then -1 else if chr b < chr a then 1 else strcmp s t)"

definition three_way :: "bool \<Rightarrow> bool \<Rightarrow> int" where
  "three_way isSmaller isBigger = (if isSmaller then -1 else if isBigger then 1 else 0)"

fun PropertyValueCompare :: "propertyValue \<Rightarrow> propertyValue \<Rightarrow> int option" where
  "PropertyValueCompare (PVInt a) (PVInt b) = Some (three_way (a < b) (a > b))"
| "PropertyValueCompare (PVDouble a) (PVDouble b) = Some (three_way (a < b) (a > b))"
| "PropertyValueCompare (PVCStr a) (PVCStr b) = Some (strcmp a b)"
| "PropertyValueCompare _ _ = None"

text \<open>The converted value and the rest of the text; \<^term>\<open>None\<close> when nothing converts.\<close>

definition strtod :: "string \<Rightarrow> (rat \<times> string) option" where
  "strtod s =
    (let t = dropWhile is_space s;
         (neg, u) = (case t of [] \<Rightarrow> (False, [])
           | c # r \<Rightarrow> if c = CHR ''-'' then (True, r) else if c = CHR ''+'' then (False, r) else (False, t));
         i = takeWhile is_digit u;
         u1 = dropWhile is_digit u;
         (f, u2) = (case u1 of [] \<Rightarrow> ([], [])
           | c # r \<Rightarrow> if c = CHR ''.'' then (takeWhile is_digit r, dropWhile is_digit r) else ([], u1));
         m = of_nat (read_nat i) + of_nat (read_nat f) / 10 ^ length f;
         (sc, rest) = (case u2 of [] \<Rightarrow> (1, [])
           | c # r \<Rightarrow> if c = CHR ''e'' \<or> c = CHR ''E'' then
               (let (eneg, v) = (case r of [] \<Rightarrow> (False, [])
                   | c # q \<Rightarrow> if c = CHR ''-'' then (True, q) else if c = CHR ''+'' then (False, q) else (False, r));
                  e = takeWhile is_digit v
                in if e = [] then (1, u2)
                   else (if eneg then 1 / 10 ^ read_nat e else 10 ^ read_nat e, dropWhile is_digit v))
             else (1, u2))
     in if i = [] \<and> f = [] then None else Some ((if neg then - m else m) * sc, rest))"

section \<open>Timers\<close>

record gm =
  gm_wday :: int
  gm_hour :: int
  gm_min :: int
  gm_sec :: int

definition gmtime_r :: "int \<Rightarrow> gm" where
  "gmtime_r t = \<lparr>gm_wday = (t div 86400 + 4) mod 7, gm_hour = t mod 86400 div 3600,
     gm_min = t mod 3600 div 60, gm_sec = t mod 60\<rparr>"

definition day_bit :: "daysOfWeekRecord \<Rightarrow> int \<Rightarrow> bool" where
  "day_bit d wday \<longleftrightarrow> (d AND push_bit (nat (wday + 1)) 1) \<noteq> 0"

definition second_of_day :: "gm \<Rightarrow> int" where
  "second_of_day g = HHMMSStoSecond (gm_hour g) (gm_min g) (gm_sec g)"

definition CalculateDailyTimerCondition :: "dailyTimerCondition \<Rightarrow> int \<Rightarrow> bool" where
  "CalculateDailyTimerCondition condition epochTime =
    (let time = gmtime_r epochTime in
     if day_bit (dt_daysOfWeek condition) (gm_wday time) then
       (let sec = second_of_day time in
        if dt_time condition \<le> sec \<and> sec < dt_time condition + 60 then
          epochTime - dt_lastExecutedTime condition ! nat (gm_wday time) \<ge> 60
        else False)
     else False)"

definition DailyTimerConditionMarkDayIsExecuted ::
  "dailyTimerCondition \<Rightarrow> int \<Rightarrow> dailyTimerCondition" where
  "DailyTimerConditionMarkDayIsExecuted condition epochTime =
    (let time = gmtime_r epochTime in
     if day_bit (dt_daysOfWeek condition) (gm_wday time) then
       (let sec = second_of_day time in
        if sec \<ge> dt_time condition \<and> sec < dt_time condition + 60 then
          condition \<lparr>dt_lastExecutedTime := (dt_lastExecutedTime condition)[nat (gm_wday time) := epochTime]\<rparr>
        else condition)
     else condition)"

text \<open>The difference is converted from double to int, undefined beyond INT\_MAX; a
  repeat interval of 0 is a division by zero.\<close>

definition CalculateSimpleTimerCondition :: "simpleTimerCondition \<Rightarrow> int \<Rightarrow> bool option" where
  "CalculateSimpleTimerCondition condition epochTime =
    (if epochTime < st_startTime condition then Some False
     else do {
       let diff = epochTime - st_startTime condition;
       guard_ub (diff \<le> INT_MAX);
       guard_ub (st_repeatInterval condition \<noteq> 0);
       if diff smod st_repeatInterval condition \<noteq> 0 then Some False
       else Some (\<not> (diff sdiv st_repeatInterval condition \<ge> st_repeatCount condition)) })"

section \<open>Device data conditions\<close>

text \<open>What the property callback does: return HW\_FALSE, write a value, return HW\_TRUE
  with nothing written, or run into undefined behaviour itself.\<close>

datatype prop_read = ReadFails | ReadValue propertyValue | ReadUnset | ReadUndefined

type_synonym getProperty = "string \<Rightarrow> string \<Rightarrow> prop_read"

definition GetPropertyValueByPath :: "heap \<Rightarrow> getProperty \<Rightarrow> cstr \<Rightarrow> prop_read option" where
  "GetPropertyValueByPath mem callback path = do {
     p \<leftarrow> deref path;
     let service = takeWhile (\<lambda>c. c \<noteq> CHR ''/'') p;
     if length p = length service then Some ReadFails
     else if \<not> mem (length service + 1) then Some ReadFails
     else (case strncpy_s (length service + 1) (Some p) (length service) of
        None \<Rightarrow> Some ReadFails
      | Some sv \<Rightarrow> (case callback sv (drop (length service + 1) p) of
          ReadUndefined \<Rightarrow> None | r \<Rightarrow> Some r)) }"

fun StrToPropertyValue :: "string \<Rightarrow> propertyType \<Rightarrow> propertyValue option" where
  "StrToPropertyValue v TInt = (case strtod v of None \<Rightarrow> None
     | Some (number, _) \<Rightarrow> Some (PVInt (double_to_int_sat number)))"
| "StrToPropertyValue v TDouble = (case strtod v of None \<Rightarrow> None
     | Some (number, _) \<Rightarrow> Some (PVDouble number))"
| "StrToPropertyValue v TCStr = Some (PVCStr v)"
| "StrToPropertyValue v TFloat = None"

text \<open>A bound that does not convert is only logged and counts as 0.\<close>

definition bound_at :: "string \<Rightarrow> rat \<times> string" where
  "bound_at s = (case strtod s of None \<Rightarrow> (0, s) | Some r \<Rightarrow> r)"

definition CalculateDeviceDataRangeCodition ::
  "heap \<Rightarrow> getProperty \<Rightarrow> deviceDataCondition \<Rightarrow> bool option option" where
  "CalculateDeviceDataRangeCodition mem callback condition = do {
     readProperty \<leftarrow> GetPropertyValueByPath mem callback (di_path (dd_deviceInfo condition));
     if readProperty = ReadFails then Some None
     else do {
       rangeStr \<leftarrow> deref (dd_value condition);
       let (valueLeftBoundry, numberEnd) = bound_at rangeStr;
       if numberEnd = [] then Some None
       else do {
         let valueRightBoundry = fst (bound_at (tl numberEnd));
         case readProperty of
           ReadUnset \<Rightarrow> None
         | ReadUndefined \<Rightarrow> None
         | ReadFails \<Rightarrow> Some None
         | ReadValue v \<Rightarrow> Some (case v of
             PVInt i \<Rightarrow> Some (of_int i \<ge> valueLeftBoundry \<and> of_int i \<le> valueRightBoundry)
           | PVDouble d \<Rightarrow> Some (d \<ge> valueLeftBoundry \<and> d \<le> valueRightBoundry)
           | _ \<Rightarrow> None) } } }"

definition apply_operator :: "string \<Rightarrow> int \<Rightarrow> bool option" where
  "apply_operator operator comparisonResult =
    (if operator = ''<'' then Some (comparisonResult < 0)
     else if operator = ''='' \<or> operator = ''=='' then Some (comparisonResult = 0)
     else if operator = ''>'' then Some (comparisonResult > 0)
     else if operator = ''<='' then Some (comparisonResult \<le> 0)
     else if operator = ''>='' then Some (comparisonResult \<ge> 0)
     else None)"

definition CalculateDeviceDataCompareCodition ::
  "heap \<Rightarrow> getProperty \<Rightarrow> deviceDataCondition \<Rightarrow> bool option option" where
  "CalculateDeviceDataCompareCodition mem callback condition = do {
     readProperty \<leftarrow> GetPropertyValueByPath mem callback (di_path (dd_deviceInfo condition));
     case readProperty of
       ReadFails \<Rightarrow> Some None
     | ReadUnset \<Rightarrow> None
     | ReadUndefined \<Rightarrow> None
     | ReadValue valRead \<Rightarrow> do {
         v \<leftarrow> deref (dd_value condition);
         operator \<leftarrow> deref (dd_operator condition);
         Some (do {
           valExpected \<leftarrow> StrToPropertyValue v (pv_type valRead);
           comparisonResult \<leftarrow> PropertyValueCompare valRead valExpected;
           apply_operator operator comparisonResult }) } }"

definition CalculateDeviceDataCondition ::
  "heap \<Rightarrow> getProperty \<Rightarrow> deviceDataCondition \<Rightarrow> bool option option" where
  "CalculateDeviceDataCondition mem callback condition = do {
     operator \<leftarrow> deref (dd_operator condition);
     if operator = ''between'' then CalculateDeviceDataRangeCodition mem callback condition
     else CalculateDeviceDataCompareCodition mem callback condition }"

section \<open>Conditions, actions and rules\<close>

text \<open>One condition; a condition of no known type leaves its result uninitialised.\<close>

fun calculate_condition :: "heap \<Rightarrow> getProperty \<Rightarrow> int \<Rightarrow> condition \<Rightarrow> bool option option" where
  "calculate_condition mem callback t (DeviceData d) = CalculateDeviceDataCondition mem callback d"
| "calculate_condition mem callback t (SimpleTimer s) = map_option Some (CalculateSimpleTimerCondition s t)"
| "calculate_condition mem callback t (DailyTimer d) = Some (Some (CalculateDailyTimerCondition d t))"
| "calculate_condition mem callback t ConditionEmpty = None"

fun calculate_loop ::
  "heap \<Rightarrow> getProperty \<Rightarrow> int \<Rightarrow> bool \<Rightarrow> condition list \<Rightarrow> bool \<Rightarrow> bool option option" where
  "calculate_loop mem callback t isLogicAnd [] result = Some (Some result)"
| "calculate_loop mem callback t isLogicAnd (c # cs) result =
    (case calculate_condition mem callback t c of
       None \<Rightarrow> None
     | Some None \<Rightarrow> Some None
     | Some (Some currentResult) \<Rightarrow>
         calculate_loop mem callback t isLogicAnd cs
           (if isLogicAnd then result \<and> currentResult else result \<or> currentResult))"

fun mark_executed :: "int \<Rightarrow> condition \<Rightarrow> condition" where
  "mark_executed t (DailyTimer d) = DailyTimer (DailyTimerConditionMarkDayIsExecuted d t)"
| "mark_executed t c = c"

text \<open>The result and the conditions after it.\<close>

definition CalculateConditions ::
  "heap \<Rightarrow> getProperty \<Rightarrow> int \<Rightarrow> cstr \<Rightarrow> condition list \<Rightarrow> (bool \<times> condition list) option option" where
  "CalculateConditions mem callback epochTime logic list = do {
     l \<leftarrow> deref logic;
     let isLogicAnd = (l = ''and'');
     r \<leftarrow> calculate_loop mem callback epochTime isLogicAnd list isLogicAnd;
     case r of
       None \<Rightarrow> Some None
     | Some result \<Rightarrow> Some (Some (result, if result then map (mark_executed epochTime) list else list)) }"

text \<open>The calls of the command callback, in order.\<close>

type_synonym command_call = "cstr \<times> command"

fun ExecuteActionList :: "action list \<Rightarrow> command_call list option" where
  "ExecuteActionList [] = Some []"
| "ExecuteActionList (one # rest) = do {
     status \<leftarrow> deref (action_status one);
     if status \<noteq> ''enable'' then ExecuteActionList rest
     else do {
       type \<leftarrow> deref (action_type one);
       calls \<leftarrow> ExecuteActionList rest;
       Some (if type = ''DEVICE_CMD'' then (action_deviceId one, action_command one) # calls else calls) } }"

text \<open>The loop returns in its first iteration: only the first condition is looked at.\<close>

fun has_timer :: "condition list \<Rightarrow> bool" where
  "has_timer [] = False"
| "has_timer (DailyTimer _ # _) = True"
| "has_timer (SimpleTimer _ # _) = True"
| "has_timer (_ # _) = False"

definition RuleInfoHasTimer :: "ruleInfo \<Rightarrow> bool" where
  "RuleInfoHasTimer self = has_timer (ri_conditions self)"

fun triggered_by_timer :: "int \<Rightarrow> condition list \<Rightarrow> bool option" where
  "triggered_by_timer t [] = Some False"
| "triggered_by_timer t (SimpleTimer s # cs) = do {
     b \<leftarrow> CalculateSimpleTimerCondition s t;
     if b then Some True else triggered_by_timer t cs }"
| "triggered_by_timer t (DailyTimer d # cs) =
    (if CalculateDailyTimerCondition d t then Some True else triggered_by_timer t cs)"
| "triggered_by_timer t (_ # cs) = triggered_by_timer t cs"

definition IsTriggeredByTimer :: "ruleInfo \<Rightarrow> int \<Rightarrow> bool option" where
  "IsTriggeredByTimer ruleInfo epochTime = triggered_by_timer epochTime (ri_conditions ruleInfo)"

definition DaysOfWeekSaturday :: daysOfWeekRecord where
  "DaysOfWeekSaturday = push_bit 7 1"

definition in_time_range :: "timeRange \<Rightarrow> int \<Rightarrow> bool" where
  "in_time_range tr epochTime =
    (if TimeRangeIsNuLL tr then True
     else let time = gmtime_r epochTime; sec = second_of_day time in
       if tr_startTime tr < tr_endTime tr then
         (if \<not> day_bit (tr_daysOfWeek tr) (gm_wday time) then False
          else \<not> (sec < tr_startTime tr \<or> sec > tr_endTime tr))
       else
         (let today = gm_wday time;
              y = drop_bit 1 (tr_daysOfWeek tr);
              yesterdayInWeek = (if (y AND 1) \<noteq> 0 then y OR DaysOfWeekSaturday else y);
              secInToday = (day_bit (tr_daysOfWeek tr) today \<and> sec \<le> tr_endTime tr);
              secInYesterday = (day_bit yesterdayInWeek today \<and> sec \<ge> tr_startTime tr)
          in secInToday \<or> secInYesterday))"

text \<open>One iteration: the rule after it and the commands it issued.\<close>

definition check_rule ::
  "heap \<Rightarrow> getProperty \<Rightarrow> bool \<Rightarrow> int \<Rightarrow> ruleInfo \<Rightarrow> (ruleInfo \<times> command_call list) option" where
  "check_rule mem propertyCallback isTimerRule epochTime ruleItem = do {
     status \<leftarrow> deref (ri_status ruleItem);
     if status \<noteq> ''active'' then Some (ruleItem, [])
     else if RuleInfoHasTimer ruleItem \<and> \<not> isTimerRule then Some (ruleItem, [])
     else if \<not> RuleInfoHasTimer ruleItem \<and> isTimerRule then Some (ruleItem, [])
     else if \<not> in_time_range (ri_timeRange ruleItem) epochTime then Some (ruleItem, [])
     else do {
       triggered \<leftarrow> IsTriggeredByTimer ruleItem epochTime;
       r \<leftarrow> CalculateConditions mem propertyCallback epochTime (ri_logic ruleItem) (ri_conditions ruleItem);
       case r of
         None \<Rightarrow> Some (ruleItem, [])
       | Some (result, cs) \<Rightarrow>
           (let ruleItem' = ruleItem \<lparr>ri_conditions := cs\<rparr> in
            if result then do {
              calls \<leftarrow> ExecuteActionList (ri_actions ruleItem');
              Some (ruleItem', calls) }
            else Some (ruleItem', [])) } }"

fun CheckRuleInfoListAndExecute ::
  "heap \<Rightarrow> getProperty \<Rightarrow> bool \<Rightarrow> int \<Rightarrow> ruleInfo list \<Rightarrow> (ruleInfo list \<times> command_call list) option" where
  "CheckRuleInfoListAndExecute mem propertyCallback isTimerRule epochTime [] = Some ([], [])"
| "CheckRuleInfoListAndExecute mem propertyCallback isTimerRule epochTime (r # rs) = do {
     (r', calls) \<leftarrow> check_rule mem propertyCallback isTimerRule epochTime r;
     (rs', calls') \<leftarrow> CheckRuleInfoListAndExecute mem propertyCallback isTimerRule epochTime rs;
     Some (r' # rs', calls @ calls') }"

section \<open>Timers: lemmas and properties\<close>

lemma gm_wday_range: "0 \<le> gm_wday (gmtime_r t)" "gm_wday (gmtime_r t) < 7"
  by (simp_all add: gmtime_r_def)

lemma second_of_day_mod [simp]: "second_of_day (gmtime_r t) = t mod 86400"
proof -
  have "t mod 86400 = 3600 * (t mod 86400 div 3600) + t mod 86400 mod 3600" by simp
  moreover have "t mod 86400 mod 3600 = t mod 3600" by (simp add: mod_mod_cancel)
  moreover have "t mod 3600 = 60 * (t mod 3600 div 60) + t mod 3600 mod 60" by simp
  moreover have "t mod 3600 mod 60 = t mod 60" by (simp add: mod_mod_cancel)
  ultimately show ?thesis by (simp add: second_of_day_def gmtime_r_def HHMMSStoSecond_def)
qed

lemma and_push_bit_one: "(d AND push_bit n 1) \<noteq> 0 \<longleftrightarrow> bit d n" for d :: "8 word"
proof (cases "n < 8")
  case True
  show ?thesis
  proof
    assume "(d AND push_bit n 1) \<noteq> 0"
    then obtain k where "bit (d AND push_bit n 1) k" by (auto simp: bit_eq_iff)
    then show "bit d n" by (auto simp: bit_simps)
  next
    assume "bit d n"
    then have "bit (d AND push_bit n 1) n" using True by (simp add: bit_simps)
    then show "(d AND push_bit n 1) \<noteq> 0" by auto
  qed
next
  case False
  then have "push_bit n (1 :: 8 word) = 0" by (intro bit_word_eqI) (auto simp: bit_simps)
  note zero = this
  have "\<not> bit d n" using False bit_imp_le_length [of d n] by auto
  then show ?thesis unfolding zero by simp
qed

lemma day_bit_bit: "day_bit d w \<longleftrightarrow> bit d (nat (w + 1))"
  unfolding day_bit_def by (rule and_push_bit_one)

lemma gm_wday_same_day: "t div 86400 = t' div 86400 \<Longrightarrow> gm_wday (gmtime_r t) = gm_wday (gmtime_r t')"
  by (simp add: gmtime_r_def)

lemma CalculateDailyTimerCondition_iff:
  "CalculateDailyTimerCondition c t \<longleftrightarrow>
     bit (dt_daysOfWeek c) (nat (gm_wday (gmtime_r t) + 1))
   \<and> dt_time c \<le> t mod 86400 \<and> t mod 86400 < dt_time c + 60
   \<and> t - dt_lastExecutedTime c ! nat (gm_wday (gmtime_r t)) \<ge> 60"
  unfolding CalculateDailyTimerCondition_def Let_def day_bit_bit second_of_day_mod
  by argo

text \<open>
  C6. A daily timer fires exactly in the minute it is set to, on its days, and at most
  once there: the condition holds when the day's bit is set, the second of the day
  lies in the 60 seconds from its time and the last execution on that weekday is a
  minute ago or more; once marked as executed it does not hold again later on the
  same UTC day.\<close>

theorem DailyTimer_fires_once_a_day:
  assumes "length (dt_lastExecutedTime c) = DAYS_PER_WEEK"
  shows "(CalculateDailyTimerCondition c t \<longleftrightarrow>
            bit (dt_daysOfWeek c) (nat (gm_wday (gmtime_r t) + 1))
          \<and> dt_time c \<le> t mod 86400 \<and> t mod 86400 < dt_time c + 60
          \<and> dt_lastExecutedTime c ! nat (gm_wday (gmtime_r t)) + 60 \<le> t)
    \<and> (CalculateDailyTimerCondition c t \<and> t \<le> t' \<and> t div 86400 = t' div 86400
       \<longrightarrow> \<not> CalculateDailyTimerCondition (DailyTimerConditionMarkDayIsExecuted c t) t')"
proof (intro conjI impI)
  show "CalculateDailyTimerCondition c t \<longleftrightarrow>
            bit (dt_daysOfWeek c) (nat (gm_wday (gmtime_r t) + 1))
          \<and> dt_time c \<le> t mod 86400 \<and> t mod 86400 < dt_time c + 60
          \<and> dt_lastExecutedTime c ! nat (gm_wday (gmtime_r t)) + 60 \<le> t"
    by (auto simp: CalculateDailyTimerCondition_iff)
next
  assume a: "CalculateDailyTimerCondition c t \<and> t \<le> t' \<and> t div 86400 = t' div 86400"
  let ?w = "nat (gm_wday (gmtime_r t))"
  have w: "?w < length (dt_lastExecutedTime c)"
    using gm_wday_range [of t] assms by (simp add: DAYS_PER_WEEK_def)
  have m: "DailyTimerConditionMarkDayIsExecuted c t
      = c \<lparr>dt_lastExecutedTime := (dt_lastExecutedTime c)[?w := t]\<rparr>"
    using a by (simp add: CalculateDailyTimerCondition_iff DailyTimerConditionMarkDayIsExecuted_def
        Let_def day_bit_bit)
  have "t' - t = t' mod 86400 - t mod 86400"
    using a div_mult_mod_eq [of t 86400] div_mult_mod_eq [of t' 86400] by linarith
  then show "\<not> CalculateDailyTimerCondition (DailyTimerConditionMarkDayIsExecuted c t) t'"
    using a w gm_wday_same_day [of t t']
    by (auto simp: CalculateDailyTimerCondition_iff m)
qed

definition sample_timer :: dailyTimerCondition where
  "sample_timer = \<lparr>dt_time = 30600, dt_daysOfWeek = 32, dt_lastExecutedTime = replicate 7 0\<rparr>"

theorem DailyTimer_fires_once_a_day_witness:
  "CalculateDailyTimerCondition sample_timer 30610
   \<and> \<not> CalculateDailyTimerCondition (DailyTimerConditionMarkDayIsExecuted sample_timer 30610) 30650"
proof -
  have l: "length (dt_lastExecutedTime sample_timer) = DAYS_PER_WEEK"
    by (simp add: sample_timer_def DAYS_PER_WEEK_def)
  have "CalculateDailyTimerCondition sample_timer 30610"
    by (simp add: sample_timer_def CalculateDailyTimerCondition_iff gmtime_r_def)
  with DailyTimer_fires_once_a_day [OF l, of 30610 30650] show ?thesis by simp
qed

text \<open>A simple timer: its start and every multiple of the interval, a bounded number of times.\<close>

lemma CalculateSimpleTimerCondition_spec:
  assumes "0 < st_repeatInterval c" "t - st_startTime c \<le> INT_MAX"
  shows "CalculateSimpleTimerCondition c t = Some (\<exists>n. 0 \<le> n \<and> n < st_repeatCount c
     \<and> t = st_startTime c + n * st_repeatInterval c)"
proof (cases "t < st_startTime c")
  case True
  have "\<not> (\<exists>n. 0 \<le> n \<and> n < st_repeatCount c \<and> t = st_startTime c + n * st_repeatInterval c)"
  proof
    assume "\<exists>n. 0 \<le> n \<and> n < st_repeatCount c \<and> t = st_startTime c + n * st_repeatInterval c"
    then obtain n where "0 \<le> n" "t = st_startTime c + n * st_repeatInterval c" by auto
    moreover have "0 \<le> n * st_repeatInterval c" using \<open>0 \<le> n\<close> assms(1) by simp
    ultimately show False using True by simp
  qed
  then show ?thesis using True by (simp add: CalculateSimpleTimerCondition_def)
next
  case False
  define d where "d = t - st_startTime c"
  define k where "k = st_repeatInterval c"
  have d: "0 \<le> d" "0 < k" using False assms by (auto simp: d_def k_def)
  have sm: "d smod k = d mod k" "d sdiv k = d div k"
    using d by (cases "d = 0"; simp add: signed_modulo_int_def signed_divide_int_def)+
  have "(d mod k = 0 \<and> d div k < st_repeatCount c) \<longleftrightarrow> (\<exists>n. 0 \<le> n \<and> n < st_repeatCount c \<and> d = n * k)"
  proof
    assume "d mod k = 0 \<and> d div k < st_repeatCount c"
    then show "\<exists>n. 0 \<le> n \<and> n < st_repeatCount c \<and> d = n * k"
      using d by (intro exI [of _ "d div k"]) (auto simp: pos_imp_zdiv_nonneg_iff)
  next
    assume "\<exists>n. 0 \<le> n \<and> n < st_repeatCount c \<and> d = n * k"
    then show "d mod k = 0 \<and> d div k < st_repeatCount c" using d by auto
  qed
  moreover have "(t = st_startTime c + n * k) \<longleftrightarrow> d = n * k" for n by (auto simp: d_def)
  ultimately show ?thesis
    using False assms sm d
    by (auto simp: CalculateSimpleTimerCondition_def Let_def d_def [symmetric] k_def [symmetric])
qed

lemma CalculateSimpleTimerCondition_zero_interval:
  "st_startTime c \<le> t \<Longrightarrow> st_repeatInterval c = 0 \<Longrightarrow> CalculateSimpleTimerCondition c t = None"
  by (simp add: CalculateSimpleTimerCondition_def Let_def)

section \<open>The time range\<close>

lemma bit_shifted_week:
  assumes "0 \<le> w" "w < 7"
  shows "bit (if (drop_bit 1 d AND 1) \<noteq> 0 then drop_bit 1 d OR DaysOfWeekSaturday else drop_bit 1 d)
      (nat (w + 1)) \<longleftrightarrow> bit (d :: daysOfWeekRecord) (nat ((w + 1) mod 7 + 1))"
proof -
  have one: "(x AND 1) \<noteq> 0 \<longleftrightarrow> bit x 0" for x :: "8 word"
    using and_push_bit_one [of x 0] by simp
  have sat: "bit DaysOfWeekSaturday n \<longleftrightarrow> n = 7" for n
  proof
    assume b: "bit DaysOfWeekSaturday n"
    then have "n < 8" using bit_imp_le_length [of DaysOfWeekSaturday n] by simp
    then have "n = 0 \<or> n = 1 \<or> n = 2 \<or> n = 3 \<or> n = 4 \<or> n = 5 \<or> n = 6 \<or> n = 7" by arith
    with b show "n = 7" by (auto simp: DaysOfWeekSaturday_def)
  qed (simp add: DaysOfWeekSaturday_def)
  show ?thesis
  proof (cases "w = 6")
    case True
    have "\<not> bit d 8" using bit_imp_le_length [of d 8] by auto
    then show ?thesis using True by (simp add: one bit_simps sat)
  next
    case False
    then have "(w + 1) mod 7 = w + 1" using assms by simp
    moreover have "nat (w + 1) < 7" "nat (w + 1) + 1 = nat (w + 1 + 1)" using assms False by auto
    ultimately show ?thesis by (simp add: one bit_simps sat)
  qed
qed

lemma gm_wday_tomorrow: "(gm_wday (gmtime_r t) + 1) mod 7 = gm_wday (gmtime_r (t + 86400))"
proof -
  have "(t + 86400) div 86400 = t div 86400 + 1" by simp
  then show ?thesis by (simp add: gmtime_r_def mod_simps algebra_simps)
qed

text \<open>
  The time range of a rule: a range within one day holds on its days between its
  start and its end, both included; a range whose end is not after its start runs
  over midnight and its days are those on which it ends, so that it holds from the
  start of the range on the eve of each of its days until the end on the day
  itself (Saturday being the eve of Sunday); a range with no days always holds.\<close>

theorem in_time_range_iff:
  "in_time_range tr t \<longleftrightarrow>
     tr_daysOfWeek tr = 0
   \<or> (if tr_startTime tr < tr_endTime tr
      then bit (tr_daysOfWeek tr) (nat (gm_wday (gmtime_r t) + 1))
         \<and> tr_startTime tr \<le> t mod 86400 \<and> t mod 86400 \<le> tr_endTime tr
      else (bit (tr_daysOfWeek tr) (nat (gm_wday (gmtime_r t) + 1)) \<and> t mod 86400 \<le> tr_endTime tr)
         \<or> (bit (tr_daysOfWeek tr) (nat (gm_wday (gmtime_r (t + 86400)) + 1)) \<and> tr_startTime tr \<le> t mod 86400))"
proof -
  note shifted = bit_shifted_week [OF gm_wday_range(1) [of t] gm_wday_range(2) [of t],
      where d = "tr_daysOfWeek tr", unfolded gm_wday_tomorrow]
  show ?thesis
    unfolding in_time_range_def TimeRangeIsNuLL_def Let_def second_of_day_mod day_bit_bit shifted
    by auto
qed

section \<open>Device data conditions\<close>

lemma strtod_dec:
  assumes "r = [] \<or> (\<not> is_digit (hd r) \<and> hd r \<noteq> CHR ''.'' \<and> hd r \<noteq> CHR ''e'' \<and> hd r \<noteq> CHR ''E'')"
  shows "strtod (dec_nat n @ r) = Some (of_nat n, r)"
proof -
  obtain d ds where d: "dec_nat n = d # ds" by (cases "dec_nat n") auto
  have dd: "is_digit d" "list_all is_digit ds" using dec_nat_digits [of n] d by simp_all
  have w: "takeWhile is_digit r = []" "dropWhile is_digit r = r" using assms by (cases r; auto)+
  have v: "read_nat (d # ds) = n" using d read_dec_nat [of n] by simp
  have all: "takeWhile is_digit ds = ds" "dropWhile is_digit ds = []"
    using takeWhile_app_all [OF dd(2), of "[]"] dropWhile_app_all [OF dd(2), of "[]"] by simp_all
  show ?thesis
    using digit_not_sign [OF dd(1)] assms
    by (cases r) (simp_all add: strtod_def d dd w v all takeWhile_app_all dropWhile_app_all)
qed

fun compares :: "string \<Rightarrow> rat \<Rightarrow> rat \<Rightarrow> bool option" where
  "compares oper a b =
    (if oper = ''<'' then Some (a < b) else if oper = ''='' \<or> oper = ''=='' then Some (a = b)
     else if oper = ''>'' then Some (a > b) else if oper = ''<='' then Some (a \<le> b)
     else if oper = ''>='' then Some (a \<ge> b) else None)"

lemma apply_operator_three_way:
  "apply_operator oper (three_way (a < b) (a > b)) = compares oper a (b :: rat)"
  by (auto simp: apply_operator_def three_way_def)

lemma GetPropertyValueByPath_split:
  assumes "CHR ''/'' \<notin> set sv" "mem (length sv + 1)"
    and "cb sv pname \<noteq> ReadUndefined"
  shows "GetPropertyValueByPath mem cb (Some (sv @ ''/'' @ pname)) = Some (cb sv pname)"
proof -
  have "takeWhile (\<lambda>c. c \<noteq> CHR ''/'') (sv @ ''/'' @ pname) = sv"
    using assms(1) by (subst takeWhile_append2) auto
  then show ?thesis
    using assms(2,3) by (cases "cb sv pname") (simp_all add: GetPropertyValueByPath_def strncpy_s_def)
qed


definition sample_data_condition :: "string \<Rightarrow> string \<Rightarrow> deviceDataCondition" where
  "sample_data_condition oper v = \<lparr>dd_operator = Some oper, dd_value = Some v,
     dd_deviceInfo = \<lparr>di_deviceId = Some ''d1'', di_path = Some ''room/temp''\<rparr>\<rparr>"

definition sample_reading :: getProperty where
  "sample_reading s p = (if s = ''room'' \<and> p = ''temp'' then ReadValue (PVDouble (43 / 2)) else ReadFails)"


section \<open>Whole conditions and rules\<close>

lemma calculate_loop_values:
  assumes "list_all2 (\<lambda>c b. calculate_condition mem cb t c = Some (Some b)) cs bs"
  shows "calculate_loop mem cb t isAnd cs acc
    = Some (Some (if isAnd then acc \<and> list_all id bs else acc \<or> list_ex id bs))"
  using assms by (induction cs bs arbitrary: acc rule: list_all2_induct) auto



definition enabled_commands :: "action list \<Rightarrow> command_call list" where
  "enabled_commands as = map (\<lambda>a. (action_deviceId a, action_command a))
     (filter (\<lambda>a. action_status a = Some ''enable'' \<and> action_type a = Some ''DEVICE_CMD'') as)"

lemma ExecuteActionList_wf:
  "list_all wf_action as \<Longrightarrow> ExecuteActionList as = Some (enabled_commands as)"
  by (induction as) (auto simp: enabled_commands_def wf_action_def)

text \<open>A property callback that writes the value it reports to have read.\<close>

definition callback_writes :: "getProperty \<Rightarrow> bool" where
  "callback_writes cb \<longleftrightarrow> (\<forall>s p. cb s p \<noteq> ReadUnset \<and> cb s p \<noteq> ReadUndefined)"

text \<open>Conditions whose evaluation at time t is defined.\<close>

fun safe_condition :: "int \<Rightarrow> condition \<Rightarrow> bool" where
  "safe_condition t (SimpleTimer s) \<longleftrightarrow> st_repeatInterval s \<noteq> 0 \<and> t - st_startTime s \<le> INT_MAX"
| "safe_condition t c \<longleftrightarrow> True"

definition safe_rule :: "int \<Rightarrow> ruleInfo \<Rightarrow> bool" where
  "safe_rule t r \<longleftrightarrow> wf_rule r \<and> list_all (safe_condition t) (ri_conditions r)"

lemma CalculateSimpleTimerCondition_defined:
  "safe_condition t (SimpleTimer s) \<Longrightarrow> \<exists>b. CalculateSimpleTimerCondition s t = Some b"
proof -
  assume "safe_condition t (SimpleTimer s)"
  then show ?thesis by (auto simp: CalculateSimpleTimerCondition_def Let_def)
qed

lemma GetPropertyValueByPath_defined:
  assumes "callback_writes cb"
  shows "\<exists>r. GetPropertyValueByPath mem cb (Some p) = Some r \<and> r \<noteq> ReadUnset \<and> r \<noteq> ReadUndefined"
  using assms by (auto simp: GetPropertyValueByPath_def callback_writes_def Let_def
      split: option.splits prop_read.splits)

lemma CalculateDeviceDataCondition_defined:
  assumes "callback_writes cb" "wf_condition (DeviceData d)"
  shows "\<exists>b. CalculateDeviceDataCondition mem cb d = Some b"
proof -
  obtain p v oper where d: "di_path (dd_deviceInfo d) = Some p" "dd_value d = Some v" "dd_operator d = Some oper"
    using assms(2) by auto
  obtain r where r: "GetPropertyValueByPath mem cb (Some p) = Some r" "r \<noteq> ReadUnset" "r \<noteq> ReadUndefined"
    using GetPropertyValueByPath_defined [OF assms(1)] by blast
  show ?thesis
    by (cases r) (use r d in \<open>auto simp: CalculateDeviceDataCondition_def
        CalculateDeviceDataRangeCodition_def CalculateDeviceDataCompareCodition_def Let_def split: prod.splits\<close>)
qed

lemma calculate_condition_defined:
  assumes "callback_writes cb" "wf_condition c" "safe_condition t c"
  shows "\<exists>b. calculate_condition mem cb t c = Some b"
  using assms CalculateDeviceDataCondition_defined [OF assms(1)] CalculateSimpleTimerCondition_defined
  by (cases c) force+

lemma calculate_loop_defined:
  assumes "callback_writes cb" "list_all wf_condition cs" "list_all (safe_condition t) cs"
  shows "\<exists>b. calculate_loop mem cb t isAnd cs acc = Some b"
  using assms(2,3)
proof (induction cs arbitrary: acc)
  case (Cons c cs)
  obtain b where b: "calculate_condition mem cb t c = Some b"
    using calculate_condition_defined [OF assms(1)] Cons.prems by fastforce
  show ?case by (cases b) (use b Cons in auto)
qed simp

lemma triggered_by_timer_defined:
  "list_all (safe_condition t) cs \<Longrightarrow> \<exists>b. triggered_by_timer t cs = Some b"
proof (induction t cs rule: triggered_by_timer.induct)
  case (2 t s cs)
  then obtain b where "CalculateSimpleTimerCondition s t = Some b"
    using CalculateSimpleTimerCondition_defined [of t s] by auto
  with 2 show ?case by (cases b) auto
qed auto

lemma wf_mark_executed: "wf_condition c \<Longrightarrow> wf_condition (mark_executed t c)"
  by (cases c) (auto simp: DailyTimerConditionMarkDayIsExecuted_def Let_def)

lemma CalculateConditions_defined:
  assumes "callback_writes cb" "list_all wf_condition cs" "list_all (safe_condition t) cs"
  shows "\<exists>r. CalculateConditions mem cb t (Some l) cs = Some r
    \<and> (\<forall>b cs'. r = Some (b, cs') \<longrightarrow> list_all wf_condition cs' \<and> (cs' = cs \<or> cs' = map (mark_executed t) cs))"
proof -
  obtain b where "calculate_loop mem cb t (l = ''and'') cs (l = ''and'') = Some b"
    using calculate_loop_defined [OF assms] by blast
  then show ?thesis
    using assms(2) wf_mark_executed
    by (cases b) (auto simp: CalculateConditions_def Let_def list_all_iff)
qed

text \<open>When a rule fires.\<close>

definition rule_fires :: "heap \<Rightarrow> getProperty \<Rightarrow> bool \<Rightarrow> int \<Rightarrow> ruleInfo \<Rightarrow> bool" where
  "rule_fires mem cb isTimerRule t r \<longleftrightarrow>
     ri_status r = Some ''active'' \<and> RuleInfoHasTimer r = isTimerRule \<and> in_time_range (ri_timeRange r) t
   \<and> (case CalculateConditions mem cb t (ri_logic r) (ri_conditions r) of
        Some (Some (result, _)) \<Rightarrow> result | _ \<Rightarrow> False)"

lemma check_rule_result:
  assumes cb: "callback_writes cb" and safe: "safe_rule t r"
  shows "\<exists>r'. check_rule mem cb isTimerRule t r
      = Some (r', if rule_fires mem cb isTimerRule t r then enabled_commands (ri_actions r) else [])
    \<and> wf_rule r' \<and> ri_ruleId r' = ri_ruleId r \<and> ri_version r' = ri_version r \<and> ri_actions r' = ri_actions r"
proof -
  have wf: "wf_rule r" and conds: "list_all wf_condition (ri_conditions r)"
    "list_all (safe_condition t) (ri_conditions r)" and acts: "list_all wf_action (ri_actions r)"
    using safe by (auto simp: safe_rule_def wf_rule_def)
  obtain st l where st: "ri_status r = Some st" "ri_logic r = Some l"
    using wf by (auto simp: wf_rule_def)
  obtain trig where trig: "triggered_by_timer t (ri_conditions r) = Some trig"
    using triggered_by_timer_defined [OF conds(2)] by blast
  obtain c where c: "CalculateConditions mem cb t (Some l) (ri_conditions r) = Some c"
    and cwf: "\<And>b cs'. c = Some (b, cs') \<Longrightarrow> list_all wf_condition cs'"
    using CalculateConditions_defined [OF cb conds] by blast
  have wf': "wf_rule (r \<lparr>ri_conditions := cs\<rparr>)" if "list_all wf_condition cs" for cs
    using wf that by (simp add: wf_rule_def)
  consider "\<not> (st = ''active'' \<and> RuleInfoHasTimer r = isTimerRule \<and> in_time_range (ri_timeRange r) t)"
    | "st = ''active''" "RuleInfoHasTimer r = isTimerRule" "in_time_range (ri_timeRange r) t" by blast
  then show ?thesis
  proof cases
    case 1
    then show ?thesis using st wf by (auto simp: check_rule_def rule_fires_def)
  next
    case 2
    show ?thesis
    proof (cases c)
      case None
      then show ?thesis
        using 2 st c trig wf by (simp add: check_rule_def rule_fires_def IsTriggeredByTimer_def)
    next
      case (Some rc)
      obtain b cs' where rc: "rc = (b, cs')" by fastforce
      note wf'' = wf' [OF cwf [OF Some [unfolded rc]]]
      show ?thesis
        using 2 st c trig wf'' ExecuteActionList_wf [OF acts] Some rc
        by (cases b) (simp_all add: check_rule_def rule_fires_def IsTriggeredByTimer_def)
    qed
  qed
qed



text \<open>
  A timer behind another condition never fires on time: when the first condition of
  a rule is a device data condition, the periodic timer pass skips the rule, so its
  daily and simple timers are never evaluated there, whatever the time is.\<close>

theorem timer_rule_with_data_first_is_skipped:
  assumes "ri_conditions r = DeviceData d # cs" "ri_status r \<noteq> None"
  shows "check_rule mem cb True t r = Some (r, [])"
  using assms by (auto simp: check_rule_def RuleInfoHasTimer_def)

theorem timer_rule_with_data_first_is_skipped_witness:
  "check_rule (\<lambda>_. True) sample_reading True 259250
     (sample_rule ''r1'' 1 \<lparr>ri_conditions := [DeviceData (sample_data_condition ''<'' ''5''), DailyTimer sample_timer]\<rparr>)
   = Some (sample_rule ''r1'' 1 \<lparr>ri_conditions := [DeviceData (sample_data_condition ''<'' ''5''), DailyTimer sample_timer]\<rparr>, [])"
  by (rule timer_rule_with_data_first_is_skipped) (simp_all add: sample_rule_def)

end
