(* ===== verification/RuleManager.thy ===== *)
theory RuleManager
  imports RuleExec
begin

text \<open>
  src/service/device\_rule/rule\_manager.c: the state of the device rules (the rule
  list, its JSON mirror for the rule file, the cache of the last reported
  properties, the callbacks and the current user name), the operations on it, and
  the delivery of the commands.  Both build options of the source are modelled: the
  flag \<open>storage\<close> stands for CONFIG\_ENALBE\_DEVICE\_RULE\_FILE\_STORAGE.  Mutex
  operations succeed and every operation runs as one step under its lock; the
  threads that deliver commands run in the order in which they are created.
\<close>

section \<open>Definitions\<close>

definition IOTA_JsonFindServiceInListById :: "json list \<Rightarrow> string \<Rightarrow> nat option" where
  "IOTA_JsonFindServiceInListById services serviceId =
     index_by (\<lambda>s. get_str (Some s) ''service_id'' = Some serviceId) services"

fun find_property :: "(cstr \<times> json) list \<Rightarrow> string \<Rightarrow> prop_read" where
  "find_property [] propertyName = ReadFails"
| "find_property ((name, item) # rest) propertyName =
    (case name of
       None \<Rightarrow> ReadUndefined
     | Some n \<Rightarrow>
        if n \<noteq> propertyName then find_property rest propertyName
        else (case item of
            JString s \<Rightarrow> ReadValue (PropertyValueSetCStr s)
          | JNumber d \<Rightarrow> ReadValue (PropertyValueSetDouble d)
          | _ \<Rightarrow> ReadUnset))"

definition getPropertyCallback :: "json list \<Rightarrow> getProperty" where
  "getPropertyCallback cache serviceId propertyName =
    (let serviceJSON = map_option ((!) cache) (IOTA_JsonFindServiceInListById cache serviceId);
         propertiesJSON = GetObjectItem serviceJSON ''properties''
     in find_property (child_list propertiesJSON) propertyName)"

definition cache_service :: "json \<Rightarrow> json list \<Rightarrow> json list" where
  "cache_service serviceJSON cache =
    (case get_str (Some serviceJSON) ''service_id'' of
       None \<Rightarrow> cache
     | Some serviceId \<Rightarrow>
        (case IOTA_JsonFindServiceInListById cache serviceId of
           None \<Rightarrow> cache @ [serviceJSON]
         | Some i \<Rightarrow> remove_at i cache @ [serviceJSON]))"

definition RuleMgr_CachePropertiesValue :: "json option \<Rightarrow> json list \<Rightarrow> json list" where
  "RuleMgr_CachePropertiesValue serviceData cache =
     fold cache_service (map snd (child_list serviceData)) cache"

record rule_mgr =
  g_ruleInfosList :: "ruleInfo list"
  g_ruleInfosListJSON :: "json list"
  g_cacheDeviceDataJSON :: "json list"
  g_commandCallbackHandler :: bool
  g_deviceRuleSendMsgCallBack :: bool
  g_currentUserName :: cstr
  g_ruleFilePath :: cstr
  rule_file :: cstr

text \<open>The successful outcome of \<open>RuleMgr_Init\<close>; the contents of the rule file survive it.\<close>

definition RuleMgr_Init :: "cstr \<Rightarrow> rule_mgr" where
  "RuleMgr_Init file = \<lparr>g_ruleInfosList = [], g_ruleInfosListJSON = [], g_cacheDeviceDataJSON = [],
     g_commandCallbackHandler = False, g_deviceRuleSendMsgCallBack = False, g_currentUserName = None,
     g_ruleFilePath = None, rule_file = file\<rparr>"

definition RuleMgr_SetSendMsgCallback :: "bool \<Rightarrow> rule_mgr \<Rightarrow> rule_mgr" where
  "RuleMgr_SetSendMsgCallback cb m = m \<lparr>g_deviceRuleSendMsgCallBack := cb\<rparr>"

definition RuleMgr_SetCommandCallbackHandler :: "bool \<Rightarrow> rule_mgr \<Rightarrow> rule_mgr" where
  "RuleMgr_SetCommandCallbackHandler cb m = m \<lparr>g_commandCallbackHandler := cb\<rparr>"

definition AtomicStringUpdate :: "heap \<Rightarrow> cstr \<Rightarrow> cstr \<Rightarrow> bool \<times> cstr" where
  "AtomicStringUpdate mem self str = CStrDuplicate mem self str"

definition AtomicStringCopy :: "heap \<Rightarrow> cstr \<Rightarrow> cstr" where
  "AtomicStringCopy mem self = snd (CStrDuplicate mem None self)"

definition RuleMgr_SetCurrentUserName :: "heap \<Rightarrow> cstr \<Rightarrow> rule_mgr \<Rightarrow> bool \<times> rule_mgr" where
  "RuleMgr_SetCurrentUserName mem username m =
    (let (ok, s) = AtomicStringUpdate mem (g_currentUserName m) username
     in (ok, m \<lparr>g_currentUserName := s\<rparr>))"

subsection \<open>The JSON mirror of the rule list\<close>

text \<open>Comparing the id of a stored rule that has none is undefined.\<close>

fun RuleJSONObjDelById_loop :: "string \<Rightarrow> json list \<Rightarrow> json list option" where
  "RuleJSONObjDelById_loop ruleId [] = Some []"
| "RuleJSONObjDelById_loop ruleId (searchRule # rest) = do {
     searchRuleId \<leftarrow> deref (get_str (Some searchRule) ''ruleId'');
     if searchRuleId = ruleId then Some rest
     else map_option ((#) searchRule) (RuleJSONObjDelById_loop ruleId rest) }"

definition RuleJSONObjDelById :: "cstr \<Rightarrow> json list \<Rightarrow> json list option" where
  "RuleJSONObjDelById ruleId js = (case ruleId of None \<Rightarrow> Some js
   | Some i \<Rightarrow> RuleJSONObjDelById_loop i js)"

text \<open>The hook given to the parser; undefined behaviour in it stays undefined.\<close>

definition UpdateRuleJSONObj :: "json list option hook" where
  "UpdateRuleJSONObj removeOrAdd rule target =
    (case target of None \<Rightarrow> None | Some js \<Rightarrow>
       if removeOrAdd then RuleJSONObjDelById (get_str (Some rule) ''ruleId'') js
       else Some (js @ [rule]))"

text \<open>Saving writes the printed mirror to the file when it can be opened; the printer
  and the file system are parameters.\<close>

definition RuleJSONObjSaveToFile ::
  "(json \<Rightarrow> cstr) \<Rightarrow> (string \<Rightarrow> bool) \<Rightarrow> cstr \<Rightarrow> rule_mgr \<Rightarrow> rule_mgr" where
  "RuleJSONObjSaveToFile printer can_open filePath m = (case filePath of
     None \<Rightarrow> m
   | Some path \<Rightarrow>
      (case printer (JObject [(''rulesInfos'', JArray (g_ruleInfosListJSON m))]) of
         None \<Rightarrow> m
       | Some content \<Rightarrow> if can_open path then m \<lparr>rule_file := Some content\<rparr> else m))"

definition parse_with_mirror :: "rheap \<Rightarrow> json option \<Rightarrow> rule_mgr \<Rightarrow> rule_mgr option" where
  "parse_with_mirror h paras m = do {
     (rules, js) \<leftarrow> ParseDeviceRuleWithHook h (g_ruleInfosList m) paras (Some (g_ruleInfosListJSON m))
                     UpdateRuleJSONObj;
     mirror \<leftarrow> js;
     Some (m \<lparr>g_ruleInfosList := rules, g_ruleInfosListJSON := mirror\<rparr>) }"

definition RuleMgr_ParseJSON ::
  "bool \<Rightarrow> (json \<Rightarrow> cstr) \<Rightarrow> (string \<Rightarrow> bool) \<Rightarrow> rheap \<Rightarrow> json option \<Rightarrow> rule_mgr \<Rightarrow> rule_mgr option" where
  "RuleMgr_ParseJSON storage printer can_open h paras m =
    (if storage then do {
       let filePath = AtomicStringCopy (rh_str h) (g_ruleFilePath m);
       m' \<leftarrow> parse_with_mirror h paras m;
       Some (RuleJSONObjSaveToFile printer can_open filePath m') }
     else do {
       rules \<leftarrow> ParseDeviceRule h (g_ruleInfosList m) paras;
       Some (m \<lparr>g_ruleInfosList := rules\<rparr>) })"

definition RuleMgr_Parse ::
  "bool \<Rightarrow> (string \<Rightarrow> json option) \<Rightarrow> (json \<Rightarrow> cstr) \<Rightarrow> (string \<Rightarrow> bool) \<Rightarrow> rheap \<Rightarrow> cstr \<Rightarrow> rule_mgr
    \<Rightarrow> rule_mgr option" where
  "RuleMgr_Parse storage parser printer can_open h payload m =
     RuleMgr_ParseJSON storage printer can_open h (Option.bind payload parser) m"

definition RuleMgr_GetList ::
  "rheap \<Rightarrow> json option \<Rightarrow> ruleInfo list \<Rightarrow> ruleInfo list \<Rightarrow> rule_mgr
    \<Rightarrow> (bool \<times> ruleInfo list \<times> ruleInfo list) option" where
  "RuleMgr_GetList h properties delList addList m =
     GetRuleInfoList h (g_ruleInfosList m) properties delList addList"

fun del_mirror :: "ruleInfo list \<Rightarrow> json list \<Rightarrow> json list option" where
  "del_mirror [] js = Some js"
| "del_mirror (d # ds) js = Option.bind (RuleJSONObjDelById (ri_ruleId d) js) (del_mirror ds)"

definition RuleMgr_DelRule ::
  "bool \<Rightarrow> (json \<Rightarrow> cstr) \<Rightarrow> (string \<Rightarrow> bool) \<Rightarrow> rheap \<Rightarrow> ruleInfo list \<Rightarrow> rule_mgr \<Rightarrow> rule_mgr option" where
  "RuleMgr_DelRule storage printer can_open h delList m =
    (if storage then do {
       let filePath = AtomicStringCopy (rh_str h) (g_ruleFilePath m);
       js \<leftarrow> del_mirror delList (g_ruleInfosListJSON m);
       rules \<leftarrow> DeletRulesFromList (g_ruleInfosList m) delList;
       Some (RuleJSONObjSaveToFile printer can_open filePath
               (m \<lparr>g_ruleInfosListJSON := js, g_ruleInfosList := rules\<rparr>)) }
     else do {
       rules \<leftarrow> DeletRulesFromList (g_ruleInfosList m) delList;
       Some (m \<lparr>g_ruleInfosList := rules\<rparr>) })"

text \<open>Loading the rule file: a file that cannot be read leaves the rules as they are.\<close>

definition RuleMgr_EnableDeviceRuleStorage ::
  "(string \<Rightarrow> json option) \<Rightarrow> (string \<Rightarrow> bool) \<Rightarrow> rheap \<Rightarrow> cstr \<Rightarrow> rule_mgr \<Rightarrow> rule_mgr option" where
  "RuleMgr_EnableDeviceRuleStorage parser can_open h filePath m =
    (let (ok, path) = AtomicStringUpdate (rh_str h) (g_ruleFilePath m) filePath;
         m' = m \<lparr>g_ruleFilePath := path\<rparr>
     in if \<not> ok then Some m'
        else case (filePath, rule_file m') of
          (Some p, Some content) \<Rightarrow>
            if \<not> can_open p \<or> \<not> rh_str h (length content + 1) then Some m'
            else parse_with_mirror h (parser content) m'
        | _ \<Rightarrow> Some m')"

subsection \<open>Execution\<close>

datatype rule_event =
    SendMsg cstr cstr
  | LocalCommand command cstr cstr

text \<open>One delivery thread.  Without a user name it jumps to the release code before
  its locals are set, which is undefined; so is a missing send callback.\<close>

definition executeCommandCallbackThread ::
  "(json \<Rightarrow> cstr) \<Rightarrow> heap \<Rightarrow> rule_mgr \<Rightarrow> command_call \<Rightarrow> rule_event list option" where
  "executeCommandCallbackThread printer mem m args = do {
     username \<leftarrow> AtomicStringCopy mem (g_currentUserName m);
     body \<leftarrow> commandBody (snd args);
     case printer body of
       None \<Rightarrow> Some []
     | Some paras \<Rightarrow>
        if \<not> g_commandCallbackHandler m then Some []
        else do {
          deviceId \<leftarrow> deref (fst args);
          if deviceId \<noteq> username then do {
            guard_ub (g_deviceRuleSendMsgCallBack m);
            let cmdRoot = JSON_AddObjectToObject
                  (JSON_AddStringToObject
                    (JSON_AddStringToObject JSON_CreateObject ''service_id'' (command_serviceId (snd args)))
                    ''command_name'' (commandName (snd args)))
                  ''paras'' (Some body);
            Some [SendMsg (Some deviceId) (printer cmdRoot)] }
          else Some [LocalCommand (snd args) (Some deviceId) (Some paras)] } }"

text \<open>The copies a new thread is given; a failed one drops the command.\<close>

definition executeCommandCallback ::
  "(json \<Rightarrow> cstr) \<Rightarrow> heap \<Rightarrow> (command_call \<Rightarrow> bool) \<Rightarrow> rule_mgr \<Rightarrow> command_call \<Rightarrow> rule_event list option" where
  "executeCommandCallback printer mem spawn m call =
    (let (ok1, d) = CStrDuplicate mem None (fst call);
         (ok2, s) = CStrDuplicate mem None (command_serviceId (snd call));
         (ok3, n) = CStrDuplicate mem None (commandName (snd call))
     in if \<not> (ok1 \<and> ok2 \<and> ok3) \<or> commandBody (snd call) = None \<or> \<not> spawn call then Some []
        else executeCommandCallbackThread printer mem m
               (d, \<lparr>commandName = n, commandBody = commandBody (snd call), command_serviceId = s\<rparr>))"

fun deliver_all ::
  "(json \<Rightarrow> cstr) \<Rightarrow> heap \<Rightarrow> (command_call \<Rightarrow> bool) \<Rightarrow> rule_mgr \<Rightarrow> command_call list \<Rightarrow> rule_event list option" where
  "deliver_all printer mem spawn m [] = Some []"
| "deliver_all printer mem spawn m (c # cs) = do {
     e \<leftarrow> executeCommandCallback printer mem spawn m c;
     es \<leftarrow> deliver_all printer mem spawn m cs;
     Some (e @ es) }"

definition run_rules ::
  "(json \<Rightarrow> cstr) \<Rightarrow> heap \<Rightarrow> (command_call \<Rightarrow> bool) \<Rightarrow> bool \<Rightarrow> int \<Rightarrow> rule_mgr \<Rightarrow> (rule_mgr \<times> rule_event list) option" where
  "run_rules printer mem spawn isTimerRule epochTime m = do {
     (rules, calls) \<leftarrow> CheckRuleInfoListAndExecute mem (getPropertyCallback (g_cacheDeviceDataJSON m))
                        isTimerRule epochTime (g_ruleInfosList m);
     events \<leftarrow> deliver_all printer mem spawn m calls;
     Some (m \<lparr>g_ruleInfosList := rules\<rparr>, events) }"

text \<open>One round of the thread \<open>RuleMgr_CheckAndExecute\<close>, and the pass after a report.\<close>

definition RuleMgr_CheckAndExecute ::
  "(json \<Rightarrow> cstr) \<Rightarrow> heap \<Rightarrow> (command_call \<Rightarrow> bool) \<Rightarrow> int \<Rightarrow> rule_mgr \<Rightarrow> (rule_mgr \<times> rule_event list) option" where
  "RuleMgr_CheckAndExecute printer mem spawn nowMs m =
    (if g_ruleInfosList m = [] then Some (m, [])
     else run_rules printer mem spawn True (nowMs div 1000) m)"

definition RuleMgr_CheckAndExecuteNoTimers ::
  "(json \<Rightarrow> cstr) \<Rightarrow> heap \<Rightarrow> (command_call \<Rightarrow> bool) \<Rightarrow> int \<Rightarrow> rule_mgr \<Rightarrow> (rule_mgr \<times> rule_event list) option" where
  "RuleMgr_CheckAndExecuteNoTimers printer mem spawn nowMs m =
     run_rules printer mem spawn False (nowMs div 1000) m"

section \<open>The property cache\<close>

text \<open>The contract between the reports that fill the cache and the rule conditions that
  read it.\<close>

locale property_cache =
  fixes read :: "'c \<Rightarrow> string \<Rightarrow> string \<Rightarrow> prop_read"
    and put :: "'j \<Rightarrow> 'c \<Rightarrow> 'c"
    and ok :: "'c \<Rightarrow> bool"
    and service_of :: "'j \<Rightarrow> string option"
    and reading :: "'j \<Rightarrow> string \<Rightarrow> prop_read"
  assumes read_put_same: "ok c \<Longrightarrow> service_of j = Some s \<Longrightarrow> read (put j c) s p = reading j p"
    and read_put_other: "ok c \<Longrightarrow> service_of j \<noteq> Some s \<Longrightarrow> read (put j c) s p = read c s p"
    and ok_put: "ok c \<Longrightarrow> ok (put j c)"
begin

lemma ok_fold: "ok c \<Longrightarrow> ok (fold put js c)"
  by (induction js arbitrary: c) (auto simp: ok_put)

lemma read_fold:
  "ok c \<Longrightarrow> read (fold put js c) s p =
    (case find (\<lambda>j. service_of j = Some s) (rev js) of Some j \<Rightarrow> reading j p | None \<Rightarrow> read c s p)"
proof (induction js rule: rev_induct)
  case (snoc j js)
  then show ?case
    using ok_fold [OF snoc.prems, of js]
    by (cases "service_of j = Some s") (simp_all add: read_put_same read_put_other)
qed simp

end

definition service_id_of :: "json \<Rightarrow> cstr" where
  "service_id_of j = get_str (Some j) ''service_id''"

definition service_reading :: "json \<Rightarrow> string \<Rightarrow> prop_read" where
  "service_reading j p = find_property (child_list (GetObjectItem (Some j) ''properties'')) p"

definition cache_ok :: "json list \<Rightarrow> bool" where
  "cache_ok c \<longleftrightarrow> distinct (map service_id_of c)"

lemma getPropertyCallback_find:
  "getPropertyCallback c s p = (case find (\<lambda>j. service_id_of j = Some s) c of
     None \<Rightarrow> ReadFails | Some j \<Rightarrow> service_reading j p)"
proof -
  have "map_option ((!) c) (index_by P c) = find P c" for P :: "json \<Rightarrow> bool"
    by (induction c) (auto simp: option.map_comp comp_def)
  then show ?thesis
    by (auto simp: getPropertyCallback_def IOTA_JsonFindServiceInListById_def service_id_of_def
        service_reading_def split: option.splits)
qed

lemma cache_service_alt:
  "cache_service j c = (case service_id_of j of None \<Rightarrow> c
     | Some s \<Rightarrow> remove1_by (\<lambda>x. service_id_of x = Some s) c @ [j])"
  by (auto simp: cache_service_def IOTA_JsonFindServiceInListById_def service_id_of_def remove_at_index
      index_by_None split: option.splits)

lemma find_filter: "(\<And>x. P x \<Longrightarrow> Q x) \<Longrightarrow> find P (filter Q xs) = find P xs"
  by (induction xs) auto

lemma find_append: "find P (xs @ ys) = (case find P xs of None \<Rightarrow> find P ys | Some x \<Rightarrow> Some x)"
  by (induction xs) auto

lemma find_filter_none: "(\<And>x. P x \<Longrightarrow> \<not> Q x) \<Longrightarrow> find P (filter Q xs) = None"
  by (auto simp: find_None_iff)

interpretation cache: property_cache getPropertyCallback cache_service cache_ok service_id_of service_reading
proof unfold_locales
  fix c j s p
  assume c: "cache_ok c"
  have rm: "remove1_by (\<lambda>x. service_id_of x = Some i) c = filter (\<lambda>x. service_id_of x \<noteq> Some i) c" for i
    using c by (intro remove1_by_distinct) (simp add: cache_ok_def)
  show "cache_ok (cache_service j c)"
    using c by (cases "service_id_of j")
      (auto simp: cache_service_alt cache_ok_def map_remove1_by rm distinct_map_filter)
  show "getPropertyCallback (cache_service j c) s p = service_reading j p" if "service_id_of j = Some s"
    using that by (simp add: getPropertyCallback_find cache_service_alt rm find_append find_filter_none)
  show "getPropertyCallback (cache_service j c) s p = getPropertyCallback c s p" if "service_id_of j \<noteq> Some s"
  proof (cases "service_id_of j")
    case (Some i)
    then have "find (\<lambda>x. service_id_of x = Some s) (filter (\<lambda>x. service_id_of x \<noteq> Some i) c)
        = find (\<lambda>x. service_id_of x = Some s) c"
      using that by (intro find_filter) auto
    with Some that show ?thesis
      by (simp add: getPropertyCallback_find cache_service_alt rm find_append split: option.split)
  qed (simp add: cache_service_alt)
qed

text \<open>
  Rule conditions see the last reported properties: after caching a report, the
  property callback reads a service from its last entry in that report, with the
  properties an earlier entry had forgotten, and a service the report does not name
  as before; the cache keeps one entry per service.\<close>

theorem RuleMgr_CachePropertiesValue_last:
  assumes "cache_ok c"
  shows "cache_ok (RuleMgr_CachePropertiesValue report c)
    \<and> getPropertyCallback (RuleMgr_CachePropertiesValue report c) s p =
      (case find (\<lambda>j. service_id_of j = Some s) (rev (map snd (child_list report))) of
         Some j \<Rightarrow> service_reading j p
       | None \<Rightarrow> getPropertyCallback c s p)"
  unfolding RuleMgr_CachePropertiesValue_def
  using cache.ok_fold [OF assms] cache.read_fold [OF assms] by blast

definition sample_report :: "int \<Rightarrow> json" where
  "sample_report t = JArray [JObject [(''service_id'', JString ''room''),
     (''properties'', JObject [(''temp'', JNumber (of_int t))])]]"

theorem RuleMgr_CachePropertiesValue_last_witness:
  "getPropertyCallback (RuleMgr_CachePropertiesValue (Some (sample_report 25))
     (RuleMgr_CachePropertiesValue (Some (sample_report 20)) [])) ''room'' ''temp'' = ReadValue (PVDouble 25)"
proof -
  have "cache_ok []" by (simp add: cache_ok_def)
  then have ok: "cache_ok (RuleMgr_CachePropertiesValue (Some (sample_report 20)) [])"
    using RuleMgr_CachePropertiesValue_last by blast
  show ?thesis
    using RuleMgr_CachePropertiesValue_last [OF ok, of "Some (sample_report 25)" "''room''" "''temp''"]
    by (simp add: sample_report_def service_id_of_def service_reading_def get_str_def same_key_def
        to_lower_def chr_def PropertyValueSetDouble_def)
qed

section \<open>The mirror\<close>

definition json_rule_id :: "json \<Rightarrow> cstr" where
  "json_rule_id j = get_str (Some j) ''ruleId''"

definition mirrored :: "ruleInfo list \<Rightarrow> json list \<Rightarrow> bool" where
  "mirrored rules js \<longleftrightarrow> rules_inv rules \<and> list_all (\<lambda>j. json_rule_id j \<noteq> None) js
     \<and> ri_ruleId ` set rules \<subseteq> json_rule_id ` set js"

lemma RuleJSONObjDelById_remove:
  assumes "list_all (\<lambda>j. json_rule_id j \<noteq> None) js"
  shows "RuleJSONObjDelById (Some i) js = Some (remove1_by (\<lambda>j. json_rule_id j = Some i) js)"
  using assms unfolding RuleJSONObjDelById_def option.case
  by (induction js) (auto simp: json_rule_id_def)

lemma remove1_by_keeps:
  "f x \<noteq> k \<Longrightarrow> x \<in> set xs \<Longrightarrow> x \<in> set (remove1_by (\<lambda>x. f x = k) xs)"
  by (induction xs) auto

lemma mirrored_remove:
  assumes "mirrored rules js"
  shows "mirrored (remove1_by (\<lambda>r. ri_ruleId r = Some i) rules) (remove1_by (\<lambda>j. json_rule_id j = Some i) js)"
proof -
  have inv: "rules_inv rules" using assms by (simp add: mirrored_def)
  have "ri_ruleId r \<in> json_rule_id ` set (remove1_by (\<lambda>j. json_rule_id j = Some i) js)"
    if "r \<in> set rules" "ri_ruleId r \<noteq> Some i" for r
  proof -
    obtain j where "j \<in> set js" "json_rule_id j = ri_ruleId r"
      using assms \<open>r \<in> set rules\<close> by (auto simp: mirrored_def)
    then show ?thesis using that(2) remove1_by_keeps [of json_rule_id j "Some i" js] by force
  qed
  then show ?thesis
    using assms rules_inv_remove1_by [OF inv] inv set_remove1_by [of "\<lambda>j. json_rule_id j = Some i" js]
    by (auto simp: mirrored_def in_remove1_by rules_inv_def list_all_iff)
qed

lemma insert_rule_mirrored:
  assumes "mirrored rules js" "json_rule_id rule = Some i" "Some i \<notin> ri_ruleId ` set rules"
    and "insert_rule h UpdateRuleJSONObj rule rules (Some js) = Some (go, rules', js')"
  shows "\<exists>js1. js' = Some js1 \<and> mirrored rules' js1"
proof -
  have more: "mirrored rules (js @ [rule])"
    using assms(1,2) unfolding mirrored_def by (simp, blast)
  show ?thesis
  proof (cases "go")
    case False
    then show ?thesis using assms(4) more
      by (auto simp: insert_rule_def UpdateRuleJSONObj_def Let_def split: if_splits option.splits)
  next
    case True
    then obtain r where r: "ParseSingleRule h (Some rule) = Some (Some r)" "rules' = rules @ [r]"
      "js' = Some (js @ [rule])"
      using assms(4) by (auto simp: insert_rule_def UpdateRuleJSONObj_def Let_def split: if_splits option.splits)
    have "wf_rule r" "ri_ruleId r = Some i"
      using ParseSingleRule_wf [OF r(1)] assms(2) by (simp_all add: json_rule_id_def)
    then have "mirrored rules' (js @ [rule])"
      using more assms(2,3) r(2) by (simp add: mirrored_def rules_inv_def)
    with r(3) show ?thesis by blast
  qed
qed

lemma rule_step_mirrored:
  assumes m: "mirrored rules js"
    and step: "rule_step h UpdateRuleJSONObj rule rules (Some js) = Some (go, rules', js')"
  shows "\<exists>js1. js' = Some js1 \<and> mirrored rules' js1"
proof (cases "get_str (Some rule) ''ruleId''")
  case None
  then show ?thesis using step m by (auto simp: rule_step_def)
next
  case (Some i)
  let ?P = "\<lambda>r. ri_ruleId r = Some i"
  have inv: "rules_inv rules" using m by (simp add: mirrored_def)
  have found: "RuleListCheckExistence rules (Some i) = Some (index_by ?P rules)"
    using RuleListCheckExistence_index [OF rules_inv_ids [OF inv]] by simp
  have id: "json_rule_id rule = Some i" using Some by (simp add: json_rule_id_def)
  show ?thesis
  proof (cases "index_by ?P rules")
    case None
    then have "Some i \<notin> ri_ruleId ` set rules" by (auto simp: index_by_None_iff)
    with None step Some found m id show ?thesis
      by (auto simp: rule_step_def split: option.splits intro: insert_rule_mirrored)
  next
    case (Some j)
    have "UpdateRuleJSONObj True rule (Some js) = Some (remove1_by (\<lambda>j. json_rule_id j = Some i) js)"
      using RuleJSONObjDelById_remove m id
      by (simp add: UpdateRuleJSONObj_def mirrored_def json_rule_id_def)
    moreover have "Some i \<notin> ri_ruleId ` set (remove1_by ?P rules)"
      using inv by (auto simp: rules_inv_def in_remove1_by)
    ultimately show ?thesis
      using step \<open>get_str (Some rule) ''ruleId'' = Some i\<close> found Some m id mirrored_remove [OF m, of i]
        remove_at_index [OF Some]
      by (auto simp: rule_step_def split: option.splits if_splits intro: insert_rule_mirrored)
  qed
qed

lemma parse_rules_mirrored:
  "mirrored rules js \<Longrightarrow> parse_rules h UpdateRuleJSONObj payload rules (Some js) = Some (rules', js')
    \<Longrightarrow> \<exists>js1. js' = Some js1 \<and> mirrored rules' js1"
proof (induction payload arbitrary: rules js)
  case (Cons rule payload)
  then obtain go rules1 s1 where step: "rule_step h UpdateRuleJSONObj rule rules (Some js) = Some (go, rules1, s1)"
    and rest: "if go then parse_rules h UpdateRuleJSONObj payload rules1 s1 = Some (rules', js')
       else rules' = rules1 \<and> js' = s1"
    by (auto simp: bind_Some_iff split: if_splits)
  obtain js1 where "s1 = Some js1" "mirrored rules1 js1"
    using rule_step_mirrored [OF Cons.prems(1) step] by blast
  with rest Cons.IH show ?case by (cases go) auto
qed auto

lemma parse_with_mirror_inv:
  assumes "mirrored (g_ruleInfosList m) (g_ruleInfosListJSON m)" "parse_with_mirror h paras m = Some m'"
  shows "mirrored (g_ruleInfosList m') (g_ruleInfosListJSON m')"
  using assms parse_rules_mirrored [OF assms(1)]
  by (fastforce simp: parse_with_mirror_def ParseDeviceRuleWithHook_def bind_Some_iff split: option.splits)

lemma save_keeps [simp]:
  "g_ruleInfosList (RuleJSONObjSaveToFile pr co f m) = g_ruleInfosList m"
  "g_ruleInfosListJSON (RuleJSONObjSaveToFile pr co f m) = g_ruleInfosListJSON m"
  by (simp_all add: RuleJSONObjSaveToFile_def split: option.split)

lemma del_mirrored:
  "mirrored rules js \<Longrightarrow> list_all (\<lambda>d. ri_ruleId d \<noteq> None) ds \<Longrightarrow> del_mirror ds js = Some js'
    \<Longrightarrow> DeletRulesFromList rules ds = Some rules' \<Longrightarrow> mirrored rules' js'"
proof (induction ds arbitrary: rules js)
  case (Cons d ds)
  obtain i where i: "ri_ruleId d = Some i" using Cons.prems(2) by auto
  have inv: "rules_inv rules" using Cons.prems(1) by (simp add: mirrored_def)
  let ?P = "\<lambda>r. ri_ruleId r = Some i"
  have "RuleListCheckExistence rules (Some i) = Some (index_by ?P rules)"
    using RuleListCheckExistence_index [OF rules_inv_ids [OF inv]] by simp
  moreover have "(case index_by ?P rules of None \<Rightarrow> rules | Some i \<Rightarrow> remove_at i rules) = remove1_by ?P rules"
    by (auto simp: remove_at_index split: option.splits dest: index_by_None)
  ultimately have "DeletRulesFromList (remove1_by ?P rules) ds = Some rules'"
    using Cons.prems(4) i by simp
  moreover have "del_mirror ds (remove1_by (\<lambda>j. json_rule_id j = Some i) js) = Some js'"
    using Cons.prems(1,3) i RuleJSONObjDelById_remove by (simp add: mirrored_def)
  moreover have "list_all (\<lambda>d. ri_ruleId d \<noteq> None) ds" using Cons.prems(2) by simp
  ultimately show ?case using Cons.IH [OF mirrored_remove [OF Cons.prems(1), of i]] by blast
qed simp

text \<open>
  C8. The rule file never misses a rule: with rule storage enabled, parsing a payload,
  loading the rule file and deleting rules keep the rule list well formed and keep a
  JSON copy of every rule in the mirror that is written to the file.\<close>

theorem RuleMgr_mirror_inv:
  assumes "mirrored (g_ruleInfosList m) (g_ruleInfosListJSON m)"
    and "RuleMgr_ParseJSON True pr co h paras m = Some m'
       \<or> RuleMgr_EnableDeviceRuleStorage parser co h path m = Some m'
       \<or> (list_all (\<lambda>d. ri_ruleId d \<noteq> None) dels \<and> RuleMgr_DelRule True pr co h dels m = Some m')"
  shows "mirrored (g_ruleInfosList m') (g_ruleInfosListJSON m')"
  using assms(2)
proof (elim disjE conjE)
  assume "RuleMgr_ParseJSON True pr co h paras m = Some m'"
  then show ?thesis
    using parse_with_mirror_inv [OF assms(1)] by (auto simp: RuleMgr_ParseJSON_def bind_Some_iff Let_def)
next
  assume "RuleMgr_EnableDeviceRuleStorage parser co h path m = Some m'"
  then show ?thesis
    using assms(1) parse_with_mirror_inv [of "m\<lparr>g_ruleFilePath := _\<rparr>"]
    by (auto simp: RuleMgr_EnableDeviceRuleStorage_def Let_def split: prod.splits if_splits option.splits)
next
  assume "list_all (\<lambda>d. ri_ruleId d \<noteq> None) dels" "RuleMgr_DelRule True pr co h dels m = Some m'"
  then show ?thesis
    using del_mirrored [OF assms(1)] by (auto simp: RuleMgr_DelRule_def bind_Some_iff Let_def)
qed

definition sample_mgr :: rule_mgr where
  "sample_mgr = (RuleMgr_Init None) \<lparr>g_ruleInfosList := [sample_rule ''r1'' 2],
     g_ruleInfosListJSON := [sample_rule_json ''r1'' 2], g_commandCallbackHandler := True,
     g_deviceRuleSendMsgCallBack := True, g_currentUserName := Some ''d1''\<rparr>"

lemma sample_json_rule_id [simp]: "json_rule_id (sample_rule_json i v) = Some i"
  by (simp add: json_rule_id_def)

theorem RuleMgr_mirror_inv_witness:
  "\<exists>m'. RuleMgr_DelRule True (\<lambda>_. Some []) (\<lambda>_. True) rheap_ok [sample_rule ''r1'' 0] sample_mgr = Some m'
     \<and> mirrored (g_ruleInfosList m') (g_ruleInfosListJSON m')"
proof -
  have "mirrored (g_ruleInfosList sample_mgr) (g_ruleInfosListJSON sample_mgr)"
    by (simp add: sample_mgr_def mirrored_def rules_inv_def sample_rule_wf)
  moreover have "\<exists>m'. RuleMgr_DelRule True (\<lambda>_. Some []) (\<lambda>_. True) rheap_ok [sample_rule ''r1'' 0] sample_mgr
      = Some m'"
    by (simp add: RuleMgr_DelRule_def sample_mgr_def RuleJSONObjDelById_def remove_at_def Let_def)
  ultimately show ?thesis
    using RuleMgr_mirror_inv [where m = sample_mgr and dels = "[sample_rule ''r1'' 0]"
        and pr = "\<lambda>_. Some []" and co = "\<lambda>_. True" and h = rheap_ok] by auto
qed

section \<open>Malformed rules and delivery\<close>

text \<open>
  A malformed rule hides every rule after it: parsing stops at the first rule that
  does not parse, so the rest of the payload, or of the rule file the malformed rule
  was mirrored into, is never loaded.\<close>

theorem ParseDeviceRule_stops_at_malformed:
  assumes "rules_inv list" "get_str (Some bad) ''ruleId'' = Some i" "Some i \<notin> ri_ruleId ` set list"
    and "ParseSingleRule h (Some bad) = Some None"
  shows "ParseDeviceRule h list (payload_of (bad # rest)) = Some list"
proof -
  have "index_by (\<lambda>r. ri_ruleId r = Some i) list = None"
    unfolding index_by_None_iff using assms(3) by force
  then show ?thesis
    using assms(2,4) RuleListCheckExistence_index [OF rules_inv_ids [OF assms(1)], of "Some i"]
    by (simp add: ParseDeviceRule_def ParseDeviceRuleWithHook_def payload_of_def rule_step_def
        insert_rule_def Let_def split: option.split)
qed

theorem ParseDeviceRule_stops_at_malformed_witness:
  "ParseDeviceRule rheap_ok [] (payload_of [bad_rule_json, sample_rule_json ''r2'' 1]) = Some []"
  by (rule ParseDeviceRule_stops_at_malformed [where i = "''r1''"])
     (simp_all add: rules_inv_def bad_rule_json_def get_str_def same_key_def to_lower_def
        chr_def ParseSingleRule_def dup_field_def CStrDuplicateNotNULL_def CStrDuplicate_def INT32_MAX_def
        rheap_ok_def Let_def)

lemma CStrDuplicate_ok:
  "\<forall>n. mem n \<Longrightarrow> length s + 1 < INT32_MAX \<Longrightarrow> CStrDuplicate mem self (Some s) = (True, Some s)"
  by (simp add: CStrDuplicate_def Let_def)

text \<open>
  A command of a rule goes to the right place: with the user name and both callbacks
  set, memory available and printable bodies, a command for this device is handed to
  the local command callback with its parameters, and a command for another device
  is sent to that device as a message with service id, command name and parameters.\<close>

theorem executeCommandCallback_delivers:
  assumes "\<forall>n. mem n" "spawn call" "\<forall>j. printer j \<noteq> None"
    and "g_currentUserName m = Some u" "g_commandCallbackHandler m" "g_deviceRuleSendMsgCallBack m"
    and "call = (Some d, \<lparr>commandName = Some n, commandBody = Some body, command_serviceId = Some sv\<rparr>)"
    and "list_all (\<lambda>s. length s + 1 < INT32_MAX) [u, d, n, sv]"
  shows "executeCommandCallback printer mem spawn m call = Some
     [if d = u then LocalCommand (snd call) (Some d) (printer body)
      else SendMsg (Some d) (printer (JObject [(''service_id'', JString sv), (''command_name'', JString n),
             (''paras'', body)]))]"
proof -
  have dup: "CStrDuplicate mem None (Some s) = (True, Some s)" if "s \<in> {u, d, n, sv}" for s
    using CStrDuplicate_ok [OF assms(1), of s None] assms(8) that by auto
  obtain p where "printer body = Some p" using assms(3) by blast
  then show ?thesis
    using assms(2,4-7) dup
    by (simp add: executeCommandCallback_def executeCommandCallbackThread_def AtomicStringCopy_def
        json_builders Let_def)
qed

theorem executeCommandCallback_delivers_witness:
  "executeCommandCallback (\<lambda>_. Some ''{}'') (\<lambda>_. True) (\<lambda>_. True) sample_mgr
     (Some ''d2'', action_command sample_action) = Some [SendMsg (Some ''d2'') (Some ''{}'')]"
  using executeCommandCallback_delivers [where printer = "\<lambda>_. Some ''{}''" and mem = "\<lambda>_. True"
      and spawn = "\<lambda>_. True" and m = sample_mgr and u = "''d1''" and d = "''d2''" and n = "''on''"
      and sv = "''lamp''" and body = "JObject []" and call = "(Some ''d2'', action_command sample_action)"]
  by (simp add: sample_mgr_def sample_action_def INT32_MAX_def)

end
