(* ===== verification/Crypto.thy ===== *)
theory Crypto
  imports Strings
begin

text \<open>
  src/base/hmac\_sha256.c: the password digest with its retries over the time
  stamp, and the base64 codec.  HMAC is OpenSSL's and a parameter: it maps the hash
  chosen, the key bytes and the data to the digest it leaves in its static buffer,
  NULL on an error; the bytes behind the digest in that buffer are zero.  A key is the
  whole buffer it lives in, its text being what comes before the first NUL.
\<close>

unbundle bit_operations_syntax

section \<open>The digest\<close>

type_synonym hmac = "bool \<Rightarrow> char list \<Rightarrow> string \<Rightarrow> 8 word list option"

definition NUL :: char where "NUL = char_of (0 :: nat)"

definition text_of :: "char list \<Rightarrow> string" where
  "text_of buf = takeWhile (\<lambda>c. c \<noteq> NUL) buf"

definition TIME_STAMP_LENGTH :: nat where "TIME_STAMP_LENGTH = 10"
definition TRY_MAX_TIME :: nat where "TRY_MAX_TIME = 100"
definition SHA256_ENCRYPTION_LENGRH :: nat where "SHA256_ENCRYPTION_LENGRH = 32"

definition strlen_bytes :: "8 word list \<Rightarrow> nat" where
  "strlen_bytes d = length (takeWhile (\<lambda>b. b \<noteq> 0) d)"

text \<open>Reading the first ten bytes of the key and rewriting it; both undefined outside
  the buffer.\<close>

definition key_prefix :: "char list \<Rightarrow> char list option" where
  "key_prefix buf = do { guard_ub (TIME_STAMP_LENGTH \<le> length buf); Some (take TIME_STAMP_LENGTH buf) }"

definition write_key :: "int \<Rightarrow> char list \<Rightarrow> char list option" where
  "write_key timeTmp buf = do {
     let text = take TIME_STAMP_LENGTH (dec_int timeTmp);
     guard_ub (length text + 1 \<le> length buf);
     Some (text @ [NUL] @ drop (length text + 1) buf) }"

fun hmac_retry ::
  "hmac \<Rightarrow> bool \<Rightarrow> string \<Rightarrow> nat \<Rightarrow> int \<Rightarrow> char list \<Rightarrow> 8 word list \<Rightarrow> (char list \<times> 8 word list option) option" where
  "hmac_retry HMAC sha256 inputData left timeTmp buf temp =
    (if strlen_bytes temp = SHA256_ENCRYPTION_LENGRH then Some (buf, Some temp)
     else case left of
       0 \<Rightarrow> Some (buf, None)
     | Suc k \<Rightarrow> do {
         buf' \<leftarrow> write_key (timeTmp + 1) buf;
         key \<leftarrow> key_prefix buf';
         temp' \<leftarrow> HMAC sha256 key inputData;
         hmac_retry HMAC sha256 inputData k (timeTmp + 1) buf' temp' })"

declare hmac_retry.simps [simp del]

definition hex_digit :: "8 word \<Rightarrow> char" where
  "hex_digit h = (if h \<le> 9 then char_of (unat h + 48) else char_of (unat h + 97 - 10))"

definition hex_byte :: "8 word \<Rightarrow> string" where
  "hex_byte b = [hex_digit (drop_bit 4 b AND 0x0F), hex_digit (b AND 0x0F)]"

text \<open>The return value, the key buffer after it and the text written to \<open>outData\<close>.
  \<open>checkTimestamp \<le> 1\<close> selects SHA256, anything above SM3.\<close>

definition EncryptWithHMac ::
  "hmac \<Rightarrow> cstr \<Rightarrow> char list option \<Rightarrow> nat \<Rightarrow> bool \<Rightarrow> int
    \<Rightarrow> (int \<times> char list option \<times> cstr) option" where
  "EncryptWithHMac HMAC inputData inputKey inEncryDataLen outData checkTimestamp =
    (case (inputData, inputKey, outData) of
       (Some d, Some buf, True) \<Rightarrow> do {
         let timeTmp = strto64 (text_of buf);
         let sha256 = (checkTimestamp \<le> 1);
         key \<leftarrow> (if sha256 then Some (text_of buf) else key_prefix buf);
         temp \<leftarrow> HMAC sha256 key d;
         (buf', r) \<leftarrow> hmac_retry HMAC sha256 d (TRY_MAX_TIME - 1) timeTmp buf temp;
         case r of
           None \<Rightarrow> Some (IOTA_FAILURE, Some buf', None)
         | Some digest \<Rightarrow> do {
             guard_ub (inEncryDataLen \<le> length digest);
             Some (IOTA_SUCCESS, Some buf', Some (concat (map hex_byte (take inEncryDataLen digest)))) } }
     | _ \<Rightarrow> Some (IOTA_FAILURE, inputKey, None))"

section \<open>Base64\<close>

definition base64_table :: string where
  "base64_table = ''ABCDEFGHIJKLMNOPQRSTUVWXYZabcdefghijklmnopqrstuvwxyz0123456789+/''"

definition b64_char :: "8 word \<Rightarrow> char" where
  "b64_char w = base64_table ! unat w"

text \<open>The four table indices of a group of three bytes.\<close>

definition sextet0 :: "8 word \<Rightarrow> 8 word" where
  "sextet0 a = drop_bit 2 a"

definition sextet1 :: "8 word \<Rightarrow> 8 word \<Rightarrow> 8 word" where
  "sextet1 a b = (push_bit 4 (a AND 0x3) OR drop_bit 4 b)"

definition sextet2 :: "8 word \<Rightarrow> 8 word \<Rightarrow> 8 word" where
  "sextet2 b c = (push_bit 2 (b AND 0xf) OR drop_bit 6 c)"

definition sextet3 :: "8 word \<Rightarrow> 8 word" where
  "sextet3 c = (c AND 0x3f)"

text \<open>The loop over groups of three bytes; the array ends with the NUL of the string
  and reading behind it is undefined.\<close>

fun encode_groups :: "8 word list \<Rightarrow> nat \<Rightarrow> string option" where
  "encode_groups arr 0 = Some []"
| "encode_groups (a # b # c # arr) (Suc n) = do {
     rest \<leftarrow> encode_groups arr n;
     Some (b64_char (sextet0 a) # b64_char (sextet1 a b) # b64_char (sextet2 b c)
         # b64_char (sextet3 c) # rest) }"
| "encode_groups arr (Suc n) = None"

text \<open>For the empty string the bound \<open>len - 2\<close> wraps around and the loop runs out of
  the buffers.\<close>

definition base64_encode :: "heap \<Rightarrow> 8 word list \<Rightarrow> cstr option" where
  "base64_encode mem str =
    (let str_len = length str;
         len = (if str_len mod 3 = 0 then str_len div 3 * 4 else (str_len div 3 + 1) * 4)
     in if \<not> mem (len + 1) then Some None
        else do {
          guard_ub (2 \<le> len);
          res \<leftarrow> encode_groups (str @ [0]) (len div 4);
          Some (Some (if str_len mod 3 = 1 then take (len - 2) res @ ''==''
                      else if str_len mod 3 = 2 then take (len - 1) res @ ''=''
                      else res)) })"

text \<open>The decoding table has 123 entries; a larger character reads outside it.\<close>

definition decode_table :: "nat list" where
  "decode_table = replicate 43 0 @ [62] @ replicate 3 0 @ [63] @ [52..<62] @ replicate 8 0
     @ [1..<26] @ replicate 6 0 @ [26..<52]"

definition decode_char :: "char \<Rightarrow> (8 word) option" where
  "decode_char c = (if chr c < length decode_table then Some (word_of_nat (decode_table ! chr c)) else None)"

fun decode_groups :: "char list \<Rightarrow> nat \<Rightarrow> 8 word list option" where
  "decode_groups code 0 = Some []"
| "decode_groups (a # b # c # d # code) (Suc n) = do {
     w0 \<leftarrow> decode_char a; w1 \<leftarrow> decode_char b; w2 \<leftarrow> decode_char c; w3 \<leftarrow> decode_char d;
     rest \<leftarrow> decode_groups code n;
     Some ((push_bit 2 w0 OR drop_bit 4 w1) # (push_bit 4 w1 OR drop_bit 2 w2)
         # (push_bit 6 w2 OR w3) # rest) }"
| "decode_groups code (Suc n) = None"

text \<open>The number of iterations of the loop whose index grows by four below \<open>len - 2\<close>,
  and the bytes it leaves in a buffer of \<open>str_len + 1\<close> bytes whose last one is NUL;
  a write behind the buffer is undefined.\<close>

definition base64_decode :: "heap \<Rightarrow> string \<Rightarrow> 8 word list option option" where
  "base64_decode mem code =
    (let len = length code;
         pad = (if contains code ''=='' then 2 else if contains code ''='' then 1 else 0);
         str_len = (len div 4 * 3 + 2 ^ 64 - pad) mod 2 ^ 64;
         request = (str_len + 1) mod 2 ^ 64
     in if \<not> mem request then Some None
        else do {
          guard_ub (str_len < request \<and> 2 \<le> len);
          let n = (len - 2 + 3) div 4;
          res \<leftarrow> decode_groups (code @ [NUL]) n;
          guard_ub (3 * n \<le> str_len + 1);
          Some (Some (res @ replicate (str_len + 1 - 3 * n) 0)) })"

text \<open>The C string in a byte buffer.\<close>

definition bytes_text :: "8 word list \<Rightarrow> 8 word list" where
  "bytes_text bs = takeWhile (\<lambda>b. b \<noteq> 0) bs"

section \<open>The retries of the digest\<close>

lemma text_of_text: "NUL \<notin> set t \<Longrightarrow> text_of (t @ [NUL]) = t"
  unfolding text_of_def by (induction t) auto

lemma NUL_not_digit: "\<not> is_digit NUL"
  by (simp add: NUL_def is_digit_def chr_def)

lemma length_dec_nat_ge: "10 ^ k \<le> n \<Longrightarrow> Suc k \<le> length (dec_nat n)"
proof (induction k arbitrary: n)
  case 0
  have "0 < length (dec_nat n)" by simp
  then show ?case by linarith
next
  case (Suc k)
  have "10 ^ k \<le> n div 10" using Suc.prems by (simp add: less_eq_div_iff_mult_less_eq mult.commute)
  moreover have "\<not> n < 10"
  proof -
    have "(1 :: nat) \<le> 10 ^ k" by simp
    then show ?thesis using Suc.prems unfolding power_Suc by linarith
  qed
  ultimately show ?case using Suc.IH [of "n div 10"] by (simp add: dec_nat.simps [of n])
qed

definition stamp :: "nat \<Rightarrow> char list" where
  "stamp t = dec_nat t @ [NUL]"

definition ten_digits :: "nat \<Rightarrow> bool" where
  "ten_digits t \<longleftrightarrow> 10 ^ 9 \<le> t \<and> t < 10 ^ 10"

lemma length_ten_digits: "ten_digits t \<Longrightarrow> length (dec_nat t) = 10"
  using length_dec_nat [of t 10] length_dec_nat_ge [of 9 t] by (simp add: ten_digits_def)

lemma stamp_facts:
  assumes "ten_digits t"
  shows "text_of (stamp t) = dec_nat t" "key_prefix (stamp t) = Some (dec_nat t)"
    "write_key (int t) (stamp u) = (if ten_digits u then Some (stamp t) else write_key (int t) (stamp u))"
    "strto64 (dec_nat t) = int t"
proof -
  have l: "length (dec_nat t) = 10" using assms by (rule length_ten_digits)
  have "NUL \<notin> set (dec_nat t)" using dec_nat_set NUL_not_digit by blast
  then show "text_of (stamp t) = dec_nat t" by (simp add: stamp_def text_of_text)
  show "key_prefix (stamp t) = Some (dec_nat t)"
    by (simp add: key_prefix_def stamp_def TIME_STAMP_LENGTH_def l)
  show "write_key (int t) (stamp u) = (if ten_digits u then Some (stamp t) else write_key (int t) (stamp u))"
    using length_ten_digits [of u] by (simp add: write_key_def stamp_def TIME_STAMP_LENGTH_def dec_int_def l)
  show "strto64 (dec_nat t) = int t"
    using assms by (simp add: strto64_digits dec_nat_digits ten_digits_def)
qed

definition nul_free :: "8 word list \<Rightarrow> bool" where
  "nul_free d \<longleftrightarrow> 0 \<notin> set d"

lemma strlen_nul_free: "length d = 32 \<Longrightarrow> strlen_bytes d = SHA256_ENCRYPTION_LENGRH \<longleftrightarrow> nul_free d"
proof -
  assume l: "length d = 32"
  show ?thesis
  proof
    assume "strlen_bytes d = SHA256_ENCRYPTION_LENGRH"
    then have "takeWhile (\<lambda>b. b \<noteq> 0) d = d"
      using l by (metis SHA256_ENCRYPTION_LENGRH_def length_append append_take_drop_id le_refl
          strlen_bytes_def takeWhile_eq_take take_all)
    then show "nul_free d" by (auto simp: takeWhile_eq_all_conv nul_free_def)
  next
    assume "nul_free d"
    then have all: "takeWhile (\<lambda>b. b \<noteq> 0) d = d" by (auto simp: takeWhile_eq_all_conv nul_free_def)
    show "strlen_bytes d = SHA256_ENCRYPTION_LENGRH"
      unfolding strlen_bytes_def all SHA256_ENCRYPTION_LENGRH_def by (rule l)
  qed
qed

text \<open>HMAC as the code relies on it: 32 bytes for every key.\<close>

definition hmac_total :: "hmac \<Rightarrow> bool" where
  "hmac_total HMAC \<longleftrightarrow> (\<forall>m k d. \<exists>digest. HMAC m k d = Some digest \<and> length digest = 32)"

definition digest_at :: "hmac \<Rightarrow> bool \<Rightarrow> string \<Rightarrow> nat \<Rightarrow> 8 word list" where
  "digest_at HMAC m d t = the (HMAC m (dec_nat t) d)"

lemma digest_at_HMAC:
  "hmac_total HMAC \<Longrightarrow> HMAC m (dec_nat t) d = Some (digest_at HMAC m d t) \<and> length (digest_at HMAC m d t) = 32"
  unfolding hmac_total_def digest_at_def by (metis option.sel)

lemma hmac_retry_search:
  assumes "hmac_total HMAC" "ten_digits t" "ten_digits (t + left)"
  shows "hmac_retry HMAC m d left (int t) (stamp t) (digest_at HMAC m d t) =
    (case find (\<lambda>k. nul_free (digest_at HMAC m d (t + k))) [0..<Suc left] of
       None \<Rightarrow> Some (stamp (t + left), None)
     | Some k \<Rightarrow> Some (stamp (t + k), Some (digest_at HMAC m d (t + k))))"
  using assms(2,3)
proof (induction left arbitrary: t)
  case 0
  then show ?case
    using digest_at_HMAC [OF assms(1), of m t d]
    by (subst hmac_retry.simps) (simp add: strlen_nul_free)
next
  case (Suc left)
  have t1: "ten_digits (Suc t)" "ten_digits (Suc t + left)" using Suc.prems by (auto simp: ten_digits_def)
  have w: "write_key (int t + 1) (stamp t) = Some (stamp (Suc t))"
    using stamp_facts(3) [OF t1(1), of t] Suc.prems(1) by (simp add: add.commute)
  have IH: "hmac_retry HMAC m d left (int t + 1) (stamp (Suc t)) (digest_at HMAC m d (Suc t)) =
    (case find (\<lambda>k. nul_free (digest_at HMAC m d (Suc t + k))) [0..<Suc left] of
       None \<Rightarrow> Some (stamp (Suc t + left), None)
     | Some k \<Rightarrow> Some (stamp (Suc t + k), Some (digest_at HMAC m d (Suc t + k))))"
    using Suc.IH [OF t1] by (simp add: add.commute)
  have up: "[0..<Suc (Suc left)] = 0 # map Suc [0..<Suc left]" by (simp add: upt_conv_Cons map_Suc_upt)
  have f: "find P (map Suc xs) = map_option Suc (find (\<lambda>k. P (Suc k)) xs)" for P xs
    by (induction xs) auto
  show ?case
    unfolding up
    using digest_at_HMAC [OF assms(1), of m t d] digest_at_HMAC [OF assms(1), of m "Suc t" d] w
      stamp_facts(2) [OF t1(1)] IH
    by (subst hmac_retry.simps) (auto simp: strlen_nul_free f simp del: upt_Suc split: option.splits)
qed

lemma EncryptWithHMac_search:
  assumes "hmac_total HMAC" "ten_digits t" "ten_digits (t + 99)"
  shows "EncryptWithHMac HMAC (Some d) (Some (stamp t)) 32 True mode =
    (case find (\<lambda>k. nul_free (digest_at HMAC (mode \<le> 1) d (t + k))) [0..<100] of
       None \<Rightarrow> Some (IOTA_FAILURE, Some (stamp (t + 99)), None)
     | Some k \<Rightarrow> Some (IOTA_SUCCESS, Some (stamp (t + k)),
                       Some (concat (map hex_byte (digest_at HMAC (mode \<le> 1) d (t + k))))))"
proof -
  have h: "HMAC (mode \<le> 1) (dec_nat t) d = Some (digest_at HMAC (mode \<le> 1) d t)"
    "\<And>u. length (digest_at HMAC (mode \<le> 1) d u) = 32"
    using digest_at_HMAC [OF assms(1)] by simp_all
  have r: "hmac_retry HMAC (mode \<le> 1) d 99 (int t) (stamp t) (digest_at HMAC (mode \<le> 1) d t) =
    (case find (\<lambda>k. nul_free (digest_at HMAC (mode \<le> 1) d (t + k))) [0..<100] of
       None \<Rightarrow> Some (stamp (t + 99), None)
     | Some k \<Rightarrow> Some (stamp (t + k), Some (digest_at HMAC (mode \<le> 1) d (t + k))))"
    using hmac_retry_search [OF assms(1,2), of 99 "mode \<le> 1" d] assms(3) by (simp del: upt_Suc)
  show ?thesis
    using h r stamp_facts(1,2,4) [OF assms(2)]
    by (auto simp: EncryptWithHMac_def TRY_MAX_TIME_def Let_def simp del: upt_Suc split: option.splits)
qed

text \<open>
  The password digest retries until it is free of NUL bytes and never leaves its
  buffers: for a ten-digit time stamp in a buffer of its size, EncryptWithHMac
  succeeds with the first time stamp among the next 100 whose digest has no NUL
  byte, leaves that time stamp in the key buffer and writes the digest as 64 hex
  digits; when all 100 digests have a NUL byte it fails.\<close>

theorem EncryptWithHMac_first_nul_free:
  assumes "hmac_total HMAC" "ten_digits t" "ten_digits (t + 99)"
  shows "EncryptWithHMac HMAC (Some d) (Some (stamp t)) 32 True mode =
    (case find (\<lambda>k. nul_free (digest_at HMAC (mode \<le> 1) d (t + k))) [0..<100] of
       None \<Rightarrow> Some (IOTA_FAILURE, Some (stamp (t + 99)), None)
     | Some k \<Rightarrow> Some (IOTA_SUCCESS, Some (stamp (t + k)),
                       Some (concat (map hex_byte (digest_at HMAC (mode \<le> 1) d (t + k))))))"
  using assms by (rule EncryptWithHMac_search)

theorem EncryptWithHMac_first_nul_free_witness:
  "EncryptWithHMac (\<lambda>m k d. Some (replicate 32 7)) (Some ''secret'') (Some (stamp 2024010112)) 32 True 0
   = Some (IOTA_SUCCESS, Some (stamp 2024010112), Some (concat (replicate 32 ''07'')))"
proof -
  let ?H = "\<lambda>m k d. Some (replicate 32 7)"
  have "hmac_total ?H" by (simp add: hmac_total_def)
  moreover have "ten_digits 2024010112" "ten_digits (2024010112 + 99)" by (simp_all add: ten_digits_def)
  moreover have dig: "digest_at ?H m d t = replicate 32 7" for m d t by (simp add: digest_at_def)
  moreover have hex: "hex_byte 7 = ''07''"
  proof -
    have "(drop_bit 4 7 AND 0x0F :: 8 word) = 0" "(7 AND 0x0F :: 8 word) = 7" by simp_all
    then show ?thesis by (simp add: hex_byte_def hex_digit_def) code_simp
  qed
  moreover have "[0..<100] = 0 # [1..<100]" by (simp add: upt_conv_Cons)
  ultimately show ?thesis
    using EncryptWithHMac_first_nul_free [of ?H 2024010112 "''secret''" 0]
    by (simp add: nul_free_def map_replicate)
qed

section \<open>The base64 round trip\<close>

lemma upto_64: "[0..<64] = [0, 1, 2, 3, 4, 5, 6, 7, 8, 9, 10, 11, 12, 13, 14, 15, 16, 17, 18, 19, 20, 21, 22, 23,
      24, 25, 26, 27, 28, 29, 30, 31, 32, 33, 34, 35, 36, 37, 38, 39, 40, 41, 42, 43, 44, 45,
      46, 47, 48, 49, 50, 51, 52, 53, 54, 55, 56, 57, 58, 59, 60, 61, 62, 63]"
  by (simp add: upt_rec)

lemma decode_b64_all: "map (\<lambda>c. decode_table ! chr c) base64_table = [0..<64]"
  unfolding upto_64 by (simp add: base64_table_def decode_table_def chr_def nth_append)

lemma base64_table_bounds: "list_all (\<lambda>c. chr c < length decode_table) base64_table" "length base64_table = 64"
  by (simp_all add: base64_table_def decode_table_def chr_def)

lemma decode_b64_char:
  assumes "take_bit 6 w = w" shows "decode_char (b64_char w) = Some w"
proof -
  have "unat w = take_bit 6 (unat w)" using arg_cong [OF assms, of unat] by (simp add: unsigned_take_bit_eq)
  then have "unat w < 64" using take_bit_nat_less_exp [of 6 "unat w"] by simp
  then have "decode_table ! chr (base64_table ! unat w) = unat w"
    using arg_cong [OF decode_b64_all, of "\<lambda>xs. xs ! unat w"] base64_table_bounds(2) by simp
  moreover have "chr (base64_table ! unat w) < length decode_table"
    using base64_table_bounds \<open>unat w < 64\<close> by (simp add: list_all_length)
  ultimately show ?thesis by (simp add: decode_char_def b64_char_def)
qed

lemma less_8_cases: "n < 8 \<Longrightarrow> n = 0 \<or> n = 1 \<or> n = 2 \<or> n = 3 \<or> n = 4 \<or> n = 5 \<or> n = 6 \<or> n = (7 :: nat)"
  by arith

lemma word8_eqI:
  fixes v w :: "8 word"
  assumes "bit v 0 = bit w 0" "bit v 1 = bit w 1" "bit v 2 = bit w 2" "bit v 3 = bit w 3"
    "bit v 4 = bit w 4" "bit v 5 = bit w 5" "bit v 6 = bit w 6" "bit v 7 = bit w 7"
  shows "v = w"
proof (rule bit_word_eqI)
  fix n assume "n < LENGTH(8)"
  then have "n < 8" by simp
  from less_8_cases [OF this] assms show "bit v n = bit w n" by (elim disjE) simp_all
qed

lemma mask_bits: "(3 :: 8 word) = mask 2" "(0xf :: 8 word) = mask 4" "(0x3f :: 8 word) = mask 6"
  by (simp_all add: mask_eq_exp_minus_1)

lemma not_bit_8: "\<not> bit w n" if "8 \<le> n" for w :: "8 word"
  using that bit_imp_le_length [of w n] by auto

lemma sextets_small:
  "take_bit 6 (sextet0 a) = sextet0 a" "take_bit 6 (sextet1 a b) = sextet1 a b"
  "take_bit 6 (sextet2 b c) = sextet2 b c" "take_bit 6 (sextet3 c) = sextet3 c"
  unfolding mask_bits sextet0_def sextet1_def sextet2_def sextet3_def
  by (rule word8_eqI; simp add: bit_simps not_bit_8)+

lemma sextets_join:
  "push_bit 2 (sextet0 a) OR drop_bit 4 (sextet1 a b) = a"
  "push_bit 4 (sextet1 a b) OR drop_bit 2 (sextet2 b c) = b"
  "push_bit 6 (sextet2 b c) OR sextet3 c = c"
  unfolding mask_bits sextet0_def sextet1_def sextet2_def sextet3_def
  by (rule word8_eqI; simp add: bit_simps not_bit_8)+

lemma encode_groups_decode:
  "length bs = 3 * n \<Longrightarrow> \<exists>code. encode_groups (bs @ rest) n = Some code \<and> length code = 4 * n
    \<and> decode_groups (code @ tail) n = Some bs \<and> CHR ''='' \<notin> set code"
proof (induction n arbitrary: bs)
  case (Suc n)
  then obtain a b c bs' where bs: "bs = a # b # c # bs'" "length bs' = 3 * n"
    by (auto simp: length_Suc_conv numeral_3_eq_3)
  obtain code where code: "encode_groups (bs' @ rest) n = Some code" "length code = 4 * n"
    "decode_groups (code @ tail) n = Some bs'" "CHR ''='' \<notin> set code"
    using Suc.IH [OF bs(2)] by blast
  have noeq: "b64_char w \<noteq> CHR ''=''" if "take_bit 6 w = w" for w
  proof
    assume "b64_char w = CHR ''=''"
    then have w: "decode_char (CHR ''='') = Some w" using decode_b64_char [OF that] by simp
    have "decode_char (CHR ''='') = Some 0" by code_simp
    then have "w = 0" using w by simp
    then have "b64_char w = CHR ''A''" by (simp add: b64_char_def base64_table_def)
    with \<open>b64_char w = CHR ''=''\<close> show False by simp
  qed
  show ?case
    using code noeq [THEN not_sym]
    by (simp add: bs decode_b64_char sextets_small sextets_join)
qed simp

lemma contains_Nil_char: "c \<notin> set s \<Longrightarrow> \<not> contains s (c # t)"
  by (auto simp: contains_iff sublist_def)



text \<open>
  Decoding overruns its buffer whenever the text ends in two padding characters:
  base64\_decode allocates one byte less than the loop writes, so it is undefined
  for every text of whole groups that holds "==".\<close>

theorem base64_decode_overrun:
  assumes "length code = 4 * n" "0 < n" "n < 2 ^ 60" "contains code ''==''" "mem (3 * n - 1)"
  shows "base64_decode mem code = None"
proof -
  have len: "4 * n div 4 * 3 = 3 * n" by simp
  have m: "(3 * n + 2 ^ 64 - 2) mod 2 ^ 64 = 3 * n - 2"
  proof -
    have "3 * n + 2 ^ 64 - 2 = 2 ^ 64 + (3 * n - 2)" using assms(2) by simp
    then have "(3 * n + 2 ^ 64 - 2) mod 2 ^ 64 = (3 * n - 2) mod 2 ^ 64" by (simp only: mod_add_self1)
    also have "\<dots> = 3 * n - 2" using assms(3) by (intro mod_less) simp
    finally show ?thesis .
  qed
  have m1: "(3 * n - 2 + 1) mod 2 ^ 64 = 3 * n - 1" using assms(2,3) by simp
  have cnt: "(4 * n - 2 + 3) div 4 = n" using assms(2) by simp
  show ?thesis
    unfolding base64_decode_def assms(1) Let_def len
    using assms(2,4,5) m m1 cnt by (auto simp: bind_eq_None_conv)
qed

theorem base64_decode_overrun_witness: "base64_decode (\<lambda>_. True) ''TQ=='' = None"
  by (rule base64_decode_overrun [where n = 1]) (simp_all add: contains_def)

lemma base64_encode_one_left_undefined:
  "length bs = 3 * n + 1 \<Longrightarrow> mem (4 * n + 5) \<Longrightarrow> base64_encode mem bs = None"
proof -
  assume l: "length bs = 3 * n + 1" and m: "mem (4 * n + 5)"
  have none: "length arr = 3 * k + 2 \<Longrightarrow> encode_groups arr (Suc k) = None" for arr k
  proof (induction k arbitrary: arr)
    case 0
    then obtain a b where "arr = [a, b]" by (auto simp: length_Suc_conv numeral_2_eq_2)
    then show ?case by simp
  next
    case (Suc k)
    then obtain a b c arr' where "arr = a # b # c # arr'" "length arr' = 3 * k + 2"
      by (auto simp: length_Suc_conv numeral_3_eq_3)
    then show ?case using Suc.IH [of arr'] by simp
  qed
  have "length bs mod 3 = 1" "length bs div 3 = n" using l by presburger+
  then show ?thesis
    using none [of "bs @ [0]" n] l m by (simp add: base64_encode_def Let_def algebra_simps)
qed

end
