(* ===== verification/MqttBase.thy ===== *)
theory MqttBase
  imports Crypto
begin

text \<open>
  src/base/mqtt\_base.c: the configuration globals, the initialisation, the login
  with its password and client id, and the subscribe and publish calls, for the
  default build (MQTT 3.1.1, Linux).  The Paho client, the file system and HMAC are
  parameters, collected in the record \<open>mqtt_env\<close>; what the code asks of the client is
  recorded in the event list of the state, latest first.  Mutexes succeed.
\<close>

section \<open>State\<close>

datatype mqtt_event =
    Subscribed cstr int
  | Published cstr string int int
  | Created cstr cstr
  | Connected cstr cstr bool
  | Disconnected
  | Destroyed

text \<open>The outcomes of the Paho calls: the result code and the token of a request.\<close>

record mqtt_env =
  env_subscribe :: "cstr \<Rightarrow> int \<Rightarrow> int \<times> int"
  env_send :: "cstr \<Rightarrow> string \<Rightarrow> int \<Rightarrow> int \<Rightarrow> int \<times> int"
  env_create :: "cstr \<Rightarrow> cstr \<Rightarrow> int"
  env_connect :: "cstr \<Rightarrow> cstr \<Rightarrow> bool \<Rightarrow> int"
  env_disconnect :: int
  env_isConnected :: bool
  env_access :: "string \<Rightarrow> bool"
  env_hmac :: hmac
  env_gmtime :: "tm option"

record ssl_opts =
  trustStore :: cstr
  enableServerCertAuth :: bool
  keyStore :: cstr
  privateKey :: cstr
  privateKeyPassword :: cstr

record conn_opts =
  co_keepAliveInterval :: int
  co_connectTimeout :: int
  co_retryInterval :: int
  co_maxInflight :: int
  co_ssl :: bool

record mqtt =
  g_QoS :: int
  g_keepAliveInterval :: int
  g_connectTimeout :: int
  g_retryInterval :: int
  g_maxInflight :: int
  g_serverIp :: cstr
  g_port :: cstr
  g_username :: cstr
  g_password :: cstr
  g_authMode :: int
  g_urlPrefix :: string
  g_bsScopeId :: cstr
  g_bsRegMode :: int
  g_bsGroupSecret :: cstr
  g_workDir :: cstr
  g_verifyCert :: int
  g_initFlag :: bool
  g_checkTimestamp :: int
  g_mqttClientCreateFlag :: int
  g_bridgeMode :: int
  g_caPath :: cstr
  g_certPath :: cstr
  g_keyPath :: cstr
  g_privateKeyPassword :: cstr
  g_client :: bool
  g_encryptedPassword :: cstr
  g_connOpts :: conn_opts
  g_sslOpts :: ssl_opts
  mqtt_log :: "mqtt_event list"

definition TCP_URL_PREFIX :: string where "TCP_URL_PREFIX = ''tcp://''"
definition SSL_URL_PREFIX :: string where "SSL_URL_PREFIX = ''ssl://''"
definition MQTT_PORT :: string where "MQTT_PORT = ''1883''"
definition MQTTS_PORT :: string where "MQTTS_PORT = ''8883''"
definition PASSWORD_ENCRYPT_LENGTH :: nat where "PASSWORD_ENCRYPT_LENGTH = 64"
definition ENCRYPT_LENGTH :: nat where "ENCRYPT_LENGTH = 32"

text \<open>The initial values of the globals.\<close>

definition mqtt_start :: mqtt where
  "mqtt_start = \<lparr>g_QoS = 1, g_keepAliveInterval = 120, g_connectTimeout = 30, g_retryInterval = 10,
     g_maxInflight = 65535, g_serverIp = None, g_port = None, g_username = None, g_password = None,
     g_authMode = 0, g_urlPrefix = TCP_URL_PREFIX, g_bsScopeId = None, g_bsRegMode = 0,
     g_bsGroupSecret = None, g_workDir = None, g_verifyCert = 1, g_initFlag = False,
     g_checkTimestamp = 0, g_mqttClientCreateFlag = 0, g_bridgeMode = 0, g_caPath = None,
     g_certPath = None, g_keyPath = None, g_privateKeyPassword = None, g_client = False,
     g_encryptedPassword = None,
     g_connOpts = \<lparr>co_keepAliveInterval = 60, co_connectTimeout = 30, co_retryInterval = 0,
                   co_maxInflight = 65535, co_ssl = False\<rparr>,
     g_sslOpts = \<lparr>trustStore = None, enableServerCertAuth = True, keyStore = None, privateKey = None,
                  privateKeyPassword = None\<rparr>,
     mqtt_log = []\<rparr>"

text \<open>A global after \<open>MemFree(&g); CopyStrValue(&g, value, len)\<close>.\<close>

definition copy_global :: "heap \<Rightarrow> cstr \<Rightarrow> int \<Rightarrow> cstr" where
  "copy_global mem src len = the (snd (CopyStrValue mem (Some None) src len))"

section \<open>Initialisation and configuration\<close>

text \<open>The configuration globals are cleared before a repeated call is recognised.\<close>

definition MqttBase_init :: "mqtt_env \<Rightarrow> heap \<Rightarrow> cstr \<Rightarrow> mqtt \<Rightarrow> (int \<times> mqtt) option" where
  "MqttBase_init env mem workPath m0 =
    (let m = m0 \<lparr>g_serverIp := None, g_port := None, g_username := None, g_password := None,
                 g_client := False, g_bsScopeId := None, g_authMode := 0, g_bsRegMode := 0,
                 g_privateKeyPassword := None\<rparr>
     in if g_initFlag m then Some (IOTA_INITIALIZATION_REPEATED, m)
        else case workPath of
          None \<Rightarrow> Some (IOTA_PARAMETER_EMPTY, m)
        | Some w \<Rightarrow>
           if \<not> env_access env w then Some (IOTA_RESOURCE_NOT_AVAILABLE, m)
           else
             (let m1 = m \<lparr>g_initFlag := True\<rparr>;
                  (ret, dir) = CopyStrValue mem (Some (g_workDir m1)) workPath (int (StringLength workPath));
                  m2 = m1 \<lparr>g_workDir := the dir\<rparr>
              in if ret < 0 then Some (IOTA_FAILURE, m2)
                 else do {
                   ca \<leftarrow> CombineStrings mem 2 (g_workDir m2) [Some ''/conf/rootcert.pem''];
                   Some (IOTA_SUCCESS, m2 \<lparr>g_caPath := ca\<rparr>) }))"

definition MqttBase_SetPort :: "heap \<Rightarrow> cstr \<Rightarrow> int \<Rightarrow> mqtt \<Rightarrow> mqtt" where
  "MqttBase_SetPort mem v len m =
    (let p = copy_global mem v len
     in m \<lparr>g_port := p,
           g_urlPrefix := (if StrInStr p (Some MQTT_PORT) \<noteq> None then TCP_URL_PREFIX else SSL_URL_PREFIX)\<rparr>)"

datatype config_item =
    CONFIG_USERNAME | CONFIG_PASSWORD | CONFIG_SERVER_IP | CONFIG_SERVER_PORT | CONFIG_AUTH_MODE
  | CONFIG_LOG_LOCAL_NUMBER | CONFIG_LOG_LEVEL | CONFIG_KEEP_ALIVE_TIME | CONFIG_CONNECT_TIMEOUT
  | CONFIG_RETRY_INTERVAL | CONFIG_RESET_SECRET_IN_PROGRESS | CONFIG_QOS | PRIVATE_KEY_PASSWORD
  | BS_SCOPE_ID | BS_MODE | CHECK_STAMP | BS_GROUP_SECRET | BRIDGE_MODE | CONFIG_OTHER int

definition byte_char :: "8 word \<Rightarrow> char" where
  "byte_char b = char_of (unat b)"

text \<open>The group secret is the base64 text decoded; reading a decoded buffer that holds
  no NUL runs out of it.\<close>

definition set_group_secret :: "heap \<Rightarrow> string \<Rightarrow> mqtt \<Rightarrow> mqtt option" where
  "set_group_secret mem v m = do {
     decoded \<leftarrow> base64_decode mem v;
     case decoded of
       None \<Rightarrow> Some (m \<lparr>g_bsGroupSecret := copy_global mem None (int (length v))\<rparr>)
     | Some bytes \<Rightarrow> do {
         guard_ub (0 \<in> set bytes);
         Some (m \<lparr>g_bsGroupSecret :=
           copy_global mem (Some (map byte_char (bytes_text bytes))) (int (length v))\<rparr>) } }"

definition MqttBase_SetConfig :: "heap \<Rightarrow> config_item \<Rightarrow> cstr \<Rightarrow> mqtt \<Rightarrow> (int \<times> mqtt) option" where
  "MqttBase_SetConfig mem item v m = (case v of
     None \<Rightarrow> Some (IOTA_PARAMETER_EMPTY, m)
   | Some s \<Rightarrow>
      (let len = int (StringLength v);
           ok = (\<lambda>m'. Some (IOTA_SUCCESS, m'));
           n = String2Int v
       in case item of
            CONFIG_SERVER_IP \<Rightarrow> ok (m \<lparr>g_serverIp := copy_global mem v len\<rparr>)
          | CONFIG_SERVER_PORT \<Rightarrow> ok (MqttBase_SetPort mem v len m)
          | CONFIG_USERNAME \<Rightarrow> ok (m \<lparr>g_username := copy_global mem v len\<rparr>)
          | CONFIG_PASSWORD \<Rightarrow> ok (m \<lparr>g_password := copy_global mem v len\<rparr>)
          | CONFIG_AUTH_MODE \<Rightarrow> ok (m \<lparr>g_authMode := atoi s\<rparr>)
          | CONFIG_LOG_LOCAL_NUMBER \<Rightarrow> ok m
          | CONFIG_LOG_LEVEL \<Rightarrow> ok m
          | CONFIG_KEEP_ALIVE_TIME \<Rightarrow> ok (if n > 0 then m \<lparr>g_keepAliveInterval := n\<rparr> else m)
          | CONFIG_CONNECT_TIMEOUT \<Rightarrow> ok (if n > 0 then m \<lparr>g_connectTimeout := n\<rparr> else m)
          | CONFIG_RETRY_INTERVAL \<Rightarrow> ok (if n > 0 then m \<lparr>g_retryInterval := n\<rparr> else m)
          | CONFIG_RESET_SECRET_IN_PROGRESS \<Rightarrow> ok (m \<lparr>g_mqttClientCreateFlag := n\<rparr>)
          | CONFIG_QOS \<Rightarrow> ok (m \<lparr>g_QoS := n\<rparr>)
          | PRIVATE_KEY_PASSWORD \<Rightarrow> ok (m \<lparr>g_privateKeyPassword := copy_global mem v len\<rparr>)
          | BS_SCOPE_ID \<Rightarrow> ok (m \<lparr>g_bsScopeId := copy_global mem v len\<rparr>)
          | BS_MODE \<Rightarrow> ok (m \<lparr>g_bsRegMode := atoi s\<rparr>)
          | CHECK_STAMP \<Rightarrow> ok (m \<lparr>g_checkTimestamp := atoi s\<rparr>)
          | BS_GROUP_SECRET \<Rightarrow> Option.bind (set_group_secret mem s m) ok
          | BRIDGE_MODE \<Rightarrow> ok (m \<lparr>g_bridgeMode := atoi s\<rparr>)
          | CONFIG_OTHER _ \<Rightarrow> Some (IOTA_RESOURCE_NOT_AVAILABLE, m)))"

definition MqttBase_GetConfig :: "config_item \<Rightarrow> mqtt \<Rightarrow> cstr" where
  "MqttBase_GetConfig item m = (case item of
     CONFIG_SERVER_IP \<Rightarrow> g_serverIp m
   | CONFIG_SERVER_PORT \<Rightarrow> g_port m
   | CONFIG_USERNAME \<Rightarrow> g_username m
   | _ \<Rightarrow> None)"

section \<open>Subscribing and publishing\<close>

definition MqttBase_subscribe :: "mqtt_env \<Rightarrow> cstr \<Rightarrow> int \<Rightarrow> mqtt \<Rightarrow> int \<times> mqtt" where
  "MqttBase_subscribe env topic qos m =
    (if \<not> g_client m then (IOTA_FAILURE, m)
     else let (ret, token) = env_subscribe env topic qos;
              m' = m \<lparr>mqtt_log := Subscribed topic qos # mqtt_log m\<rparr>
          in if ret \<noteq> 0 then (IOTA_FAILURE, m') else (token, m'))"

definition MqttBase_publishSet ::
  "mqtt_env \<Rightarrow> cstr \<Rightarrow> string \<Rightarrow> int \<Rightarrow> int \<Rightarrow> mqtt \<Rightarrow> int \<times> mqtt" where
  "MqttBase_publishSet env topic payload len qos m =
    (if \<not> g_client m then (IOTA_FAILURE, m)
     else let (ret, token) = env_send env topic payload len qos;
              m' = m \<lparr>mqtt_log := Published topic payload len qos # mqtt_log m\<rparr>
          in if ret \<noteq> 0 then (IOTA_FAILURE, m') else (token, m'))"

definition MqttBase_publish :: "mqtt_env \<Rightarrow> cstr \<Rightarrow> string \<Rightarrow> int \<Rightarrow> mqtt \<Rightarrow> int \<times> mqtt" where
  "MqttBase_publish env topic payload len m = MqttBase_publishSet env topic payload len (g_QoS m) m"

definition MqttBase_publishSetQos ::
  "mqtt_env \<Rightarrow> cstr \<Rightarrow> string \<Rightarrow> int \<Rightarrow> int \<Rightarrow> mqtt \<Rightarrow> int \<times> mqtt" where
  "MqttBase_publishSetQos env topic payload len qos m = MqttBase_publishSet env topic payload len qos m"

section \<open>The login\<close>

text \<open>The registration-group password: the group secret keyed with the user name, in the
  buffer the user name lives in.  The result is whether it succeeded, the password
  in use and the state.\<close>

definition bs_password :: "mqtt_env \<Rightarrow> heap \<Rightarrow> cstr \<Rightarrow> mqtt \<Rightarrow> (bool \<times> cstr \<times> mqtt) option" where
  "bs_password env mem tempPwd m = do {
     let bsTemp = StringMalloc mem None (int PASSWORD_ENCRYPT_LENGTH + 1);
     (ret, buf, out) \<leftarrow> EncryptWithHMac (env_hmac env) (g_bsGroupSecret m)
        (map_option (\<lambda>u. u @ [NUL]) (g_username m)) ENCRYPT_LENGTH (bsTemp \<noteq> None) (g_checkTimestamp m);
     let m' = m \<lparr>g_username := map_option text_of buf\<rparr>;
     Some (if ret \<noteq> IOTA_SUCCESS then (False, tempPwd, m') else (True, out, m')) }"

text \<open>The returned value is IOTA\_SUCCESS whatever the encryption answered; the second
  component is the time stamp buffer after it.\<close>

definition GetEncryptedPassword ::
  "mqtt_env \<Rightarrow> heap \<Rightarrow> char list option \<Rightarrow> mqtt \<Rightarrow> (int \<times> char list option \<times> mqtt) option" where
  "GetEncryptedPassword env mem timestamp m =
    (if g_password m = None \<and> g_bsGroupSecret m = None then Some (IOTA_PARAMETER_EMPTY, timestamp, m)
     else
       (let (r0, pwd) = CopyStrValue mem (Some None) (g_password m) (int (StringLength (g_password m)))
        in if r0 < 0 then Some (IOTA_FAILURE, timestamp, m)
           else
             (let tempEncryptedPwd = StringMalloc mem None (int PASSWORD_ENCRYPT_LENGTH + 1)
              in if tempEncryptedPwd = None then Some (IOTA_FAILURE, timestamp, m)
                 else do {
                   (ok, tempPwd, m1) \<leftarrow>
                     (if g_bsRegMode m \<noteq> 0 then bs_password env mem (the pwd) m else Some (True, the pwd, m));
                   if \<not> ok then Some (IOTA_SUCCESS, timestamp, m1)
                   else do {
                     (ret, stampbuf, out) \<leftarrow> EncryptWithHMac (env_hmac env) tempPwd timestamp ENCRYPT_LENGTH True
                                              (g_checkTimestamp m1);
                     Some (if ret \<noteq> IOTA_SUCCESS then (IOTA_SUCCESS, stampbuf, m1)
                           else (IOTA_SUCCESS, stampbuf,
                                 m1 \<lparr>g_encryptedPassword :=
                                   copy_global mem out (int PASSWORD_ENCRYPT_LENGTH)\<rparr>)) } })))"

definition char_plus :: "char \<Rightarrow> int \<Rightarrow> char" where
  "char_plus c i = char_of (nat ((int (chr c) + i) mod 256))"

definition MqttBase_getClientId :: "heap \<Rightarrow> string \<Rightarrow> cstr \<Rightarrow> mqtt \<Rightarrow> cstr option" where
  "MqttBase_getClientId mem authMode loginTimestamp m =
    (if g_bsRegMode m \<noteq> 0 then
       (if g_authMode m \<noteq> 0 then
          CombineStrings mem 3 (g_username m) [Some ''_0_'', g_bsScopeId m]
        else
          CombineStrings mem 5 (g_username m)
            [Some ''_0_'', g_bsScopeId m,
             Some (text_of [CHR ''_'', char_plus (CHR ''0'') (g_checkTimestamp m), CHR ''_'', NUL]),
             loginTimestamp])
     else CombineStrings mem 3 (g_username m) [Some authMode, loginTimestamp])"

text \<open>access on a NULL path fails.\<close>

definition accessible :: "mqtt_env \<Rightarrow> cstr \<Rightarrow> bool" where
  "accessible env p = (case p of None \<Rightarrow> False | Some s \<Rightarrow> env_access env s)"

definition MqttBase_setSslOpts :: "mqtt_env \<Rightarrow> mqtt \<Rightarrow> int \<times> mqtt" where
  "MqttBase_setSslOpts env m =
    (let server = (if g_verifyCert m = 0
           then Some (g_sslOpts m \<lparr>trustStore := None, enableServerCertAuth := False\<rparr>)
           else if \<not> accessible env (g_caPath m) then None
           else Some (g_sslOpts m \<lparr>trustStore := g_caPath m, enableServerCertAuth := True\<rparr>))
     in case server of
          None \<Rightarrow> (IOTA_CERTIFICATE_NOT_FOUND, m)
        | Some o1 \<Rightarrow>
            (let m1 = m \<lparr>g_sslOpts := o1\<rparr>
             in if g_authMode m = 0 then (IOTA_SUCCESS, m1)
                else if \<not> accessible env (g_certPath m) \<or> \<not> accessible env (g_keyPath m)
                then (IOTA_CERTIFICATE_NOT_FOUND, m1)
                else (IOTA_SUCCESS, m1 \<lparr>g_sslOpts := o1 \<lparr>keyStore := g_certPath m, privateKey := g_keyPath m,
                        privateKeyPassword := g_privateKeyPassword m\<rparr>\<rparr>)))"

text \<open>The connect options taken from the configuration.\<close>

definition with_conn_opts :: "mqtt \<Rightarrow> mqtt" where
  "with_conn_opts m =
    (let c = g_connOpts m \<lparr>co_keepAliveInterval := g_keepAliveInterval m,
               co_connectTimeout := g_connectTimeout m, co_retryInterval := g_retryInterval m\<rparr>
     in m \<lparr>g_connOpts := (if g_maxInflight m > 0 \<and> g_maxInflight m < 65536
                           then c \<lparr>co_maxInflight := g_maxInflight m\<rparr> else c)\<rparr>)"

definition MqttBase_setConnOptsByClientCreate ::
  "mqtt_env \<Rightarrow> heap \<Rightarrow> char list option \<Rightarrow> mqtt \<Rightarrow> (int \<times> char list option \<times> mqtt) option" where
  "MqttBase_setConnOptsByClientCreate env mem loginTimestamp m0 = do {
     let m = with_conn_opts m0;
     (encryptedRet, stampbuf, m1) \<leftarrow>
       (if g_authMode m = 0 then GetEncryptedPassword env mem loginTimestamp m
        else Some (IOTA_SUCCESS, loginTimestamp, m));
     if encryptedRet \<noteq> IOTA_SUCCESS then Some (IOTA_SECRET_ENCRYPT_FAILED, stampbuf, m1)
     else if StrInStr (g_port m1) (Some MQTTS_PORT) \<noteq> None then
       (let (ret, m2) = MqttBase_setSslOpts env m1
        in if ret < 0 then Some (ret, stampbuf, m2)
           else Some (IOTA_SUCCESS, stampbuf, m2 \<lparr>g_connOpts := g_connOpts m2 \<lparr>co_ssl := True\<rparr>\<rparr>))
     else Some (IOTA_SUCCESS, stampbuf, m1) }"

definition auth_mode_text :: "mqtt \<Rightarrow> string" where
  "auth_mode_text m = text_of
     [CHR ''_'', if g_bridgeMode m \<noteq> 0 then CHR ''3'' else CHR ''0'', CHR ''_'',
      char_plus (CHR ''0'') (g_checkTimestamp m), CHR ''_'', NUL]"

text \<open>The 11 zeroed bytes of a login time stamp.\<close>

definition stamp_buffer :: "string \<Rightarrow> char list" where
  "stamp_buffer s = s @ replicate (11 - length s) NUL"

text \<open>Creating the client; the flag is whether the connection goes on.\<close>

definition create_client :: "mqtt_env \<Rightarrow> heap \<Rightarrow> mqtt \<Rightarrow> (int \<times> bool \<times> mqtt) option" where
  "create_client env mem m =
    (if g_serverIp m = None \<or> g_port m = None \<or> g_username m = None
     then Some (IOTA_PARAMETER_EMPTY, False, m)
     else do {
       let loginTimestamp = map_option stamp_buffer (GetClientTimesStamp mem (env_gmtime env));
       (ret, stampbuf, m1) \<leftarrow> MqttBase_setConnOptsByClientCreate env mem loginTimestamp m;
       if ret < 0 then Some (ret, False, m1)
       else do {
         serverAddress \<leftarrow> CombineStrings mem 4 (Some (g_urlPrefix m1)) [g_serverIp m1, Some '':'', g_port m1];
         clientId \<leftarrow> MqttBase_getClientId mem (auth_mode_text m) (map_option text_of stampbuf) m1;
         let createRet = env_create env serverAddress clientId;
         let m2 = m1 \<lparr>mqtt_log := Created serverAddress clientId # mqtt_log m1\<rparr>;
         Some (IOTA_SUCCESS, True,
               if createRet \<noteq> 0 then m2 else m2 \<lparr>g_client := True, g_mqttClientCreateFlag := 1\<rparr>) } })"

text \<open>In certificate mode the paths of the certificate and its key.\<close>

definition with_cert_paths :: "heap \<Rightarrow> mqtt \<Rightarrow> mqtt option" where
  "with_cert_paths mem m =
    (if g_authMode m = 0 then Some m
     else do {
       cert \<leftarrow> CombineStrings mem 2 (g_workDir m) [Some ''/conf/deviceCert.pem''];
       key \<leftarrow> CombineStrings mem 2 (g_workDir m) [Some ''/conf/deviceCert.key''];
       Some (m \<lparr>g_certPath := cert, g_keyPath := key\<rparr>) })"

text \<open>Connecting with copies of the user name and, in password mode, of the password.\<close>

definition connect_client :: "mqtt_env \<Rightarrow> heap \<Rightarrow> mqtt \<Rightarrow> int \<times> mqtt" where
  "connect_client env mem m1 =
    (let (r, user) = CopyStrValue mem (Some None) (g_username m1) (int (StringLength (g_username m1)))
     in if r < 0 then (IOTA_FAILURE, m1)
        else
          (let (r2, pwd) = (if g_authMode m1 = 0
                 then CopyStrValue mem (Some None) (g_encryptedPassword m1) (int PASSWORD_ENCRYPT_LENGTH)
                 else (0, Some None))
           in if r2 < 0 then (IOTA_FAILURE, m1)
              else
                (let ssl = co_ssl (g_connOpts m1);
                     ret = env_connect env (the user) (the pwd) ssl;
                     m2 = m1 \<lparr>mqtt_log := Connected (the user) (the pwd) ssl # mqtt_log m1\<rparr>
                 in (if ret \<noteq> 0 then IOTA_MQTT_CONNECT_FAILED else IOTA_SUCCESS, m2))))"

definition MqttBase_CreateConnection :: "mqtt_env \<Rightarrow> heap \<Rightarrow> mqtt \<Rightarrow> (int \<times> mqtt) option" where
  "MqttBase_CreateConnection env mem m0 =
    (if g_workDir m0 = None then Some (IOTA_FAILURE, m0)
     else do {
       m \<leftarrow> with_cert_paths mem m0;
       (ret, goes_on, m1) \<leftarrow>
         (if g_mqttClientCreateFlag m = 0 then create_client env mem m else Some (IOTA_SUCCESS, True, m));
       Some (if goes_on then connect_client env mem m1 else (ret, m1)) })"

definition MqttBase_ReleaseConnection :: "mqtt_env \<Rightarrow> mqtt \<Rightarrow> int \<times> mqtt" where
  "MqttBase_ReleaseConnection env m =
    (let m' = m \<lparr>mqtt_log := Disconnected # mqtt_log m\<rparr>
     in if env_disconnect env \<noteq> 0 then (IOTA_MQTT_DISCONNECT_FAILED, m') else (IOTA_SUCCESS, m'))"

definition MqttBase_destory :: "mqtt_env \<Rightarrow> mqtt \<Rightarrow> int \<times> mqtt" where
  "MqttBase_destory env m =
    (let m1 = (if g_client m \<and> env_isConnected env then snd (MqttBase_ReleaseConnection env m) else m);
         m2 = m1 \<lparr>g_initFlag := False, g_bsRegMode := 0, g_bridgeMode := 0,
                  g_serverIp := None, g_port := None, g_username := None, g_password := None,
                  g_workDir := None, g_encryptedPassword := None, g_caPath := None,
                  g_bsScopeId := None, g_bsGroupSecret := None\<rparr>;
         m3 = (if g_authMode m2 \<noteq> 0 then m2 \<lparr>g_certPath := None, g_keyPath := None\<rparr> else m2)
     in (IOTA_SUCCESS, m3 \<lparr>g_privateKeyPassword := None, g_mqttClientCreateFlag := 0, g_client := False,
                           mqtt_log := Destroyed # mqtt_log m3\<rparr>))"

definition MqttBase_IsConnected :: "mqtt_env \<Rightarrow> bool" where
  "MqttBase_IsConnected env = env_isConnected env"

section \<open>Facts of the configuration\<close>

lemma CopyStrValue_text:
  "heap_ok mem \<Longrightarrow> s \<noteq> [] \<Longrightarrow> CopyStrValue mem (Some d) (Some s) (int (length s)) = (0, Some (Some s))"
  by (simp add: CopyStrValue_def strncat_s_def)

lemma copy_global_text [simp]:
  "heap_ok mem \<Longrightarrow> s \<noteq> [] \<Longrightarrow> copy_global mem (Some s) (int (length s)) = Some s"
  by (simp add: copy_global_def CopyStrValue_text)

text \<open>What stays true of the globals, whatever the client calls: a work directory or a
  client only exists between an initialisation and the next \<open>destory\<close>, and the URL prefix
  is the one the port asks for.\<close>

definition prefix_of_port :: "cstr \<Rightarrow> string" where
  "prefix_of_port p = (if StrInStr p (Some MQTT_PORT) \<noteq> None then TCP_URL_PREFIX else SSL_URL_PREFIX)"

definition mqtt_inv :: "mqtt \<Rightarrow> bool" where
  "mqtt_inv m \<longleftrightarrow>
     (g_workDir m \<noteq> None \<longrightarrow> g_initFlag m) \<and> (g_client m \<longrightarrow> g_initFlag m)
   \<and> (g_port m \<noteq> None \<longrightarrow> g_urlPrefix m = prefix_of_port (g_port m))"

text \<open>A call of the module, by a program that keeps its rules of use or not.\<close>

inductive mqtt_step :: "mqtt_env \<Rightarrow> heap \<Rightarrow> mqtt \<Rightarrow> mqtt \<Rightarrow> bool" for env mem where
  step_init: "MqttBase_init env mem w m = Some (r, m') \<Longrightarrow> mqtt_step env mem m m'"
| step_config: "MqttBase_SetConfig mem i v m = Some (r, m') \<Longrightarrow> mqtt_step env mem m m'"
| step_connect: "MqttBase_CreateConnection env mem m = Some (r, m') \<Longrightarrow> mqtt_step env mem m m'"
| step_subscribe: "MqttBase_subscribe env topic qos m = (r, m') \<Longrightarrow> mqtt_step env mem m m'"
| step_publish: "MqttBase_publishSet env topic payload len qos m = (r, m') \<Longrightarrow> mqtt_step env mem m m'"
| step_release: "MqttBase_ReleaseConnection env m = (r, m') \<Longrightarrow> mqtt_step env mem m m'"
| step_destory: "MqttBase_destory env m = (r, m') \<Longrightarrow> mqtt_step env mem m m'"

inductive mqtt_reachable :: "mqtt_env \<Rightarrow> heap \<Rightarrow> mqtt \<Rightarrow> bool" for env mem where
  reach_start: "mqtt_reachable env mem mqtt_start"
| reach_step: "mqtt_reachable env mem m \<Longrightarrow> mqtt_step env mem m m' \<Longrightarrow> mqtt_reachable env mem m'"

inductive_cases mqtt_stepE: "mqtt_step env mem m m'"

text \<open>The login leaves everything alone that the invariant reads.\<close>

definition same_setup :: "mqtt \<Rightarrow> mqtt \<Rightarrow> bool" where
  "same_setup m m' \<longleftrightarrow> g_workDir m' = g_workDir m \<and> g_initFlag m' = g_initFlag m \<and> g_port m' = g_port m
     \<and> g_urlPrefix m' = g_urlPrefix m \<and> g_serverIp m' = g_serverIp m"

lemma same_setup_refl [simp]: "same_setup m m"
  by (simp add: same_setup_def)

lemma same_setup_trans: "same_setup a b \<Longrightarrow> same_setup b c \<Longrightarrow> same_setup a c"
  by (simp add: same_setup_def)

lemma bs_password_setup:
  "bs_password env mem t m = Some (ok, p, m') \<Longrightarrow> same_setup m m' \<and> g_client m' = g_client m"
  by (auto simp: bs_password_def Let_def bind_Some_iff same_setup_def split: if_splits prod.splits)

lemma GetEncryptedPassword_setup:
  assumes "GetEncryptedPassword env mem ts m = Some (r, ts', m')"
  shows "same_setup m m' \<and> g_client m' = g_client m"
  using assms bs_password_setup [of env mem _ m]
  by (auto simp: GetEncryptedPassword_def Let_def bind_Some_iff split: if_splits prod.splits;
      auto simp: same_setup_def)

lemma setConnOpts_setup:
  assumes "MqttBase_setConnOptsByClientCreate env mem ts m = Some (r, ts', m')"
  shows "same_setup m m' \<and> g_client m' = g_client m"
proof -
  have 0: "same_setup m (with_conn_opts m) \<and> g_client (with_conn_opts m) = g_client m"
    by (simp add: with_conn_opts_def same_setup_def Let_def)
  obtain e b m1 where
    e: "(if g_authMode (with_conn_opts m) = 0 then GetEncryptedPassword env mem ts (with_conn_opts m)
         else Some (IOTA_SUCCESS, ts, with_conn_opts m)) = Some (e, b, m1)"
    and k: "(if e \<noteq> IOTA_SUCCESS then Some (IOTA_SECRET_ENCRYPT_FAILED, b, m1)
     else if StrInStr (g_port m1) (Some MQTTS_PORT) \<noteq> None then
       (let (ret, m2) = MqttBase_setSslOpts env m1
        in if ret < 0 then Some (ret, b, m2)
           else Some (IOTA_SUCCESS, b, m2 \<lparr>g_connOpts := g_connOpts m2 \<lparr>co_ssl := True\<rparr>\<rparr>))
     else Some (IOTA_SUCCESS, b, m1)) = Some (r, ts', m')"
    using assms unfolding MqttBase_setConnOptsByClientCreate_def Let_def bind_Some_iff by auto
  have 1: "same_setup (with_conn_opts m) m1 \<and> g_client m1 = g_client (with_conn_opts m)"
    using e GetEncryptedPassword_setup [of env mem ts "with_conn_opts m" e b m1] by (auto split: if_splits)
  have 2: "same_setup m1 m' \<and> g_client m' = g_client m1"
    using k by (auto simp: MqttBase_setSslOpts_def same_setup_def Let_def split: if_splits prod.splits)
  show ?thesis using 0 1 2 same_setup_trans by metis
qed

lemma create_client_setup:
  assumes "create_client env mem m = Some (r, on, m')"
  shows "same_setup m m'"
proof (cases "g_serverIp m = None \<or> g_port m = None \<or> g_username m = None")
  case True
  then show ?thesis using assms by (auto simp: create_client_def)
next
  case False
  define ts where "ts = map_option stamp_buffer (GetClientTimesStamp mem (env_gmtime env))"
  obtain ret b m1 where c: "MqttBase_setConnOptsByClientCreate env mem ts m = Some (ret, b, m1)"
    using assms False unfolding create_client_def ts_def Let_def
    by (cases "MqttBase_setConnOptsByClientCreate env mem ts m") (auto simp: ts_def)
  have "same_setup m1 m'"
  proof (cases "ret < 0")
    case True
    then show ?thesis using assms False c by (simp add: create_client_def ts_def)
  next
    case ret: False
    have "\<exists>addr cid. m' = (let m2 = m1 \<lparr>mqtt_log := Created addr cid # mqtt_log m1\<rparr>
        in if env_create env addr cid \<noteq> 0 then m2 else m2 \<lparr>g_client := True, g_mqttClientCreateFlag := 1\<rparr>)"
      using assms False c ret unfolding create_client_def ts_def [symmetric] Let_def
      by (simp only: if_False simp_thms Option.bind_lunit case_prod_conv c)
         (elim bind_SomeE, blast)
    then show ?thesis by (elim exE) (simp add: same_setup_def Let_def)
  qed
  with setConnOpts_setup [OF c] same_setup_trans show ?thesis by metis
qed

lemma connect_client_setup: "same_setup m (snd (connect_client env mem m)) \<and>
    g_client (snd (connect_client env mem m)) = g_client m"
  by (auto simp: connect_client_def Let_def same_setup_def split: prod.splits)

lemma with_cert_paths_setup: "with_cert_paths mem m = Some m' \<Longrightarrow> same_setup m m'"
  by (auto simp: with_cert_paths_def same_setup_def bind_Some_iff split: if_splits)

lemma CreateConnection_setup:
  assumes "MqttBase_CreateConnection env mem m = Some (r, m')"
  shows "same_setup m m' \<and> (g_workDir m = None \<longrightarrow> m' = m)"
proof (cases "g_workDir m = None")
  case True
  then show ?thesis using assms by (auto simp: MqttBase_CreateConnection_def)
next
  case False
  obtain m0 where m0: "with_cert_paths mem m = Some m0"
    using assms False by (auto simp: MqttBase_CreateConnection_def elim!: bind_SomeE)
  obtain ret on m1 where
    c: "(if g_mqttClientCreateFlag m0 = 0 then create_client env mem m0 else Some (IOTA_SUCCESS, True, m0))
             = Some (ret, on, m1)"
    and k: "(r, m') = (if on then connect_client env mem m1 else (ret, m1))"
    using assms False m0 by (auto simp: MqttBase_CreateConnection_def elim!: bind_SomeE)
  have "same_setup m0 m1"
    using c create_client_setup by (auto split: if_splits)
  moreover have "same_setup m1 m'"
    using k connect_client_setup [of m1 env mem] by (auto split: if_splits dest: arg_cong [where f = snd])
  ultimately show ?thesis using False with_cert_paths_setup [OF m0] same_setup_trans by blast
qed

section \<open>The reachable configurations\<close>

lemma mqtt_inv_setup:
  "mqtt_inv m \<Longrightarrow> same_setup m m' \<Longrightarrow> g_client m' \<longrightarrow> g_initFlag m \<Longrightarrow> mqtt_inv m'"
  by (auto simp: mqtt_inv_def same_setup_def)

lemma mqtt_inv_start: "mqtt_inv mqtt_start"
  by (simp add: mqtt_inv_def mqtt_start_def)

lemma mqtt_inv_init:
  assumes "mqtt_inv m" "MqttBase_init env mem w m = Some (r, m')"
  shows "mqtt_inv m'"
  using assms
  by (auto simp: mqtt_inv_def MqttBase_init_def Let_def bind_Some_iff split: if_splits option.splits prod.splits)

text \<open>Configuring touches no other global the invariant reads.\<close>

definition config_frame :: "mqtt \<Rightarrow> mqtt \<Rightarrow> bool" where
  "config_frame m m' \<longleftrightarrow> g_workDir m' = g_workDir m \<and> g_initFlag m' = g_initFlag m \<and> g_client m' = g_client m
     \<and> (g_port m' = g_port m \<and> g_urlPrefix m' = g_urlPrefix m \<or> g_urlPrefix m' = prefix_of_port (g_port m'))"

lemma set_group_secret_frame: "set_group_secret mem s m = Some m' \<Longrightarrow> config_frame m m'"
  unfolding set_group_secret_def
  by (erule bind_SomeE) (auto simp: config_frame_def bind_Some_iff split: option.splits)

lemma SetPort_frame: "config_frame m (MqttBase_SetPort mem v len m)"
  by (simp add: MqttBase_SetPort_def config_frame_def prefix_of_port_def Let_def)

lemma SetConfig_frame:
  assumes "MqttBase_SetConfig mem i (Some s) m = Some (r, m')"
  shows "config_frame m m'"
proof (cases "i = BS_GROUP_SECRET \<or> i = CONFIG_SERVER_PORT")
  case True
  then show ?thesis using assms set_group_secret_frame [of mem s m] SetPort_frame
    by (auto simp: MqttBase_SetConfig_def Let_def elim!: bind_SomeE)
next
  case False
  then show ?thesis using assms
    by (cases i) (simp_all add: MqttBase_SetConfig_def Let_def config_frame_def split: if_splits; clarsimp)+
qed

lemma mqtt_inv_config:
  assumes "mqtt_inv m" "MqttBase_SetConfig mem i v m = Some (r, m')"
  shows "mqtt_inv m'"
proof (cases v)
  case None
  then show ?thesis using assms by (simp add: MqttBase_SetConfig_def)
next
  case (Some s)
  then have "config_frame m m'" using assms SetConfig_frame by blast
  then show ?thesis using assms by (auto simp: mqtt_inv_def config_frame_def)
qed

lemma mqtt_inv_connect:
  assumes "mqtt_inv m" "MqttBase_CreateConnection env mem m = Some (r, m')"
  shows "mqtt_inv m'"
proof (cases "g_workDir m = None")
  case True
  then show ?thesis using assms CreateConnection_setup by metis
next
  case False
  then have "g_initFlag m" using assms by (simp add: mqtt_inv_def)
  then show ?thesis using mqtt_inv_setup assms CreateConnection_setup by metis
qed

lemma mqtt_inv_destory_snd: "mqtt_inv (snd (MqttBase_destory env m))"
  by (simp add: mqtt_inv_def MqttBase_destory_def Let_def)

lemma mqtt_inv_destory: "MqttBase_destory env m = (r, m') \<Longrightarrow> mqtt_inv m'"
  using mqtt_inv_destory_snd [of env m] by simp

lemma mqtt_inv_log [simp]: "mqtt_inv (m \<lparr>mqtt_log := l\<rparr>) = mqtt_inv m"
  by (simp add: mqtt_inv_def)

lemma mqtt_inv_step: "mqtt_step env mem m m' \<Longrightarrow> mqtt_inv m \<Longrightarrow> mqtt_inv m'"
proof (induction rule: mqtt_step.induct)
  case (step_subscribe topic qos m r m')
  then show ?case
    by (auto simp: MqttBase_subscribe_def Let_def split: if_splits prod.splits)
next
  case (step_publish topic payload len qos m r m')
  then show ?case
    by (auto simp: MqttBase_publishSet_def Let_def split: if_splits prod.splits)
next
  case (step_release m r m')
  then show ?case
    by (auto simp: MqttBase_ReleaseConnection_def Let_def split: if_splits)
qed (fact mqtt_inv_init mqtt_inv_config mqtt_inv_connect mqtt_inv_destory | (erule mqtt_inv_init mqtt_inv_config mqtt_inv_connect mqtt_inv_destory; assumption))+

text \<open>
  C7. In every state a program can bring the module to, with whatever sequence of calls
  and answers of the client library: a client and a work directory exist only between a
  successful MqttBase\_init and the next MqttBase\_destory, and the URL prefix is the one
  the configured port asks for, tcp for 1883 and ssl for any other.
\<close>

theorem mqtt_reachable_inv:
  assumes "mqtt_reachable env mem m"
  shows "(g_workDir m \<noteq> None \<or> g_client m \<longrightarrow> g_initFlag m)
    \<and> (\<forall>p. g_port m = Some p \<longrightarrow>
         g_urlPrefix m = (if sublist ''1883'' p then ''tcp://'' else ''ssl://''))"
proof -
  have "mqtt_inv m" using assms by induction (auto intro: mqtt_inv_start mqtt_inv_step)
  then show ?thesis
    by (auto simp: mqtt_inv_def prefix_of_port_def StrInStr_def MQTT_PORT_def TCP_URL_PREFIX_def
        SSL_URL_PREFIX_def contains_iff [symmetric] contains_def)
qed

section \<open>The login in password mode\<close>

text \<open>What the retries of the digest leave: the time stamp in use and the encrypted
  password, the one from before when all digests have a NUL byte.\<close>

definition login_digest :: "hmac \<Rightarrow> bool \<Rightarrow> string \<Rightarrow> nat \<Rightarrow> cstr \<Rightarrow> nat \<times> cstr" where
  "login_digest HMAC sha pw t old =
    (case find (\<lambda>k. nul_free (digest_at HMAC sha pw (t + k))) [0..<100] of
       None \<Rightarrow> (t + 99, old)
     | Some k \<Rightarrow> (t + k, Some (concat (map hex_byte (digest_at HMAC sha pw (t + k))))))"

text \<open>A configuration ready for its first login with a password, at a time whose stamp
  has ten digits.\<close>

definition password_login :: "mqtt_env \<Rightarrow> heap \<Rightarrow> mqtt \<Rightarrow> string \<Rightarrow> string \<Rightarrow> nat \<Rightarrow> bool" where
  "password_login env mem m u pw t \<longleftrightarrow>
     heap_ok mem \<and> hmac_total (env_hmac env) \<and> ten_digits t \<and> ten_digits (t + 99)
   \<and> GetClientTimesStamp mem (env_gmtime env) = Some (dec_nat t)
   \<and> g_workDir m \<noteq> None \<and> g_mqttClientCreateFlag m = 0 \<and> g_authMode m = 0 \<and> g_bsRegMode m = 0
   \<and> g_username m = Some u \<and> u \<noteq> [] \<and> g_password m = Some pw \<and> pw \<noteq> []
   \<and> g_checkTimestamp m \<in> {0, 1, 2} \<and> g_urlPrefix m \<noteq> []
   \<and> (StrInStr (g_port m) (Some MQTTS_PORT) \<noteq> None \<longrightarrow> g_verifyCert m = 0 \<or> accessible env (g_caPath m))
   \<and> (\<forall>addr cid. env_create env addr cid = 0)"

lemma length_hex: "length (concat (map hex_byte d)) = 2 * length d"
  by (induction d) (simp_all add: hex_byte_def)

lemma nul_free_search_length:
  assumes "hmac_total HMAC"
  shows "length (digest_at HMAC sha pw t) = 32"
  using digest_at_HMAC [OF assms] by blast

lemma copy_digest:
  assumes "heap_ok mem" "length s = 64"
  shows "copy_global mem (Some s) 64 = Some s" "CopyStrValue mem (Some d) (Some s) 64 = (0, Some (Some s))"
  using assms by (auto simp: copy_global_def CopyStrValue_def strncat_s_def)

lemma GetEncryptedPassword_password:
  assumes "password_login env mem m u pw t"
  shows "GetEncryptedPassword env mem (Some (stamp t)) m =
    (case login_digest (env_hmac env) (g_checkTimestamp m \<le> 1) pw t (g_encryptedPassword m) of
       (t', enc) \<Rightarrow> Some (IOTA_SUCCESS, Some (stamp t'), m \<lparr>g_encryptedPassword := enc\<rparr>))"
proof -
  have copy: "CopyStrValue mem (Some None) (g_password m) (int (StringLength (g_password m))) = (0, Some (Some pw))"
    using assms by (simp add: password_login_def CopyStrValue_text StringLength_def)
  have alloc: "StringMalloc mem None (int PASSWORD_ENCRYPT_LENGTH + 1) \<noteq> None"
    using assms by (simp add: password_login_def StringMalloc_def PASSWORD_ENCRYPT_LENGTH_def)
  have "hmac_total (env_hmac env)" "ten_digits t" "ten_digits (t + 99)"
    using assms by (simp_all add: password_login_def)
  from EncryptWithHMac_search [OF this, of pw "g_checkTimestamp m"] show ?thesis
    using copy alloc assms length_hex nul_free_search_length [of "env_hmac env"]
    by (simp add: GetEncryptedPassword_def Let_def password_login_def login_digest_def ENCRYPT_LENGTH_def
        copy_digest PASSWORD_ENCRYPT_LENGTH_def error_codes split: option.splits)
qed

lemma password_login_conn_opts:
  "password_login env mem m u pw t \<Longrightarrow> password_login env mem (with_conn_opts m) u pw t"
  by (simp add: password_login_def with_conn_opts_def Let_def)

text \<open>The state in which the client is created.\<close>

definition login_state :: "mqtt_env \<Rightarrow> mqtt \<Rightarrow> cstr \<Rightarrow> mqtt" where
  "login_state env m enc =
    (let m1 = with_conn_opts m \<lparr>g_encryptedPassword := enc\<rparr>
     in if StrInStr (g_port m) (Some MQTTS_PORT) \<noteq> None
        then (let m2 = snd (MqttBase_setSslOpts env m1) in m2 \<lparr>g_connOpts := g_connOpts m2 \<lparr>co_ssl := True\<rparr>\<rparr>)
        else m1)"

lemma with_conn_opts_facts [simp]:
  "g_port (with_conn_opts m) = g_port m" "g_authMode (with_conn_opts m) = g_authMode m"
  "g_verifyCert (with_conn_opts m) = g_verifyCert m" "g_caPath (with_conn_opts m) = g_caPath m"
  "g_encryptedPassword (with_conn_opts m) = g_encryptedPassword m" "mqtt_log (with_conn_opts m) = mqtt_log m"
  "g_checkTimestamp (with_conn_opts m) = g_checkTimestamp m" "g_username (with_conn_opts m) = g_username m"
  "g_bridgeMode (with_conn_opts m) = g_bridgeMode m" "g_bsRegMode (with_conn_opts m) = g_bsRegMode m"
  "g_serverIp (with_conn_opts m) = g_serverIp m" "g_urlPrefix (with_conn_opts m) = g_urlPrefix m"
  "co_ssl (g_connOpts (with_conn_opts m)) = co_ssl (g_connOpts m)"
  by (simp_all add: with_conn_opts_def Let_def)

lemma login_state_facts:
  "g_authMode m = 0 \<Longrightarrow>
     g_port (login_state env m enc) = g_port m \<and> g_authMode (login_state env m enc) = g_authMode m
   \<and> g_serverIp (login_state env m enc) = g_serverIp m \<and> g_urlPrefix (login_state env m enc) = g_urlPrefix m
   \<and> g_encryptedPassword (login_state env m enc) = enc \<and> mqtt_log (login_state env m enc) = mqtt_log m
   \<and> g_username (login_state env m enc) = g_username m \<and> g_bsRegMode (login_state env m enc) = g_bsRegMode m
   \<and> co_ssl (g_connOpts (login_state env m enc)) =
       (co_ssl (g_connOpts m) \<or> StrInStr (g_port m) (Some MQTTS_PORT) \<noteq> None)"
  by (auto simp: login_state_def MqttBase_setSslOpts_def Let_def)

lemma setConnOpts_password:
  assumes "password_login env mem m u pw t"
  shows "MqttBase_setConnOptsByClientCreate env mem (Some (stamp t)) m =
    (case login_digest (env_hmac env) (g_checkTimestamp m \<le> 1) pw t (g_encryptedPassword m) of
       (t', enc) \<Rightarrow> Some (IOTA_SUCCESS, Some (stamp t'), login_state env m enc))"
  using assms GetEncryptedPassword_password [OF password_login_conn_opts [OF assms]]
  by (auto simp: MqttBase_setConnOptsByClientCreate_def login_state_def password_login_def Let_def
      MqttBase_setSslOpts_def error_codes split: prod.splits)

lemma stamp_login: "ten_digits t \<Longrightarrow> stamp_buffer (dec_nat t) = stamp t"
  by (simp add: stamp_buffer_def stamp_def length_ten_digits)

lemma login_digest_stamp:
  assumes "ten_digits t" "ten_digits (t + 99)" "login_digest HMAC sha pw t old = (t', enc)"
  shows "text_of (stamp t') = dec_nat t'"
proof -
  have "ten_digits t'"
    using assms by (auto simp: login_digest_def ten_digits_def find_Some_iff split: option.splits)
  then show ?thesis by (rule stamp_facts(1))
qed

text \<open>The mode part of the client id.\<close>

definition mode_text :: "mqtt \<Rightarrow> string" where
  "mode_text m = ''_'' @ (if g_bridgeMode m \<noteq> 0 then ''3'' else ''0'') @ ''_''
     @ dec_nat (nat (g_checkTimestamp m)) @ ''_''"

lemma char_plus_digits:
  "char_plus (CHR ''0'') 0 = CHR ''0''" "char_plus (CHR ''0'') 1 = CHR ''1''" "char_plus (CHR ''0'') 2 = CHR ''2''"
  by code_simp+

lemma dec_nat_digits_012: "dec_nat 0 = ''0''" "dec_nat (Suc 0) = ''1''" "dec_nat 2 = ''2''"
  by (subst dec_nat.simps; simp add: exec_defs)+

lemma NUL_CHR: "NUL = CHR 0x00"
  unfolding NUL_def by code_simp

lemma auth_mode_text_eq:
  assumes "g_checkTimestamp m \<in> {0, 1, 2}"
  shows "auth_mode_text m = mode_text m"
proof -
  consider "g_checkTimestamp m = 0" | "g_checkTimestamp m = 1" | "g_checkTimestamp m = 2" using assms by blast
  then show ?thesis
    by cases (simp_all add: auth_mode_text_def mode_text_def text_of_def NUL_CHR char_plus_digits dec_nat_digits_012)
qed

lemma create_client_password:
  assumes "password_login env mem m u pw t" "g_serverIp m = Some ip" "g_port m = Some p"
    "login_digest (env_hmac env) (g_checkTimestamp m \<le> 1) pw t (g_encryptedPassword m) = (t', enc)"
  shows "create_client env mem m = Some (IOTA_SUCCESS, True, login_state env m enc
    \<lparr>mqtt_log := Created (Some (g_urlPrefix m @ ip @ '':'' @ p)) (Some (u @ mode_text m @ dec_nat t')) # mqtt_log m,
     g_client := True, g_mqttClientCreateFlag := 1\<rparr>)"
proof -
  have a: "heap_ok mem" "ten_digits t" "ten_digits (t + 99)" "g_username m = Some u" "u \<noteq> []"
    "g_authMode m = 0" "g_bsRegMode m = 0" "g_urlPrefix m \<noteq> []" "g_checkTimestamp m \<in> {0, 1, 2}"
    "GetClientTimesStamp mem (env_gmtime env) = Some (dec_nat t)" "\<And>addr cid. env_create env addr cid = 0"
    using assms(1) by (auto simp: password_login_def)
  have opts: "MqttBase_setConnOptsByClientCreate env mem (Some (stamp t)) m =
      Some (IOTA_SUCCESS, Some (stamp t'), login_state env m enc)"
    using setConnOpts_password [OF assms(1)] assms(4) by simp
  show ?thesis
    using a assms(2,3) opts login_state_facts [OF a(6), of env enc]
      login_digest_stamp [OF a(2,3) assms(4)] auth_mode_text_eq [OF a(9)]
    by (simp add: create_client_def stamp_login MqttBase_getClientId_def CombineStrings_ok error_codes Let_def)
qed

lemma connect_client_password:
  assumes "heap_ok mem" "g_username m = Some u" "u \<noteq> []" "g_authMode m = 0"
  shows "connect_client env mem m =
    (case g_encryptedPassword m of
       None \<Rightarrow> (IOTA_FAILURE, m)
     | Some e \<Rightarrow> (let pw = take 64 e; ssl = co_ssl (g_connOpts m) in
         (if env_connect env (Some u) (Some pw) ssl \<noteq> 0 then IOTA_MQTT_CONNECT_FAILED else IOTA_SUCCESS,
          m \<lparr>mqtt_log := Connected (Some u) (Some pw) ssl # mqtt_log m\<rparr>)))"
  using assms CopyStrValue_text [OF assms(1,3)]
  by (auto simp: connect_client_def StringLength_def CopyStrValue_def PASSWORD_ENCRYPT_LENGTH_def
      strncat_s_def Let_def split: option.splits)

lemma CreateConnection_password:
  assumes "password_login env mem m u pw t" "g_serverIp m = Some ip" "g_port m = Some p"
    "login_digest (env_hmac env) (g_checkTimestamp m \<le> 1) pw t (g_encryptedPassword m) = (t', enc)"
  shows "MqttBase_CreateConnection env mem m = Some (connect_client env mem (login_state env m enc
    \<lparr>mqtt_log := Created (Some (g_urlPrefix m @ ip @ '':'' @ p)) (Some (u @ mode_text m @ dec_nat t')) # mqtt_log m,
     g_client := True, g_mqttClientCreateFlag := 1\<rparr>))"
  using create_client_password [OF assms] assms(1)
  by (auto simp: MqttBase_CreateConnection_def password_login_def with_cert_paths_def)

text \<open>
  C4. The login of a device with a password is consistent: the client is created for the
  URL prefix, address and port of the configuration under the id made of the device id,
  the mode and a time stamp, and connects with the device id and, as password, the hex
  digest of the configured password under that same time stamp, the first one from now
  on whose digest has no NUL byte.
\<close>

theorem MqttBase_login_consistent:
  assumes "password_login env mem m u pw t" "g_serverIp m = Some ip" "g_port m = Some p"
    "find (\<lambda>k. nul_free (digest_at (env_hmac env) (g_checkTimestamp m \<le> 1) pw (t + k))) [0..<100] = Some k"
    "\<And>a b c. env_connect env a b c = 0"
  shows "\<exists>m' ssl. MqttBase_CreateConnection env mem m = Some (IOTA_SUCCESS, m') \<and> g_client m'
    \<and> ssl = (co_ssl (g_connOpts m) \<or> sublist ''8883'' p)
    \<and> mqtt_log m' =
        Connected (Some u)
          (Some (concat (map hex_byte (digest_at (env_hmac env) (g_checkTimestamp m \<le> 1) pw (t + k))))) ssl
        # Created (Some (g_urlPrefix m @ ip @ '':'' @ p)) (Some (u @ mode_text m @ dec_nat (t + k)))
        # mqtt_log m"
proof -
  let ?hex = "concat (map hex_byte (digest_at (env_hmac env) (g_checkTimestamp m \<le> 1) pw (t + k)))"
  have d: "login_digest (env_hmac env) (g_checkTimestamp m \<le> 1) pw t (g_encryptedPassword m) = (t + k, Some ?hex)"
    using assms(4) by (simp add: login_digest_def)
  have a: "heap_ok mem" "g_username m = Some u" "u \<noteq> []" "g_authMode m = 0" "hmac_total (env_hmac env)"
    using assms(1) by (simp_all add: password_login_def)
  have len: "length ?hex = 64" using nul_free_search_length [OF a(5)] by (simp add: length_hex)
  show ?thesis
    using CreateConnection_password [OF assms(1-3) d] len assms(3,5) a
      login_state_facts [OF a(4), of env "Some ?hex"]
    by (simp add: connect_client_password Let_def StrInStr_def MQTTS_PORT_def
        contains_iff [symmetric] contains_def)
qed

text \<open>
  A password that could not be encrypted is not reported: when the digests of all 100
  time stamps have a NUL byte, GetEncryptedPassword still answers success, the client is
  created, and the connection is tried with the encrypted password of an earlier login,
  or ends with IOTA\_FAILURE when there is none.
\<close>

theorem MqttBase_login_ignores_encryption_failure:
  assumes "password_login env mem m u pw t" "g_serverIp m = Some ip" "g_port m = Some p"
    "\<forall>k<100. \<not> nul_free (digest_at (env_hmac env) (g_checkTimestamp m \<le> 1) pw (t + k))"
  shows "(\<exists>stamp' m'. GetEncryptedPassword env mem (Some (stamp t)) m = Some (IOTA_SUCCESS, stamp', m')
      \<and> g_encryptedPassword m' = g_encryptedPassword m)
    \<and> (\<exists>r m'. MqttBase_CreateConnection env mem m = Some (r, m') \<and> g_client m'
      \<and> (case g_encryptedPassword m of
           None \<Rightarrow> r = IOTA_FAILURE
         | Some old \<Rightarrow> \<exists>ssl. hd (mqtt_log m') = Connected (Some u) (Some (take 64 old)) ssl))"
proof (rule conjI)
  have "find (\<lambda>k. nul_free (digest_at (env_hmac env) (g_checkTimestamp m \<le> 1) pw (t + k))) [0..<100] = None"
    using assms(4) by (simp add: find_None_iff)
  then have d: "login_digest (env_hmac env) (g_checkTimestamp m \<le> 1) pw t (g_encryptedPassword m)
      = (t + 99, g_encryptedPassword m)" by (simp add: login_digest_def)
  then show "\<exists>stamp' m'. GetEncryptedPassword env mem (Some (stamp t)) m = Some (IOTA_SUCCESS, stamp', m')
      \<and> g_encryptedPassword m' = g_encryptedPassword m"
    using GetEncryptedPassword_password [OF assms(1)] by simp
  have a: "heap_ok mem" "g_username m = Some u" "u \<noteq> []" "g_authMode m = 0"
    using assms(1) by (simp_all add: password_login_def)
  show "\<exists>r m'. MqttBase_CreateConnection env mem m = Some (r, m') \<and> g_client m'
      \<and> (case g_encryptedPassword m of
           None \<Rightarrow> r = IOTA_FAILURE
         | Some old \<Rightarrow> \<exists>ssl. hd (mqtt_log m') = Connected (Some u) (Some (take 64 old)) ssl)"
    using CreateConnection_password [OF assms(1-3) d] a
      login_state_facts [OF a(4), of env "g_encryptedPassword m"]
    by (auto simp: connect_client_password Let_def split: option.splits)
qed

section \<open>Configuring and initialising again\<close>

text \<open>
  A device's settings read back: after MqttBase\_SetConfig of the address, the port or
  the device id to a text that is not empty, MqttBase\_GetConfig returns that text and the
  two others are as before; the URL prefix follows the port.
\<close>

theorem MqttBase_config_reads_back:
  assumes "heap_ok mem" "s \<noteq> []" "item \<in> {CONFIG_SERVER_IP, CONFIG_SERVER_PORT, CONFIG_USERNAME}"
  shows "\<exists>m'. MqttBase_SetConfig mem item (Some s) m = Some (IOTA_SUCCESS, m')
    \<and> (\<forall>i. MqttBase_GetConfig i m' = (if i = item then Some s else MqttBase_GetConfig i m))
    \<and> (item = CONFIG_SERVER_PORT \<longrightarrow> g_urlPrefix m' = prefix_of_port (Some s))"
  using assms
  by (auto simp: MqttBase_SetConfig_def MqttBase_SetPort_def MqttBase_GetConfig_def prefix_of_port_def
      StringLength_def Let_def split: config_item.split)

text \<open>
  Initialising again destroys the connection it refuses to replace: a repeated
  MqttBase\_init answers that it is a repetition, yet the address, port, device id and
  password are gone and the client is lost, so nothing can be published or subscribed,
  and when no client had been created the login fails for the empty parameters.
\<close>

theorem MqttBase_repeated_init_wipes:
  assumes "g_initFlag m"
  shows "\<exists>m'. MqttBase_init env mem w m = Some (IOTA_INITIALIZATION_REPEATED, m')
    \<and> (\<forall>i. MqttBase_GetConfig i m' = None) \<and> g_password m' = None
    \<and> (\<forall>topic qos. MqttBase_subscribe env topic qos m' = (IOTA_FAILURE, m'))
    \<and> (\<forall>topic payload len. MqttBase_publish env topic payload len m' = (IOTA_FAILURE, m'))
    \<and> (g_workDir m \<noteq> None \<and> g_mqttClientCreateFlag m = 0 \<longrightarrow>
         MqttBase_CreateConnection env mem m' = Some (IOTA_PARAMETER_EMPTY, m'))"
  using assms
  by (auto simp: MqttBase_init_def Let_def MqttBase_GetConfig_def MqttBase_subscribe_def MqttBase_publish_def
      MqttBase_publishSet_def MqttBase_CreateConnection_def with_cert_paths_def create_client_def
      split: config_item.split)

section \<open>A concrete device\<close>

definition sample_env :: mqtt_env where
  "sample_env = \<lparr>env_subscribe = (\<lambda>_ _. (0, 7)), env_send = (\<lambda>_ _ _ _. (0, 9)), env_create = (\<lambda>_ _. 0),
     env_connect = (\<lambda>_ _ _. 0), env_disconnect = 0, env_isConnected = True, env_access = (\<lambda>_. True),
     env_hmac = (\<lambda>_ _ _. Some (replicate 32 7)),
     env_gmtime = Some \<lparr>tm_year = 124, tm_mon = 0, tm_mday = 1, tm_hour = 12, tm_min = 30, tm_sec = 5\<rparr>\<rparr>"

definition sample_mqtt :: mqtt where
  "sample_mqtt = mqtt_start \<lparr>g_initFlag := True, g_workDir := Some ''/opt'', g_caPath := Some ''/opt/conf/rootcert.pem'',
     g_serverIp := Some ''iot.example'', g_port := Some ''8883'', g_urlPrefix := ''ssl://'',
     g_username := Some ''dev1'', g_password := Some ''secret''\<rparr>"

lemma sample_stamp:
  "GetClientTimesStamp (\<lambda>_. True) (env_gmtime sample_env) = Some (dec_nat 2024010112)"
  by (simp add: sample_env_def GetClientTimesStamp_def CLIENT_TIME_LENGTH_def dec_int_def fmt2_def
      dec_nat.simps exec_defs)

lemma sample_login:
  assumes "hmac_total HMAC"
  shows "password_login (sample_env \<lparr>env_hmac := HMAC\<rparr>) (\<lambda>_. True) sample_mqtt ''dev1'' ''secret'' 2024010112"
  using sample_stamp assms
  by (simp add: password_login_def ten_digits_def sample_mqtt_def mqtt_start_def accessible_def sample_env_def)

theorem MqttBase_login_consistent_witness:
  "\<exists>m' ssl. MqttBase_CreateConnection sample_env (\<lambda>_. True) sample_mqtt = Some (IOTA_SUCCESS, m')
     \<and> g_client m' \<and> ssl
     \<and> mqtt_log m' = [Connected (Some ''dev1'') (Some (concat (replicate 32 (hex_byte 7)))) ssl,
                      Created (Some ''ssl://iot.example:8883'') (Some ''dev1_0_0_2024010112'')]"
proof -
  let ?H = "\<lambda>_ _ _. Some (replicate 32 (7 :: 8 word))"
  have env: "sample_env = sample_env \<lparr>env_hmac := ?H\<rparr>" by (simp add: sample_env_def)
  have tot: "hmac_total ?H" by (simp add: hmac_total_def)
  have log: "password_login sample_env (\<lambda>_. True) sample_mqtt ''dev1'' ''secret'' 2024010112"
    using sample_login [OF tot] env by simp
  have dig: "digest_at (env_hmac sample_env) m d t = replicate 32 7" for m d t
    by (simp add: digest_at_def sample_env_def)
  have find: "find (\<lambda>k. nul_free (digest_at (env_hmac sample_env) (g_checkTimestamp sample_mqtt \<le> 1) ''secret''
      (2024010112 + k))) [0..<100] = Some 0"
    by (simp add: upt_conv_Cons dig nul_free_def)
  have c: "env_connect sample_env a b c = 0" for a b c by (simp add: sample_env_def)
  have stamp: "dec_nat (2024010112 + 0) = ''2024010112''" by (simp add: dec_nat.simps exec_defs)
  have mode: "mode_text sample_mqtt = ''_0_0_''"
    by (simp add: mode_text_def sample_mqtt_def mqtt_start_def dec_nat_digits_012)
  have ip: "g_serverIp sample_mqtt = Some ''iot.example''" "g_port sample_mqtt = Some ''8883''"
    "g_urlPrefix sample_mqtt = ''ssl://''" "mqtt_log sample_mqtt = []"
    by (simp_all add: sample_mqtt_def mqtt_start_def)
  from MqttBase_login_consistent [OF log ip(1,2) find c] show ?thesis
    unfolding dig stamp mode ip(3,4) by (simp add: map_replicate)
qed

theorem MqttBase_login_ignores_encryption_failure_witness:
  "\<exists>r m'. MqttBase_CreateConnection (sample_env \<lparr>env_hmac := \<lambda>_ _ _. Some (replicate 32 0)\<rparr>) (\<lambda>_. True) sample_mqtt
     = Some (r, m') \<and> g_client m' \<and> r = IOTA_FAILURE"
proof -
  let ?H = "\<lambda>_ _ _. Some (replicate 32 (0 :: 8 word))"
  have tot: "hmac_total ?H" by (simp add: hmac_total_def)
  have bad: "\<forall>k<100. \<not> nul_free (digest_at (env_hmac (sample_env \<lparr>env_hmac := ?H\<rparr>))
      (g_checkTimestamp sample_mqtt \<le> 1) ''secret'' (2024010112 + k))"
    by (simp add: digest_at_def nul_free_def)
  have ip: "g_serverIp sample_mqtt = Some ''iot.example''" "g_port sample_mqtt = Some ''8883''"
    "g_encryptedPassword sample_mqtt = None"
    by (simp_all add: sample_mqtt_def mqtt_start_def)
  show ?thesis
    using MqttBase_login_ignores_encryption_failure [OF sample_login [OF tot] ip(1,2) bad] ip(3) by simp
qed

theorem MqttBase_config_reads_back_witness:
  "\<exists>m'. MqttBase_SetConfig (\<lambda>_. True) CONFIG_SERVER_PORT (Some ''1883'') mqtt_start = Some (IOTA_SUCCESS, m')
     \<and> MqttBase_GetConfig CONFIG_SERVER_PORT m' = Some ''1883''"
  using MqttBase_config_reads_back [of "\<lambda>_. True" "''1883''" CONFIG_SERVER_PORT mqtt_start] by auto

theorem MqttBase_repeated_init_wipes_witness:
  "\<exists>m'. MqttBase_init sample_env (\<lambda>_. True) (Some ''/opt'') sample_mqtt = Some (IOTA_INITIALIZATION_REPEATED, m')
     \<and> MqttBase_GetConfig CONFIG_USERNAME m' = None
     \<and> MqttBase_CreateConnection sample_env (\<lambda>_. True) m' = Some (IOTA_PARAMETER_EMPTY, m')"
proof -
  have "g_initFlag sample_mqtt" "g_workDir sample_mqtt \<noteq> None" "g_mqttClientCreateFlag sample_mqtt = 0"
    by (simp_all add: sample_mqtt_def mqtt_start_def)
  then show ?thesis
    using MqttBase_repeated_init_wipes [of sample_mqtt sample_env "\<lambda>_. True" "Some ''/opt''"] by blast
qed

theorem mqtt_reachable_inv_witness:
  "\<exists>m. mqtt_reachable sample_env (\<lambda>_. True) m \<and> g_port m = Some ''8883'' \<and> g_urlPrefix m = ''ssl://''"
proof -
  obtain m where m: "MqttBase_SetConfig (\<lambda>_. True) CONFIG_SERVER_PORT (Some ''8883'') mqtt_start = Some (IOTA_SUCCESS, m)"
    and port: "g_port m = Some ''8883''"
    by (simp add: MqttBase_SetConfig_def MqttBase_SetPort_def Let_def StringLength_def copy_global_def
        CopyStrValue_def strncat_s_def)
  have r: "mqtt_reachable sample_env (\<lambda>_. True) m"
    using reach_start step_config [OF m] by (rule reach_step)
  have "\<not> sublist ''1883'' ''8883''" by (simp add: sublist_code)
  with mqtt_reachable_inv [OF r] port r show ?thesis by auto
qed

section \<open>The interface of the topics\<close>

text \<open>What the code above this module relies on when it subscribes or publishes: a request
  for a topic keeps the device id, is recorded when there is a client and refused
  without effect when there is none.\<close>

locale topic_client =
  fixes device :: "'s \<Rightarrow> cstr"
    and online :: "'s \<Rightarrow> bool"
    and sent :: "'s \<Rightarrow> 'e list"
    and request :: "string \<Rightarrow> 's \<Rightarrow> int \<times> 's"
    and event :: "string \<Rightarrow> 's \<Rightarrow> 'e"
  assumes keeps_device: "device (snd (request t s)) = device s"
    and keeps_online: "online (snd (request t s)) = online s"
    and keeps_event: "event t' (snd (request t s)) = event t' s"
    and offline: "\<not> online s \<Longrightarrow> request t s = (IOTA_FAILURE, s)"
    and logs: "online s \<Longrightarrow> sent (snd (request t s)) = event t s # sent s"
begin

definition run :: "string list \<Rightarrow> 's \<Rightarrow> 's" where
  "run ts s = fold (\<lambda>t s. snd (request t s)) ts s"

lemma run_simps [simp]: "run [] s = s" "run (t # ts) s = run ts (snd (request t s))"
  by (simp_all add: run_def)

lemma run_keeps: "device (run ts s) = device s \<and> online (run ts s) = online s \<and> event t (run ts s) = event t s"
  by (induction ts arbitrary: s) (simp_all add: keeps_device keeps_online keeps_event)

lemma run_logs: "online s \<Longrightarrow> sent (run ts s) = rev (map (\<lambda>t. event t s) ts) @ sent s"
  by (induction ts arbitrary: s) (simp_all add: keeps_online keeps_event logs)

lemma run_offline: "\<not> online s \<Longrightarrow> run ts s = s"
  by (induction ts) (simp_all add: offline)

lemma requested:
  "sent (snd (request t s)) = (if online s then event t s # sent s else sent s)"
  by (simp add: logs offline)

end

interpretation subs: topic_client "MqttBase_GetConfig CONFIG_USERNAME" g_client mqtt_log
  "\<lambda>t. MqttBase_subscribe env (Some t) qos" "\<lambda>t m. Subscribed (Some t) qos" for env qos
  by unfold_locales (auto simp: MqttBase_subscribe_def MqttBase_GetConfig_def Let_def split: prod.splits)

interpretation pubs: topic_client "MqttBase_GetConfig CONFIG_USERNAME" g_client mqtt_log
  "\<lambda>t. MqttBase_publish env (Some t) payload len" "\<lambda>t m. Published (Some t) payload len (g_QoS m)" for env payload len
  by unfold_locales (auto simp: MqttBase_publish_def MqttBase_publishSet_def MqttBase_GetConfig_def Let_def split: prod.splits)

end
