(* ===== verification/Gzip.thy ===== *)
theory Gzip
  imports Prelude
begin

text \<open>
  gZIPCompress of src/util/string\_util.c.  zlib is a parameter: the outcomes of
  deflateInit2, deflate (with and without Z\_FINISH) and deflateEnd over the stream
  fields the code reads, and the bytes written.  The two loops are partial: \<^term>\<open>None\<close> is
  a call that does not return.
\<close>

section \<open>The loops over zlib\<close>

record zstream =
  z_avail_in :: nat
  z_total_out :: nat
  z_dest :: string

record zlib =
  zl_init :: bool
  zl_deflate :: "bool \<Rightarrow> zstream \<Rightarrow> int \<times> zstream"
  zl_end :: "zstream \<Rightarrow> bool"

definition Z_OK :: int where "Z_OK = 0"
definition Z_STREAM_END :: int where "Z_STREAM_END = 1"
definition Z_BUF_ERROR :: int where "Z_BUF_ERROR = -5"

partial_function (option) deflate_feed :: "zlib \<Rightarrow> nat \<Rightarrow> zstream \<Rightarrow> zstream option option" where
  "deflate_feed zl destLength z =
    (if z_avail_in z \<noteq> 0 \<and> z_total_out z < destLength
     then (case zl_deflate zl False z of
             (ret, z') \<Rightarrow> if ret \<noteq> Z_OK then Some None else deflate_feed zl destLength z')
     else Some (Some z))"

partial_function (option) deflate_finish :: "zlib \<Rightarrow> zstream \<Rightarrow> zstream option option" where
  "deflate_finish zl z =
    (case zl_deflate zl True z of
       (ret, z') \<Rightarrow> if ret = Z_STREAM_END then Some (Some z')
                  else if ret \<noteq> Z_OK then Some None
                  else deflate_finish zl z')"

text \<open>The returned value and the bytes in \<open>dest\<close>; after an error of deflate the bytes
  are not tracked.\<close>

definition gZIPCompress :: "zlib \<Rightarrow> cstr \<Rightarrow> int \<Rightarrow> bool \<Rightarrow> int \<Rightarrow> (int \<times> string) option" where
  "gZIPCompress zl src srcLength dest destLength =
    (if src \<noteq> None \<and> srcLength > 0 \<and> dest \<and> destLength \<ge> 0 then
       if \<not> zl_init zl then Some (-1, [])
       else do {
         fed \<leftarrow> deflate_feed zl (nat destLength)
                  \<lparr>z_avail_in = nat srcLength, z_total_out = 0, z_dest = []\<rparr>;
         case fed of
           None \<Rightarrow> Some (-1, [])
         | Some z \<Rightarrow>
             if z_avail_in z \<noteq> 0 then Some (int (z_avail_in z), z_dest z)
             else do {
               fin \<leftarrow> deflate_finish zl z;
               case fin of
                 None \<Rightarrow> Some (-1, z_dest z)
               | Some z' \<Rightarrow> Some (if zl_end zl z' then int (z_total_out z') else -1, z_dest z') } }
     else Some (-1, []))"

section \<open>Termination and the result\<close>

text \<open>What zlib documents of deflate on an output buffer of \<open>n\<close> bytes: it never writes
  beyond it or gives input back, and answers Z\_OK only after progress on one of them.\<close>

definition zlib_ok :: "zlib \<Rightarrow> nat \<Rightarrow> bool" where
  "zlib_ok zl n \<longleftrightarrow> (\<forall>f z r z'. zl_deflate zl f z = (r, z') \<and> z_total_out z \<le> n \<and> length (z_dest z) = z_total_out z \<longrightarrow>
     z_total_out z' \<le> n \<and> length (z_dest z') = z_total_out z'
   \<and> z_avail_in z' \<le> z_avail_in z \<and> z_total_out z \<le> z_total_out z'
   \<and> (r = Z_OK \<longrightarrow> z_avail_in z' < z_avail_in z \<or> z_total_out z < z_total_out z'))"

definition z_room :: "nat \<Rightarrow> zstream \<Rightarrow> nat" where
  "z_room n z = z_avail_in z + (n - z_total_out z)"

definition z_fits :: "nat \<Rightarrow> zstream \<Rightarrow> bool" where
  "z_fits n z \<longleftrightarrow> z_total_out z \<le> n \<and> length (z_dest z) = z_total_out z"

lemma deflate_step:
  assumes "zlib_ok zl n" "z_fits n z" "zl_deflate zl f z = (r, z')"
  shows "z_fits n z'" "z_avail_in z' \<le> z_avail_in z" "r = Z_OK \<Longrightarrow> z_room n z' < z_room n z"
proof -
  have s: "z_total_out z' \<le> n \<and> length (z_dest z') = z_total_out z'
   \<and> z_avail_in z' \<le> z_avail_in z \<and> z_total_out z \<le> z_total_out z'
   \<and> (r = Z_OK \<longrightarrow> z_avail_in z' < z_avail_in z \<or> z_total_out z < z_total_out z')"
    using assms unfolding zlib_ok_def z_fits_def by blast
  then show "z_fits n z'" "z_avail_in z' \<le> z_avail_in z" by (simp_all add: z_fits_def)
  show "r = Z_OK \<Longrightarrow> z_room n z' < z_room n z" using s by (auto simp: z_room_def)
qed

lemma deflate_feed_returns:
  assumes "zlib_ok zl n" "z_fits n z"
  shows "deflate_feed zl n z = Some None \<or>
    (\<exists>z'. deflate_feed zl n z = Some (Some z') \<and> z_fits n z' \<and> z_avail_in z' \<le> z_avail_in z
        \<and> (z_avail_in z' \<noteq> 0 \<longrightarrow> z_total_out z' = n))"
  using assms(2)
proof (induction z rule: measure_induct_rule [where f = "z_room n"])
  case (less z)
  obtain r z' where d: "zl_deflate zl False z = (r, z')" by fastforce
  note step = deflate_step [OF assms(1) less.prems d]
  show ?case
  proof (cases "z_avail_in z \<noteq> 0 \<and> z_total_out z < n \<and> r = Z_OK")
    case True
    then show ?thesis
      using less.IH [of z'] step d by (subst (1 2) deflate_feed.simps) (auto dest: order_trans)
  next
    case False
    then show ?thesis
      using less.prems d by (subst (1 2) deflate_feed.simps) (auto simp: z_fits_def)
  qed
qed

lemma deflate_finish_returns:
  assumes "zlib_ok zl n" "z_fits n z"
  shows "deflate_finish zl z = Some None \<or>
    (\<exists>z'. deflate_finish zl z = Some (Some z') \<and> z_fits n z')"
  using assms(2)
proof (induction z rule: measure_induct_rule [where f = "z_room n"])
  case (less z)
  obtain r z' where d: "zl_deflate zl True z = (r, z')" by fastforce
  note step = deflate_step [OF assms(1) less.prems d]
  show ?case
  proof (cases "r = Z_OK")
    case True
    then show ?thesis
      using less.IH [of z'] step d by (subst (1 2) deflate_finish.simps) (auto simp: Z_OK_def Z_STREAM_END_def)
  next
    case False
    then show ?thesis
      using step d by (subst (1 2) deflate_finish.simps) auto
  qed
qed

text \<open>
  C14. gZIPCompress always returns when zlib keeps its documented progress: with -1, or
  with the number of bytes it wrote into the buffer, or, when the buffer is full before
  the input is used up, with the number of input bytes left over, which the caller takes
  for a size.
\<close>

theorem gZIPCompress_returns:
  assumes "zlib_ok zl (nat destLength)"
  shows "\<exists>r out. gZIPCompress zl src srcLength dest destLength = Some (r, out)
    \<and> length out \<le> nat destLength
    \<and> (r = -1 \<or> r = int (length out) \<or> (0 < r \<and> r \<le> srcLength \<and> int (length out) = destLength))"
proof (cases "src \<noteq> None \<and> srcLength > 0 \<and> dest \<and> destLength \<ge> 0 \<and> zl_init zl")
  case False
  then show ?thesis by (auto simp: gZIPCompress_def)
next
  case True
  let ?n = "nat destLength"
  let ?z = "\<lparr>z_avail_in = nat srcLength, z_total_out = 0, z_dest = []\<rparr>"
  have "z_fits ?n ?z" by (simp add: z_fits_def)
  then consider "deflate_feed zl ?n ?z = Some None"
    | z where "deflate_feed zl ?n ?z = Some (Some z)" "z_fits ?n z" "z_avail_in z \<le> nat srcLength"
        "z_avail_in z \<noteq> 0 \<longrightarrow> z_total_out z = ?n"
    using deflate_feed_returns [OF assms] by fastforce
  then show ?thesis
  proof cases
    case 1
    then show ?thesis using True by (simp add: gZIPCompress_def)
  next
    case (2 z)
    then show ?thesis
      using True deflate_finish_returns [OF assms 2(2)]
      by (auto simp: gZIPCompress_def z_fits_def)
  qed
qed

text \<open>A stream that stores its input, with room for it or not.\<close>

definition storing :: "nat \<Rightarrow> zlib" where
  "storing n = \<lparr>zl_init = True,
     zl_deflate = (\<lambda>finish z.
       (let k = min (z_avail_in z) (n - z_total_out z);
            z' = z \<lparr>z_avail_in := z_avail_in z - k, z_total_out := z_total_out z + k,
                    z_dest := z_dest z @ replicate k (CHR ''x'')\<rparr>
        in (if finish \<and> z_avail_in z' = 0 then Z_STREAM_END else if k = 0 then Z_BUF_ERROR else Z_OK, z'))),
     zl_end = (\<lambda>_. True)\<rparr>"

lemma storing_ok: "zlib_ok (storing n) n"
  by (auto simp: zlib_ok_def storing_def Let_def Z_OK_def Z_STREAM_END_def Z_BUF_ERROR_def split: if_splits)

theorem gZIPCompress_returns_witness:
  "gZIPCompress (storing 6) (Some ''abcd'') 4 True 6 = Some (4, ''xxxx'')
   \<and> (\<exists>r out. gZIPCompress (storing 3) (Some ''abcd'') 4 True 3 = Some (r, out) \<and> length out \<le> 3)"
proof -
  have "gZIPCompress (storing 6) (Some ''abcd'') 4 True 6 = Some (4, ''xxxx'')"
    by (simp add: gZIPCompress_def deflate_feed.simps deflate_finish.simps storing_def Let_def Z_OK_def
        Z_STREAM_END_def Z_BUF_ERROR_def numeral_eq_Suc)
  moreover have "\<exists>r out. gZIPCompress (storing 3) (Some ''abcd'') 4 True 3 = Some (r, out) \<and> length out \<le> 3"
    using gZIPCompress_returns [of "storing 3" 3 "Some ''abcd''" 4 True] storing_ok [of 3] by auto
  ultimately show ?thesis by blast
qed

end
