(* ===== verification/Transport.thy ===== *)
theory Transport
  imports MqttBase Gzip
begin

text \<open>
  The topics of the platform (src/include/service/base.h), subscribing to them
  (src/service/subscribe.c) and reporting under them (src/service/data\_trans.c), on
  top of the MQTT module.  The MQTT 5 properties and the callback context go through
  to the client and are left out.
\<close>

section \<open>Topics\<close>

definition TOPIC_PREFIX :: string where "TOPIC_PREFIX = ''$oc/devices/''"
definition TOPIC_SUFFIX_USER :: string where "TOPIC_SUFFIX_USER = ''/user/''"
definition TOPIC_SUFFIX_MESSAGEUP :: string where "TOPIC_SUFFIX_MESSAGEUP = ''/sys/messages/up''"
definition TOPIC_SUFFIX_COMPRESS :: string where "TOPIC_SUFFIX_COMPRESS = ''?encoding=gzip''"
definition TOPIC_SUFFIX_MESSAGEDOWN :: string where "TOPIC_SUFFIX_MESSAGEDOWN = ''/sys/messages/down''"
definition TOPIC_SUFFIX_PROPS_REP :: string where "TOPIC_SUFFIX_PROPS_REP = ''/sys/gateway/sub_devices/properties/report''"
definition TOPIC_SUFFIX_COMMAND :: string where "TOPIC_SUFFIX_COMMAND = ''/sys/commands/''"
definition TOPIC_SUFFIX_COMMAND_RSP_REQ :: string where "TOPIC_SUFFIX_COMMAND_RSP_REQ = ''/sys/commands/response/request_id=''"
definition TOPIC_SUFFIX_PROP_REP :: string where "TOPIC_SUFFIX_PROP_REP = ''/sys/properties/report''"
definition TOPIC_SUFFIX_PROP_SET :: string where "TOPIC_SUFFIX_PROP_SET = ''/sys/properties/set/''"
definition TOPIC_SUFFIX_PROP_GET :: string where "TOPIC_SUFFIX_PROP_GET = ''/sys/properties/get/''"
definition TOPIC_SUFFIX_PROP_SET_RSP_REQ :: string where "TOPIC_SUFFIX_PROP_SET_RSP_REQ = ''/sys/properties/set/response/request_id=''"
definition TOPIC_SUFFIX_PROP_GET_RSP_REQ :: string where "TOPIC_SUFFIX_PROP_GET_RSP_REQ = ''/sys/properties/get/response/request_id=''"
definition TOPIC_SUFFIX_SHADOW_REQ :: string where "TOPIC_SUFFIX_SHADOW_REQ = ''/sys/shadow/get/request_id=''"
definition TOPIC_SUFFIX_PROP_RSP :: string where "TOPIC_SUFFIX_PROP_RSP = ''/sys/shadow/get/response/''"
definition TOPIC_SUFFIX_EVENT_UP :: string where "TOPIC_SUFFIX_EVENT_UP = ''/sys/events/up''"
definition TOPIC_SUFFIX_EVENT_DOWN :: string where "TOPIC_SUFFIX_EVENT_DOWN = ''/sys/events/down''"
definition TOPIC_SUFFIX_SUB_DEVICE_INFO_UP :: string where "TOPIC_SUFFIX_SUB_DEVICE_INFO_UP = ''/sys/sub_device_manage/messages/up''"
definition WILDCARD :: string where "WILDCARD = ''#''"
definition TOPIC_PREFIX_V3 :: string where "TOPIC_PREFIX_V3 = ''/huawei/v1/devices/''"
definition TOPIC_SUFFIX_DATA_REQ :: string where "TOPIC_SUFFIX_DATA_REQ = ''/data/''"
definition JSON_V3 :: string where "JSON_V3 = ''json''"
definition BINARY_V3 :: string where "BINARY_V3 = ''binary''"
definition COMMAND_V3 :: string where "COMMAND_V3 = ''/command/''"
definition BOOTSTRAP :: string where "BOOTSTRAP = ''/sys/bootstrap/up''"
definition BOOTSTRAP_DOWN :: string where "BOOTSTRAP_DOWN = ''/sys/bootstrap/down''"
definition TOPIC_PREFIX_M2M :: string where "TOPIC_PREFIX_M2M = ''$oc/m2m/to/''"
definition TOPIC_SUFFIX_M2M :: string where "TOPIC_SUFFIX_M2M = ''/request_id=''"
definition M2M_FROM :: string where "M2M_FROM = ''/from/''"
definition FORWARD_SLASH :: string where "FORWARD_SLASH = ''/''"
definition TOPIC_PREFIX_BRIDGE :: string where "TOPIC_PREFIX_BRIDGE = ''$oc/bridges/''"
definition TOPIC_SUFFIX_SYS :: string where "TOPIC_SUFFIX_SYS = ''/sys/''"
definition TOPIC_SUFFIX_LOGIN :: string where "TOPIC_SUFFIX_LOGIN = ''/sys/login/response/request_id=''"
definition TOPIC_SUFFIX_LOGOUT :: string where "TOPIC_SUFFIX_LOGOUT = ''/sys/logout/response/request_id=''"
definition TOPIC_SUFFIX_RESET_SECRET :: string where "TOPIC_SUFFIX_RESET_SECRET = ''/sys/reset_secret/response/request_id=''"
definition TOPIC_SUFFIX_DISCONNECT :: string where "TOPIC_SUFFIX_DISCONNECT = ''/sys/disconnect''"
definition TOPIC_SUFFIX_DEVICES :: string where "TOPIC_SUFFIX_DEVICES = ''/devices/''"

lemmas topic_defs =
  TOPIC_PREFIX_def
  TOPIC_SUFFIX_USER_def
  TOPIC_SUFFIX_MESSAGEUP_def
  TOPIC_SUFFIX_COMPRESS_def
  TOPIC_SUFFIX_MESSAGEDOWN_def
  TOPIC_SUFFIX_PROPS_REP_def
  TOPIC_SUFFIX_COMMAND_def
  TOPIC_SUFFIX_COMMAND_RSP_REQ_def
  TOPIC_SUFFIX_PROP_REP_def
  TOPIC_SUFFIX_PROP_SET_def
  TOPIC_SUFFIX_PROP_GET_def
  TOPIC_SUFFIX_PROP_SET_RSP_REQ_def
  TOPIC_SUFFIX_PROP_GET_RSP_REQ_def
  TOPIC_SUFFIX_SHADOW_REQ_def
  TOPIC_SUFFIX_PROP_RSP_def
  TOPIC_SUFFIX_EVENT_UP_def
  TOPIC_SUFFIX_EVENT_DOWN_def
  TOPIC_SUFFIX_SUB_DEVICE_INFO_UP_def
  WILDCARD_def
  TOPIC_PREFIX_V3_def
  TOPIC_SUFFIX_DATA_REQ_def
  JSON_V3_def
  BINARY_V3_def
  COMMAND_V3_def
  BOOTSTRAP_def
  BOOTSTRAP_DOWN_def
  TOPIC_PREFIX_M2M_def
  TOPIC_SUFFIX_M2M_def
  M2M_FROM_def
  FORWARD_SLASH_def
  TOPIC_PREFIX_BRIDGE_def
  TOPIC_SUFFIX_SYS_def
  TOPIC_SUFFIX_LOGIN_def
  TOPIC_SUFFIX_LOGOUT_def
  TOPIC_SUFFIX_RESET_SECRET_def
  TOPIC_SUFFIX_DISCONNECT_def
  TOPIC_SUFFIX_DEVICES_def

section \<open>Subscribing\<close>

definition SubsribeTopic :: "mqtt_env \<Rightarrow> cstr \<Rightarrow> int \<Rightarrow> mqtt \<Rightarrow> int \<times> mqtt" where
  "SubsribeTopic env topic qos m =
    (if qos < 0 \<or> qos > 1 then (IOTA_FAILURE, m)
     else if topic = None then (IOTA_FAILURE, m)
     else MqttBase_subscribe env topic qos m)"

text \<open>The body the functions below share: the checks, the device id and the topic made of
  a prefix, the device id and suffixes.\<close>

definition subscribe_own ::
  "mqtt_env \<Rightarrow> heap \<Rightarrow> string \<Rightarrow> string list \<Rightarrow> int \<Rightarrow> mqtt \<Rightarrow> (int \<times> mqtt) option" where
  "subscribe_own env mem pre sufs qos m =
    (if qos < 0 \<or> qos > 1 then Some (IOTA_FAILURE, m)
     else case MqttBase_GetConfig CONFIG_USERNAME m of
       None \<Rightarrow> Some (IOTA_FAILURE, m)
     | Some userName \<Rightarrow> do {
         topic \<leftarrow> CombineStrings mem (2 + length sufs) (Some pre) (Some userName # map Some sufs);
         Some (SubsribeTopic env topic qos m) })"

type_synonym subscriber = "mqtt_env \<Rightarrow> heap \<Rightarrow> int \<Rightarrow> mqtt \<Rightarrow> (int \<times> mqtt) option"

definition SubscribeMessageDownQos :: subscriber where
  "SubscribeMessageDownQos env mem qos m = subscribe_own env mem TOPIC_PREFIX [TOPIC_SUFFIX_MESSAGEDOWN] qos m"

definition SubscribeCommandQos :: subscriber where
  "SubscribeCommandQos env mem qos m = subscribe_own env mem TOPIC_PREFIX [TOPIC_SUFFIX_COMMAND, WILDCARD] qos m"

definition SubscribePropSetQos :: subscriber where
  "SubscribePropSetQos env mem qos m = subscribe_own env mem TOPIC_PREFIX [TOPIC_SUFFIX_PROP_SET, WILDCARD] qos m"

definition SubscribePropgetQos :: subscriber where
  "SubscribePropgetQos env mem qos m = subscribe_own env mem TOPIC_PREFIX [TOPIC_SUFFIX_PROP_GET, WILDCARD] qos m"

definition SubscribePropRespQos :: subscriber where
  "SubscribePropRespQos env mem qos m = subscribe_own env mem TOPIC_PREFIX [TOPIC_SUFFIX_PROP_RSP, WILDCARD] qos m"

definition SubscribeSubDeviceEventQos :: subscriber where
  "SubscribeSubDeviceEventQos env mem qos m = subscribe_own env mem TOPIC_PREFIX [TOPIC_SUFFIX_EVENT_DOWN] qos m"

definition SubscribeUserTopicQos :: "mqtt_env \<Rightarrow> heap \<Rightarrow> cstr \<Rightarrow> int \<Rightarrow> mqtt \<Rightarrow> (int \<times> mqtt) option" where
  "SubscribeUserTopicQos env mem topicParas qos m =
    (if qos < 0 \<or> qos > 1 then Some (IOTA_FAILURE, m)
     else case topicParas of
       None \<Rightarrow> Some (IOTA_FAILURE, m)
     | Some t \<Rightarrow> subscribe_own env mem TOPIC_PREFIX [TOPIC_SUFFIX_USER, t] qos m)"

definition SubscribeCustomTopic :: "mqtt_env \<Rightarrow> heap \<Rightarrow> cstr \<Rightarrow> int \<Rightarrow> mqtt \<Rightarrow> (int \<times> mqtt) option" where
  "SubscribeCustomTopic env mem topic qos m =
    (if qos < 0 \<or> qos > 1 then Some (IOTA_FAILURE, m)
     else do {
       topicMalloc \<leftarrow> CombineStrings mem 1 topic [];
       Some (SubsribeTopic env topicMalloc qos m) })"

definition SubscribeJsonCmdV3Qos :: subscriber where
  "SubscribeJsonCmdV3Qos env mem qos m = subscribe_own env mem TOPIC_PREFIX_V3 [COMMAND_V3, JSON_V3] qos m"

definition SubscribeBinaryCmdV3Qos :: subscriber where
  "SubscribeBinaryCmdV3Qos env mem qos m = subscribe_own env mem TOPIC_PREFIX_V3 [COMMAND_V3, BINARY_V3] qos m"

definition SubscribeBootstrapQos :: subscriber where
  "SubscribeBootstrapQos env mem qos m = subscribe_own env mem TOPIC_PREFIX [BOOTSTRAP_DOWN] qos m"

definition SubscribeM2mQos :: subscriber where
  "SubscribeM2mQos env mem qos m = subscribe_own env mem TOPIC_PREFIX_M2M [FORWARD_SLASH, WILDCARD] qos m"

text \<open>The wrappers for qos 0 end without a return statement, so only their effect is
  defined, not their value.\<close>

definition SubscribeMessageDown :: "mqtt_env \<Rightarrow> heap \<Rightarrow> mqtt \<Rightarrow> mqtt option" where
  "SubscribeMessageDown env mem m = map_option snd (SubscribeMessageDownQos env mem 0 m)"

definition SubscribeCommand :: "mqtt_env \<Rightarrow> heap \<Rightarrow> mqtt \<Rightarrow> mqtt option" where
  "SubscribeCommand env mem m = map_option snd (SubscribeCommandQos env mem 0 m)"

definition SubscribePropSet :: "mqtt_env \<Rightarrow> heap \<Rightarrow> mqtt \<Rightarrow> mqtt option" where
  "SubscribePropSet env mem m = map_option snd (SubscribePropSetQos env mem 0 m)"

definition SubscribePropget :: "mqtt_env \<Rightarrow> heap \<Rightarrow> mqtt \<Rightarrow> mqtt option" where
  "SubscribePropget env mem m = map_option snd (SubscribePropgetQos env mem 0 m)"

definition SubscribePropResp :: "mqtt_env \<Rightarrow> heap \<Rightarrow> mqtt \<Rightarrow> mqtt option" where
  "SubscribePropResp env mem m = map_option snd (SubscribePropRespQos env mem 0 m)"

definition SubscribeSubDeviceEvent :: "mqtt_env \<Rightarrow> heap \<Rightarrow> mqtt \<Rightarrow> mqtt option" where
  "SubscribeSubDeviceEvent env mem m = map_option snd (SubscribeSubDeviceEventQos env mem 0 m)"

definition SubscribeUserTopic :: "mqtt_env \<Rightarrow> heap \<Rightarrow> cstr \<Rightarrow> mqtt \<Rightarrow> mqtt option" where
  "SubscribeUserTopic env mem topicParas m = map_option snd (SubscribeUserTopicQos env mem topicParas 0 m)"

definition SubscribeJsonCmdV3 :: "mqtt_env \<Rightarrow> heap \<Rightarrow> mqtt \<Rightarrow> mqtt option" where
  "SubscribeJsonCmdV3 env mem m = map_option snd (SubscribeJsonCmdV3Qos env mem 0 m)"

definition SubscribeBinaryCmdV3 :: "mqtt_env \<Rightarrow> heap \<Rightarrow> mqtt \<Rightarrow> mqtt option" where
  "SubscribeBinaryCmdV3 env mem m = map_option snd (SubscribeBinaryCmdV3Qos env mem 0 m)"

definition SubscribeBootstrap :: "mqtt_env \<Rightarrow> heap \<Rightarrow> mqtt \<Rightarrow> mqtt option" where
  "SubscribeBootstrap env mem m = map_option snd (SubscribeBootstrapQos env mem 0 m)"

definition SubscribeM2m :: "mqtt_env \<Rightarrow> heap \<Rightarrow> mqtt \<Rightarrow> mqtt option" where
  "SubscribeM2m env mem m = map_option snd (SubscribeM2mQos env mem 0 m)"

text \<open>Every failure is only logged.\<close>

definition SubscribeAllQos :: "mqtt_env \<Rightarrow> heap \<Rightarrow> int \<Rightarrow> mqtt \<Rightarrow> mqtt option" where
  "SubscribeAllQos env mem qos m =
    (if qos < 0 \<or> qos > 1 then Some m
     else do {
       (_, m) \<leftarrow> SubscribeMessageDownQos env mem qos m;
       (_, m) \<leftarrow> SubscribeCommandQos env mem qos m;
       (_, m) \<leftarrow> SubscribePropSetQos env mem qos m;
       (_, m) \<leftarrow> SubscribePropgetQos env mem qos m;
       (_, m) \<leftarrow> SubscribeSubDeviceEventQos env mem qos m;
       (_, m) \<leftarrow> SubscribePropRespQos env mem qos m;
       Some m })"

definition SubscribeAll :: "mqtt_env \<Rightarrow> heap \<Rightarrow> mqtt \<Rightarrow> mqtt option" where
  "SubscribeAll env mem m = SubscribeAllQos env mem 0 m"

section \<open>Reporting\<close>

definition ReportData :: "mqtt_env \<Rightarrow> cstr \<Rightarrow> cstr \<Rightarrow> mqtt \<Rightarrow> int \<times> mqtt" where
  "ReportData env topic payload m =
    (case (topic, payload) of
       (Some _, Some p) \<Rightarrow>
         (let (ret, m') = MqttBase_publish env topic p (int (length p)) m
          in (if ret < 0 then IOTA_FAILURE else IOTA_SUCCESS, m'))
     | _ \<Rightarrow> (IOTA_FAILURE, m))"

definition ReportDataSetQos :: "mqtt_env \<Rightarrow> cstr \<Rightarrow> cstr \<Rightarrow> int \<Rightarrow> mqtt \<Rightarrow> int \<times> mqtt" where
  "ReportDataSetQos env topic payload qos m =
    (case (topic, payload) of
       (Some _, Some p) \<Rightarrow>
         if qos < 0 \<or> qos > 1 then (IOTA_FAILURE, m)
         else (let (ret, m') = MqttBase_publishSetQos env topic p (int (length p)) qos m
               in (if ret < 0 then IOTA_FAILURE else ret, m'))
     | _ \<Rightarrow> (IOTA_FAILURE, m))"

text \<open>The size gZIPCompress answers is published as it is.\<close>

definition ReportCompressedData :: "zlib \<Rightarrow> mqtt_env \<Rightarrow> heap \<Rightarrow> cstr \<Rightarrow> cstr \<Rightarrow> mqtt \<Rightarrow> (int \<times> mqtt) option" where
  "ReportCompressedData zl env mem topic payload m = do {
     p \<leftarrow> deref payload;
     let len = int (length p);
     guard_ub (len * 2 \<le> 2147483647);
     let compressed = StringMalloc mem None (len * 2);
     if compressed = None then Some (IOTA_FAILURE, m)
     else do {
       (gz_size, out) \<leftarrow> gZIPCompress zl payload len True (len * 2);
       let (ret, m') = MqttBase_publish env topic out gz_size m;
       Some (if ret < 0 then IOTA_FAILURE else IOTA_SUCCESS, m') } }"

definition own_topic :: "heap \<Rightarrow> mqtt \<Rightarrow> string \<Rightarrow> cstr list \<Rightarrow> cstr option option" where
  "own_topic mem m pre sufs =
    (case MqttBase_GetConfig CONFIG_USERNAME m of
       None \<Rightarrow> Some None
     | Some username \<Rightarrow>
         map_option Some (CombineStrings mem (2 + length sufs) (Some pre) (Some username # sufs)))"

text \<open>The reports that only differ in their topic; NULL suffixes are skipped.\<close>

definition report_own ::
  "mqtt_env \<Rightarrow> heap \<Rightarrow> string \<Rightarrow> cstr list \<Rightarrow> cstr \<Rightarrow> mqtt \<Rightarrow> (int \<times> mqtt) option" where
  "report_own env mem pre sufs payload m = do {
     topic \<leftarrow> own_topic mem m pre sufs;
     case topic of
       None \<Rightarrow> Some (IOTA_FAILURE, m)
     | Some t \<Rightarrow> Some (ReportData env t payload m) }"

definition report_compressed ::
  "zlib \<Rightarrow> mqtt_env \<Rightarrow> heap \<Rightarrow> string \<Rightarrow> cstr list \<Rightarrow> cstr \<Rightarrow> mqtt \<Rightarrow> (int \<times> mqtt) option" where
  "report_compressed zl env mem pre sufs payload m = do {
     topic \<leftarrow> own_topic mem m pre sufs;
     case topic of
       None \<Rightarrow> Some (IOTA_FAILURE, m)
     | Some t \<Rightarrow> ReportCompressedData zl env mem t payload m }"

definition report_flagged ::
  "zlib \<Rightarrow> mqtt_env \<Rightarrow> heap \<Rightarrow> string \<Rightarrow> cstr \<Rightarrow> int \<Rightarrow> mqtt \<Rightarrow> (int \<times> mqtt) option" where
  "report_flagged zl env mem suf payload compressFlag m =
    (if compressFlag = 0 then report_own env mem TOPIC_PREFIX [Some suf] payload m
     else if compressFlag = 1 then
       report_compressed zl env mem TOPIC_PREFIX [Some suf, Some TOPIC_SUFFIX_COMPRESS] payload m
     else Some (IOTA_FAILURE, m))"

definition ReportDeviceData ::
  "zlib \<Rightarrow> mqtt_env \<Rightarrow> heap \<Rightarrow> cstr \<Rightarrow> cstr \<Rightarrow> int \<Rightarrow> mqtt \<Rightarrow> (int \<times> mqtt) option" where
  "ReportDeviceData zl env mem payload topicParas compressFlag m =
    (if topicParas = None then report_flagged zl env mem TOPIC_SUFFIX_MESSAGEUP payload compressFlag m
     else report_own env mem TOPIC_PREFIX [Some TOPIC_SUFFIX_USER, topicParas] payload m)"

definition ReportDeviceProperties ::
  "zlib \<Rightarrow> mqtt_env \<Rightarrow> heap \<Rightarrow> cstr \<Rightarrow> int \<Rightarrow> mqtt \<Rightarrow> (int \<times> mqtt) option" where
  "ReportDeviceProperties zl env mem payload compressFlag m =
     report_flagged zl env mem TOPIC_SUFFIX_PROP_REP payload compressFlag m"

definition ReportBatchDeviceProperties ::
  "zlib \<Rightarrow> mqtt_env \<Rightarrow> heap \<Rightarrow> cstr \<Rightarrow> int \<Rightarrow> mqtt \<Rightarrow> (int \<times> mqtt) option" where
  "ReportBatchDeviceProperties zl env mem payload compressFlag m =
     report_flagged zl env mem TOPIC_SUFFIX_PROPS_REP payload compressFlag m"

definition ReportCommandReponse :: "mqtt_env \<Rightarrow> heap \<Rightarrow> cstr \<Rightarrow> cstr \<Rightarrow> mqtt \<Rightarrow> (int \<times> mqtt) option" where
  "ReportCommandReponse env mem requestId commandResponse m =
     report_own env mem TOPIC_PREFIX [Some TOPIC_SUFFIX_COMMAND_RSP_REQ, requestId] commandResponse m"

definition ReportPropSetReponse :: "mqtt_env \<Rightarrow> heap \<Rightarrow> cstr \<Rightarrow> cstr \<Rightarrow> mqtt \<Rightarrow> (int \<times> mqtt) option" where
  "ReportPropSetReponse env mem requestId commandResponse m =
     report_own env mem TOPIC_PREFIX [Some TOPIC_SUFFIX_PROP_SET_RSP_REQ, requestId] commandResponse m"

definition ReportPropGetReponse :: "mqtt_env \<Rightarrow> heap \<Rightarrow> cstr \<Rightarrow> cstr \<Rightarrow> mqtt \<Rightarrow> (int \<times> mqtt) option" where
  "ReportPropGetReponse env mem requestId commandResponse m =
     report_own env mem TOPIC_PREFIX [Some TOPIC_SUFFIX_PROP_GET_RSP_REQ, requestId] commandResponse m"

definition GetPropertiesRequest :: "mqtt_env \<Rightarrow> heap \<Rightarrow> cstr \<Rightarrow> cstr \<Rightarrow> mqtt \<Rightarrow> (int \<times> mqtt) option" where
  "GetPropertiesRequest env mem requestId commandResponse m =
     report_own env mem TOPIC_PREFIX [Some TOPIC_SUFFIX_SHADOW_REQ, requestId] commandResponse m"

definition EventUp :: "mqtt_env \<Rightarrow> heap \<Rightarrow> cstr \<Rightarrow> mqtt \<Rightarrow> (int \<times> mqtt) option" where
  "EventUp env mem payload m = report_own env mem TOPIC_PREFIX [Some TOPIC_SUFFIX_EVENT_UP] payload m"

definition ReportSubDeviceInfo :: "mqtt_env \<Rightarrow> heap \<Rightarrow> cstr \<Rightarrow> mqtt \<Rightarrow> (int \<times> mqtt) option" where
  "ReportSubDeviceInfo env mem payload m =
     report_own env mem TOPIC_PREFIX [Some TOPIC_SUFFIX_SUB_DEVICE_INFO_UP] payload m"

definition ReportDevicePropertiesV3 :: "mqtt_env \<Rightarrow> heap \<Rightarrow> cstr \<Rightarrow> int \<Rightarrow> mqtt \<Rightarrow> (int \<times> mqtt) option" where
  "ReportDevicePropertiesV3 env mem payload codecMode m =
     report_own env mem TOPIC_PREFIX_V3
       [Some TOPIC_SUFFIX_DATA_REQ, Some (if codecMode = 0 then JSON_V3 else BINARY_V3)] payload m"

text \<open>These two publish without checking the topic, and take the length of the payload.\<close>

definition Bootstrap :: "mqtt_env \<Rightarrow> heap \<Rightarrow> cstr \<Rightarrow> mqtt \<Rightarrow> (int \<times> mqtt) option" where
  "Bootstrap env mem payload m = do {
     topic \<leftarrow> own_topic mem m TOPIC_PREFIX [Some BOOTSTRAP];
     case topic of
       None \<Rightarrow> Some (IOTA_FAILURE, m)
     | Some t \<Rightarrow> do {
         p \<leftarrow> deref payload;
         let (ret, m') = MqttBase_publish env t p (int (length p)) m;
         Some (if ret < 0 then IOTA_FAILURE else ret, m') } }"

definition OCM2MSendMsg :: "mqtt_env \<Rightarrow> heap \<Rightarrow> cstr \<Rightarrow> cstr \<Rightarrow> cstr \<Rightarrow> cstr \<Rightarrow> mqtt \<Rightarrow> (int \<times> mqtt) option" where
  "OCM2MSendMsg env mem dest source payload requestId m = do {
     topic \<leftarrow> CombineStrings mem 6 (Some TOPIC_PREFIX_M2M)
                [dest, Some M2M_FROM, source, Some TOPIC_SUFFIX_M2M, requestId];
     p \<leftarrow> deref payload;
     let (ret, m') = MqttBase_publish env topic p (int (length p)) m;
     Some (if ret < 0 then IOTA_FAILURE else ret, m') }"

section \<open>The topics subscribed to\<close>

lemma joined_map_Some [simp]: "joined (map Some sufs) = concat sufs"
  by (induction sufs) simp_all

lemma subscribe_own_request:
  assumes "heap_ok mem" "pre \<noteq> []" "qos \<in> {0, 1}" "MqttBase_GetConfig CONFIG_USERNAME m = Some u"
  shows "subscribe_own env mem pre sufs qos m = Some (MqttBase_subscribe env (Some (pre @ u @ concat sufs)) qos m)"
  using assms
  by (auto simp: subscribe_own_def CombineStrings_ok SubsribeTopic_def)

lemmas subscriber_defs =
  SubscribeMessageDownQos_def SubscribeCommandQos_def SubscribePropSetQos_def SubscribePropgetQos_def
  SubscribePropRespQos_def SubscribeSubDeviceEventQos_def SubscribeJsonCmdV3Qos_def SubscribeBinaryCmdV3Qos_def
  SubscribeBootstrapQos_def SubscribeM2mQos_def

text \<open>The six topics of a device, in the order of the subscriptions.\<close>

definition device_topics :: "string \<Rightarrow> string list" where
  "device_topics u =
    [''$oc/devices/'' @ u @ ''/sys/messages/down'',
     ''$oc/devices/'' @ u @ ''/sys/commands/#'',
     ''$oc/devices/'' @ u @ ''/sys/properties/set/#'',
     ''$oc/devices/'' @ u @ ''/sys/properties/get/#'',
     ''$oc/devices/'' @ u @ ''/sys/events/down'',
     ''$oc/devices/'' @ u @ ''/sys/shadow/get/response/#'']"

lemma SubscribeAllQos_run:
  assumes "heap_ok mem" "qos \<in> {0, 1}" "MqttBase_GetConfig CONFIG_USERNAME m = Some u"
  shows "SubscribeAllQos env mem qos m = Some (subs.run env qos (device_topics u) m)"
  using assms
  by (auto simp: SubscribeAllQos_def subscriber_defs subscribe_own_request topic_defs device_topics_def
      subs.keeps_device split_beta)

text \<open>
  Subscribing to everything asks the client for exactly the six downlink topics of
  the device, in order and at the given quality of service, whatever the answers to the
  requests before are; without a client it asks for nothing and changes nothing.
\<close>

theorem SubscribeAll_topics:
  assumes "heap_ok mem" "qos \<in> {0, 1}" "g_username m = Some u"
  shows "\<exists>m'. SubscribeAllQos env mem qos m = Some m'
    \<and> (if g_client m
       then mqtt_log m' = rev (map (\<lambda>t. Subscribed (Some t) qos) (device_topics u)) @ mqtt_log m
       else m' = m)"
proof -
  have "SubscribeAllQos env mem qos m = Some (subs.run env qos (device_topics u) m)"
    using assms by (simp add: SubscribeAllQos_run MqttBase_GetConfig_def)
  then show ?thesis by (simp add: subs.run_logs subs.run_offline)
qed

theorem SubscribeAll_topics_witness:
  "\<exists>m'. SubscribeAllQos sample_env (\<lambda>_. True) 1 (sample_mqtt \<lparr>g_client := True\<rparr>) = Some m'
    \<and> length (mqtt_log m') = 6
    \<and> last (mqtt_log m') = Subscribed (Some ''$oc/devices/dev1/sys/messages/down'') 1"
proof -
  have "g_username (sample_mqtt \<lparr>g_client := True\<rparr>) = Some ''dev1''" "mqtt_log sample_mqtt = []"
    by (simp_all add: sample_mqtt_def mqtt_start_def)
  then show ?thesis
    using SubscribeAll_topics [of "\<lambda>_. True" 1 "sample_mqtt \<lparr>g_client := True\<rparr>" "''dev1''" sample_env]
    by (auto simp: device_topics_def)
qed

section \<open>The topics reported to\<close>

text \<open>The answer of a report: any token counts as success.\<close>

definition reported :: "int \<times> mqtt \<Rightarrow> int \<times> mqtt" where
  "reported r = (if fst r < 0 then IOTA_FAILURE else IOTA_SUCCESS, snd r)"

lemma own_topic_ok:
  assumes "heap_ok mem" "pre \<noteq> []" "g_username m = Some u"
  shows "own_topic mem m pre sufs = Some (Some (Some (pre @ u @ joined sufs)))"
  using assms by (simp add: own_topic_def CombineStrings_ok MqttBase_GetConfig_def)

lemma report_own_publishes:
  assumes "heap_ok mem" "pre \<noteq> []" "g_username m = Some u"
  shows "report_own env mem pre sufs (Some p) m =
    Some (reported (MqttBase_publish env (Some (pre @ u @ joined sufs)) p (int (length p)) m))"
  using assms by (simp add: report_own_def own_topic_ok ReportData_def reported_def split_beta Let_def)

lemma report_own_refuses:
  "g_username m = None \<or> payload = None \<and> heap_ok mem \<and> pre \<noteq> [] \<Longrightarrow>
   report_own env mem pre sufs payload m = Some (IOTA_FAILURE, m)"
  by (cases "g_username m")
     (auto simp: report_own_def own_topic_def MqttBase_GetConfig_def CombineStrings_ok ReportData_def
       split: option.splits)

lemmas report_defs =
  ReportDeviceData_def ReportDeviceProperties_def ReportBatchDeviceProperties_def ReportCommandReponse_def
  ReportPropSetReponse_def ReportPropGetReponse_def GetPropertiesRequest_def EventUp_def
  ReportSubDeviceInfo_def ReportDevicePropertiesV3_def report_flagged_def



text \<open>
  A report that cannot be compressed is published all the same: when zlib does not
  initialise, the message goes to the client with the length -1 that gZIPCompress
  answered, and an answer of the client makes the report a success.
\<close>

theorem ReportCompressed_publishes_failure:
  assumes "heap_ok mem" "g_username m = Some u" "g_client m" "\<not> zl_init zl"
    "p \<noteq> []" "length p < 2 ^ 30"
    "env_send env (Some (''$oc/devices/'' @ u @ ''/sys/properties/report?encoding=gzip'')) [] (-1) (g_QoS m) = (0, token)"
    "0 \<le> token"
  shows "ReportDeviceProperties zl env mem (Some p) 1 m =
    Some (IOTA_SUCCESS, m \<lparr>mqtt_log :=
      Published (Some (''$oc/devices/'' @ u @ ''/sys/properties/report?encoding=gzip'')) [] (-1) (g_QoS m) # mqtt_log m\<rparr>)"
proof -
  have "int (length p) * 2 \<le> 2147483647" using assms(6) by simp
  then show ?thesis
    using assms
    by (simp add: report_defs report_compressed_def own_topic_ok topic_defs ReportCompressedData_def gZIPCompress_def
        StringMalloc_def MqttBase_publish_def MqttBase_publishSet_def error_codes Let_def)
qed

theorem ReportCompressed_publishes_failure_witness:
  "\<exists>m'. ReportDeviceProperties ((storing 9) \<lparr>zl_init := False\<rparr>) sample_env (\<lambda>_. True) (Some ''{}'') 1
      (sample_mqtt \<lparr>g_client := True\<rparr>) = Some (IOTA_SUCCESS, m')
    \<and> mqtt_log m' = [Published (Some ''$oc/devices/dev1/sys/properties/report?encoding=gzip'') [] (-1) 1]"
proof -
  have "g_username (sample_mqtt \<lparr>g_client := True\<rparr>) = Some ''dev1''" "mqtt_log sample_mqtt = []" "g_QoS sample_mqtt = 1"
    by (simp_all add: sample_mqtt_def mqtt_start_def)
  then show ?thesis
    using ReportCompressed_publishes_failure [of "\<lambda>_. True" "sample_mqtt \<lparr>g_client := True\<rparr>" "''dev1''"
        "(storing 9) \<lparr>zl_init := False\<rparr>" "''{}''" sample_env 9]
    by (simp add: sample_env_def)
qed

end
