(* ===== verification/RuleTrans.thy ===== *)
theory RuleTrans
  imports RuleManager Transport
begin

text \<open>
  src/service/device\_rule/rule\_trans.c: the reaction to the rule versions the platform
  reports.  The device confirms the report, drops the rules to delete and asks for the
  rules it does not have in that version.  The JSON printer is a parameter; the flags
  say whether the two lists could be allocated.
\<close>

section \<open>The replies\<close>

definition properties_reply :: "json option \<Rightarrow> json" where
  "properties_reply properties =
    (let services = JArray [];
         service = AddItemToObject (JObject []) ''properties'' properties;
         service = AddItemToObject service ''service_id'' (CreateString (Some ''$device_rule''));
         service = AddItemToObject service ''event_time'' (Some JNull);
         services = AddItemToArray services (Some service)
     in AddItemToObject (JObject []) ''services'' (Some services))"

definition DeviceRulePropertiesReply ::
  "zlib \<Rightarrow> (json \<Rightarrow> cstr) \<Rightarrow> mqtt_env \<Rightarrow> heap \<Rightarrow> json option \<Rightarrow> mqtt \<Rightarrow> mqtt option" where
  "DeviceRulePropertiesReply zl printer env mem properties m =
    (case printer (properties_reply properties) of
       None \<Rightarrow> Some m
     | Some msg \<Rightarrow> map_option snd (ReportDeviceProperties zl env mem (Some msg) 0 m))"

text \<open>A string made of NULL is no item, so the event has neither a time nor an id.\<close>

definition config_reply :: "ruleInfo list \<Rightarrow> json" where
  "config_reply reportList =
    (let serviceEvent = AddItemToObject (JObject []) ''service_id'' (CreateString (Some ''$device_rule''));
         serviceEvent = AddItemToObject serviceEvent ''event_type'' (CreateString (Some ''device_rule_config_request''));
         serviceEvent = AddItemToObject serviceEvent ''event_time'' (CreateString None);
         serviceEvent = AddItemToObject serviceEvent ''event_id'' (CreateString None);
         ruleIds = fold (\<lambda>r arr. AddItemToArray arr (CreateString (ri_ruleId r))) reportList (JArray []);
         paras = AddItemToObject (JObject []) ''ruleIds'' (Some ruleIds);
         serviceEvent = AddItemToObject serviceEvent ''paras'' (Some paras);
         services = AddItemToArray (JArray []) (Some serviceEvent)
     in AddItemToObject (JObject []) ''services'' (Some services))"

definition DeviceRuleConfigReply ::
  "(json \<Rightarrow> cstr) \<Rightarrow> mqtt_env \<Rightarrow> heap \<Rightarrow> ruleInfo list \<Rightarrow> mqtt \<Rightarrow> mqtt option" where
  "DeviceRuleConfigReply printer env mem reportList m =
    (case printer (config_reply reportList) of
       None \<Rightarrow> Some m
     | Some payload \<Rightarrow> map_option snd (EventUp env mem (Some payload) m))"

section \<open>The update\<close>

definition RuleTrans_DeviceRuleUpdateByJSON ::
  "bool \<Rightarrow> zlib \<Rightarrow> (json \<Rightarrow> cstr) \<Rightarrow> (string \<Rightarrow> bool) \<Rightarrow> rheap \<Rightarrow> bool \<Rightarrow> bool \<Rightarrow> mqtt_env \<Rightarrow> json option
    \<Rightarrow> rule_mgr \<Rightarrow> mqtt \<Rightarrow> (rule_mgr \<times> mqtt) option" where
  "RuleTrans_DeviceRuleUpdateByJSON storage zl printer can_open h del_ctor add_ctor env properties rm m =
    (if \<not> del_ctor \<or> \<not> add_ctor then Some (rm, m)
     else do {
       (ok, delList, addList) \<leftarrow> RuleMgr_GetList h properties [] [] rm;
       if \<not> ok then Some (rm, m)
       else do {
         m \<leftarrow> DeviceRulePropertiesReply zl printer env (rh_str h) properties m;
         rm \<leftarrow> (if delList \<noteq> [] then RuleMgr_DelRule storage printer can_open h delList rm else Some rm);
         m \<leftarrow> (if addList \<noteq> [] then DeviceRuleConfigReply printer env (rh_str h) addList m else Some m);
         Some (rm, m) } })"

definition RuleTrans_DeviceRuleUpdate ::
  "bool \<Rightarrow> zlib \<Rightarrow> (string \<Rightarrow> json option) \<Rightarrow> (json \<Rightarrow> cstr) \<Rightarrow> (string \<Rightarrow> bool) \<Rightarrow> rheap \<Rightarrow> bool \<Rightarrow> bool
    \<Rightarrow> mqtt_env \<Rightarrow> cstr \<Rightarrow> rule_mgr \<Rightarrow> mqtt \<Rightarrow> (rule_mgr \<times> mqtt) option" where
  "RuleTrans_DeviceRuleUpdate storage zl parser printer can_open h del_ctor add_ctor env ruleIds rm m =
     RuleTrans_DeviceRuleUpdateByJSON storage zl printer can_open h del_ctor add_ctor env
       (Option.bind ruleIds parser) rm m"

section \<open>What an update does\<close>

lemma add_ids:
  "list_all (\<lambda>r. ri_ruleId r \<noteq> None) rs \<Longrightarrow>
   fold (\<lambda>r arr. AddItemToArray arr (CreateString (ri_ruleId r))) rs (JArray xs) =
     JArray (xs @ map (\<lambda>r. JString (the (ri_ruleId r))) rs)"
  by (induction rs arbitrary: xs) (auto simp: CreateString_def)

lemma config_reply_ids:
  assumes "list_all (\<lambda>r. ri_ruleId r \<noteq> None) rs"
  shows "config_reply rs = JObject [(''services'', JArray [JObject
    [(''service_id'', JString ''$device_rule''), (''event_type'', JString ''device_rule_config_request''),
     (''paras'', JObject [(''ruleIds'', JArray (map (\<lambda>r. JString (the (ri_ruleId r))) rs))])]])]"
  using add_ids [OF assms, of "[]"] by (simp add: config_reply_def CreateString_def)

lemma properties_reply_eq:
  "properties_reply (Some p) = JObject [(''services'', JArray [JObject
    [(''properties'', p), (''service_id'', JString ''$device_rule''), (''event_time'', JNull)]])]"
  by (simp add: properties_reply_def CreateString_def)

text \<open>What a message under one of the device's own topics appends to the log.\<close>

definition up_message :: "mqtt \<Rightarrow> string \<Rightarrow> string \<Rightarrow> string \<Rightarrow> mqtt_event" where
  "up_message m u suf p = Published (Some (''$oc/devices/'' @ u @ suf)) p (int (length p)) (g_QoS m)"

lemma reply_logs:
  assumes "heap_ok mem" "g_username m = Some u" "g_client m" "printer (properties_reply j) = Some p"
  shows "\<exists>m'. DeviceRulePropertiesReply zl printer env mem j m = Some m'
    \<and> mqtt_log m' = up_message m u ''/sys/properties/report'' p # mqtt_log m
    \<and> g_username m' = Some u \<and> g_client m' \<and> g_QoS m' = g_QoS m"
proof -
  let ?t = "''$oc/devices/'' @ u @ ''/sys/properties/report''"
  have "DeviceRulePropertiesReply zl printer env mem j m =
      Some (snd (MqttBase_publish env (Some ?t) p (int (length p)) m))"
    using assms by (simp add: DeviceRulePropertiesReply_def ReportDeviceProperties_def report_flagged_def
        report_own_publishes reported_def topic_defs)
  then show ?thesis
    using assms by (auto simp: MqttBase_publish_def MqttBase_publishSet_def up_message_def Let_def split: prod.splits)
qed

lemma config_logs:
  assumes "heap_ok mem" "g_username m = Some u" "g_client m" "printer (config_reply rs) = Some p"
  shows "\<exists>m'. DeviceRuleConfigReply printer env mem rs m = Some m'
    \<and> mqtt_log m' = up_message m u ''/sys/events/up'' p # mqtt_log m"
proof -
  let ?t = "''$oc/devices/'' @ u @ ''/sys/events/up''"
  have "DeviceRuleConfigReply printer env mem rs m =
      Some (snd (MqttBase_publish env (Some ?t) p (int (length p)) m))"
    using assms by (simp add: DeviceRuleConfigReply_def EventUp_def report_own_publishes reported_def topic_defs)
  then show ?thesis
    using assms by (auto simp: MqttBase_publish_def MqttBase_publishSet_def up_message_def Let_def split: prod.splits)
qed

definition config_request :: "string list \<Rightarrow> json" where
  "config_request ids = JObject [(''services'', JArray [JObject
    [(''service_id'', JString ''$device_rule''), (''event_type'', JString ''device_rule_config_request''),
     (''paras'', JObject [(''ruleIds'', JArray (map JString ids))])]])]"

lemma config_reply_id_rules: "config_reply (map id_rule kvs) = config_request (map fst kvs)"
  by (subst config_reply_ids) (auto simp: config_request_def id_rule_def list_all_iff split_beta o_def)

lemma id_rule_ids: "ri_ruleId ` set (map id_rule kvs) = Some ` fst ` set kvs"
  by (force simp: id_rule_def image_iff split_beta)

lemma DelRule_removes:
  assumes "rules_inv (g_ruleInfosList rm)"
  shows "RuleMgr_DelRule False printer can_open h (map id_rule kvs) rm = Some (rm \<lparr>g_ruleInfosList :=
     filter (\<lambda>r. ri_ruleId r \<notin> Some ` fst ` set kvs) (g_ruleInfosList rm)\<rparr>)"
proof -
  have "list_all (\<lambda>d. ri_ruleId d \<noteq> None) (map id_rule kvs)"
    by (auto simp: id_rule_def list_all_iff split_beta)
  then show ?thesis
    using DeletRulesFromList_fold [OF rules_inv_ids [OF assms], of "map id_rule kvs"]
      fold_remove1_by [OF assms, of "map id_rule kvs"]
    by (simp add: RuleMgr_DelRule_def id_rule_ids del: set_map)
qed

text \<open>
  C2. A report of rule versions by the platform is acted on completely: the device
  answers with the report itself as the properties of the rule service, drops exactly
  the rules reported with version -1, and asks, in one event and in order, for exactly
  the rules whose reported version is newer than the one it holds or that it lacks.
\<close>

theorem RuleTrans_update:
  assumes "rules_inv (g_ruleInfosList rm)"
    and "list_all (\<lambda>(i, p). reported_version p \<noteq> None \<and> length i + 1 < INT32_MAX) kvs"
    and "g_username m = Some u" "g_client m" "\<And>j. printer j = Some (text j)"
  shows "\<exists>m'. RuleTrans_DeviceRuleUpdateByJSON False zl printer can_open rheap_ok True True env
        (Some (JObject kvs)) rm m =
      Some (rm \<lparr>g_ruleInfosList :=
              filter (\<lambda>r. ri_ruleId r \<notin> Some ` fst ` set (filter to_delete kvs)) (g_ruleInfosList rm)\<rparr>, m')
    \<and> mqtt_log m' =
        (let ids = map fst (filter (to_add (g_ruleInfosList rm)) kvs)
         in if ids = [] then [] else [up_message m u ''/sys/events/up'' (text (config_request ids))])
        @ up_message m u ''/sys/properties/report'' (text (properties_reply (Some (JObject kvs)))) # mqtt_log m"
proof -
  let ?dels = "filter to_delete kvs" and ?adds = "filter (to_add (g_ruleInfosList rm)) kvs"
  have mem: "heap_ok (rh_str rheap_ok)" by (simp add: rheap_ok_def)
  have lists: "RuleMgr_GetList rheap_ok (Some (JObject kvs)) [] [] rm = Some (True, map id_rule ?dels, map id_rule ?adds)"
    using GetRuleInfoList_split [OF assms(1,2), of "[]" "[]"] by (simp add: RuleMgr_GetList_def)
  obtain m1 where m1: "DeviceRulePropertiesReply zl printer env (rh_str rheap_ok) (Some (JObject kvs)) m = Some m1"
      "mqtt_log m1 = up_message m u ''/sys/properties/report'' (text (properties_reply (Some (JObject kvs)))) # mqtt_log m"
      "g_username m1 = Some u" "g_client m1" "g_QoS m1 = g_QoS m"
    using reply_logs [of "rh_str rheap_ok" m u printer "Some (JObject kvs)", OF mem assms(3,4)] assms(5) by blast
  obtain m2 where m2: "DeviceRuleConfigReply printer env (rh_str rheap_ok) (map id_rule ?adds) m1 = Some m2"
      "mqtt_log m2 = up_message m1 u ''/sys/events/up'' (text (config_request (map fst ?adds))) # mqtt_log m1"
    using config_logs [of "rh_str rheap_ok" m1 u printer "map id_rule ?adds", OF mem m1(3,4) assms(5)]
    unfolding config_reply_id_rules by blast
  have del: "(if map id_rule ?dels \<noteq> [] then RuleMgr_DelRule False printer can_open rheap_ok (map id_rule ?dels) rm
      else Some rm) = Some (rm \<lparr>g_ruleInfosList :=
        filter (\<lambda>r. ri_ruleId r \<notin> Some ` fst ` set ?dels) (g_ruleInfosList rm)\<rparr>)"
    using DelRule_removes [OF assms(1), of printer can_open rheap_ok ?dels]
    by (cases ?dels) simp_all
  show ?thesis
    using lists m1 m2 del
    by (cases "?adds = []") (simp_all add: RuleTrans_DeviceRuleUpdateByJSON_def up_message_def Let_def del: set_filter)
qed

theorem RuleTrans_update_witness:
  "\<exists>m'. RuleTrans_DeviceRuleUpdateByJSON False (storing 9) (\<lambda>_. Some ''{}'') (\<lambda>_. True) rheap_ok True True sample_env
      (Some (JObject [(''r1'', JObject [(''version'', JNumber (-1))]), (''r2'', JObject [(''version'', JNumber 3)])]))
      sample_mgr (sample_mqtt \<lparr>g_client := True\<rparr>) = Some (sample_mgr \<lparr>g_ruleInfosList := []\<rparr>, m')
    \<and> mqtt_log m' = [Published (Some ''$oc/devices/dev1/sys/events/up'') ''{}'' 2 1,
                     Published (Some ''$oc/devices/dev1/sys/properties/report'') ''{}'' 2 1]"
proof -
  let ?kvs = "[(''r1'', JObject [(''version'', JNumber (-1))]), (''r2'', JObject [(''version'', JNumber 3)])]"
  let ?m = "sample_mqtt \<lparr>g_client := True\<rparr>"
  have sat: "double_to_int_sat (-1) = -1"
    using double_to_int_sat_int [of "-1"] by (simp add: INT_MIN_def INT_MAX_def)
  have v: "reported_version (JObject [(''version'', JNumber 3)]) = Some 3"
    "reported_version (JObject [(''version'', JNumber (-1))]) = Some (-1)"
    by (simp_all add: reported_version_def GetIntValueFromJson_def sat INT_MAX_def)
  have rules: "g_ruleInfosList sample_mgr = [sample_rule ''r1'' 2]" by (simp add: sample_mgr_def)
  have inv: "rules_inv (g_ruleInfosList sample_mgr)" unfolding rules by (simp add: rules_inv_def sample_rule_wf)
  have short: "list_all (\<lambda>(i, p). reported_version p \<noteq> None \<and> length i + 1 < INT32_MAX) ?kvs"
    by (simp add: v INT32_MAX_def)
  have dels: "filter to_delete ?kvs = [(''r1'', JObject [(''version'', JNumber (-1))])]"
    "filter (to_add [sample_rule ''r1'' 2]) ?kvs = [(''r2'', JObject [(''version'', JNumber 3)])]"
    by (simp_all add: to_delete_def to_add_def v)
  have m: "g_username ?m = Some ''dev1''" "g_client ?m" "g_QoS ?m = 1" "mqtt_log ?m = []"
    by (simp_all add: sample_mqtt_def mqtt_start_def)
  show ?thesis
    using RuleTrans_update [where ?text = "\<lambda>_. ''{}''" and zl = "storing 9" and can_open = "\<lambda>_. True" and
        env = sample_env, OF inv short m(1,2)]
    unfolding rules dels by (auto simp: up_message_def m)
qed

end
