(* ===== verification/DetectModel.thy ===== *)
theory DetectModel
  imports Json
begin

text \<open>
  The state of the anomaly detection (src/service/detect\_anomaly/detect\_anomaly.c and
  src/service/sys\_hal/sys\_hal.c) and what it reads of the operating system.  The build is
  the one without SECURITY\_AWARENESS\_ENABLE, with nine checks.
\<close>

text \<open>The operations of a board: for each whether it is set, and then what it answers.\<close>

record sys_hal =
  getTotalMemory :: "int option"
  getMemoryUsed :: "int option"
  getPortUsed :: "int list option option"
  getCpuUsage :: "int option"
  getTotalDiskSpace :: "int option"
  getDiskSpaceUsed :: "int option"
  getBatteryPercentage :: "int option"

datatype detection = MemoryCheck | PortCheck | CpuUsageCheck | DiskSpaceCheck | BatteryCheck
  | LoginLocalCheck | FileTamperCheck | LoginBruteForceCheck | MaliciousIPCheck

text \<open>An entry of \<open>g_mTasks\<close>; the names and functions are those of its kind.\<close>

record task =
  t_kind :: detection
  t_check :: bool
  t_newCheck :: bool

type_synonym timeval = "int \<times> int"

record brute_force =
  loginFailedTimeRecords :: "timeval list"
  oldestRecordIndex :: nat
  bf_fileOffset :: int

record detect =
  memoryThreshold :: int
  cpuUsageThreshold :: int
  diskSpaceThreshold :: int
  batteryPercentageThreshold :: int
  g_mTasks :: "task list"
  taskRunning :: bool
  localFileOffset :: int
  watchedFiles :: "string list"
  bruteForce :: brute_force
  g_sysHalCb :: "sys_hal option option"

definition detect_start :: detect where
  "detect_start = \<lparr>memoryThreshold = 0, cpuUsageThreshold = 0, diskSpaceThreshold = 0, batteryPercentageThreshold = 0,
     g_mTasks = map (\<lambda>k. \<lparr>t_kind = k, t_check = False, t_newCheck = False\<rparr>)
       [MemoryCheck, PortCheck, CpuUsageCheck, DiskSpaceCheck, BatteryCheck,
        LoginLocalCheck, FileTamperCheck, LoginBruteForceCheck, MaliciousIPCheck],
     taskRunning = False, localFileOffset = 0, watchedFiles = [],
     bruteForce = \<lparr>loginFailedTimeRecords = replicate 5 (0, 0), oldestRecordIndex = 0, bf_fileOffset = 0\<rparr>,
     g_sysHalCb = None\<rparr>"

text \<open>A log file that can be opened: its size unless fstat fails, whether the old position
  can be found again, and the position of its end unless ftello fails.\<close>

record log_file =
  lf_size :: "int option"
  lf_seek :: bool
  lf_end :: int

text \<open>What one read of the notifications gives before EAGAIN: the lengths of the names of the
  events, or another error.\<close>

datatype notify_read = NotifyEvents "nat list" | NotifyError

record os =
  os_wtmp :: "int option"
  os_utmp :: "log_file option"
  os_auth :: "log_file option"
  os_auth_lines :: "(string \<times> timeval) list"
  os_notify_set :: bool
  os_libs :: "string list"
  os_notify :: "notify_read list"
  os_net :: "string list option list"

definition sample_os :: os where
  "sample_os = \<lparr>os_wtmp = Some 0, os_utmp = None, os_auth = None, os_auth_lines = [], os_notify_set = True,
     os_libs = [], os_notify = [], os_net = []\<rparr>"

end
