(* ===== verification/EventsDown.thy ===== *)
theory EventsDown
  imports RuleTrans DetectModel
begin

text \<open>
  The events the platform sends down, src/service/callback\_func.c from
  OnEventsGatewayAddOrDelete to OnEventsDownArrived, and the report of a remote
  configuration, IOTA\_RptDeviceConfigRst of src/agentlite/iota\_datatrans.c.  A call of
  an application callback is an entry of the application log, latest first, made when
  the callback is registered.  Structures and arrays are allocated successfully; fields
  the code leaves uninitialised are \<open>None\<close> or a constructor of their own.
\<close>

section \<open>The structures of the application\<close>

datatype event_service =
    SERVICE_ERROR | SERVICE_SUB_DEVICE_MANAGER | SERVICE_OTA | SERVICE_TIME_SYNC | SERVICE_DEVICE_LOG
  | SERVICE_FILE_MANAGER | SERVICE_TUNNEL_MANAGER | SERVICE_DEVICE_CONFIG | SERVICE_SOFT_BUS

datatype event_kind =
    TYPE_ERROR | TYPE_ADD_SUB_DEVICE_NOTIFY | TYPE_DELETE_SUB_DEVICE_NOTIFY | TYPE_VERSION_QUERY
  | TYPE_FIRMWARE_UPGRADE | TYPE_SOFTWARE_UPGRADE | TYPE_GET_TIME_SYNC_RESPONSE | TYPE_ADD_SUB_DEVICE_RESPONSE
  | TYPE_DEL_SUB_DEVICE_RESPONSE | TYPE_LOG_CONFIG | TYPE_GET_UPLOAD_URL_RESPONSE
  | TYPE_GET_DOWNLOAD_URL_RESPONSE | TYPE_TUNNEL_NOTIFY | TYPE_DEVICE_CONFIG_UPDATE
  | TYPE_FIRMWARE_UPGRADE_V2 | TYPE_SOFTWARE_UPGRADE_V2

record device_info =
  di_parent_device_id :: cstr
  di_node_id :: cstr
  di_device_id :: cstr
  di_name :: cstr
  di_description :: cstr
  di_manufacturer_id :: cstr
  di_model :: cstr
  di_product_id :: cstr
  di_fw_version :: cstr
  di_sw_version :: cstr
  di_status :: cstr
  di_extension_info :: cstr

record ota_paras =
  op_version :: cstr
  op_url :: cstr
  op_file_size :: int
  op_file_name :: cstr
  op_task_id :: cstr
  op_sub_device_count :: int
  op_task_ext_info :: cstr
  op_access_token :: cstr
  op_expires :: int
  op_sign :: cstr

text \<open>The parameters of an event: the pointer the service sets.  Of a deleted device only
  the parent, the node and the device id are set.\<close>

datatype event_body =
    NoBody
  | DevicesUninit
  | AddDevices int "device_info list"
  | DeleteDevices int "(cstr \<times> cstr \<times> cstr) list"
  | AddResponse "device_info list" "(cstr \<times> cstr \<times> cstr \<times> cstr) list"
  | DeleteResponse "cstr list" "(cstr \<times> cstr \<times> cstr) list"
  | Ota "ota_paras option"
  | Ntp "int option"
  | DeviceLog "(cstr \<times> cstr) option"
  | SoftBus cstr
  | Tunnel "(cstr \<times> cstr) option"
  | FileMgr cstr

record service_event =
  se_service :: event_service
  se_type :: event_kind
  se_time :: cstr
  se_id :: "cstr option"
  se_body :: event_body

text \<open>The token and the code of the MQTT message.\<close>

type_synonym msg_info = "int \<times> int"

datatype shadow_field = Valid cstr | Dangling

record shadow_data =
  sh_service_id :: cstr
  sh_desired_event_time :: cstr
  sh_desired_properties :: shadow_field
  sh_reported_event_time :: cstr
  sh_reported_properties :: shadow_field
  sh_version :: int

datatype app_event =
    BootstrapDown msg_info cstr cstr
  | RawMessage msg_info cstr int
  | MessageDown msg_info cstr cstr cstr cstr cstr
  | UndefinedMessage msg_info cstr cstr
  | M2mMessage msg_info cstr cstr cstr cstr
  | CommandV3 msg_info cstr cstr int cstr
  | CommandDown msg_info cstr cstr cstr cstr cstr cstr
  | PropertySet msg_info cstr cstr cstr "(cstr \<times> cstr) list"
  | PropertyGet msg_info cstr cstr cstr cstr
  | ShadowDown msg_info cstr cstr cstr "shadow_data list"
  | UserTopicRaw msg_info cstr cstr int
  | UserTopic msg_info cstr cstr cstr cstr cstr
  | BridgeLogin msg_info cstr cstr int
  | BridgeLogout msg_info cstr cstr int
  | BridgeResetSecret msg_info cstr cstr int cstr cstr
  | BridgeDisconnect msg_info cstr
  | EventDown msg_info cstr cstr "service_event list"
  | ServiceEvent msg_info cstr service_event
  | OtaVersionUp cstr
  | OtaUrlResponse cstr event_kind event_body
  | RuleEvents "rule_event list"

text \<open>The callbacks: which are registered.\<close>

record handlers =
  onEventDown :: bool
  onCmd :: bool
  onCmdV3 :: bool
  onMessage :: bool
  onRawMessage :: bool
  onPropertiesSet :: bool
  onPropertiesGet :: bool
  onDeviceShadow :: bool
  onUserTopicMessage :: bool
  onUserTopicRawMessage :: bool
  onBootstrap :: bool
  onM2mMessage :: bool
  onDeviceConfig :: bool
  onSubDevice :: bool
  onNTP :: bool
  onDeviceLog :: bool
  onSoftBus :: bool
  onTunnelManager :: bool
  onFileManager :: bool
  onDeviceVersionUp :: bool
  onUrlResponse :: bool
  onBridgesDeviceLogin :: bool
  onBridgesDeviceLogout :: bool
  onBridgesDeviceResetSecret :: bool
  onBridgesDeviceDisconnect :: bool
  onOtherUndefined :: bool

record down =
  d_rules :: rule_mgr
  d_mqtt :: mqtt
  d_handlers :: handlers
  d_detect :: detect
  d_app :: "app_event list"

text \<open>What the code takes from outside: cJSON's parser and printer, zlib, the MQTT client,
  memory, files, the clocks, what the configuration callback answers and the rest of the
  operating system.\<close>

record sdk =
  sdk_storage :: bool
  sdk_parse :: "string \<Rightarrow> json option"
  sdk_print :: "json \<Rightarrow> cstr"
  sdk_open :: "string \<Rightarrow> bool"
  sdk_rheap :: rheap
  sdk_heap :: heap
  sdk_zlib :: zlib
  sdk_mqtt :: mqtt_env
  sdk_gmtime :: "tm option"
  sdk_now :: "64 word"
  sdk_config :: "json \<Rightarrow> int \<times> string"
  sdk_os :: os

definition notify :: "(handlers \<Rightarrow> bool) \<Rightarrow> app_event \<Rightarrow> down \<Rightarrow> down" where
  "notify h e d = (if h (d_handlers d) then d \<lparr>d_app := e # d_app d\<rparr> else d)"

definition JSON_Parse :: "sdk \<Rightarrow> cstr \<Rightarrow> json option" where
  "JSON_Parse E s = Option.bind s (sdk_parse E)"

definition JSON_Print :: "sdk \<Rightarrow> json option \<Rightarrow> cstr" where
  "JSON_Print E j = Option.bind j (sdk_print E)"

definition get_string :: "json option \<Rightarrow> string \<Rightarrow> cstr" where
  "get_string j key = JSON_GetStringFromObject j key None"

section \<open>Sub-devices\<close>

definition VERSION_JSON :: string where \<open>VERSION_JSON = ''"version"''\<close>
definition DEVICE_SEND_TIME_JSON :: string where \<open>DEVICE_SEND_TIME_JSON = ''"device_send_time"''\<close>
definition SERVER_RECV_TIME_JSON :: string where \<open>SERVER_RECV_TIME_JSON = ''"server_recv_time"''\<close>
definition SERVER_SEND_TIME_JSON :: string where \<open>SERVER_SEND_TIME_JSON = ''"server_send_time"''\<close>

definition MAX_EVENT_COUNT :: int where "MAX_EVENT_COUNT = 3"
definition MAX_EVENT_DEVICE_COUNT :: int where "MAX_EVENT_DEVICE_COUNT = 10"
definition MAX_SERVICE_COUNT :: int where "MAX_SERVICE_COUNT = 50"

definition read_device :: "json \<Rightarrow> device_info" where
  "read_device j = (let g = get_string (Some j) in
     \<lparr>di_parent_device_id = g ''parent_device_id'', di_node_id = g ''node_id'', di_device_id = g ''device_id'',
      di_name = g ''name'', di_description = g ''description'', di_manufacturer_id = g ''manufacturer_id'',
      di_model = g ''model'', di_product_id = g ''product_id'', di_fw_version = g ''fw_version'',
      di_sw_version = g ''sw_version'', di_status = g ''status'', di_extension_info = g ''extension_info''\<rparr>)"

text \<open>Too many devices leave the event with uninitialised parameters, and with success.\<close>

definition OnEventsGatewayAddOrDelete ::
  "string \<Rightarrow> json option \<Rightarrow> cstr \<Rightarrow> service_event \<Rightarrow> int \<times> service_event" where
  "OnEventsGatewayAddOrDelete event_type paras message ev =
    (let devices = JSON_GetObjectFromObject paras ''devices''
     in if JSON_GetArraySize devices > MAX_EVENT_DEVICE_COUNT then (0, ev \<lparr>se_body := DevicesUninit\<rparr>)
        else
          (let version = getLLongValueFromStr message (Some VERSION_JSON);
               infos = map snd (child_list devices)
           in if version < 0 then (-1, ev \<lparr>se_body := DevicesUninit\<rparr>)
              else if event_type = ''add_sub_device_notify'' then
                (1, ev \<lparr>se_type := TYPE_ADD_SUB_DEVICE_NOTIFY, se_body := AddDevices version (map read_device infos)\<rparr>)
              else if event_type = ''delete_sub_device_notify'' then
                (1, ev \<lparr>se_type := TYPE_DELETE_SUB_DEVICE_NOTIFY, se_body := DeleteDevices version
                  (map (\<lambda>j. (get_string (Some j) ''parent_device_id'', get_string (Some j) ''node_id'',
                              get_string (Some j) ''device_id'')) infos)\<rparr>)
              else (1, ev \<lparr>se_body := DevicesUninit\<rparr>)))"

definition OnEventsAddSubDeviceResponse ::
  "json option \<Rightarrow> json \<Rightarrow> service_event \<Rightarrow> int \<times> service_event" where
  "OnEventsAddSubDeviceResponse paras serviceEvent ev =
    (1, ev \<lparr>se_id := Some (get_string (Some serviceEvent) ''event_id''), se_type := TYPE_ADD_SUB_DEVICE_RESPONSE,
       se_body := AddResponse
         (map (\<lambda>(_, j). read_device j) (child_list (JSON_GetObjectFromObject paras ''successful_devices'')))
         (map (\<lambda>(_, j). (get_string (Some j) ''node_id'', get_string (Some j) ''product_id'',
                        get_string (Some j) ''error_code'', get_string (Some j) ''error_msg''))
              (child_list (JSON_GetObjectFromObject paras ''failed_devices'')))\<rparr>)"

text \<open>The array for the ids of the deleted devices has one byte per pointer.\<close>

definition OnEventsDeleteSubDeviceResponse ::
  "json option \<Rightarrow> json \<Rightarrow> service_event \<Rightarrow> (int \<times> service_event) option" where
  "OnEventsDeleteSubDeviceResponse paras serviceEvent ev = do {
     let successful_devices = JSON_GetObjectFromObject paras ''successful_devices'';
     let successful_devices_count = JSON_GetArraySize successful_devices;
     guard_ub (8 * successful_devices_count \<le> successful_devices_count);
     Some (1, ev \<lparr>se_id := Some (get_string (Some serviceEvent) ''event_id''),
       se_type := TYPE_DEL_SUB_DEVICE_RESPONSE,
       se_body := DeleteResponse
         (map (\<lambda>i. JSON_GetStringFromArray successful_devices (int i) None) [0..<nat successful_devices_count])
         (map (\<lambda>(_, j). (get_string (Some j) ''device_id'', get_string (Some j) ''error_code'',
                        get_string (Some j) ''error_msg''))
              (child_list (JSON_GetObjectFromObject paras ''failed_devices'')))\<rparr>) }"

definition OnEventsDownManagerArrived ::
  "string \<Rightarrow> json option \<Rightarrow> cstr \<Rightarrow> json \<Rightarrow> service_event \<Rightarrow> (int \<times> service_event) option" where
  "OnEventsDownManagerArrived event_type paras message serviceEvent ev =
    (if event_type = ''delete_sub_device_notify'' \<or> event_type = ''add_sub_device_notify'' then
       Some (OnEventsGatewayAddOrDelete event_type paras message ev)
     else if event_type = ''add_sub_device_response'' then
       Some (OnEventsAddSubDeviceResponse paras serviceEvent ev)
     else if event_type = ''delete_sub_device_response'' then
       OnEventsDeleteSubDeviceResponse paras serviceEvent ev
     else if event_type = ''sub_device_update_status_response'' then
       OnEventsDeleteSubDeviceResponse paras serviceEvent ev
     else Some (1, ev))"

section \<open>The other services\<close>

definition OnEventsDownFileManager :: "string \<Rightarrow> json option \<Rightarrow> service_event \<Rightarrow> service_event" where
  "OnEventsDownFileManager event_type paras ev =
    (let ev' = (if event_type = ''get_upload_url_response'' then ev \<lparr>se_type := TYPE_GET_UPLOAD_URL_RESPONSE\<rparr>
                else if event_type = ''get_download_url_response''
                then ev \<lparr>se_type := TYPE_GET_DOWNLOAD_URL_RESPONSE\<rparr> else ev)
     in ev' \<lparr>se_body := FileMgr (get_string paras ''url'')\<rparr>)"

definition ota_kind :: "string \<Rightarrow> event_kind option" where
  "ota_kind event_type =
    (if event_type = ''version_query'' then Some TYPE_VERSION_QUERY
     else if event_type = ''firmware_upgrade'' then Some TYPE_FIRMWARE_UPGRADE
     else if event_type = ''software_upgrade'' then Some TYPE_SOFTWARE_UPGRADE
     else if event_type = ''firmware_upgrade_v2'' then Some TYPE_FIRMWARE_UPGRADE_V2
     else if event_type = ''software_upgrade_v2'' then Some TYPE_SOFTWARE_UPGRADE_V2
     else None)"

definition is_upgrade :: "event_kind \<Rightarrow> bool" where
  "is_upgrade k \<longleftrightarrow> k = TYPE_FIRMWARE_UPGRADE \<or> k = TYPE_SOFTWARE_UPGRADE
     \<or> k = TYPE_FIRMWARE_UPGRADE_V2 \<or> k = TYPE_SOFTWARE_UPGRADE_V2"

definition OnEventsDownOtaArrived :: "string \<Rightarrow> json option \<Rightarrow> service_event \<Rightarrow> service_event" where
  "OnEventsDownOtaArrived event_type paras ev =
    (let ev' = (case ota_kind event_type of None \<Rightarrow> ev | Some k \<Rightarrow> ev \<lparr>se_type := k\<rparr>);
         i = (\<lambda>key. JSON_GetIntFromObject paras key (-1))
     in if is_upgrade (se_type ev') then
          ev' \<lparr>se_body := Ota (Some \<lparr>op_version = get_string paras ''version'', op_url = get_string paras ''url'',
             op_file_size = i ''file_size'', op_file_name = get_string paras ''file_name'',
             op_task_id = get_string paras ''task_id'', op_sub_device_count = i ''sub_device_count'',
             op_task_ext_info = get_string paras ''task_ext_info'', op_access_token = get_string paras ''access_token'',
             op_expires = i ''expires'', op_sign = get_string paras ''sign''\<rparr>)\<rparr>
        else ev' \<lparr>se_body := Ota None\<rparr>)"

definition setOtaCallback :: "cstr \<Rightarrow> service_event \<Rightarrow> down \<Rightarrow> down" where
  "setOtaCallback objectDeviceId ev d =
    (let d1 = (if se_type ev = TYPE_VERSION_QUERY then notify onDeviceVersionUp (OtaVersionUp objectDeviceId) d else d)
     in if is_upgrade (se_type ev)
        then notify onUrlResponse (OtaUrlResponse objectDeviceId (se_type ev) (se_body ev)) d1 else d1)"

definition in_int64 :: "int \<Rightarrow> bool" where
  "in_int64 i \<longleftrightarrow> - (2 ^ 63) \<le> i \<and> i < 2 ^ 63"

text \<open>The division truncates towards zero; the sums overflow at 64 bits.\<close>

definition ntp_time :: "int \<Rightarrow> int \<Rightarrow> int \<Rightarrow> int \<Rightarrow> int option" where
  "ntp_time recv send now dev = do {
     guard_ub (in_int64 (recv + send));
     guard_ub (in_int64 (recv + send + now));
     guard_ub (in_int64 (recv + send + now - dev));
     let t = recv + send + now - dev;
     Some (if 0 \<le> t then t div 2 else - ((- t) div 2)) }"

definition OnEventsDownNtpArrived ::
  "64 word \<Rightarrow> string \<Rightarrow> cstr \<Rightarrow> service_event \<Rightarrow> (int \<times> service_event) option" where
  "OnEventsDownNtpArrived now event_type message ev =
    (if event_type = ''time_sync_response'' then
       (let ev' = ev \<lparr>se_type := TYPE_GET_TIME_SYNC_RESPONSE, se_body := Ntp None\<rparr>;
            device_send_time = getLLongValueFromStr message (Some DEVICE_SEND_TIME_JSON);
            server_recv_time = getLLongValueFromStr message (Some SERVER_RECV_TIME_JSON);
            server_send_time = getLLongValueFromStr message (Some SERVER_SEND_TIME_JSON)
        in if device_send_time < 0 \<or> server_recv_time < 0 \<or> server_send_time < 0 then Some (-1, ev')
           else do {
             t \<leftarrow> ntp_time server_recv_time server_send_time (sint now) device_send_time;
             Some (1, ev' \<lparr>se_body := Ntp (Some t)\<rparr>) })
     else Some (1, ev \<lparr>se_body := Ntp None\<rparr>))"

definition OnEventsDownLogArrived :: "string \<Rightarrow> json option \<Rightarrow> service_event \<Rightarrow> service_event" where
  "OnEventsDownLogArrived event_type paras ev =
    (if event_type = ''log_config''
     then ev \<lparr>se_type := TYPE_LOG_CONFIG,
              se_body := DeviceLog (Some (get_string paras ''switch'', get_string paras ''end_time''))\<rparr>
     else ev \<lparr>se_body := DeviceLog None\<rparr>)"

definition OnEventsDownSoftBus :: "sdk \<Rightarrow> json option \<Rightarrow> service_event \<Rightarrow> service_event" where
  "OnEventsDownSoftBus E paras ev = ev \<lparr>se_body := SoftBus (JSON_Print E paras)\<rparr>"

definition OnEventsDownTunnelArrived :: "string \<Rightarrow> json option \<Rightarrow> service_event \<Rightarrow> service_event" where
  "OnEventsDownTunnelArrived event_type paras ev =
    (if event_type = ''tunnel_notify''
     then ev \<lparr>se_type := TYPE_TUNNEL_NOTIFY,
              se_body := Tunnel (Some (get_string paras ''tunnel_uri'', get_string paras ''tunnel_access_token''))\<rparr>
     else ev \<lparr>se_body := Tunnel None\<rparr>)"

definition config_report :: "cstr \<Rightarrow> int \<Rightarrow> string \<Rightarrow> string \<Rightarrow> json" where
  "config_report object_device_id result_code description event_time =
    (let root = AddItemToObject (JObject []) ''object_device_id'' (CreateString object_device_id);
         serviceEvent = AddItemToObject (JObject []) ''service_id'' (CreateString (Some ''$device_config''));
         serviceEvent = AddItemToObject serviceEvent ''event_type'' (CreateString (Some ''config_update_response''));
         serviceEvent = AddItemToObject serviceEvent ''event_time'' (CreateString (Some event_time));
         paras = AddItemToObject (JObject []) ''result_code'' (Some (JNumber (of_int result_code)));
         paras = AddItemToObject paras ''description'' (CreateString (Some description));
         serviceEvent = AddItemToObject serviceEvent ''paras'' (Some paras);
         services = AddItemToArray (JArray []) (Some serviceEvent)
     in AddItemToObject root ''services'' (Some services))"

definition IOTA_RptDeviceConfigRst :: "sdk \<Rightarrow> cstr \<Rightarrow> int \<Rightarrow> string \<Rightarrow> mqtt \<Rightarrow> (int \<times> mqtt) option" where
  "IOTA_RptDeviceConfigRst E object_device_id result_code description m =
    (case GetEventTimesStamp (sdk_heap E) (sdk_gmtime E) of
       None \<Rightarrow> Some (IOTA_FAILURE, m)
     | Some event_time \<Rightarrow>
        (case sdk_print E (config_report object_device_id result_code description event_time) of
           None \<Rightarrow> Some (IOTA_FAILURE, m)
         | Some payload \<Rightarrow> EventUp (sdk_mqtt E) (sdk_heap E) (Some payload) m))"

text \<open>Without a configuration callback the report carries the code 0 and no description.\<close>

definition OnEventsDownRemoteCfgArrived ::
  "sdk \<Rightarrow> string \<Rightarrow> json option \<Rightarrow> cstr \<Rightarrow> service_event \<Rightarrow> down \<Rightarrow> (int \<times> service_event \<times> down) option" where
  "OnEventsDownRemoteCfgArrived E event_type paras object_device_id ev d =
    (if event_type = ''config_update'' then
       (let ev' = ev \<lparr>se_type := TYPE_DEVICE_CONFIG_UPDATE\<rparr>
        in case JSON_GetObjectFromObject paras ''config_content'' of
             None \<Rightarrow> Some (-1, ev', d)
           | Some cfg \<Rightarrow> do {
               let (result_code, description) = (if onDeviceConfig (d_handlers d) then sdk_config E cfg else (0, []));
               (_, m) \<leftarrow> IOTA_RptDeviceConfigRst E object_device_id result_code description (d_mqtt d);
               Some (1, ev', d \<lparr>d_mqtt := m\<rparr>) })
     else Some (1, ev, d))"

section \<open>The events of a message\<close>

text \<open>What one entry of the array of services comes to: it is passed over, it ends the
  parsing with a code, or it fills a slot; a rule event fills none.\<close>

datatype slot = NoSlot | Stop int | Slot service_event

text \<open>The services that return a code: below 0 the parsing ends, otherwise the callback of
  the service is called.\<close>

definition slot_notify ::
  "(handlers \<Rightarrow> bool) \<Rightarrow> msg_info \<Rightarrow> cstr \<Rightarrow> int \<Rightarrow> service_event \<Rightarrow> down \<Rightarrow> slot \<times> down" where
  "slot_notify h info object_device_id ret ev d =
    (if ret < 0 then (Stop (-1), d) else (Slot ev, notify h (ServiceEvent info object_device_id ev) d))"

definition new_event :: "event_service \<Rightarrow> cstr \<Rightarrow> service_event" where
  "new_event service event_time =
     \<lparr>se_service = service, se_type = TYPE_ERROR, se_time = event_time, se_id = None, se_body = NoBody\<rparr>"

definition splice_service ::
  "sdk \<Rightarrow> msg_info \<Rightarrow> cstr \<Rightarrow> cstr \<Rightarrow> json \<Rightarrow> down \<Rightarrow> (slot \<times> down) option" where
  "splice_service E info object_device_id message serviceEvent d =
    (case (get_string (Some serviceEvent) ''service_id'', get_string (Some serviceEvent) ''event_type'') of
       (Some service_id, Some event_type) \<Rightarrow>
         (let event_time = get_string (Some serviceEvent) ''event_time'';
              paras = JSON_GetObjectFromObject (Some serviceEvent) ''paras'';
              start = (\<lambda>service. new_event service event_time)
          in if service_id = ''$sub_device_manager'' then do {
               (ret, ev) \<leftarrow> OnEventsDownManagerArrived event_type paras message serviceEvent
                             (start SERVICE_SUB_DEVICE_MANAGER);
               Some (slot_notify onSubDevice info object_device_id ret ev d) }
             else if service_id = ''$ota'' then
               (let ev = OnEventsDownOtaArrived event_type paras (start SERVICE_OTA)
                in Some (Slot ev, setOtaCallback object_device_id ev d))
             else if service_id = ''$time_sync'' then do {
               (ret, ev) \<leftarrow> OnEventsDownNtpArrived (sdk_now E) event_type message (start SERVICE_TIME_SYNC);
               Some (slot_notify onNTP info object_device_id ret ev d) }
             else if service_id = ''$log'' then
               Some (slot_notify onDeviceLog info object_device_id 1
                       (OnEventsDownLogArrived event_type paras (start SERVICE_DEVICE_LOG)) d)
             else if service_id = ''$oh_soft_bus'' then
               Some (slot_notify onSoftBus info object_device_id 1
                       (OnEventsDownSoftBus E paras ((start SERVICE_SOFT_BUS)
                          \<lparr>se_id := Some (get_string (Some serviceEvent) ''event_id'')\<rparr>)) d)
             else if service_id = ''$tunnel_manager'' then
               Some (slot_notify onTunnelManager info object_device_id 1
                       (OnEventsDownTunnelArrived event_type paras (start SERVICE_TUNNEL_MANAGER)) d)
             else if service_id = ''$file_manager'' then
               Some (slot_notify onFileManager info object_device_id 1
                       (OnEventsDownFileManager event_type paras (start SERVICE_FILE_MANAGER)) d)
             else if service_id = ''$device_rule'' then
               (case JSON_Print E paras of
                  None \<Rightarrow> Some (Stop (-2), d)
                | Some payload \<Rightarrow> do {
                    rm \<leftarrow> RuleMgr_Parse (sdk_storage E) (sdk_parse E) (sdk_print E) (sdk_open E) (sdk_rheap E)
                            (Some payload) (d_rules d);
                    Some (NoSlot, d \<lparr>d_rules := rm\<rparr>) })
             else if service_id = ''$device_config'' then do {
               (ret, ev, d') \<leftarrow> OnEventsDownRemoteCfgArrived E event_type paras object_device_id
                                  (start SERVICE_DEVICE_CONFIG) d;
               Some (if ret < 0 then Stop (-1) else Slot ev, d') }
             else Some (Slot (start SERVICE_ERROR), d))
     | _ \<Rightarrow> Some (NoSlot, d))"

fun OnEventsDownArrivedJosnSplicing ::
  "sdk \<Rightarrow> msg_info \<Rightarrow> cstr \<Rightarrow> cstr \<Rightarrow> json list \<Rightarrow> service_event list \<Rightarrow> down
    \<Rightarrow> (int \<times> service_event list \<times> down) option" where
  "OnEventsDownArrivedJosnSplicing E info object_device_id message [] events d = Some (0, events, d)"
| "OnEventsDownArrivedJosnSplicing E info object_device_id message (serviceEvent # rest) events d = do {
     (slot, d') \<leftarrow> splice_service E info object_device_id message serviceEvent d;
     case slot of
       Stop code \<Rightarrow> Some (code, events, d')
     | NoSlot \<Rightarrow> OnEventsDownArrivedJosnSplicing E info object_device_id message rest events d'
     | Slot ev \<Rightarrow> OnEventsDownArrivedJosnSplicing E info object_device_id message rest (events @ [ev]) d' }"

definition OnEventsDownArrived :: "sdk \<Rightarrow> msg_info \<Rightarrow> cstr \<Rightarrow> cstr \<Rightarrow> down \<Rightarrow> down option" where
  "OnEventsDownArrived E info bridgeDeviceId message d =
    (case JSON_Parse E message of
       None \<Rightarrow> Some d
     | Some doc \<Rightarrow>
        (let object_device_id = JSON_GetStringFromObject (Some doc) ''object_device_id'' (Some ''-1'');
             services = JSON_GetObjectFromObject (Some doc) ''services''
         in if JSON_GetArraySize services > MAX_EVENT_COUNT then Some d
            else do {
              (ret, events, d') \<leftarrow> OnEventsDownArrivedJosnSplicing E info object_device_id message
                                     (map snd (child_list services)) [] d;
              Some (if ret < 0 then d'
                    else notify onEventDown (EventDown info bridgeDeviceId object_device_id events) d') }))"

section \<open>Time synchronisation\<close>

text \<open>
  C16. The time synchronisation is exact on a symmetric line: when the server's clock is
  ahead of the device's by some offset, the request and the answer take the same time,
  and the server answers after any delay, the time handed to the application is the
  server's time at the moment the answer is read.
\<close>

theorem Ntp_symmetric_delay_exact:
  fixes sent offset delay wait :: int
  assumes "getLLongValueFromStr message (Some DEVICE_SEND_TIME_JSON) = sent"
    and "getLLongValueFromStr message (Some SERVER_RECV_TIME_JSON) = sent + delay + offset"
    and "getLLongValueFromStr message (Some SERVER_SEND_TIME_JSON) = sent + delay + wait + offset"
    and "sint now = sent + delay + wait + delay"
    and "0 \<le> sent" "0 \<le> delay" "0 \<le> wait" "0 \<le> sent + offset" "sint now < 2 ^ 60" "offset < 2 ^ 60"
  shows "OnEventsDownNtpArrived now ''time_sync_response'' message ev =
    Some (1, ev \<lparr>se_type := TYPE_GET_TIME_SYNC_RESPONSE, se_body := Ntp (Some (sint now + offset))\<rparr>)"
proof -
  let ?r = "sent + delay + offset" and ?s = "sent + delay + wait + offset"
  have sum: "?r + ?s + sint now - sent = 2 * (sint now + offset)" using assms(4) by simp
  have n: "sent \<le> sint now" "0 \<le> sint now" using assms by linarith+
  have p: "(2 :: int) ^ 61 = 2 * 2 ^ 60" "(2 :: int) ^ 63 = 8 * 2 ^ 60" by simp_all
  have b: "0 \<le> ?r" "?r < 2 ^ 61" "0 \<le> ?s" "?s < 2 ^ 61" unfolding p using assms n by linarith+
  then have "in_int64 (?r + ?s)" "in_int64 (?r + ?s + sint now)" "in_int64 (?r + ?s + sint now - sent)"
    unfolding in_int64_def p using assms(5,9) n b [unfolded p] by linarith+
  moreover have "0 \<le> sint now + offset" using assms n by linarith
  ultimately have "ntp_time ?r ?s (sint now) sent = Some (sint now + offset)"
    unfolding ntp_time_def Let_def sum by (simp only: guard_ub_simps Option.bind_lunit) simp
  then show ?thesis using assms(1-8) b by (simp add: OnEventsDownNtpArrived_def)
qed

definition sample_sync :: string where
  \<open>sample_sync = ''{"device_send_time":1000,"server_recv_time":1600,"server_send_time":1650}''\<close>

lemma sample_sync_times:
  "getLLongValueFromStr (Some sample_sync) (Some DEVICE_SEND_TIME_JSON) = 1000"
  "getLLongValueFromStr (Some sample_sync) (Some SERVER_RECV_TIME_JSON) = 1600"
  "getLLongValueFromStr (Some sample_sync) (Some SERVER_SEND_TIME_JSON) = 1650"
  by code_simp+

theorem Ntp_symmetric_delay_exact_witness:
  "OnEventsDownNtpArrived 1250 ''time_sync_response'' (Some sample_sync) (new_event SERVICE_TIME_SYNC None) =
     Some (1, (new_event SERVICE_TIME_SYNC None)
       \<lparr>se_type := TYPE_GET_TIME_SYNC_RESPONSE, se_body := Ntp (Some 1750)\<rparr>)"
  using Ntp_symmetric_delay_exact [of "Some sample_sync" 1000 100 500 50 1250] sample_sync_times by simp

section \<open>Deleted sub-devices\<close>

text \<open>
  C17. The answer to the deletion of sub-devices corrupts the heap: an event that names
  any successfully deleted device makes the code write pointers into an array of as many
  bytes, which is undefined behaviour.
\<close>

theorem DeleteResponse_overflows:
  assumes "sdk_parse E message = Some (JObject [(''services'', JArray [JObject
      [(''service_id'', JString ''$sub_device_manager''), (''event_type'', JString ''delete_sub_device_response''),
       (''paras'', JObject [(''successful_devices'', JArray (device # devices))])]])])"
  shows "OnEventsDownArrived E info bridgeDeviceId (Some message) d = None"
proof -
  let ?sv = "JObject [(''service_id'', JString ''$sub_device_manager''),
     (''event_type'', JString ''delete_sub_device_response''),
     (''paras'', JObject [(''successful_devices'', JArray (device # devices))])]"
  have keys: "same_key ''services'' ''services''" "\<not> same_key ''event_type'' ''service_id''"
    "\<not> same_key ''event_time'' ''service_id''" "\<not> same_key ''event_time'' ''event_type''" "\<not> same_key ''event_time'' ''paras''"
    "\<not> same_key ''paras'' ''service_id''" "\<not> same_key ''paras'' ''event_type''" "\<not> same_key ''object_device_id'' ''services''"
    by code_simp+
  have "splice_service E info odi (Some message) ?sv d = None" for odi
    by (simp add: splice_service_def get_string_def json_getters keys OnEventsDownManagerArrived_def
        OnEventsDeleteSubDeviceResponse_def Let_def)
  then show ?thesis
    using assms by (simp add: OnEventsDownArrived_def JSON_Parse_def json_getters keys MAX_EVENT_COUNT_def)
qed

section \<open>A concrete device\<close>

definition all_handlers :: handlers where
  "all_handlers = \<lparr>onEventDown = True, onCmd = True, onCmdV3 = True, onMessage = True, onRawMessage = True,
     onPropertiesSet = True, onPropertiesGet = True, onDeviceShadow = True, onUserTopicMessage = True,
     onUserTopicRawMessage = True, onBootstrap = True, onM2mMessage = True, onDeviceConfig = True,
     onSubDevice = True, onNTP = True, onDeviceLog = True, onSoftBus = True, onTunnelManager = True,
     onFileManager = True, onDeviceVersionUp = True, onUrlResponse = True, onBridgesDeviceLogin = True,
     onBridgesDeviceLogout = True, onBridgesDeviceResetSecret = True, onBridgesDeviceDisconnect = True,
     onOtherUndefined = True\<rparr>"

definition sample_down :: down where
  "sample_down = \<lparr>d_rules = sample_mgr, d_mqtt = sample_mqtt \<lparr>g_client := True\<rparr>, d_handlers = all_handlers,
     d_detect = detect_start, d_app = []\<rparr>"

definition sample_sdk :: "json \<Rightarrow> sdk" where
  "sample_sdk doc = \<lparr>sdk_storage = False, sdk_parse = (\<lambda>_. Some doc), sdk_print = (\<lambda>_. Some ''{}''),
     sdk_open = (\<lambda>_. True), sdk_rheap = rheap_ok, sdk_heap = (\<lambda>_. True), sdk_zlib = storing 9,
     sdk_mqtt = sample_env, sdk_gmtime = env_gmtime sample_env, sdk_now = 1250, sdk_config = (\<lambda>_. (0, [])), sdk_os = sample_os\<rparr>"

theorem DeleteResponse_overflows_witness:
  "OnEventsDownArrived (sample_sdk (JObject [(''services'', JArray [JObject
      [(''service_id'', JString ''$sub_device_manager''), (''event_type'', JString ''delete_sub_device_response''),
       (''paras'', JObject [(''successful_devices'', JArray [JString ''d1''])])]])])) (0, 0) None (Some ''x'') sample_down
   = None"
  by (rule DeleteResponse_overflows) (simp add: sample_sdk_def)

end
