(* ===== verification/Payload.thy ===== *)
theory Payload
  imports EventsDown
begin

text \<open>
  The JSON payloads of the messages a device sends, src/agentlite/iota\_payload.c.  A
  structure of the application is a record, a NULL pointer to it \<open>None\<close>, an array the list
  of its elements; reading behind it is undefined.  The result is the printed text, NULL
  when the input is refused or the printer fails.  cJSON nodes are allocated successfully;
  the JSON parser and printer, the clock and memory are those of the record \<open>sdk\<close>.
\<close>

section \<open>Building objects\<close>

text \<open>An object filled by one addition after the other; an absent value, such as the
  string made of NULL, is not added.\<close>

definition json_object :: "(string \<times> json option) list \<Rightarrow> json" where
  "json_object members = foldl (\<lambda>obj (key, item). AddItemToObject obj key item) (JObject []) members"

definition json_int :: "int \<Rightarrow> json option" where
  "json_int i = Some (JNumber (of_int i))"

definition json_array :: "json list \<Rightarrow> json" where
  "json_array items = foldl (\<lambda>arr item. AddItemToArray arr (Some item)) (JArray []) items"

text \<open>cJSON\_CreateStringArray answers NULL as soon as one string is NULL.\<close>

definition CreateStringArray :: "cstr list \<Rightarrow> json option" where
  "CreateStringArray strings =
    (if None \<in> set strings then None else Some (JArray (map (\<lambda>s. JString (the s)) strings)))"

definition MaxServiceReportNum :: int where "MaxServiceReportNum = 10"
definition MaxSubDeviceCount :: int where "MaxSubDeviceCount = 100"
definition MaxAddedSubDevCount :: int where "MaxAddedSubDevCount = 50"
definition MaxDelSubDevCount :: int where "MaxDelSubDevCount = 50"

section \<open>The structures of the application\<close>

record service_data =
  sd_service_id :: cstr
  sd_event_time :: cstr
  sd_properties :: cstr

record device_data =
  dd_device_id :: cstr
  dd_services :: "service_data list"

record device_statuses =
  ds_event_time :: cstr
  ds_statuses :: "(cstr \<times> cstr) list"

record sub_device =
  sub_parent_device_id :: cstr
  sub_node_id :: cstr
  sub_device_id :: cstr
  sub_name :: cstr
  sub_description :: cstr
  sub_product_id :: cstr
  sub_extension_info :: cstr

record sub_device_info =
  si_event_time :: cstr
  si_event_id :: cstr
  si_deviceInfo :: "sub_device list"

record del_sub_device =
  del_event_time :: cstr
  del_event_id :: cstr
  del_delSubDevice :: "cstr list"

record ota_version_info =
  ov_event_time :: cstr
  ov_sw_version :: cstr
  ov_fw_version :: cstr
  ov_object_device_id :: cstr

record upgrade_status_info =
  us_event_time :: cstr
  us_result_code :: int
  us_progress :: int
  us_description :: cstr
  us_object_device_id :: cstr
  us_version :: cstr

record device_info_report =
  ir_object_device_id :: cstr
  ir_event_time :: cstr
  ir_device_sdk_version :: cstr
  ir_sw_version :: cstr
  ir_fw_version :: cstr
  ir_device_ip :: cstr

record file_info =
  fi_file_name :: cstr
  fi_hash_code :: cstr
  fi_size :: int

section \<open>Messages and properties\<close>

definition IOTA_MessageReportPayload :: "sdk \<Rightarrow> cstr \<Rightarrow> cstr \<Rightarrow> cstr \<Rightarrow> cstr \<Rightarrow> cstr" where
  "IOTA_MessageReportPayload E object_device_id name ident content =
     sdk_print E (json_object
       [(''object_device_id'', CreateString object_device_id),
        (''name'', CreateString name),
        (''id'', CreateString ident),
        (''content'', case JSON_Parse E content of
           Some contentCjson \<Rightarrow> Some contentCjson | None \<Rightarrow> CreateString content)])"

definition service_json :: "service_data \<Rightarrow> json \<Rightarrow> json" where
  "service_json d properties = json_object
     [(''service_id'', CreateString (sd_service_id d)),
      (''event_time'', CreateString (sd_event_time d)),
      (''properties'', Some properties)]"

text \<open>The loop over \<open>n\<close> services: \<open>None\<close> behind the array, \<open>Some None\<close> when the properties
  of one are no JSON.\<close>

fun services_json :: "sdk \<Rightarrow> nat \<Rightarrow> service_data list \<Rightarrow> json list option option" where
  "services_json E 0 ds = Some (Some [])"
| "services_json E (Suc n) [] = None"
| "services_json E (Suc n) (d # ds) =
    (case JSON_Parse E (sd_properties d) of
       None \<Rightarrow> Some None
     | Some properties \<Rightarrow> map_option (map_option ((#) (service_json d properties))) (services_json E n ds))"

text \<open>The report is cached and evaluated by the rules before it is printed; the commands
  the rules issue come with the result.\<close>

definition IOTA_PropertiesReportPayload ::
  "sdk \<Rightarrow> (command_call \<Rightarrow> bool) \<Rightarrow> service_data list option \<Rightarrow> int \<Rightarrow> rule_mgr
    \<Rightarrow> (cstr \<times> rule_event list \<times> rule_mgr) option" where
  "IOTA_PropertiesReportPayload E spawn pServiceData serviceNum rm =
    (case pServiceData of
       None \<Rightarrow> Some (None, [], rm)
     | Some ds \<Rightarrow>
        if serviceNum = 0 then Some (None, [], rm)
        else do {
          items \<leftarrow> services_json E (nat serviceNum) ds;
          case items of
            None \<Rightarrow> Some (None, [], rm)
          | Some js \<Rightarrow> do {
              let serviceDatas = json_array js;
              let rm1 = rm \<lparr>g_cacheDeviceDataJSON :=
                    RuleMgr_CachePropertiesValue (Some serviceDatas) (g_cacheDeviceDataJSON rm)\<rparr>;
              (rm2, events) \<leftarrow> RuleMgr_CheckAndExecuteNoTimers (sdk_print E) (sdk_heap E) spawn (sint (sdk_now E)) rm1;
              Some (sdk_print E (json_object [(''services'', Some serviceDatas)]), events, rm2) } })"

fun devices_json :: "sdk \<Rightarrow> nat \<Rightarrow> device_data list \<Rightarrow> int list \<Rightarrow> json list option option" where
  "devices_json E 0 ds lens = Some (Some [])"
| "devices_json E (Suc n) (d # ds) (len # lens) =
    (case services_json E (nat len) (dd_services d) of
       None \<Rightarrow> None
     | Some None \<Rightarrow> Some None
     | Some (Some js) \<Rightarrow> map_option (map_option ((#) (json_object
          [(''device_id'', CreateString (dd_device_id d)), (''services'', Some (json_array js))])))
        (devices_json E n ds lens))"
| "devices_json E (Suc n) _ _ = None"

definition IOTA_BatchPropertiesReportPayload ::
  "sdk \<Rightarrow> device_data list option \<Rightarrow> int \<Rightarrow> int list option \<Rightarrow> cstr option" where
  "IOTA_BatchPropertiesReportPayload E pDeviceData deviceNum serviceLenList =
    (case (pDeviceData, serviceLenList) of
       (Some ds, Some lens) \<Rightarrow>
         if deviceNum = 0 \<or> deviceNum < 0 \<or> deviceNum > MaxServiceReportNum then Some None
         else do {
           items \<leftarrow> devices_json E (nat deviceNum) ds lens;
           case items of
             None \<Rightarrow> Some None
           | Some js \<Rightarrow> CombineStrings (sdk_heap E) 1 (sdk_print E (json_object [(''devices'', Some (json_array js))])) [] }
     | _ \<Rightarrow> Some None)"

definition IOTA_CommandResponsePayload :: "sdk \<Rightarrow> int \<Rightarrow> cstr \<Rightarrow> cstr \<Rightarrow> cstr" where
  "IOTA_CommandResponsePayload E result_code response_name pcCommandResponse =
    (let root = [(''result_code'', json_int result_code), (''response_name'', CreateString response_name)]
     in case pcCommandResponse of
          None \<Rightarrow> sdk_print E (json_object root)
        | Some text \<Rightarrow> (case sdk_parse E text of
             None \<Rightarrow> None
           | Some commandResponse \<Rightarrow> sdk_print E (json_object (root @ [(''paras'', Some commandResponse)]))))"

definition IOTA_PropertiesSetResponsePayload :: "sdk \<Rightarrow> int \<Rightarrow> cstr \<Rightarrow> cstr" where
  "IOTA_PropertiesSetResponsePayload E result_code result_desc =
     sdk_print E (json_object
       [(''result_code'', json_int result_code), (''result_desc'', CreateString result_desc)])"

fun get_services_json :: "sdk \<Rightarrow> nat \<Rightarrow> service_data list \<Rightarrow> json list option option" where
  "get_services_json E 0 ds = Some (Some [])"
| "get_services_json E (Suc n) [] = None"
| "get_services_json E (Suc n) (d # ds) =
    (if sd_service_id d \<noteq> None \<and> sd_properties d \<noteq> None then
       (case JSON_Parse E (sd_properties d) of
          None \<Rightarrow> Some None
        | Some properties \<Rightarrow> map_option (map_option ((#) (service_json d properties))) (get_services_json E n ds))
     else Some None)"

definition IOTA_PropertiesGetResponsePayload :: "sdk \<Rightarrow> service_data list \<Rightarrow> int \<Rightarrow> cstr option" where
  "IOTA_PropertiesGetResponsePayload E serviceProp serviceNum =
    (if serviceNum \<le> 0 then Some None
     else case serviceProp of
       [] \<Rightarrow> None
     | first # _ \<Rightarrow> do {
         items \<leftarrow> (if sd_service_id first \<noteq> None \<and> sd_properties first \<noteq> None
                   then get_services_json E (nat serviceNum) serviceProp else Some (Some []));
         case items of
           None \<Rightarrow> Some None
         | Some js \<Rightarrow> Some (sdk_print E (json_object [(''services'', Some (json_array js))])) })"

definition IOTA_GetDeviceShadowPayload :: "sdk \<Rightarrow> cstr \<Rightarrow> cstr \<Rightarrow> cstr" where
  "IOTA_GetDeviceShadowPayload E object_device_id service_id =
     sdk_print E (json_object
       [(''object_device_id'', CreateString object_device_id), (''service_id'', CreateString service_id)])"

section \<open>Sub-devices\<close>

fun statuses_json :: "nat \<Rightarrow> (cstr \<times> cstr) list \<Rightarrow> json list option option" where
  "statuses_json 0 ds = Some (Some [])"
| "statuses_json (Suc n) [] = None"
| "statuses_json (Suc n) ((device_id, status) # ds) =
    (if device_id \<noteq> None \<and> status \<noteq> None then
       map_option (map_option ((#) (json_object
         [(''device_id'', CreateString device_id), (''status'', CreateString status)]))) (statuses_json n ds)
     else Some None)"

definition IOTA_UpdateSubDeviceStatusPayload :: "sdk \<Rightarrow> device_statuses option \<Rightarrow> int \<Rightarrow> cstr option" where
  "IOTA_UpdateSubDeviceStatusPayload E device_statuses deviceNum =
    (case device_statuses of
       None \<Rightarrow> Some None
     | Some s \<Rightarrow>
        if deviceNum < 0 \<or> deviceNum > MaxSubDeviceCount then Some None
        else case ds_statuses s of
          [] \<Rightarrow> None
        | (device_id, status) # _ \<Rightarrow>
           if device_id = None \<or> status = None then Some None
           else do {
             items \<leftarrow> statuses_json (nat deviceNum) (ds_statuses s);
             case items of
               None \<Rightarrow> Some None
             | Some js \<Rightarrow>
                (let paras = json_object [(''device_statuses'', Some (json_array js))];
                     service = json_object
                       [(''service_id'', CreateString (Some ''$sub_device_manager'')),
                        (''event_type'', CreateString (Some ''sub_device_update_status'')),
                        (''event_time'', CreateString (ds_event_time s)),
                        (''paras'', Some paras)]
                 in Some (sdk_print E (json_object [(''services'', Some (json_array [service]))]))) })"

fun sub_devices_json :: "nat \<Rightarrow> sub_device list \<Rightarrow> json list option option" where
  "sub_devices_json 0 ds = Some (Some [])"
| "sub_devices_json (Suc n) [] = None"
| "sub_devices_json (Suc n) (d # ds) =
    (if sub_node_id d \<noteq> None \<and> sub_product_id d \<noteq> None then
       map_option (map_option ((#) (json_object
         [(''parent_device_id'', CreateString (sub_parent_device_id d)),
          (''node_id'', CreateString (sub_node_id d)),
          (''device_id'', CreateString (sub_device_id d)),
          (''name'', CreateString (sub_name d)),
          (''description'', CreateString (sub_description d)),
          (''product_id'', CreateString (sub_product_id d)),
          (''extension_info'', CreateString (sub_extension_info d))]))) (sub_devices_json n ds)
     else Some None)"

definition IOTA_AddSubDevicePayload :: "sdk \<Rightarrow> sub_device_info option \<Rightarrow> int \<Rightarrow> cstr option" where
  "IOTA_AddSubDevicePayload E subDevicesInfo deviceNum =
    (case subDevicesInfo of
       None \<Rightarrow> Some None
     | Some s \<Rightarrow>
        if deviceNum < 0 \<or> deviceNum > MaxAddedSubDevCount then Some None
        else do {
          items \<leftarrow> sub_devices_json (nat deviceNum) (si_deviceInfo s);
          case items of
            None \<Rightarrow> Some None
          | Some js \<Rightarrow>
             (let paras = json_object [(''devices'', Some (json_array js))];
                  service = json_object
                    [(''service_id'', CreateString (Some ''$sub_device_manager'')),
                     (''event_type'', CreateString (Some ''add_sub_device_request'')),
                     (''event_time'', CreateString (si_event_time s)),
                     (''event_id'', CreateString (si_event_id s)),
                     (''paras'', Some paras)]
              in Some (sdk_print E (json_object [(''services'', Some (json_array [service]))]))) })"

definition IOTA_DelSubDevicePayload :: "sdk \<Rightarrow> del_sub_device option \<Rightarrow> int \<Rightarrow> cstr option" where
  "IOTA_DelSubDevicePayload E delSubDevices deviceNum =
    (case delSubDevices of
       None \<Rightarrow> Some None
     | Some s \<Rightarrow>
        if deviceNum < 0 \<or> deviceNum > MaxDelSubDevCount then Some None
        else case del_delSubDevice s of
          [] \<Rightarrow> None
        | None # _ \<Rightarrow> Some None
        | _ \<Rightarrow> do {
            guard_ub (nat deviceNum \<le> length (del_delSubDevice s));
            let delSubDevice = CreateStringArray (take (nat deviceNum) (del_delSubDevice s));
            let paras = json_object [(''devices'', delSubDevice)];
            let service = json_object
              [(''service_id'', CreateString (Some ''$sub_device_manager'')),
               (''event_type'', CreateString (Some ''delete_sub_device_request'')),
               (''event_time'', CreateString (del_event_time s)),
               (''event_id'', CreateString (del_event_id s)),
               (''paras'', Some paras)];
            Some (sdk_print E (json_object [(''services'', Some (json_array [service]))])) })"

section \<open>Events of the device itself\<close>

definition IOTA_OTAVersionReportPayload :: "sdk \<Rightarrow> ota_version_info \<Rightarrow> cstr" where
  "IOTA_OTAVersionReportPayload E info =
    (if ov_fw_version info = None \<and> ov_sw_version info = None then None
     else (let paras = json_object
                 [(''sw_version'', CreateString (ov_sw_version info)),
                  (''fw_version'', CreateString (ov_fw_version info))];
               tmp = json_object
                 [(''service_id'', CreateString (Some ''$ota'')),
                  (''event_time'', CreateString (ov_event_time info)),
                  (''event_type'', CreateString (Some ''version_report'')),
                  (''paras'', Some paras)]
           in sdk_print E (json_object
                [(''object_device_id'', CreateString (ov_object_device_id info)),
                 (''services'', Some (json_array [tmp]))])))"

definition IOTA_OTAStatusReportPayload :: "sdk \<Rightarrow> upgrade_status_info \<Rightarrow> cstr" where
  "IOTA_OTAStatusReportPayload E info =
    (if us_progress info > 100 \<or> us_progress info < 0 then None
     else if \<not> (us_result_code info \<ge> 0 \<and> us_result_code info \<le> 10 \<or> us_result_code info = 255) then None
     else (let paras = json_object
                 [(''result_code'', json_int (us_result_code info)),
                  (''progress'', json_int (us_progress info)),
                  (''version'', CreateString (us_version info)),
                  (''description'', CreateString (us_description info))];
               tmp = json_object
                 [(''service_id'', CreateString (Some ''$ota'')),
                  (''event_time'', CreateString (us_event_time info)),
                  (''event_type'', CreateString (Some ''upgrade_progress_report'')),
                  (''paras'', Some paras)]
           in sdk_print E (json_object
                [(''object_device_id'', CreateString (us_object_device_id info)),
                 (''services'', Some (json_array [tmp]))])))"

text \<open>The last component of a path, as POSIX defines it.\<close>

definition basename :: "string \<Rightarrow> string" where
  "basename path =
    (if path = [] then ''.''
     else (let stripped = rev (dropWhile (\<lambda>c. c = CHR ''/'') (rev path))
           in if stripped = [] then ''/''
              else rev (takeWhile (\<lambda>c. c \<noteq> CHR ''/'') (rev stripped))))"

definition IOTA_GetFileUrlPayload :: "sdk \<Rightarrow> file_info option \<Rightarrow> bool \<Rightarrow> cstr option" where
  "IOTA_GetFileUrlPayload E file isup =
    (case file of
       None \<Rightarrow> Some None
     | Some f \<Rightarrow> (case fi_file_name f of
         None \<Rightarrow> Some None
       | Some file_name \<Rightarrow> (case GetEventTimesStamp (sdk_heap E) (sdk_gmtime E) of
           None \<Rightarrow> Some None
         | Some event_time \<Rightarrow> do {
             obsFileName \<leftarrow> CombineStrings (sdk_heap E) 1 (Some (basename file_name)) [];
             let attributes = (if fi_hash_code f \<noteq> None \<or> fi_size f \<noteq> 0
                   then [(''file_attributes'', Some (JObject [])), (''size'', json_int (fi_size f)),
                         (''hash_code'', CreateString (fi_hash_code f))]
                   else []);
             let paras = json_object ((''file_name'', CreateString obsFileName) # attributes);
             let serviceEvent = json_object
               [(''service_id'', CreateString (Some ''$file_manager'')),
                (''event_type'', CreateString (Some (if isup then ''get_upload_url'' else ''get_download_url''))),
                (''event_time'', CreateString (Some event_time)),
                (''paras'', Some paras)];
             Some (sdk_print E (json_object [(''services'', Some (json_array [serviceEvent]))])) })))"

definition IOTA_GetNTPTimePayload :: "sdk \<Rightarrow> cstr" where
  "IOTA_GetNTPTimePayload E =
    (let paras = json_object [(''device_send_time'', json_int (uint (sdk_now E)))];
         serviceEvent = json_object
           [(''service_id'', CreateString (Some ''$time_sync'')),
            (''event_type'', CreateString (Some ''time_sync_request'')),
            (''event_time'', CreateString (GetEventTimesStamp (sdk_heap E) (sdk_gmtime E))),
            (''paras'', Some paras)]
     in sdk_print E (json_object [(''services'', Some (json_array [serviceEvent]))]))"

definition IOTA_ReportDeviceInfoPayload :: "sdk \<Rightarrow> device_info_report option \<Rightarrow> cstr" where
  "IOTA_ReportDeviceInfoPayload E device_info_report =
    (case device_info_report of
       None \<Rightarrow> None
     | Some r \<Rightarrow>
        (let paras = json_object
               [(''device_sdk_version'', CreateString (ir_device_sdk_version r)),
                (''sw_version'', CreateString (ir_sw_version r)),
                (''fw_version'', CreateString (ir_fw_version r)),
                (''device_ip'', CreateString (ir_device_ip r))];
             serviceEvent = json_object
               [(''service_id'', CreateString (Some ''$sdk_info'')),
                (''event_type'', CreateString (Some ''sdk_info_report'')),
                (''event_time'', CreateString (ir_event_time r)),
                (''paras'', Some paras)]
         in sdk_print E (json_object
              [(''object_device_id'', CreateString (ir_object_device_id r)),
               (''services'', Some (json_array [serviceEvent]))])))"

definition IOTA_GetLatestSoftBusInfoPayload :: "sdk \<Rightarrow> cstr \<Rightarrow> cstr \<Rightarrow> cstr" where
  "IOTA_GetLatestSoftBusInfoPayload E busId eventId =
    (let service_soft_bus = json_object
           [(''service_id'', CreateString (Some ''$oh_soft_bus'')),
            (''event_type'', CreateString (Some ''soft_bus_config_request'')),
            (''event_id'', CreateString eventId),
            (''paras'', Some (json_object [(''bus_id'', CreateString busId)]))]
     in sdk_print E (json_object [(''services'', Some (json_array [service_soft_bus]))]))"

definition IOTA_ReportDeviceLogPayload :: "sdk \<Rightarrow> cstr \<Rightarrow> cstr \<Rightarrow> cstr \<Rightarrow> cstr" where
  "IOTA_ReportDeviceLogPayload E kind content timestamp =
    (let paras = json_object
           [(''content'', CreateString content), (''type'', CreateString kind), (''timestamp'', CreateString timestamp)];
         serviceEvent = json_object
           [(''service_id'', CreateString (Some ''$log'')),
            (''event_type'', CreateString (Some ''log_report'')),
            (''paras'', Some paras)]
     in sdk_print E (json_object [(''services'', Some (json_array [serviceEvent]))]))"

section \<open>The shape of the messages\<close>

lemma json_object_Nil [simp]: "json_object [] = JObject []"
  by (simp add: json_object_def)

lemma json_object_members: "json_object members = JObject (List.map_filter (\<lambda>(k, v). map_option (Pair k) v) members)"
proof -
  have "foldl (\<lambda>obj (key, item). AddItemToObject obj key item) (JObject kvs) members =
      JObject (kvs @ List.map_filter (\<lambda>(k, v). map_option (Pair k) v) members)" for kvs
  proof (induction members arbitrary: kvs)
    case (Cons m members)
    then show ?case by (cases m; cases "snd m") (auto simp: map_filter_simps)
  qed (simp add: map_filter_simps)
  then show ?thesis by (simp add: json_object_def)
qed

lemma json_array_items [simp]: "json_array items = JArray items"
proof -
  have "foldl (\<lambda>arr item. AddItemToArray arr (Some item)) (JArray xs) items = JArray (xs @ items)" for xs
    by (induction items arbitrary: xs) simp_all
  then show ?thesis by (simp add: json_array_def)
qed

text \<open>A lookup in a built object finds the first member of that name that is present.\<close>

fun lookup_member :: "string \<Rightarrow> (string \<times> json option) list \<Rightarrow> json option" where
  "lookup_member key [] = None"
| "lookup_member key ((k, Some v) # members) = (if same_key key k then Some v else lookup_member key members)"
| "lookup_member key ((k, None) # members) = lookup_member key members"

lemma GetObjectItem_json_object [simp]: "GetObjectItem (Some (json_object members)) key = lookup_member key members"
  unfolding json_object_members by (induction key members rule: lookup_member.induct) (simp_all add: map_filter_simps)

text \<open>What the platform requires of an event message: an array of at least one service,
  each with the texts that name it, a time that is a text if it is there, and an object
  of parameters.\<close>

fun object_json :: "json option \<Rightarrow> bool" where
  "object_json (Some (JObject _)) = True"
| "object_json _ = False"

fun array_json :: "json option \<Rightarrow> bool" where
  "array_json (Some (JArray _)) = True"
| "array_json _ = False"

definition text_or_absent :: "json option \<Rightarrow> bool" where
  "text_or_absent j \<longleftrightarrow> j = None \<or> IsString j"

definition event_ok :: "json \<Rightarrow> bool" where
  "event_ok e \<longleftrightarrow> IsString (GetObjectItem (Some e) ''service_id'') \<and> IsString (GetObjectItem (Some e) ''event_type'')
     \<and> text_or_absent (GetObjectItem (Some e) ''event_time'') \<and> text_or_absent (GetObjectItem (Some e) ''event_id'')
     \<and> object_json (GetObjectItem (Some e) ''paras'')"

definition event_message_ok :: "json \<Rightarrow> bool" where
  "event_message_ok j \<longleftrightarrow> text_or_absent (GetObjectItem (Some j) ''object_device_id'')
     \<and> (case GetObjectItem (Some j) ''services'' of
          Some (JArray es) \<Rightarrow> es \<noteq> [] \<and> list_all event_ok es | _ \<Rightarrow> False)"

lemma text_or_absent_simps [simp]: "text_or_absent None" "text_or_absent (CreateString s)"
  by (cases s; simp add: text_or_absent_def CreateString_def)+

lemma event_keys:
  "\<not> same_key ''object_device_id'' ''services''" "\<not> same_key ''services'' ''object_device_id''"
  "\<not> same_key ''event_type'' ''service_id''" "\<not> same_key ''event_type'' ''event_time''"
  "\<not> same_key ''event_time'' ''service_id''" "\<not> same_key ''event_time'' ''event_type''"
  "\<not> same_key ''event_time'' ''event_id''" "\<not> same_key ''event_time'' ''paras''"
  "\<not> same_key ''event_id'' ''service_id''" "\<not> same_key ''event_id'' ''event_type''"
  "\<not> same_key ''event_id'' ''event_time''" "\<not> same_key ''event_id'' ''paras''"
  "\<not> same_key ''paras'' ''service_id''" "\<not> same_key ''paras'' ''event_type''"
  "\<not> same_key ''paras'' ''event_time''" "\<not> same_key ''paras'' ''event_id''"
  "\<not> same_key ''service_id'' ''event_type''" "\<not> same_key ''service_id'' ''event_time''"
  by code_simp+

lemma lookup_member_optional [simp]:
  "lookup_member key ((k, CreateString s) # members) =
     (case s of Some t \<Rightarrow> if same_key key k then Some (JString t) else lookup_member key members
      | None \<Rightarrow> lookup_member key members)"
  by (cases s) (simp_all add: CreateString_def)

lemma object_json_object [simp]: "object_json (Some (json_object members))"
  by (simp add: json_object_members)

lemma single_event_ok:
  assumes "IsString (lookup_member ''service_id'' members)" "IsString (lookup_member ''event_type'' members)"
    "text_or_absent (lookup_member ''event_time'' members)" "text_or_absent (lookup_member ''event_id'' members)"
    "object_json (lookup_member ''paras'' members)"
  shows "event_message_ok (json_object [(''services'', Some (JArray [json_object members]))])"
    and "event_message_ok (json_object [(''object_device_id'', CreateString i), (''services'', Some (JArray [json_object members]))])"
  using assms by (auto simp: event_message_ok_def event_ok_def event_keys text_or_absent_def split: option.split)

lemma printed_event:
  "sdk_print E j = Some text \<Longrightarrow> event_message_ok j \<Longrightarrow> \<exists>j. sdk_print E j = Some text \<and> event_message_ok j"
  by blast

text \<open>One builder after the other.\<close>

lemmas event_builder = printed_event single_event_ok
lemmas event_splits = option.splits if_splits list.splits prod.splits

lemma UpdateSubDeviceStatus_event:
  "IOTA_UpdateSubDeviceStatusPayload E statuses n = Some (Some text) \<Longrightarrow> \<exists>j. sdk_print E j = Some text \<and> event_message_ok j"
  by (auto simp: IOTA_UpdateSubDeviceStatusPayload_def Let_def event_keys text_or_absent_def
      bind_eq_Some_conv split: event_splits intro!: event_builder)

lemma AddSubDevice_event:
  "IOTA_AddSubDevicePayload E added n = Some (Some text) \<Longrightarrow> \<exists>j. sdk_print E j = Some text \<and> event_message_ok j"
  by (auto simp: IOTA_AddSubDevicePayload_def Let_def event_keys text_or_absent_def
      bind_eq_Some_conv split: event_splits intro!: event_builder)

lemma DelSubDevice_event:
  "IOTA_DelSubDevicePayload E deleted n = Some (Some text) \<Longrightarrow> \<exists>j. sdk_print E j = Some text \<and> event_message_ok j"
  by (auto simp: IOTA_DelSubDevicePayload_def Let_def event_keys text_or_absent_def
      bind_eq_Some_conv split: event_splits intro!: event_builder)

lemma GetFileUrl_event:
  "IOTA_GetFileUrlPayload E file up = Some (Some text) \<Longrightarrow> \<exists>j. sdk_print E j = Some text \<and> event_message_ok j"
  by (auto simp: IOTA_GetFileUrlPayload_def Let_def event_keys text_or_absent_def
      bind_eq_Some_conv split: event_splits intro!: event_builder)

lemma own_event:
  "IOTA_OTAVersionReportPayload E ver = Some text \<Longrightarrow> \<exists>j. sdk_print E j = Some text \<and> event_message_ok j"
  "IOTA_OTAStatusReportPayload E status = Some text \<Longrightarrow> \<exists>j. sdk_print E j = Some text \<and> event_message_ok j"
  "IOTA_GetNTPTimePayload E = Some text \<Longrightarrow> \<exists>j. sdk_print E j = Some text \<and> event_message_ok j"
  "IOTA_ReportDeviceInfoPayload E rep = Some text \<Longrightarrow> \<exists>j. sdk_print E j = Some text \<and> event_message_ok j"
  "IOTA_GetLatestSoftBusInfoPayload E bus event_id = Some text \<Longrightarrow> \<exists>j. sdk_print E j = Some text \<and> event_message_ok j"
  "IOTA_ReportDeviceLogPayload E kind content timestamp = Some text \<Longrightarrow> \<exists>j. sdk_print E j = Some text \<and> event_message_ok j"
  by (auto simp: IOTA_OTAVersionReportPayload_def IOTA_OTAStatusReportPayload_def IOTA_GetNTPTimePayload_def
      IOTA_ReportDeviceInfoPayload_def IOTA_GetLatestSoftBusInfoPayload_def IOTA_ReportDeviceLogPayload_def
      Let_def event_keys text_or_absent_def split: event_splits intro!: event_builder)


definition sample_status :: upgrade_status_info where
  "sample_status = \<lparr>us_event_time = None, us_result_code = 0, us_progress = 50, us_description = None,
     us_object_device_id = Some ''d1'', us_version = Some ''v2''\<rparr>"


end
