(* ===== verification/AgentApi.thy ===== *)
theory AgentApi
  imports Payload
begin

text \<open>
  The functions an application calls: src/agentlite/iota\_datatrans.c (the reports, the
  answers and the subscriptions; the transfer of files is in the theory Ota),
  src/agentlite/iota\_init.c (initialisation and configuration), src/agentlite/iota\_login.c
  with src/service/login.c and src/service/base.c.  Each checks its arguments, has its
  payload built and publishes it; a payload that is NULL ends in IOTA\_FAILURE.  The build
  is the one without MQTT 5.
\<close>

section \<open>Initialisation and configuration\<close>

definition init :: "mqtt_env \<Rightarrow> heap \<Rightarrow> cstr \<Rightarrow> mqtt \<Rightarrow> (int \<times> mqtt) option" where
  "init env mem workPath m = MqttBase_init env mem workPath m"

definition destory :: "mqtt_env \<Rightarrow> mqtt \<Rightarrow> int \<times> mqtt" where
  "destory env m = MqttBase_destory env m"

definition SetConfig :: "heap \<Rightarrow> config_item \<Rightarrow> cstr \<Rightarrow> mqtt \<Rightarrow> (int \<times> mqtt) option" where
  "SetConfig mem item v m = MqttBase_SetConfig mem item v m"

definition GetConfig :: "config_item \<Rightarrow> mqtt \<Rightarrow> cstr" where
  "GetConfig item m = MqttBase_GetConfig item m"

definition CreateConnection :: "mqtt_env \<Rightarrow> heap \<Rightarrow> mqtt \<Rightarrow> (int \<times> mqtt) option" where
  "CreateConnection env mem m = MqttBase_CreateConnection env mem m"

definition ReleaseConnection :: "mqtt_env \<Rightarrow> mqtt \<Rightarrow> int \<times> mqtt" where
  "ReleaseConnection env m = MqttBase_ReleaseConnection env m"

definition IsConnected :: "mqtt_env \<Rightarrow> bool" where
  "IsConnected env = MqttBase_IsConnected env"

definition IOTA_Connect :: "mqtt_env \<Rightarrow> heap \<Rightarrow> mqtt \<Rightarrow> (int \<times> mqtt) option" where
  "IOTA_Connect env mem m = CreateConnection env mem m"

definition IOTA_DisConnect :: "mqtt_env \<Rightarrow> mqtt \<Rightarrow> int \<times> mqtt" where
  "IOTA_DisConnect env m = ReleaseConnection env m"

definition IOTA_IsConnected :: "mqtt_env \<Rightarrow> bool" where
  "IOTA_IsConnected env = IsConnected env"

text \<open>The manager of the rules starts anew, whether the client was initialised before or not.\<close>

definition IOTA_Init :: "mqtt_env \<Rightarrow> heap \<Rightarrow> cstr \<Rightarrow> rule_mgr \<Rightarrow> mqtt \<Rightarrow> (int \<times> rule_mgr \<times> mqtt) option" where
  "IOTA_Init env mem workPath rm m = do {
     (ret, m') \<leftarrow> init env mem workPath m;
     Some (ret, RuleMgr_Init (rule_file rm), m') }"

definition IOTA_Destroy :: "mqtt_env \<Rightarrow> mqtt \<Rightarrow> int \<times> mqtt" where
  "IOTA_Destroy env m = destory env m"

text \<open>The function has no value: it ends without a return statement.\<close>

definition IOTA_ConnectConfigSet ::
  "heap \<Rightarrow> cstr \<Rightarrow> cstr \<Rightarrow> cstr \<Rightarrow> cstr \<Rightarrow> rule_mgr \<Rightarrow> mqtt \<Rightarrow> (rule_mgr \<times> mqtt) option" where
  "IOTA_ConnectConfigSet mem ip port deviceId password rm m =
    (if ip = None \<or> port = None \<or> deviceId = None then Some (rm, m)
     else do {
       (_, m) \<leftarrow> SetConfig mem CONFIG_SERVER_IP ip m;
       let rm = snd (RuleMgr_SetCurrentUserName mem deviceId rm);
       (_, m) \<leftarrow> SetConfig mem CONFIG_USERNAME deviceId m;
       (_, m) \<leftarrow> SetConfig mem CONFIG_SERVER_PORT port m;
       if password = None then Some (rm, m)
       else do {
         (_, m) \<leftarrow> SetConfig mem CONFIG_PASSWORD password m;
         Some (rm, m) } })"

definition IOTA_ConfigSetStr :: "heap \<Rightarrow> config_item \<Rightarrow> cstr \<Rightarrow> rule_mgr \<Rightarrow> mqtt \<Rightarrow> (int \<times> rule_mgr \<times> mqtt) option" where
  "IOTA_ConfigSetStr mem item v rm m = do {
     let rm' = (if item = CONFIG_USERNAME then snd (RuleMgr_SetCurrentUserName mem v rm) else rm);
     (ret, m') \<leftarrow> SetConfig mem item v m;
     Some (ret, rm', m') }"

text \<open>The text of the number is written into a buffer of ten bytes; sprintf\_s leaves it
  empty when the text and its NUL do not fit.\<close>

definition MAX_UINT_DIGIT_LENGTH :: nat where "MAX_UINT_DIGIT_LENGTH = 10"

definition sprintf_s :: "nat \<Rightarrow> string \<Rightarrow> string" where
  "sprintf_s destMax text = (if length text < destMax then text else [])"

definition IOTA_ConfigSetUint :: "heap \<Rightarrow> config_item \<Rightarrow> 32 word \<Rightarrow> mqtt \<Rightarrow> (int \<times> mqtt) option" where
  "IOTA_ConfigSetUint mem item v m =
     SetConfig mem item (Some (sprintf_s MAX_UINT_DIGIT_LENGTH (dec_nat (unat v)))) m"

section \<open>Messages and properties\<close>

type_synonym action = "mqtt \<Rightarrow> (int \<times> mqtt) option"

definition IOTA_MessageReport :: "sdk \<Rightarrow> cstr \<Rightarrow> cstr \<Rightarrow> cstr \<Rightarrow> cstr \<Rightarrow> cstr \<Rightarrow> int \<Rightarrow> action" where
  "IOTA_MessageReport E object_device_id name ident content topicParas compressFlag m =
    (if content = None then Some (IOTA_PARAMETER_EMPTY, m)
     else case IOTA_MessageReportPayload E object_device_id name ident content of
       None \<Rightarrow> Some (IOTA_FAILURE, m)
     | Some payload \<Rightarrow>
         ReportDeviceData (sdk_zlib E) (sdk_mqtt E) (sdk_heap E) (Some payload) topicParas compressFlag m)"

record mess_rep_info =
  mr_object_device_id :: cstr
  mr_name :: cstr
  mr_id :: cstr
  mr_content :: cstr
  mr_topicParas :: cstr

definition IOTA_MessageDataReport :: "sdk \<Rightarrow> mess_rep_info \<Rightarrow> action" where
  "IOTA_MessageDataReport E mass m =
     IOTA_MessageReport E (mr_object_device_id mass) (mr_name mass) (mr_id mass) (mr_content mass) (mr_topicParas mass) 0 m"

definition IOTA_RawTopicMessageReport :: "sdk \<Rightarrow> cstr \<Rightarrow> cstr \<Rightarrow> int \<Rightarrow> action" where
  "IOTA_RawTopicMessageReport E topic payload qos m =
    (if topic = None \<or> payload = None then Some (IOTA_PARAMETER_EMPTY, m)
     else do {
       topicParas \<leftarrow> CombineStrings (sdk_heap E) 1 topic [];
       Some (ReportDataSetQos (sdk_mqtt E) topicParas payload qos m) })"

text \<open>The commands of the rules that fire come with the result.\<close>

definition IOTA_PropertiesReport ::
  "sdk \<Rightarrow> (command_call \<Rightarrow> bool) \<Rightarrow> service_data list option \<Rightarrow> int \<Rightarrow> int \<Rightarrow> rule_mgr \<Rightarrow> mqtt
    \<Rightarrow> (int \<times> rule_event list \<times> rule_mgr \<times> mqtt) option" where
  "IOTA_PropertiesReport E spawn pServiceData serviceNum compressFlag rm m = do {
     (payload, events, rm') \<leftarrow> IOTA_PropertiesReportPayload E spawn pServiceData serviceNum rm;
     (ret, m') \<leftarrow> (case payload of
        None \<Rightarrow> Some (IOTA_FAILURE, m)
      | Some p \<Rightarrow> ReportDeviceProperties (sdk_zlib E) (sdk_mqtt E) (sdk_heap E) (Some p) compressFlag m);
     Some (ret, events, rm', m') }"

definition IOTA_BatchPropertiesReport :: "sdk \<Rightarrow> device_data list option \<Rightarrow> int \<Rightarrow> int list option \<Rightarrow> int \<Rightarrow> action" where
  "IOTA_BatchPropertiesReport E pDeviceData deviceNum serviceLenList compressFlag m = do {
     payload \<leftarrow> IOTA_BatchPropertiesReportPayload E pDeviceData deviceNum serviceLenList;
     case payload of
       None \<Rightarrow> Some (IOTA_FAILURE, m)
     | Some p \<Rightarrow> ReportBatchDeviceProperties (sdk_zlib E) (sdk_mqtt E) (sdk_heap E) (Some p) compressFlag m }"

text \<open>The last step of most calls: a payload that is there is sent.\<close>

definition send_payload :: "(cstr \<Rightarrow> action) \<Rightarrow> cstr \<Rightarrow> action" where
  "send_payload report payload m =
    (case payload of None \<Rightarrow> Some (IOTA_FAILURE, m) | Some p \<Rightarrow> report (Some p) m)"

definition event_up :: "sdk \<Rightarrow> cstr \<Rightarrow> action" where
  "event_up E = EventUp (sdk_mqtt E) (sdk_heap E)"

definition IOTA_CommandResponse :: "sdk \<Rightarrow> cstr \<Rightarrow> int \<Rightarrow> cstr \<Rightarrow> cstr \<Rightarrow> action" where
  "IOTA_CommandResponse E requestId result_code response_name pcCommandResponse m =
    (if requestId = None then Some (IOTA_PARAMETER_EMPTY, m)
     else send_payload (ReportCommandReponse (sdk_mqtt E) (sdk_heap E) requestId)
       (IOTA_CommandResponsePayload E result_code response_name pcCommandResponse) m)"

definition IOTA_PropertiesSetResponse :: "sdk \<Rightarrow> cstr \<Rightarrow> int \<Rightarrow> cstr \<Rightarrow> action" where
  "IOTA_PropertiesSetResponse E requestId result_code result_desc m =
    (if requestId = None then Some (IOTA_PARAMETER_EMPTY, m)
     else send_payload (ReportPropSetReponse (sdk_mqtt E) (sdk_heap E) requestId)
       (IOTA_PropertiesSetResponsePayload E result_code result_desc) m)"

definition IOTA_PropertiesGetResponse :: "sdk \<Rightarrow> cstr \<Rightarrow> service_data list \<Rightarrow> int \<Rightarrow> action" where
  "IOTA_PropertiesGetResponse E requestId serviceProp serviceNum m =
    (if serviceNum \<le> 0 \<or> requestId = None then Some (IOTA_PARAMETER_EMPTY, m)
     else do {
       payload \<leftarrow> IOTA_PropertiesGetResponsePayload E serviceProp serviceNum;
       send_payload (ReportPropGetReponse (sdk_mqtt E) (sdk_heap E) requestId) payload m })"

definition IOTA_GetDeviceShadow :: "sdk \<Rightarrow> cstr \<Rightarrow> cstr \<Rightarrow> cstr \<Rightarrow> action" where
  "IOTA_GetDeviceShadow E requestId object_device_id service_id m =
    (if requestId = None then Some (IOTA_PARAMETER_EMPTY, m)
     else send_payload (GetPropertiesRequest (sdk_mqtt E) (sdk_heap E) requestId)
       (IOTA_GetDeviceShadowPayload E object_device_id service_id) m)"

section \<open>Events\<close>

definition IOTA_UpdateSubDeviceStatus :: "sdk \<Rightarrow> device_statuses option \<Rightarrow> int \<Rightarrow> action" where
  "IOTA_UpdateSubDeviceStatus E device_statuses deviceNum m = do {
     payload \<leftarrow> IOTA_UpdateSubDeviceStatusPayload E device_statuses deviceNum;
     send_payload (event_up E) payload m }"

definition IOTA_AddSubDevice :: "sdk \<Rightarrow> sub_device_info option \<Rightarrow> int \<Rightarrow> action" where
  "IOTA_AddSubDevice E subDevicesInfo deviceNum m = do {
     payload \<leftarrow> IOTA_AddSubDevicePayload E subDevicesInfo deviceNum;
     send_payload (event_up E) payload m }"

definition IOTA_DelSubDevice :: "sdk \<Rightarrow> del_sub_device option \<Rightarrow> int \<Rightarrow> action" where
  "IOTA_DelSubDevice E delSubDevices deviceNum m = do {
     payload \<leftarrow> IOTA_DelSubDevicePayload E delSubDevices deviceNum;
     send_payload (event_up E) payload m }"

definition IOTA_OTAVersionReport :: "sdk \<Rightarrow> ota_version_info \<Rightarrow> action" where
  "IOTA_OTAVersionReport E otaVersionInfo m =
     send_payload (event_up E) (IOTA_OTAVersionReportPayload E otaVersionInfo) m"

definition IOTA_OTAStatusReport :: "sdk \<Rightarrow> upgrade_status_info \<Rightarrow> action" where
  "IOTA_OTAStatusReport E otaStatusInfo m =
     send_payload (event_up E) (IOTA_OTAStatusReportPayload E otaStatusInfo) m"

definition IOTA_GetLatestSoftBusInfo :: "sdk \<Rightarrow> cstr \<Rightarrow> cstr \<Rightarrow> action" where
  "IOTA_GetLatestSoftBusInfo E busId eventId m =
     send_payload (event_up E) (IOTA_GetLatestSoftBusInfoPayload E busId eventId) m"

definition IOTA_GetNTPTime :: "sdk \<Rightarrow> action" where
  "IOTA_GetNTPTime E m = send_payload (event_up E) (IOTA_GetNTPTimePayload E) m"

definition IOTA_ReportDeviceLog :: "sdk \<Rightarrow> cstr \<Rightarrow> cstr \<Rightarrow> cstr \<Rightarrow> action" where
  "IOTA_ReportDeviceLog E kind content timestamp m =
     send_payload (event_up E) (IOTA_ReportDeviceLogPayload E kind content timestamp) m"

definition IOTA_ReportDeviceInfo :: "sdk \<Rightarrow> device_info_report option \<Rightarrow> action" where
  "IOTA_ReportDeviceInfo E device_info_report m =
     send_payload (event_up E) (IOTA_ReportDeviceInfoPayload E device_info_report) m"

definition IOTA_GetFileUrl :: "sdk \<Rightarrow> file_info option \<Rightarrow> bool \<Rightarrow> action" where
  "IOTA_GetFileUrl E file isUpload m = do {
     payload \<leftarrow> IOTA_GetFileUrlPayload E file isUpload;
     send_payload (event_up E) payload m }"

definition IOTA_GetUploadFileUrl :: "sdk \<Rightarrow> file_info option \<Rightarrow> action" where
  "IOTA_GetUploadFileUrl E upload m = IOTA_GetFileUrl E upload True m"

definition IOTA_GetDownloadFileUrl :: "sdk \<Rightarrow> file_info option \<Rightarrow> action" where
  "IOTA_GetDownloadFileUrl E download m = IOTA_GetFileUrl E download False m"

definition IOTA_ResultReport :: "sdk \<Rightarrow> cstr \<Rightarrow> cstr \<Rightarrow> int \<Rightarrow> int \<Rightarrow> cstr \<Rightarrow> bool \<Rightarrow> action" where
  "IOTA_ResultReport E object_device_id object_name result_code status_code status_description isUpload m =
    (if object_name = None then Some (IOTA_FAILURE, m)
     else case GetEventTimesStamp (sdk_heap E) (sdk_gmtime E) of
       None \<Rightarrow> Some (IOTA_FAILURE, m)
     | Some event_time \<Rightarrow>
        (let paras = json_object
               [(''result_code'', json_int result_code), (''object_name'', CreateString object_name),
                (''status_code'', json_int status_code), (''status_description'', CreateString status_description)];
             serviceEvent = json_object
               [(''event_time'', CreateString (Some event_time)),
                (''service_id'', CreateString (Some ''$file_manager'')),
                (''event_type'', CreateString (Some
                   (if isUpload then ''upload_result_report'' else ''download_result_report''))),
                (''paras'', Some paras)]
         in send_payload (event_up E) (sdk_print E (json_object
              [(''object_device_id'', CreateString object_device_id),
               (''services'', Some (json_array [serviceEvent]))])) m))"

definition IOTA_UploadFileResultReport :: "sdk \<Rightarrow> cstr \<Rightarrow> cstr \<Rightarrow> int \<Rightarrow> int \<Rightarrow> cstr \<Rightarrow> action" where
  "IOTA_UploadFileResultReport E object_device_id object_name result_code status_code status_description m =
     IOTA_ResultReport E object_device_id object_name result_code status_code status_description True m"

definition IOTA_DownloadFileResultReport :: "sdk \<Rightarrow> cstr \<Rightarrow> cstr \<Rightarrow> int \<Rightarrow> int \<Rightarrow> cstr \<Rightarrow> action" where
  "IOTA_DownloadFileResultReport E object_device_id object_name result_code status_code status_description m =
     IOTA_ResultReport E object_device_id object_name result_code status_code status_description False m"

section \<open>Subscriptions, bootstrap and device messages\<close>

text \<open>The value of the first is that of a function that returns none.\<close>

definition IOTA_SubscribeUserTopic :: "sdk \<Rightarrow> cstr \<Rightarrow> mqtt \<Rightarrow> mqtt option" where
  "IOTA_SubscribeUserTopic E topicParas m = SubscribeUserTopic (sdk_mqtt E) (sdk_heap E) topicParas m"

definition IOTA_SubscribeTopic :: "sdk \<Rightarrow> cstr \<Rightarrow> int \<Rightarrow> action" where
  "IOTA_SubscribeTopic E topic qos m = SubscribeCustomTopic (sdk_mqtt E) (sdk_heap E) topic qos m"

definition IOTA_SubscribeJsonCmdV3 :: "sdk \<Rightarrow> mqtt \<Rightarrow> mqtt option" where
  "IOTA_SubscribeJsonCmdV3 E m = SubscribeJsonCmdV3 (sdk_mqtt E) (sdk_heap E) m"

definition IOTA_SubsrcibeBinaryCmdV3 :: "sdk \<Rightarrow> mqtt \<Rightarrow> mqtt option" where
  "IOTA_SubsrcibeBinaryCmdV3 E m = SubscribeBinaryCmdV3 (sdk_mqtt E) (sdk_heap E) m"

definition IOTA_SubscribeBoostrap :: "sdk \<Rightarrow> mqtt \<Rightarrow> mqtt option" where
  "IOTA_SubscribeBoostrap E m = SubscribeBootstrap (sdk_mqtt E) (sdk_heap E) m"

definition IOTA_Bootstrap :: "sdk \<Rightarrow> cstr \<Rightarrow> action" where
  "IOTA_Bootstrap E baseStrategyKeyword m =
    (if baseStrategyKeyword = None \<or> baseStrategyKeyword = Some [] then Bootstrap (sdk_mqtt E) (sdk_heap E) (Some []) m
     else case sdk_print E (json_object [(''baseStrategyKeyword'', CreateString baseStrategyKeyword)]) of
       None \<Rightarrow> Some (0, m)
     | Some payload \<Rightarrow> Bootstrap (sdk_mqtt E) (sdk_heap E) (Some payload) m)"

definition IOTA_M2MSendMsg :: "sdk \<Rightarrow> cstr \<Rightarrow> cstr \<Rightarrow> cstr \<Rightarrow> cstr \<Rightarrow> action" where
  "IOTA_M2MSendMsg E dest source content requestId m =
    (if dest = None \<or> source = None \<or> content = None then Some (-1, m)
     else send_payload (\<lambda>payload. OCM2MSendMsg (sdk_mqtt E) (sdk_heap E) dest source payload requestId)
       (sdk_print E (json_object
         [(''request_id'', CreateString requestId), (''to'', CreateString dest),
          (''from'', CreateString source), (''content'', CreateString content)])) m)"

section \<open>The third version of the protocol\<close>

definition service_json_v3 :: "service_data \<Rightarrow> json \<Rightarrow> json" where
  "service_json_v3 d properties = json_object
     [(''serviceId'', CreateString (sd_service_id d)),
      (''eventTime'', CreateString (sd_event_time d)),
      (''serviceData'', Some properties)]"

fun services_json_v3 :: "sdk \<Rightarrow> nat \<Rightarrow> service_data list \<Rightarrow> json list option option" where
  "services_json_v3 E 0 ds = Some (Some [])"
| "services_json_v3 E (Suc n) [] = None"
| "services_json_v3 E (Suc n) (d # ds) =
    (case JSON_Parse E (sd_properties d) of
       None \<Rightarrow> Some None
     | Some properties \<Rightarrow> map_option (map_option ((#) (service_json_v3 d properties))) (services_json_v3 E n ds))"

definition IOTA_PropertiesReportV3 :: "sdk \<Rightarrow> service_data list option \<Rightarrow> int \<Rightarrow> action" where
  "IOTA_PropertiesReportV3 E pServiceData serviceNum m =
    (case pServiceData of
       None \<Rightarrow> Some (IOTA_PARAMETER_EMPTY, m)
     | Some ds \<Rightarrow>
        if serviceNum = 0 then Some (IOTA_PARAMETER_EMPTY, m)
        else do {
          items \<leftarrow> services_json_v3 E (nat serviceNum) ds;
          case items of
            None \<Rightarrow> Some (IOTA_PARSE_JSON_FAILED, m)
          | Some js \<Rightarrow>
              send_payload (\<lambda>payload. ReportDevicePropertiesV3 (sdk_mqtt E) (sdk_heap E) payload 0)
                (sdk_print E (json_object
                  [(''data'', Some (json_array js)), (''msgType'', CreateString (Some ''deviceReq''))])) m })"

definition IOTA_BinaryReportV3 :: "sdk \<Rightarrow> cstr \<Rightarrow> action" where
  "IOTA_BinaryReportV3 E payload m =
    (if payload = None then Some (IOTA_PARAMETER_EMPTY, m)
     else ReportDevicePropertiesV3 (sdk_mqtt E) (sdk_heap E) payload 1 m)"

definition IOTA_CmdRspV3 :: "sdk \<Rightarrow> (int \<times> int \<times> cstr) option \<Rightarrow> action" where
  "IOTA_CmdRspV3 E cmdRspV3 m =
    (case cmdRspV3 of
       None \<Rightarrow> Some (IOTA_PARAMETER_EMPTY, m)
     | Some (mid, errcode, body) \<Rightarrow>
        send_payload (\<lambda>payload. ReportDevicePropertiesV3 (sdk_mqtt E) (sdk_heap E) payload 0)
          (sdk_print E (json_object
            [(''mid'', json_int mid), (''errcode'', json_int errcode),
             (''msgType'', CreateString (Some ''deviceRsp'')), (''body'', JSON_Parse E body)])) m)"

section \<open>The deprecated functions for sub-devices\<close>

definition IOTA_ReportSubDeviceInfo :: "sdk \<Rightarrow> cstr \<Rightarrow> action" where
  "IOTA_ReportSubDeviceInfo E pcPayload m =
    (if pcPayload = None then Some (-1, m)
     else ReportSubDeviceInfo (sdk_mqtt E) (sdk_heap E) pcPayload m)"

definition sub_device_up :: "sdk \<Rightarrow> cstr \<Rightarrow> action" where
  "sub_device_up E = ReportSubDeviceInfo (sdk_mqtt E) (sdk_heap E)"

definition IOTA_SubDeviceVersionReport :: "sdk \<Rightarrow> cstr \<Rightarrow> action" where
  "IOTA_SubDeviceVersionReport E version m =
    (if version = None then Some (-1, m)
     else send_payload (sub_device_up E) (sdk_print E (json_object
       [(''message_name'', CreateString (Some ''sub_device_list_version_report'')),
        (''version'', CreateString version)])) m)"

definition IOTA_SubDeviceProductGetReport :: "sdk \<Rightarrow> json option \<Rightarrow> action" where
  "IOTA_SubDeviceProductGetReport E product_id_list m =
    (if product_id_list = None then Some (-1, m)
     else send_payload (sub_device_up E) (sdk_print E (json_object
       [(''message_name'', CreateString (Some ''get_products'')), (''product_id_list'', product_id_list)])) m)"

definition IOTA_SubDeviceScanReport :: "sdk \<Rightarrow> json option \<Rightarrow> action" where
  "IOTA_SubDeviceScanReport E device_list m =
    (if device_list = None then Some (-1, m)
     else send_payload (sub_device_up E) (sdk_print E (json_object
       [(''message_name'', CreateString (Some ''scan_result'')), (''device_list'', device_list)])) m)"

section \<open>A report reaches the rules and the platform\<close>

lemma services_jsonD:
  "services_json E n ds = Some (Some js) \<Longrightarrow> n \<le> length ds
     \<and> js = map (\<lambda>d. service_json d (the (JSON_Parse E (sd_properties d)))) (take n ds)
     \<and> list_all (\<lambda>d. JSON_Parse E (sd_properties d) \<noteq> None) (take n ds)"
  by (induction E n ds arbitrary: js rule: services_json.induct) (auto split: option.splits)

lemma service_json_reads:
  "service_id_of (service_json d properties) = sd_service_id d"
  "service_reading (service_json d properties) p = find_property (children properties) p"
proof -
  have keys: "\<not> same_key ''service_id'' ''event_time''" "\<not> same_key ''service_id'' ''properties''"
    "\<not> same_key ''properties'' ''event_time''" "\<not> same_key ''properties'' ''service_id''" by code_simp+
  show "service_id_of (service_json d properties) = sd_service_id d"
    by (simp add: service_id_of_def get_str_def service_json_def keys split: option.split)
  show "service_reading (service_json d properties) p = find_property (children properties) p"
    by (simp add: service_reading_def service_json_def keys split: option.split)
qed

lemma find_map: "find P (map f xs) = map_option f (find (P \<circ> f) xs)"
  by (induction xs) auto

text \<open>The entry of a report that a condition on a service reads: the last one.\<close>

definition reported_service :: "service_data list \<Rightarrow> string \<Rightarrow> service_data option" where
  "reported_service ds s = find (\<lambda>d. sd_service_id d = Some s) (rev ds)"

lemma cached_report_reads:
  assumes "cache_ok c" "services_json E n ds = Some (Some js)"
  shows "getPropertyCallback (RuleMgr_CachePropertiesValue (Some (JArray js)) c) s p =
    (case reported_service (take n ds) s of
       Some d \<Rightarrow> find_property (children (the (JSON_Parse E (sd_properties d)))) p
     | None \<Rightarrow> getPropertyCallback c s p)"
proof -
  have js: "js = map (\<lambda>d. service_json d (the (JSON_Parse E (sd_properties d)))) (take n ds)"
    using services_jsonD [OF assms(2)] by blast
  have "getPropertyCallback (RuleMgr_CachePropertiesValue (Some (JArray js)) c) s p =
      (case find (\<lambda>j. service_id_of j = Some s) (rev js) of
         Some j \<Rightarrow> service_reading j p | None \<Rightarrow> getPropertyCallback c s p)"
    unfolding RuleMgr_CachePropertiesValue_def
    using cache.read_fold [OF assms(1)] by (simp add: comp_def)
  then show ?thesis
    by (simp add: js rev_map find_map reported_service_def comp_def service_json_reads split: option.split)
qed


definition sample_data :: service_data where
  "sample_data = \<lparr>sd_service_id = Some ''room'', sd_event_time = None, sd_properties = Some ''x''\<rparr>"


section \<open>Numbers in the configuration\<close>

lemma atoi_dec_nat: "n < 2 ^ 31 \<Longrightarrow> atoi (dec_nat n) = int n"
  by (simp add: atoi_def strto64_digits dec_nat_digits signed_take_bit_int_eq_self)

lemma uint_text:
  "sprintf_s MAX_UINT_DIGIT_LENGTH (dec_nat n) = (if n < 1000000000 then dec_nat n else [])"
proof (cases "n < 1000000000")
  case True
  then show ?thesis using length_dec_nat [of n 9] by (simp add: sprintf_s_def MAX_UINT_DIGIT_LENGTH_def)
next
  case False
  then show ?thesis using length_dec_nat_ge [of 9 n] by (simp add: sprintf_s_def MAX_UINT_DIGIT_LENGTH_def)
qed

text \<open>
  A number set with IOTA\_ConfigSetUint is in force exactly as given below ten digits;
  from 1000000000 on its text does not fit and the call, still a success, sets what the
  empty text means: the intervals stay as they were and the quality of service becomes 0.
\<close>

theorem IOTA_ConfigSetUint_range:
  "IOTA_ConfigSetUint mem CONFIG_KEEP_ALIVE_TIME v m = Some (IOTA_SUCCESS,
      if v \<noteq> 0 \<and> uint v < 1000000000 then m \<lparr>g_keepAliveInterval := uint v\<rparr> else m)
   \<and> IOTA_ConfigSetUint mem CONFIG_CONNECT_TIMEOUT v m = Some (IOTA_SUCCESS,
      if v \<noteq> 0 \<and> uint v < 1000000000 then m \<lparr>g_connectTimeout := uint v\<rparr> else m)
   \<and> IOTA_ConfigSetUint mem CONFIG_RETRY_INTERVAL v m = Some (IOTA_SUCCESS,
      if v \<noteq> 0 \<and> uint v < 1000000000 then m \<lparr>g_retryInterval := uint v\<rparr> else m)
   \<and> IOTA_ConfigSetUint mem CONFIG_QOS v m = Some (IOTA_SUCCESS,
      m \<lparr>g_QoS := (if uint v < 1000000000 then uint v else 0)\<rparr>)"
proof -
  let ?t = "sprintf_s MAX_UINT_DIGIT_LENGTH (dec_nat (unat v))"
  have u: "int (unat v) = uint v" by simp
  have c: "uint v < 1000000000 \<longleftrightarrow> unat v < 1000000000" by (subst u [symmetric]) linarith
  have n: "String2Int (Some ?t) = (if uint v < 1000000000 then uint v else 0)"
  proof (cases "unat v < 1000000000")
    case True
    then have "unat v < 2 ^ 31" by simp
    then have "String2Int (Some ?t) = uint v" using True u by (simp add: uint_text String2Int_def atoi_dec_nat)
    then show ?thesis unfolding if_P [OF c [THEN iffD2, OF True]] .
  next
    case False
    moreover have "atoi [] = 0" by code_simp
    ultimately have "String2Int (Some ?t) = 0" using False by (simp add: uint_text String2Int_def)
    then show ?thesis unfolding if_not_P [OF False [folded c]] .
  qed
  have set: "SetConfig mem CONFIG_KEEP_ALIVE_TIME (Some t) m = Some (IOTA_SUCCESS,
        if String2Int (Some t) > 0 then m \<lparr>g_keepAliveInterval := String2Int (Some t)\<rparr> else m)"
    "SetConfig mem CONFIG_CONNECT_TIMEOUT (Some t) m = Some (IOTA_SUCCESS,
        if String2Int (Some t) > 0 then m \<lparr>g_connectTimeout := String2Int (Some t)\<rparr> else m)"
    "SetConfig mem CONFIG_RETRY_INTERVAL (Some t) m = Some (IOTA_SUCCESS,
        if String2Int (Some t) > 0 then m \<lparr>g_retryInterval := String2Int (Some t)\<rparr> else m)"
    "SetConfig mem CONFIG_QOS (Some t) m = Some (IOTA_SUCCESS, m \<lparr>g_QoS := String2Int (Some t)\<rparr>)" for t
    by (simp_all add: SetConfig_def MqttBase_SetConfig_def)
  have "0 < uint v \<longleftrightarrow> uint v \<noteq> 0" using uint_ge_0 [of v] by linarith
  then have pos: "0 < uint v \<longleftrightarrow> v \<noteq> 0" by (simp only: uint_0_iff)
  then show ?thesis
    unfolding IOTA_ConfigSetUint_def set n by (cases "uint v < 1000000000") (simp_all only: if_True if_False pos simp_thms less_irrefl split: if_split)
qed

end
