(* ===== verification/Detect.thy ===== *)
theory Detect
  imports AgentApi
begin

text \<open>
  The anomaly detection: src/service/detect\_anomaly/detect\_anomaly.c with the functions of
  a board (src/service/sys\_hal), and the reports of src/service/detect\_anomaly/report\_anomaly.c.
  The thread of the reports is a flag and its rounds an operation of their own.  What the
  system answers is in the record \<open>os\<close>; the texts that are only logged are left out.
\<close>

section \<open>The functions of a board\<close>

definition SysHalInstall :: "sys_hal option \<Rightarrow> detect \<Rightarrow> int \<times> detect" where
  "SysHalInstall sysHal d = (if g_sysHalCb d = None then (0, d \<lparr>g_sysHalCb := Some sysHal\<rparr>) else (-1, d))"

definition hal_get :: "(sys_hal \<Rightarrow> 'a option) \<Rightarrow> 'a \<Rightarrow> detect \<Rightarrow> 'a" where
  "hal_get f none d = (case g_sysHalCb d of
     Some (Some ops) \<Rightarrow> (case f ops of Some answer \<Rightarrow> answer | None \<Rightarrow> none) | _ \<Rightarrow> none)"

definition SysHalGetTotalMemory :: "detect \<Rightarrow> int" where
  "SysHalGetTotalMemory d = hal_get getTotalMemory 0 d"

definition SysHalGetMemoryUsed :: "detect \<Rightarrow> int" where
  "SysHalGetMemoryUsed d = hal_get getMemoryUsed 0 d"

definition SysHalGetPortUsed :: "detect \<Rightarrow> int list option" where
  "SysHalGetPortUsed d = hal_get getPortUsed None d"

definition SysHalGetCpuUsage :: "detect \<Rightarrow> int" where
  "SysHalGetCpuUsage d = hal_get getCpuUsage 0 d"

definition SysHalGetTotalDiskSpace :: "detect \<Rightarrow> int" where
  "SysHalGetTotalDiskSpace d = hal_get getTotalDiskSpace 0 d"

definition SysHalGetDiskSpaceUsed :: "detect \<Rightarrow> int" where
  "SysHalGetDiskSpaceUsed d = hal_get getDiskSpaceUsed 0 d"

definition SysHalGetBatteryPercentage :: "detect \<Rightarrow> int" where
  "SysHalGetBatteryPercentage d = hal_get getBatteryPercentage 0 d"

text \<open>The functions of sys\_hal\_imp.c, which a board is to replace.\<close>

definition g_sysHal :: "sys_hal option" where
  "g_sysHal = Some \<lparr>getTotalMemory = Some (-1), getMemoryUsed = Some (-1), getPortUsed = Some None,
     getCpuUsage = Some (-1), getTotalDiskSpace = Some (-1), getDiskSpaceUsed = Some (-1),
     getBatteryPercentage = Some (-1)\<rparr>"

definition SysHalImplInit :: "detect \<Rightarrow> int \<times> detect" where
  "SysHalImplInit d = SysHalInstall g_sysHal d"

definition SysHalInit :: "detect \<Rightarrow> int \<times> detect" where
  "SysHalInit d = SysHalImplInit d"

section \<open>The board\<close>

definition add_int :: "string \<Rightarrow> int \<Rightarrow> json \<Rightarrow> json" where
  "add_int key i content = AddItemToObject content key (json_int i)"

definition alarm :: "bool \<Rightarrow> int" where
  "alarm b = (if b then 1 else 0)"

text \<open>The share of the total, in 64 bits with a division towards zero.\<close>

definition reaches :: "int \<Rightarrow> int \<Rightarrow> int \<Rightarrow> bool option" where
  "reaches used threshold tot = do {
     guard_ub (in_int64 (threshold * tot));
     let x = threshold * tot;
     Some (used \<ge> (if 0 \<le> x then x div 100 else - ((- x) div 100))) }"

definition Detect_ReportMemoryInfo :: "detect \<Rightarrow> json \<Rightarrow> json option" where
  "Detect_ReportMemoryInfo d content = do {
     let tot = SysHalGetTotalMemory d;
     let used = SysHalGetMemoryUsed d;
     isLeakAlarm \<leftarrow> reaches used (memoryThreshold d) tot;
     Some (add_int ''leak_alarm'' (alarm isLeakAlarm) (add_int ''total'' tot (add_int ''used'' used content))) }"

definition Detect_ReportPortInfo :: "detect \<Rightarrow> json \<Rightarrow> json" where
  "Detect_ReportPortInfo d content =
     AddItemToObject content ''used'' (map_option JSON_CreateIntArray (SysHalGetPortUsed d))"

definition Detect_ReportCpuUsageInfo :: "detect \<Rightarrow> json \<Rightarrow> json" where
  "Detect_ReportCpuUsageInfo d content =
    (let cpuUsage = SysHalGetCpuUsage d
     in add_int ''cpu_usage_alarm'' (alarm (cpuUsage \<ge> cpuUsageThreshold d)) (add_int ''cpu_usage'' cpuUsage content))"

definition Detect_ReportDiskSpaceInfo :: "detect \<Rightarrow> json \<Rightarrow> json option" where
  "Detect_ReportDiskSpaceInfo d content = do {
     let tot = SysHalGetTotalDiskSpace d;
     let used = SysHalGetDiskSpaceUsed d;
     diskAlarm \<leftarrow> reaches used (diskSpaceThreshold d) tot;
     Some (add_int ''disk_space_alarm'' (alarm diskAlarm)
       (add_int ''disk_space_total'' tot (add_int ''disk_space_used'' used content))) }"

definition Detect_ReportBatteryInfo :: "detect \<Rightarrow> json \<Rightarrow> json" where
  "Detect_ReportBatteryInfo d content =
    (let batteryPct = SysHalGetBatteryPercentage d
     in add_int ''battery_percentage_alarm'' (alarm (batteryPct \<le> batteryPercentageThreshold d))
          (add_int ''battery_percentage'' batteryPct content))"

section \<open>Local logins\<close>

text \<open>The new position in a log file once it was read to the end.\<close>

definition next_offset :: "log_file \<Rightarrow> int \<Rightarrow> int \<Rightarrow> int" where
  "next_offset f st_size startOffset = (if lf_end f \<noteq> -1 \<and> lf_end f \<noteq> startOffset then lf_end f else st_size)"

definition LocalLoginCheckInit :: "os \<Rightarrow> detect \<Rightarrow> detect" where
  "LocalLoginCheckInit sys d = (case os_wtmp sys of None \<Rightarrow> d | Some off \<Rightarrow> d \<lparr>localFileOffset := off\<rparr>)"

text \<open>A local login is logged, but the flag of the alarm is never set; without the file the
  content stays as it is.\<close>

definition LocalLoginCheckGetReport :: "os \<Rightarrow> detect \<Rightarrow> json \<Rightarrow> json \<times> detect" where
  "LocalLoginCheckGetReport sys d content = (case os_utmp sys of
     None \<Rightarrow> (content, d)
   | Some f \<Rightarrow> (add_int ''login_local_alarm'' 0 content,
       (case lf_size f of None \<Rightarrow> d
        | Some st_size \<Rightarrow> if st_size = localFileOffset d then d
                       else d \<lparr>localFileOffset := next_offset f st_size (localFileOffset d)\<rparr>)))"

section \<open>Changes of files\<close>

text \<open>The libraries of the process are watched.  The list of further protected paths is empty in
  the sources; the walk through the directories below such a path is in the theory DirWatch.\<close>

definition FileTamperCheckInit :: "os \<Rightarrow> detect \<Rightarrow> detect" where
  "FileTamperCheckInit sys d = d \<lparr>watchedFiles :=
     (if os_notify_set sys
      then filter (\<lambda>lib. \<not> (contains lib ''linux-vdso.so.1'' \<or> lib = [])) (os_libs sys) else [])\<rparr>"

definition FileTamperCheckDestroy :: "detect \<Rightarrow> detect" where
  "FileTamperCheckDestroy d = d \<lparr>watchedFiles := []\<rparr>"

definition EVENT_SIZE :: nat where "EVENT_SIZE = 16"

text \<open>Where the events of a read start.  The position in the buffer is not set back before the
  next read, so a later read is looked at from there; between two events it is undefined.
  The callback of each event takes the alarm from the variable arguments, which hold it once:
  a second event takes what is not there.\<close>

definition event_starts :: "nat list \<Rightarrow> nat list" where
  "event_starts lens = map (\<lambda>k. sum_list (take k (map (\<lambda>n. EVENT_SIZE + n) lens))) [0..<length lens]"

fun InotifyReadEventsAndIterate :: "nat \<Rightarrow> notify_read list \<Rightarrow> bool \<Rightarrow> bool option" where
  "InotifyReadEventsAndIterate i [] changed = Some changed"
| "InotifyReadEventsAndIterate i (NotifyError # reads) changed = InotifyReadEventsAndIterate i reads changed"
| "InotifyReadEventsAndIterate i (NotifyEvents lens # reads) changed =
    (let len = sum_list (map (\<lambda>n. EVENT_SIZE + n) lens)
     in if i \<ge> len then InotifyReadEventsAndIterate i reads changed
        else if i \<in> set (event_starts lens) \<and> \<not> changed \<and> length (filter (\<lambda>s. s \<ge> i) (event_starts lens)) = 1
        then InotifyReadEventsAndIterate len reads True
        else None)"

definition FileTamperCheckGetReport :: "os \<Rightarrow> json \<Rightarrow> json option" where
  "FileTamperCheckGetReport sys content = do {
     changed \<leftarrow> InotifyReadEventsAndIterate 0 (os_notify sys) False;
     Some (add_int ''file_tamper_alarm'' (alarm changed) content) }"

section \<open>Brute force\<close>

definition LOGIN_CNT :: nat where "LOGIN_CNT = 5"

definition tv_time :: "timeval \<Rightarrow> rat" where
  "tv_time tv = of_int (fst tv) + of_int (snd tv) / 1000000"

definition LoginBruteForceProcessCheckCriticalFreq :: "nat \<Rightarrow> timeval list \<Rightarrow> bool" where
  "LoginBruteForceProcessCheckCriticalFreq oldest records =
    (let lastIndex = (if oldest = 0 then LOGIN_CNT - 1 else (oldest - 1) mod LOGIN_CNT)
     in tv_time (records ! lastIndex) - tv_time (records ! oldest) < 10)"

definition LoginBruteForceCheckInit :: "os \<Rightarrow> detect \<Rightarrow> detect" where
  "LoginBruteForceCheckInit sys d =
    (let b = (bruteForce d) \<lparr>oldestRecordIndex := 0\<rparr>
     in case os_auth sys of
          None \<Rightarrow> d \<lparr>bruteForce := b\<rparr>
        | Some f \<Rightarrow> d \<lparr>bruteForce := b \<lparr>bf_fileOffset := lf_end f,
                        loginFailedTimeRecords := replicate LOGIN_CNT (0, 0)\<rparr>\<rparr>)"

definition record_failure :: "timeval \<Rightarrow> brute_force \<Rightarrow> brute_force" where
  "record_failure tv b = b \<lparr>loginFailedTimeRecords := (loginFailedTimeRecords b)[oldestRecordIndex b := tv],
     oldestRecordIndex := Suc (oldestRecordIndex b) mod LOGIN_CNT\<rparr>"

text \<open>How many failures a line of the log tells of, if it does.\<close>

definition failures_of :: "string \<Rightarrow> nat option" where
  "failures_of logLine =
    (if \<not> contains logLine ''authentication failure'' \<or> contains logLine ''sudo'' then None
     else Some (case strstr logLine ''message repeated '' of
       None \<Rightarrow> 1
     | Some repeated \<Rightarrow> (case scan_int (drop (length ''message repeated '') repeated) of
         None \<Rightarrow> 1 | Some (msgCount, _) \<Rightarrow> nat msgCount)))"

fun brute_force_lines :: "(string \<times> timeval) list \<Rightarrow> brute_force \<Rightarrow> bool \<Rightarrow> brute_force \<times> bool" where
  "brute_force_lines [] b found = (b, found)"
| "brute_force_lines ((logLine, tv) # rest) b found = (case failures_of logLine of
     None \<Rightarrow> brute_force_lines rest b found
   | Some msgCount \<Rightarrow>
      (let b' = (record_failure tv ^^ msgCount) b
       in brute_force_lines rest b' (found \<or>
            LoginBruteForceProcessCheckCriticalFreq (oldestRecordIndex b') (loginFailedTimeRecords b'))))"

definition LoginBruteForceReport :: "os \<Rightarrow> detect \<Rightarrow> json \<Rightarrow> json \<times> detect" where
  "LoginBruteForceReport sys d content =
    (let b = bruteForce d;
         (b', found) = (case os_auth sys of None \<Rightarrow> (b, False)
            | Some f \<Rightarrow> (case lf_size f of None \<Rightarrow> (b, False)
               | Some st_size \<Rightarrow>
                  if st_size = bf_fileOffset b then (b, False)
                  else (let (b1, found) = (if lf_seek f then brute_force_lines (os_auth_lines sys) b False else (b, False))
                        in (b1 \<lparr>bf_fileOffset := next_offset f st_size (bf_fileOffset b)\<rparr>, found))))
     in (add_int ''login_brute_force_alarm'' (alarm found) content, d \<lparr>bruteForce := b'\<rparr>))"

section \<open>Addresses\<close>

definition signed_char :: "char \<Rightarrow> int" where
  "signed_char c = (if int (chr c) < 128 then int (chr c) else int (chr c) - 256)"

text \<open>The digits are read as those of a hexadecimal number, but each as a decimal digit.\<close>

definition Bytes2Int :: "string \<Rightarrow> nat \<Rightarrow> 16 word option" where
  "Bytes2Int str len = do {
     guard_ub (len \<le> Suc (length str));
     Some (foldl (\<lambda>ret c. ret * 16 + of_int (signed_char c) - 48) 0 (take len (str @ [CHR 0x00]))) }"

text \<open>The groups of the address; the code does not move on in the line, so each reads the
  same digits.\<close>

fun ip_groups :: "nat \<Rightarrow> nat \<Rightarrow> string \<Rightarrow> char \<Rightarrow> nat \<Rightarrow> string \<Rightarrow> bool \<Rightarrow> (string \<times> bool) option option" where
  "ip_groups 0 nibbles line sep bufferLen ip notAllZero = Some (Some (ip, notAllZero))"
| "ip_groups (Suc k) nibbles line sep bufferLen ip notAllZero = do {
     ipDigit \<leftarrow> Bytes2Int line nibbles;
     let part = dec_nat (unat ipDigit) @ [sep];
     if length part < bufferLen - length ip
     then ip_groups k nibbles line sep bufferLen (ip @ part) (notAllZero \<or> ipDigit \<noteq> 0)
     else Some None }"

text \<open>The text of the address and whether it is one to report.\<close>

definition NetWorkInfoLineToIPString :: "string \<Rightarrow> bool \<Rightarrow> nat \<Rightarrow> cstr option" where
  "NetWorkInfoLineToIPString lineIn isIpv6 bufferLen = do {
     l1 \<leftarrow> strstr lineIn '':'';
     l2 \<leftarrow> strstr (tl l1) '':'';
     l3 \<leftarrow> strstr (tl l2) '' '';
     r \<leftarrow> (if isIpv6 then ip_groups 8 4 (tl l3) (CHR '':'') bufferLen [] False
           else ip_groups 4 2 (tl l3) (CHR ''.'') bufferLen [] False);
     Some (case r of None \<Rightarrow> None | Some (ip, notAllZero) \<Rightarrow> if notAllZero then Some (butlast ip) else None) }"

definition IP_STR_MAX_LEN :: nat where "IP_STR_MAX_LEN = 40"

fun ip_lines :: "bool \<Rightarrow> string list \<Rightarrow> string list \<Rightarrow> string list option" where
  "ip_lines isIpv6 [] ips = Some ips"
| "ip_lines isIpv6 (line # rest) ips = do {
     ip \<leftarrow> NetWorkInfoLineToIPString line isIpv6 IP_STR_MAX_LEN;
     ip_lines isIpv6 rest (case ip of None \<Rightarrow> ips | Some a \<Rightarrow> if a \<in> set ips then ips else ips @ [a]) }"

text \<open>The files for version 4 and 6, TCP and UDP; the first line of each is its header.\<close>

fun ip_files :: "bool \<Rightarrow> string list option list \<Rightarrow> string list \<Rightarrow> string list option" where
  "ip_files isIpv6 [] ips = Some ips"
| "ip_files isIpv6 (None # files) ips = ip_files (\<not> isIpv6) files ips"
| "ip_files isIpv6 (Some ls # files) ips = do {
     ips' \<leftarrow> ip_lines isIpv6 (tl ls) ips;
     ip_files (\<not> isIpv6) files ips' }"

definition MaliciousIPCheckGetReport :: "os \<Rightarrow> json \<Rightarrow> json option" where
  "MaliciousIPCheckGetReport sys content = do {
     ips \<leftarrow> ip_files False (take 4 (os_net sys)) [];
     Some (AddItemToObject content ''used_ips'' (Some (JArray (map JString ips)))) }"

section \<open>The checks\<close>

fun checkName :: "detection \<Rightarrow> string" where
  "checkName MemoryCheck = ''memoryCheck''"
| "checkName PortCheck = ''portCheck''"
| "checkName CpuUsageCheck = ''cpuUsageCheck''"
| "checkName DiskSpaceCheck = ''diskSpaceCheck''"
| "checkName BatteryCheck = ''batteryPercentageCheck''"
| "checkName LoginLocalCheck = ''loginLocalCheck''"
| "checkName FileTamperCheck = ''fileTamperCheck''"
| "checkName LoginBruteForceCheck = ''loginBruteForceCheck''"
| "checkName MaliciousIPCheck = ''maliciousIPCheck''"

fun reportType :: "detection \<Rightarrow> string" where
  "reportType MemoryCheck = ''MEMORY_REPORT''"
| "reportType PortCheck = ''PORT_REPORT''"
| "reportType CpuUsageCheck = ''CPU_USAGE_REPORT''"
| "reportType DiskSpaceCheck = ''DISK_SPACE_REPORT''"
| "reportType BatteryCheck = ''BATTERY_REPORT''"
| "reportType LoginLocalCheck = ''LOGIN_LOCAL_REPORT''"
| "reportType FileTamperCheck = ''FILE_TAMPER_REPORT''"
| "reportType LoginBruteForceCheck = ''LOGIN_BRUTE_FORCE_REPORT''"
| "reportType MaliciousIPCheck = ''IP_REPORT''"

fun task_init :: "os \<Rightarrow> detection \<Rightarrow> detect \<Rightarrow> detect" where
  "task_init sys LoginLocalCheck d = LocalLoginCheckInit sys d"
| "task_init sys FileTamperCheck d = FileTamperCheckInit sys d"
| "task_init sys LoginBruteForceCheck d = LoginBruteForceCheckInit sys d"
| "task_init sys _ d = d"

fun task_destroy :: "detection \<Rightarrow> detect \<Rightarrow> detect" where
  "task_destroy FileTamperCheck d = FileTamperCheckDestroy d"
| "task_destroy _ d = d"

fun getReport :: "os \<Rightarrow> detection \<Rightarrow> detect \<Rightarrow> json \<Rightarrow> (json \<times> detect) option" where
  "getReport sys MemoryCheck d content = map_option (\<lambda>c. (c, d)) (Detect_ReportMemoryInfo d content)"
| "getReport sys PortCheck d content = Some (Detect_ReportPortInfo d content, d)"
| "getReport sys CpuUsageCheck d content = Some (Detect_ReportCpuUsageInfo d content, d)"
| "getReport sys DiskSpaceCheck d content = map_option (\<lambda>c. (c, d)) (Detect_ReportDiskSpaceInfo d content)"
| "getReport sys BatteryCheck d content = Some (Detect_ReportBatteryInfo d content, d)"
| "getReport sys LoginLocalCheck d content = Some (LocalLoginCheckGetReport sys d content)"
| "getReport sys FileTamperCheck d content = map_option (\<lambda>c. (c, d)) (FileTamperCheckGetReport sys content)"
| "getReport sys LoginBruteForceCheck d content = Some (LoginBruteForceReport sys d content)"
| "getReport sys MaliciousIPCheck d content = map_option (\<lambda>c. (c, d)) (MaliciousIPCheckGetReport sys content)"

section \<open>Reports\<close>

definition Detect_ReportModuleInfo :: "sdk \<Rightarrow> string \<Rightarrow> json \<Rightarrow> mqtt \<Rightarrow> mqtt option" where
  "Detect_ReportModuleInfo E kind content m =
    (let eventTimesStamp = CreateString (GetEventTimesStamp (sdk_heap E) (sdk_gmtime E));
         paras = json_object
           [(''timestamp'', eventTimesStamp), (''type'', CreateString (Some kind)), (''content'', Some content)];
         serviceEvent = json_object
           [(''service_id'', CreateString (Some ''$log'')), (''event_type'', CreateString (Some ''security_log_report'')),
            (''event_time'', eventTimesStamp), (''paras'', Some paras)]
     in case sdk_print E (json_object [(''services'', Some (json_array [serviceEvent]))]) of
          None \<Rightarrow> Some m
        | Some payload \<Rightarrow> map_option snd (event_up E (Some payload) m))"

fun report_tasks :: "sdk \<Rightarrow> task list \<Rightarrow> detect \<Rightarrow> mqtt \<Rightarrow> (detect \<times> mqtt) option" where
  "report_tasks E [] d m = Some (d, m)"
| "report_tasks E (t # ts) d m =
    (if t_check t then do {
       (content, d') \<leftarrow> getReport (sdk_os E) (t_kind t) d (JObject []);
       m' \<leftarrow> Detect_ReportModuleInfo E (reportType (t_kind t)) content m;
       report_tasks E ts d' m' }
     else report_tasks E ts d m)"

text \<open>One round of the thread, which sleeps ten minutes after each.\<close>

definition Detect_ReportDetectionInfoEntry :: "sdk \<Rightarrow> detect \<Rightarrow> mqtt \<Rightarrow> (detect \<times> mqtt) option" where
  "Detect_ReportDetectionInfoEntry E d m = report_tasks E (g_mTasks d) d m"

fun switch_tasks :: "os \<Rightarrow> task list \<Rightarrow> detect \<Rightarrow> task list \<times> detect" where
  "switch_tasks sys [] d = ([], d)"
| "switch_tasks sys (t # ts) d =
    (let d1 = (if t_newCheck t \<and> \<not> t_check t then task_init sys (t_kind t) d else d);
         d2 = (if \<not> t_newCheck t \<and> t_check t then task_destroy (t_kind t) d1 else d1);
         (ts', d3) = switch_tasks sys ts d2
     in (t \<lparr>t_check := t_newCheck t\<rparr> # ts', d3))"

definition Detect_ReportDetectionInfo :: "os \<Rightarrow> detect \<Rightarrow> detect" where
  "Detect_ReportDetectionInfo sys d =
    (let securityConfig = list_ex t_newCheck (g_mTasks d);
         (tasks, d') = switch_tasks sys (g_mTasks d) d;
         d'' = d' \<lparr>g_mTasks := tasks\<rparr>
     in if securityConfig \<and> \<not> taskRunning d'' then d'' \<lparr>taskRunning := True\<rparr>
        else if \<not> securityConfig \<and> taskRunning d'' then d'' \<lparr>taskRunning := False\<rparr>
        else d'')"

section \<open>The configuration\<close>

definition Detect_GetShadowDetectAnomaly :: "sdk \<Rightarrow> action" where
  "Detect_GetShadowDetectAnomaly E m =
     IOTA_GetDeviceShadow E (Some ''security_detection_config_request_id'') None (Some ''$security_detection_config'') m"

text \<open>The conversion of a double to an int is undefined outside of it, and so for the NaN
  cJSON\_GetNumberValue answers for what is no number.\<close>

definition number_to_int :: "json \<Rightarrow> int option" where
  "number_to_int j = (case j of
     JNumber r \<Rightarrow> do { guard_ub (INT_MIN \<le> trunc_rat r \<and> trunc_rat r \<le> INT_MAX); Some (trunc_rat r) }
   | _ \<Rightarrow> None)"

definition load_int :: "json \<Rightarrow> string \<Rightarrow> (int \<Rightarrow> detect \<Rightarrow> detect) \<Rightarrow> detect \<Rightarrow> detect option" where
  "load_int jsonData key upd d = (case GetObjectItem (Some jsonData) key of
     None \<Rightarrow> Some d | Some j \<Rightarrow> map_option (\<lambda>i. upd i d) (number_to_int j))"

fun load_checks :: "json \<Rightarrow> task list \<Rightarrow> task list option" where
  "load_checks jsonData [] = Some []"
| "load_checks jsonData (t # ts) = do {
     t' \<leftarrow> (case GetObjectItem (Some jsonData) (checkName (t_kind t)) of
              None \<Rightarrow> Some t | Some j \<Rightarrow> map_option (\<lambda>i. t \<lparr>t_newCheck := i \<noteq> 0\<rparr>) (number_to_int j));
     ts' \<leftarrow> load_checks jsonData ts;
     Some (t' # ts') }"

definition Detect_LoadJsonData :: "sdk \<Rightarrow> cstr \<Rightarrow> detect \<Rightarrow> detect option" where
  "Detect_LoadJsonData E strData d = (case JSON_Parse E strData of
     None \<Rightarrow> Some d
   | Some jsonData \<Rightarrow> do {
       d1 \<leftarrow> load_int jsonData ''memoryThreshold'' (\<lambda>i d. d \<lparr>memoryThreshold := i\<rparr>) d;
       d2 \<leftarrow> load_int jsonData ''cpuUsageThreshold'' (\<lambda>i d. d \<lparr>cpuUsageThreshold := i\<rparr>) d1;
       d3 \<leftarrow> load_int jsonData ''diskSpaceThreshold'' (\<lambda>i d. d \<lparr>diskSpaceThreshold := i\<rparr>) d2;
       d4 \<leftarrow> load_int jsonData ''batteryPercentageThreshold'' (\<lambda>i d. d \<lparr>batteryPercentageThreshold := i\<rparr>) d3;
       tasks \<leftarrow> load_checks jsonData (g_mTasks d4);
       Some (d4 \<lparr>g_mTasks := tasks\<rparr>) })"

definition config_json :: "detect \<Rightarrow> json" where
  "config_json d = json_object
    ([(''memoryThreshold'', json_int (memoryThreshold d)), (''cpuUsageThreshold'', json_int (cpuUsageThreshold d)),
      (''diskSpaceThreshold'', json_int (diskSpaceThreshold d)),
      (''batteryPercentageThreshold'', json_int (batteryPercentageThreshold d))]
     @ map (\<lambda>t. (checkName (t_kind t), json_int (alarm (t_newCheck t)))) (g_mTasks d))"

definition Detect_ReportShadowDesired ::
  "sdk \<Rightarrow> (command_call \<Rightarrow> bool) \<Rightarrow> detect \<Rightarrow> rule_mgr \<Rightarrow> mqtt \<Rightarrow> (rule_event list \<times> rule_mgr \<times> mqtt) option" where
  "Detect_ReportShadowDesired E spawn d rm m = do {
     (_, events, rm', m') \<leftarrow> IOTA_PropertiesReport E spawn
       (Some [\<lparr>sd_service_id = Some ''$security_detection_config'', sd_event_time = None,
               sd_properties = sdk_print E (config_json d)\<rparr>]) 1 0 rm m;
     Some (events, rm', m') }"

definition Detect_ParseShadowGetOrPropertiesSet ::
  "sdk \<Rightarrow> (command_call \<Rightarrow> bool) \<Rightarrow> cstr \<Rightarrow> detect \<Rightarrow> rule_mgr \<Rightarrow> mqtt
    \<Rightarrow> (rule_event list \<times> detect \<times> rule_mgr \<times> mqtt) option" where
  "Detect_ParseShadowGetOrPropertiesSet E spawn propertiesDown d rm m = do {
     d1 \<leftarrow> Detect_LoadJsonData E propertiesDown d;
     let d2 = Detect_ReportDetectionInfo (sdk_os E) d1;
     (events, rm', m') \<leftarrow> Detect_ReportShadowDesired E spawn d2 rm m;
     Some (events, d2, rm', m') }"

section \<open>The state of the detection\<close>

text \<open>What can happen to the detection: a configuration from the platform, a round of the
  reports, the installation of a board.\<close>

inductive detect_step :: "sdk \<Rightarrow> detect \<Rightarrow> detect \<Rightarrow> bool" for E where
  configure: "Detect_ParseShadowGetOrPropertiesSet E spawn propertiesDown d rm m = Some (events, d', rm', m')
     \<Longrightarrow> detect_step E d d'"
| report_round: "taskRunning d \<Longrightarrow> Detect_ReportDetectionInfoEntry E d m = Some (d', m') \<Longrightarrow> detect_step E d d'"
| install: "SysHalInstall hal d = (ret, d') \<Longrightarrow> detect_step E d d'"

inductive_cases detect_stepE: "detect_step E d d'"

inductive detect_reachable :: "sdk \<Rightarrow> detect \<Rightarrow> bool" for E where
  start: "detect_reachable E detect_start"
| step: "detect_reachable E d \<Longrightarrow> detect_step E d d' \<Longrightarrow> detect_reachable E d'"

definition all_checks :: "detection list" where
  "all_checks = [MemoryCheck, PortCheck, CpuUsageCheck, DiskSpaceCheck, BatteryCheck,
     LoginLocalCheck, FileTamperCheck, LoginBruteForceCheck, MaliciousIPCheck]"

definition ring_ok :: "brute_force \<Rightarrow> bool" where
  "ring_ok b \<longleftrightarrow> length (loginFailedTimeRecords b) = LOGIN_CNT \<and> oldestRecordIndex b < LOGIN_CNT"

definition detect_inv :: "detect \<Rightarrow> bool" where
  "detect_inv d \<longleftrightarrow> map t_kind (g_mTasks d) = all_checks
     \<and> (\<forall>t \<in> set (g_mTasks d). t_newCheck t = t_check t)
     \<and> (taskRunning d \<longleftrightarrow> (\<exists>t \<in> set (g_mTasks d). t_check t))
     \<and> ring_ok (bruteForce d)"

lemma ring_ok_start: "ring_ok (bruteForce detect_start)"
  by (simp add: ring_ok_def detect_start_def LOGIN_CNT_def)

lemma record_failure_ring: "ring_ok b \<Longrightarrow> ring_ok (record_failure tv b)"
  by (simp add: ring_ok_def record_failure_def LOGIN_CNT_def)

lemma record_failures_ring: "ring_ok b \<Longrightarrow> ring_ok ((record_failure tv ^^ n) b)"
  by (induction n) (simp_all add: record_failure_ring)

lemma brute_force_lines_ring: "ring_ok b \<Longrightarrow> ring_ok (fst (brute_force_lines ls b found))"
  by (induction ls b found rule: brute_force_lines.induct) (simp_all add: record_failures_ring Let_def split: option.split)

lemma ring_ok_offset [simp]: "ring_ok (b \<lparr>bf_fileOffset := off\<rparr>) = ring_ok b"
  by (simp add: ring_ok_def)

text \<open>The fields a check may change besides its own data.\<close>

definition same_tasks :: "detect \<Rightarrow> detect \<Rightarrow> bool" where
  "same_tasks d d' \<longleftrightarrow> g_mTasks d' = g_mTasks d \<and> taskRunning d' = taskRunning d
     \<and> (ring_ok (bruteForce d) \<longrightarrow> ring_ok (bruteForce d'))"

lemma same_tasks_refl [simp]: "same_tasks d d"
  by (simp add: same_tasks_def)

lemma same_tasks_trans: "same_tasks d d' \<Longrightarrow> same_tasks d' d'' \<Longrightarrow> same_tasks d d''"
  by (simp add: same_tasks_def)

lemma task_init_same: "same_tasks d (task_init sys k d)"
  by (cases k) (auto simp: same_tasks_def LocalLoginCheckInit_def FileTamperCheckInit_def LoginBruteForceCheckInit_def
      Let_def ring_ok_def LOGIN_CNT_def split: option.splits)

lemma task_destroy_same: "same_tasks d (task_destroy k d)"
  by (cases k) (auto simp: same_tasks_def FileTamperCheckDestroy_def)

lemma LoginBruteForceReport_same:
  "same_tasks d (snd (LoginBruteForceReport sys d content))"
  using brute_force_lines_ring [of "bruteForce d" "os_auth_lines sys" False]
  by (auto simp: same_tasks_def LoginBruteForceReport_def Let_def split: option.splits prod.splits if_splits)

lemma getReport_same:
  assumes "getReport sys k d content = Some (content', d')"
  shows "same_tasks d d'"
proof (cases k)
  case LoginLocalCheck
  then show ?thesis using assms
    by (auto simp: LocalLoginCheckGetReport_def same_tasks_def split: option.splits if_splits)
next
  case LoginBruteForceCheck
  then show ?thesis using assms LoginBruteForceReport_same [of d sys content] by simp
qed (use assms in auto)

lemma report_tasks_same: "report_tasks E ts d m = Some (d', m') \<Longrightarrow> same_tasks d d'"
proof (induction ts arbitrary: d m)
  case (Cons t ts)
  show ?case
  proof (cases "t_check t")
    case True
    then obtain content d1 m1 where "getReport (sdk_os E) (t_kind t) d (JObject []) = Some (content, d1)"
      "report_tasks E ts d1 m1 = Some (d', m')"
      using Cons.prems by (auto simp: bind_eq_Some_conv)
    then show ?thesis using Cons.IH getReport_same same_tasks_trans by blast
  qed (use Cons in simp)
qed simp

lemma switch_tasks_facts:
  "switch_tasks sys ts d = (ts', d') \<Longrightarrow> same_tasks d d' \<and> ts' = map (\<lambda>t. t \<lparr>t_check := t_newCheck t\<rparr>) ts"
proof (induction ts arbitrary: d ts')
  case (Cons t ts)
  let ?d1 = "if t_newCheck t \<and> \<not> t_check t then task_init sys (t_kind t) d else d"
  let ?d2 = "if \<not> t_newCheck t \<and> t_check t then task_destroy (t_kind t) ?d1 else ?d1"
  obtain ts1 where s: "switch_tasks sys ts ?d2 = (ts1, d')" "ts' = t \<lparr>t_check := t_newCheck t\<rparr> # ts1"
    using Cons.prems by (auto simp: Let_def split: prod.splits)
  have "same_tasks d ?d1" using task_init_same by simp
  moreover have "same_tasks ?d1 ?d2" using task_destroy_same by simp
  ultimately have "same_tasks d ?d2" by (rule same_tasks_trans)
  moreover from Cons.IH [OF s(1)] have ih: "same_tasks ?d2 d'" "ts1 = map (\<lambda>t. t \<lparr>t_check := t_newCheck t\<rparr>) ts"
    by (rule conjunct1, rule conjunct2)
  ultimately have "same_tasks d d'" using same_tasks_trans by blast
  then show ?case using ih(2) s(2) by simp
qed simp

lemma load_checks_kinds: "load_checks j ts = Some ts' \<Longrightarrow> map t_kind ts' = map t_kind ts"
  by (induction ts arbitrary: ts') (auto simp: bind_eq_Some_conv split: option.splits)

lemma load_int_same:
  "load_int j key upd d = Some d' \<Longrightarrow> (\<And>i d. same_tasks d (upd i d)) \<Longrightarrow> same_tasks d d'"
  by (auto simp: load_int_def split: option.splits)

lemma LoadJsonData_facts:
  assumes "Detect_LoadJsonData E s d = Some d'"
  shows "map t_kind (g_mTasks d') = map t_kind (g_mTasks d) \<and> taskRunning d' = taskRunning d
    \<and> (ring_ok (bruteForce d) \<longrightarrow> ring_ok (bruteForce d'))"
proof (cases "JSON_Parse E s")
  case None
  then show ?thesis using assms by (simp add: Detect_LoadJsonData_def)
next
  case (Some j)
  obtain d1 d2 d3 d4 tasks where L:
    "load_int j ''memoryThreshold'' (\<lambda>i d. d \<lparr>memoryThreshold := i\<rparr>) d = Some d1"
    "load_int j ''cpuUsageThreshold'' (\<lambda>i d. d \<lparr>cpuUsageThreshold := i\<rparr>) d1 = Some d2"
    "load_int j ''diskSpaceThreshold'' (\<lambda>i d. d \<lparr>diskSpaceThreshold := i\<rparr>) d2 = Some d3"
    "load_int j ''batteryPercentageThreshold'' (\<lambda>i d. d \<lparr>batteryPercentageThreshold := i\<rparr>) d3 = Some d4"
    and tasks: "load_checks j (g_mTasks d4) = Some tasks" "d' = d4 \<lparr>g_mTasks := tasks\<rparr>"
    using assms unfolding Detect_LoadJsonData_def Some option.case bind_eq_Some_conv by blast
  have "same_tasks d d1" by (rule load_int_same [OF L(1)]) (simp add: same_tasks_def)
  moreover have "same_tasks d1 d2" by (rule load_int_same [OF L(2)]) (simp add: same_tasks_def)
  moreover have "same_tasks d2 d3" by (rule load_int_same [OF L(3)]) (simp add: same_tasks_def)
  moreover have "same_tasks d3 d4" by (rule load_int_same [OF L(4)]) (simp add: same_tasks_def)
  ultimately have "same_tasks d d4" using same_tasks_trans by blast
  then show ?thesis using load_checks_kinds [OF tasks(1)] tasks(2) by (simp add: same_tasks_def)
qed

lemma ReportDetectionInfo_inv:
  assumes "map t_kind (g_mTasks d) = all_checks" "ring_ok (bruteForce d)"
  shows "detect_inv (Detect_ReportDetectionInfo sys d)"
proof -
  obtain ts d' where sw: "switch_tasks sys (g_mTasks d) d = (ts, d')" by fastforce
  from switch_tasks_facts [OF this] have f: "same_tasks d d'"
    "ts = map (\<lambda>t. t \<lparr>t_check := t_newCheck t\<rparr>) (g_mTasks d)" by simp_all
  have "map t_kind ts = all_checks" using assms(1) f(2) by (simp add: o_def)
  moreover have "(\<exists>t \<in> set ts. t_check t) \<longleftrightarrow> list_ex t_newCheck (g_mTasks d)" using f(2) by (simp add: list_ex_iff)
  moreover have "\<forall>t \<in> set ts. t_newCheck t = t_check t" using f(2) by simp
  moreover have "ring_ok (bruteForce d')" using f(1) assms(2) by (simp add: same_tasks_def)
  ultimately show ?thesis by (simp add: Detect_ReportDetectionInfo_def sw Let_def detect_inv_def)
qed

lemma detect_inv_step: "detect_step E d d' \<Longrightarrow> detect_inv d \<Longrightarrow> detect_inv d'"
proof (induction rule: detect_step.induct)
  case (configure spawn propertiesDown d rm m events d' rm' m')
  then obtain d1 where *: "Detect_LoadJsonData E propertiesDown d = Some d1"
    "d' = Detect_ReportDetectionInfo (sdk_os E) d1"
    by (auto simp: Detect_ParseShadowGetOrPropertiesSet_def bind_eq_Some_conv Let_def)
  from LoadJsonData_facts [OF *(1)] configure.prems
  have "map t_kind (g_mTasks d1) = all_checks" "ring_ok (bruteForce d1)" by (simp_all add: detect_inv_def)
  then show ?case using ReportDetectionInfo_inv *(2) by simp
next
  case (report_round d m d' m')
  then have "same_tasks d d'" by (auto simp: Detect_ReportDetectionInfoEntry_def dest: report_tasks_same)
  then show ?case using report_round.prems by (simp add: detect_inv_def same_tasks_def)
next
  case (install hal d ret d')
  then show ?case by (auto simp: SysHalInstall_def detect_inv_def split: if_splits)
qed

text \<open>
  C26. The thread of the reports runs exactly while a check is on: in every state that
  configurations from the platform, rounds of reports and the installation of a board lead
  to, the nine checks are there in their order, no change of a check is pending, the
  thread runs exactly when some check is on, and the buffer of failed logins has five
  entries and an index into it.
\<close>

theorem detect_reachable_inv:
  assumes "detect_reachable E d"
  shows "detect_inv d"
  using assms
proof induction
  case start
  have "map t_kind (g_mTasks detect_start) = all_checks" by (simp add: detect_start_def all_checks_def)
  moreover have "\<forall>t \<in> set (g_mTasks detect_start). \<not> t_check t \<and> \<not> t_newCheck t" by (simp add: detect_start_def)
  moreover have "\<not> taskRunning detect_start" by (simp add: detect_start_def)
  ultimately show ?case by (auto simp: detect_inv_def ring_ok_start)
next
  case (step d d')
  then show ?case using detect_inv_step by blast
qed

text \<open>The thread starts with the first check a configuration turns on.\<close>

definition on_config :: json where
  "on_config = JObject [(''memoryThreshold'', JNumber 80), (''memoryCheck'', JNumber 1)]"

theorem detect_reachable_inv_witness:
  "\<exists>d. detect_reachable (sample_sdk on_config) d \<and> taskRunning d \<and> detect_inv d"
proof -
  have "case Detect_ParseShadowGetOrPropertiesSet (sample_sdk on_config) (\<lambda>_. True) (Some ''x'') detect_start
      (RuleMgr_Init None) (sample_mqtt \<lparr>g_client := True\<rparr>)
    of Some (events, d, rm, m) \<Rightarrow> taskRunning d | None \<Rightarrow> False"
    by code_simp
  then obtain events d rm m where "Detect_ParseShadowGetOrPropertiesSet (sample_sdk on_config) (\<lambda>_. True) (Some ''x'')
      detect_start (RuleMgr_Init None) (sample_mqtt \<lparr>g_client := True\<rparr>) = Some (events, d, rm, m)" "taskRunning d"
    by (auto split: option.splits prod.splits)
  then have "detect_reachable (sample_sdk on_config) d"
    using detect_reachable.step [OF detect_reachable.start] detect_step.configure by blast
  then show ?thesis using detect_reachable_inv \<open>taskRunning d\<close> by blast
qed

section \<open>Failed logins\<close>

text \<open>The five failures in the buffer, the oldest first, and what a log tells of.\<close>

definition window :: "brute_force \<Rightarrow> timeval list" where
  "window b = rotate (oldestRecordIndex b) (loginFailedTimeRecords b)"

definition failure_times :: "(string \<times> timeval) list \<Rightarrow> timeval list" where
  "failure_times ls = concat (map (\<lambda>(l, tv). case failures_of l of None \<Rightarrow> [] | Some n \<Rightarrow> replicate n tv) ls)"

definition last_five :: "'a list \<Rightarrow> 'a list" where
  "last_five xs = drop (length xs - 5) xs"

text \<open>The last five failures lie within ten seconds.\<close>

definition critical :: "timeval list \<Rightarrow> bool" where
  "critical h \<longleftrightarrow> tv_time (last h) - tv_time (h ! (length h - 5)) < 10"

lemma rotate_update:
  assumes "i < length xs"
  shows "rotate (Suc i) (xs[i := x]) = tl (rotate i xs) @ [x]"
proof -
  have "rotate i (xs[i := x]) = drop i (xs[i := x]) @ take i (xs[i := x])" "rotate i xs = drop i xs @ take i xs"
    using assms by (simp_all add: rotate_drop_take)
  moreover have "drop i (xs[i := x]) = x # drop (Suc i) xs" "drop i xs = xs ! i # drop (Suc i) xs"
    using assms by (simp_all add: drop_update_swap Cons_nth_drop_Suc [symmetric])
  ultimately show ?thesis by (simp add: rotate1_hd_tl)
qed

lemma record_failure_window:
  assumes "ring_ok b"
  shows "window (record_failure tv b) = tl (window b) @ [tv]"
proof -
  have "rotate (Suc (oldestRecordIndex b) mod LOGIN_CNT) ((loginFailedTimeRecords b)[oldestRecordIndex b := tv])
      = rotate (Suc (oldestRecordIndex b)) ((loginFailedTimeRecords b)[oldestRecordIndex b := tv])"
    using assms rotate_conv_mod [of "Suc (oldestRecordIndex b)" "(loginFailedTimeRecords b)[oldestRecordIndex b := tv]"]
    by (simp add: ring_ok_def)
  then show ?thesis using assms rotate_update [of "oldestRecordIndex b" "loginFailedTimeRecords b" tv]
    by (simp add: window_def record_failure_def ring_ok_def)
qed

lemma length_window: "ring_ok b \<Longrightarrow> length (window b) = 5"
  by (simp add: window_def ring_ok_def LOGIN_CNT_def)

lemma last_five_tl: "length xs = 5 \<Longrightarrow> tl xs @ [x] = last_five (xs @ [x])"
  by (cases xs) (auto simp: last_five_def)

lemma last_five_last_five: "last_five (last_five xs @ ys) = last_five (xs @ ys)"
  by (cases "5 \<le> length xs") (auto simp: last_five_def add.commute)

lemma record_failures_window:
  assumes "ring_ok b"
  shows "window ((record_failure tv ^^ n) b) = last_five (window b @ replicate n tv)"
proof (induction n)
  case 0
  then show ?case using length_window [OF assms] by (simp add: last_five_def)
next
  case (Suc n)
  have r: "ring_ok ((record_failure tv ^^ n) b)" by (rule record_failures_ring [OF assms])
  have "window ((record_failure tv ^^ Suc n) b) = last_five (last_five (window b @ replicate n tv) @ [tv])"
    using record_failure_window [OF r, of tv] Suc last_five_tl [OF length_window [OF r], of tv] by simp
  then show ?case by (simp add: last_five_last_five replicate_append_same)
qed

lemma check_window:
  assumes "ring_ok b"
  shows "LoginBruteForceProcessCheckCriticalFreq (oldestRecordIndex b) (loginFailedTimeRecords b) = critical (window b)"
proof -
  let ?r = "loginFailedTimeRecords b" and ?o = "oldestRecordIndex b"
  have l: "length ?r = 5" "?o < 5" using assms by (simp_all add: ring_ok_def LOGIN_CNT_def)
  have "window b ! 0 = ?r ! ?o" "window b ! 4 = ?r ! ((?o + 4) mod 5)"
    using l by (simp_all add: window_def nth_rotate)
  moreover have "(?o + 4) mod 5 = (if ?o = 0 then 4 else (?o - 1) mod 5)"
  proof (cases ?o)
    case (Suc k)
    then show ?thesis by (simp add: mod_Suc)
  qed simp
  moreover have "last (window b) = window b ! 4" using length_window [OF assms]
    by (metis One_nat_def diff_Suc_1 last_conv_nth length_0_conv numeral_eq_Suc pred_numeral_simps(3) zero_neq_numeral)
  ultimately show ?thesis using length_window [OF assms]
    by (simp add: LoginBruteForceProcessCheckCriticalFreq_def critical_def LOGIN_CNT_def Let_def)
qed

lemma critical_last_five: "5 \<le> length h \<Longrightarrow> critical (last_five h) = critical h"
  by (simp add: critical_def last_five_def)

text \<open>The lines read so far that are an alarm.\<close>

definition alarming :: "timeval list \<Rightarrow> (string \<times> timeval) list \<Rightarrow> bool" where
  "alarming w ls \<longleftrightarrow> (\<exists>i < length ls. failures_of (fst (ls ! i)) \<noteq> None
     \<and> critical (w @ failure_times (take (Suc i) ls)))"

lemma alarming_Cons:
  "alarming w ((l, tv) # ls) \<longleftrightarrow>
     (failures_of l \<noteq> None \<and> critical (w @ failure_times [(l, tv)])) \<or> alarming (w @ failure_times [(l, tv)]) ls"
  unfolding alarming_def by (simp add: Ex_less_Suc2 failure_times_def)

lemma alarming_last_five:
  assumes "5 \<le> length w"
  shows "alarming (last_five w) ls = alarming w ls"
proof -
  have "critical (last_five w @ xs) = critical (w @ xs)" for xs
  proof -
    have "critical (last_five (last_five w @ xs)) = critical (last_five (w @ xs))" by (simp only: last_five_last_five)
    moreover have "5 \<le> length (last_five w @ xs)" using assms by (simp add: last_five_def)
    ultimately show ?thesis using critical_last_five [of "last_five w @ xs"] critical_last_five [of "w @ xs"] assms by simp
  qed
  then show ?thesis by (simp add: alarming_def)
qed

text \<open>
  C27. The ring of failed logins implements a sliding window over the log: reading lines into
  it leaves the last five failures of the old window followed by the failures the lines tell
  of, each as often as its line says, and the alarm is raised exactly if after some line
  about failures the last five of all lie within ten seconds.
\<close>

theorem brute_force_lines_window:
  assumes "ring_ok b"
  shows "window (fst (brute_force_lines ls b found)) = last_five (window b @ failure_times ls)
    \<and> (snd (brute_force_lines ls b found) \<longleftrightarrow> found \<or> alarming (window b) ls)"
  using assms
proof (induction ls b found rule: brute_force_lines.induct)
  case (1 b found)
  then show ?case using length_window [of b] by (simp add: failure_times_def last_five_def alarming_def)
next
  case (2 l tv ls b found)
  show ?case
  proof (cases "failures_of l")
    case None
    then show ?thesis using 2 by (simp add: failure_times_def alarming_Cons)
  next
    case (Some n)
    let ?b = "(record_failure tv ^^ n) b" and ?w = "window b @ replicate n tv"
    have r: "ring_ok ?b" using record_failures_ring 2(3) by blast
    have w: "window ?b = last_five ?w" by (rule record_failures_window [OF 2(3)])
    have len: "5 \<le> length ?w" using length_window [OF 2(3)] by simp
    have f: "failure_times ((l, tv) # ls) = replicate n tv @ failure_times ls" "failure_times [(l, tv)] = replicate n tv"
      using Some by (simp_all add: failure_times_def)
    have c: "LoginBruteForceProcessCheckCriticalFreq (oldestRecordIndex ?b) (loginFailedTimeRecords ?b) = critical ?w"
      using check_window [OF r] w critical_last_five [OF len] by simp
    show ?thesis using 2(2) [OF Some refl r] Some f c w alarming_last_five [OF len]
        last_five_last_five [of ?w "failure_times ls"] by (simp add: alarming_Cons Let_def)
  qed
qed

text \<open>One line that tells of five failures is an alarm.\<close>

theorem brute_force_lines_window_witness:
  "window (fst (brute_force_lines [(''sshd: message repeated 5 times: authentication failure'', (1000, 0))]
      (bruteForce detect_start) False)) = replicate 5 (1000, 0)
   \<and> snd (brute_force_lines [(''sshd: message repeated 5 times: authentication failure'', (1000, 0))]
      (bruteForce detect_start) False)"
proof -
  let ?ls = "[(''sshd: message repeated 5 times: authentication failure'', (1000, 0))]"
  have n: "failures_of ''sshd: message repeated 5 times: authentication failure'' = Some 5" by code_simp
  have w: "window (bruteForce detect_start) = replicate 5 (0, 0)" by code_simp
  have t: "failure_times ?ls = replicate 5 (1000, 0)" using n by (simp add: failure_times_def)
  have c: "critical (replicate 5 (0, 0) @ replicate 5 (1000, 0))" by code_simp
  have "alarming (replicate 5 (0, 0)) ?ls" using n t c by (auto simp: alarming_def)
  then show ?thesis using brute_force_lines_window [OF ring_ok_start, of ?ls False] t w by (simp add: last_five_def)
qed

section \<open>Peer addresses\<close>

text \<open>
  The address reported of a connection is not the one of the peer: as the text of an
  address of version 4 is put together, the code reads the first two digits of the field
  four times, so the four numbers of every address reported are equal.
\<close>

theorem NetWorkInfoLineToIPString_repeats:
  assumes "NetWorkInfoLineToIPString lineIn False bufferLen = Some (Some ip)"
  shows "\<exists>n. ip = n @ ''.'' @ n @ ''.'' @ n @ ''.'' @ n"
proof -
  obtain l3 r where r: "ip_groups 4 2 (tl l3) (CHR ''.'') bufferLen [] False = Some r"
    "Some ip = (case r of None \<Rightarrow> None | Some (ips, nz) \<Rightarrow> if nz then Some (butlast ips) else None)"
    using assms by (auto simp: NetWorkInfoLineToIPString_def bind_eq_Some_conv)
  then obtain ips nz where g: "ip_groups 4 2 (tl l3) (CHR ''.'') bufferLen [] False = Some (Some (ips, nz))"
    "ip = butlast ips"
    by (cases r) (auto split: if_splits)
  obtain d where "Bytes2Int (tl l3) 2 = Some d" "ips = concat (replicate 4 (dec_nat (unat d) @ ''.''))"
    using g(1) by (auto simp: eval_nat_numeral bind_eq_Some_conv Let_def split: if_splits)
  then show ?thesis using g(2) by (auto simp: eval_nat_numeral butlast_append)
qed

text \<open>The peer 192.168.1.10 of a line of /proc/net/tcp is reported as 17.17.17.17.\<close>

theorem NetWorkInfoLineToIPString_repeats_witness:
  "NetWorkInfoLineToIPString ''   0: 0100007F:0277 0A01A8C0:01BB 01'' False IP_STR_MAX_LEN = Some (Some ''17.17.17.17'')
   \<and> (\<exists>n. ''17.17.17.17'' = n @ ''.'' @ n @ ''.'' @ n @ ''.'' @ n)"
proof -
  have "NetWorkInfoLineToIPString ''   0: 0100007F:0277 0A01A8C0:01BB 01'' False IP_STR_MAX_LEN
      = Some (Some ''17.17.17.17'')"
    by code_simp
  then show ?thesis using NetWorkInfoLineToIPString_repeats by blast
qed

section \<open>Reports of anomalies\<close>

text \<open>src/service/detect\_anomaly/report\_anomaly.c, for the applications of a build with
  SECURITY\_AWARENESS\_ENABLE.\<close>

record anomaly_unsafe_function =
  auf_name :: cstr
  auf_desc :: cstr

record anomaly_protocol =
  ap_protocol :: cstr
  ap_version :: cstr
  ap_desc :: cstr

record anomaly_cve =
  ac_cve_number :: cstr
  ac_vulnerability_name :: cstr
  ac_desc :: cstr

record anomaly_malicious_file =
  af_file :: cstr
  af_desc :: cstr

record anomaly_abnormal_process =
  aa_pid :: cstr
  aa_cmd :: cstr
  aa_desc :: cstr

definition IOTA_ReportAnomaly :: "sdk \<Rightarrow> string \<Rightarrow> json \<Rightarrow> action" where
  "IOTA_ReportAnomaly E kind content m =
    (let eventTimesStamp = CreateString (GetEventTimesStamp (sdk_heap E) (sdk_gmtime E));
         paras = json_object
           [(''timestamp'', eventTimesStamp), (''type'', CreateString (Some kind)), (''content'', Some content)];
         serviceEvent = json_object
           [(''service_id'', CreateString (Some ''$log'')), (''event_time'', eventTimesStamp),
            (''event_type'', CreateString (Some ''security_log_report'')), (''paras'', Some paras)]
     in case sdk_print E (json_object [(''services'', Some (json_array [serviceEvent]))]) of
          None \<Rightarrow> Some (-1, m)
        | Some payload \<Rightarrow> event_up E (Some payload) m)"

text \<open>The part the five reports share: an object for each of the \<open>contentNum\<close> entries.\<close>

definition anomaly_report ::
  "sdk \<Rightarrow> string \<Rightarrow> string \<Rightarrow> ('a \<Rightarrow> (string \<times> cstr) list) \<Rightarrow> 'a list \<Rightarrow> int \<Rightarrow> action" where
  "anomaly_report E kind key entries xs contentNum m =
    (if contentNum < 1 then Some (IOTA_FAILURE, m)
     else do {
       guard_ub (nat contentNum \<le> length xs);
       let usedDescribes = map (\<lambda>x. json_object (map (\<lambda>(k, s). (k, CreateString s)) (entries x))) (take (nat contentNum) xs);
       IOTA_ReportAnomaly E kind (json_object [(key, Some (json_array usedDescribes))]) m })"

definition IOTA_AnomalyFileReport :: "sdk \<Rightarrow> anomaly_malicious_file list \<Rightarrow> int \<Rightarrow> action" where
  "IOTA_AnomalyFileReport E = anomaly_report E ''FILE_REPORT'' ''malicious_files''
     (\<lambda>x. [(''file'', af_file x), (''desc'', af_desc x)])"

definition IOTA_AnomalyCveValnerabilityReport :: "sdk \<Rightarrow> anomaly_cve list \<Rightarrow> int \<Rightarrow> action" where
  "IOTA_AnomalyCveValnerabilityReport E = anomaly_report E ''CVE_VULNERABILITY_REPORT'' ''vulnerabilities''
     (\<lambda>x. [(''cve_number'', ac_cve_number x), (''vulnerabilities_name'', ac_vulnerability_name x), (''desc'', ac_desc x)])"

definition IOTA_AnomalyProtocolReport :: "sdk \<Rightarrow> anomaly_protocol list \<Rightarrow> int \<Rightarrow> action" where
  "IOTA_AnomalyProtocolReport E = anomaly_report E ''PROTOCOL_REPORT'' ''used_protocols''
     (\<lambda>x. [(''protocol'', ap_protocol x), (''version'', ap_version x), (''desc'', ap_desc x)])"

definition IOTA_AnomalyUnsafeFunctionReport :: "sdk \<Rightarrow> anomaly_unsafe_function list \<Rightarrow> int \<Rightarrow> action" where
  "IOTA_AnomalyUnsafeFunctionReport E = anomaly_report E ''UNSAFE_FUNCTION_REPORT'' ''unsafe_functions''
     (\<lambda>x. [(''name'', auf_name x), (''desc'', auf_desc x)])"

definition IOTA_AnomalyAbnormalProcessReport :: "sdk \<Rightarrow> anomaly_abnormal_process list \<Rightarrow> int \<Rightarrow> action" where
  "IOTA_AnomalyAbnormalProcessReport E = anomaly_report E ''ABNORMAL_PROCESS_REPORT'' ''abnormal_processes''
     (\<lambda>x. [(''pid'', aa_pid x), (''cmd'', aa_cmd x), (''desc'', aa_desc x)])"

end
