(* ===== verification/Downlink.thy ===== *)
theory Downlink
  imports Detect
begin

text \<open>
  The messages the platform sends down, src/service/callback\_func.c: the choice of the
  handler by the topic, and the parsing of messages, commands, properties, shadows,
  user topics and bridge answers.  Structures and arrays are allocated successfully.
  A configuration of the detection is reported back at once; the commands of the rules
  that this report triggers are an entry of the application log.
\<close>

section \<open>Handlers\<close>

text \<open>The text after the first equals sign of the topic; undefined when there is none.\<close>

definition request_id_of :: "string \<Rightarrow> string option" where
  "request_id_of topic = map_option tl (strstr topic ''='')"

definition OnBootstrapDownArrived :: "sdk \<Rightarrow> msg_info \<Rightarrow> cstr \<Rightarrow> down \<Rightarrow> down" where
  "OnBootstrapDownArrived E info message d =
    (let doc = JSON_Parse E message
     in notify onBootstrap (BootstrapDown info (JSON_GetStringFromObject doc ''address'' (Some ''-1''))
          (JSON_GetStringFromObject doc ''deviceSecret'' (Some ''-1''))) d)"

text \<open>Whether the JSON is in the format of the system, and its device id, name, id and
  content.\<close>

definition null_or_string :: "json option \<Rightarrow> bool" where
  "null_or_string j \<longleftrightarrow> j = None \<or> IsNull j \<or> IsString j"

fun is_object :: "json option \<Rightarrow> bool" where
  "is_object (Some (JObject _)) = True"
| "is_object _ = False"

definition GetMessageInSystemFormat ::
  "sdk \<Rightarrow> json option \<Rightarrow> (cstr \<times> cstr \<times> cstr \<times> cstr) option" where
  "GetMessageInSystemFormat E doc =
    (if \<not> is_object doc then None
     else if list_ex (\<lambda>(k, _). k \<notin> Some ` {''content'', ''object_device_id'', ''name'', ''id''}) (child_list doc)
     then None
     else
       (let contentObject = GetObjectItem doc ''content'';
            objectDeviceIdObject = GetObjectItem doc ''object_device_id'';
            nameObject = GetObjectItem doc ''name'';
            idObject = GetObjectItem doc ''id''
        in if \<not> null_or_string objectDeviceIdObject \<or> \<not> null_or_string nameObject \<or> \<not> null_or_string idObject
              \<or> \<not> (null_or_string contentObject \<or> is_object contentObject)
           then None
           else Some (GetStringValue objectDeviceIdObject, GetStringValue nameObject, GetStringValue idObject,
                  if is_object contentObject then JSON_Print E contentObject else GetStringValue contentObject)))"

definition OnRawMessageDownArrived :: "msg_info \<Rightarrow> cstr \<Rightarrow> int \<Rightarrow> down \<Rightarrow> down" where
  "OnRawMessageDownArrived info message messageLength d =
     notify onRawMessage (RawMessage info message messageLength) d"

definition OnMessagesDownArrived :: "sdk \<Rightarrow> msg_info \<Rightarrow> cstr \<Rightarrow> cstr \<Rightarrow> int \<Rightarrow> down \<Rightarrow> down" where
  "OnMessagesDownArrived E info bridgeDeviceId message messageLength d =
    (let d1 = OnRawMessageDownArrived info message messageLength d
     in case GetMessageInSystemFormat E (JSON_Parse E message) of
          None \<Rightarrow> d1
        | Some (object_device_id, name, ident, content) \<Rightarrow>
            notify onMessage (MessageDown info bridgeDeviceId object_device_id name ident content) d1)"

definition OnOtherUndefinedTopicArrived :: "msg_info \<Rightarrow> cstr \<Rightarrow> cstr \<Rightarrow> down \<Rightarrow> down" where
  "OnOtherUndefinedTopicArrived info bridgeDeviceId message d =
     notify onOtherUndefined (UndefinedMessage info bridgeDeviceId message) d"

definition OnM2mMessagesDownArrived :: "sdk \<Rightarrow> msg_info \<Rightarrow> cstr \<Rightarrow> down \<Rightarrow> down" where
  "OnM2mMessagesDownArrived E info message d =
    (let g = get_string (JSON_Parse E message)
     in notify onM2mMessage (M2mMessage info (g ''request_id'') (g ''to'') (g ''from'') (g ''content'')) d)"

definition or_minus_one :: "json option \<Rightarrow> string \<Rightarrow> cstr" where
  "or_minus_one doc key = JSON_GetStringFromObject doc key (Some ''-1'')"

definition OnV1DevicesArrived :: "sdk \<Rightarrow> msg_info \<Rightarrow> cstr \<Rightarrow> down \<Rightarrow> down" where
  "OnV1DevicesArrived E info message d =
    (let doc = JSON_Parse E message
     in notify onCmdV3 (CommandV3 info (or_minus_one doc ''serviceId'') (or_minus_one doc ''cmd'')
          (JSON_GetIntFromObject doc ''mid'' (-1)) (JSON_Print E (JSON_GetObjectFromObject doc ''paras''))) d)"

definition OnCommandsArrived :: "sdk \<Rightarrow> msg_info \<Rightarrow> cstr \<Rightarrow> string \<Rightarrow> cstr \<Rightarrow> down \<Rightarrow> down option" where
  "OnCommandsArrived E info bridgeDeviceId topic message d = do {
     request_id \<leftarrow> request_id_of topic;
     let doc = JSON_Parse E message;
     Some (notify onCmd (CommandDown info bridgeDeviceId (Some request_id) (or_minus_one doc ''object_device_id'')
       (or_minus_one doc ''service_id'') (or_minus_one doc ''command_name'')
       (JSON_Print E (JSON_GetObjectFromObject doc ''paras''))) d) }"

text \<open>A rule update from the properties the platform sets or desires.\<close>

definition rule_update :: "sdk \<Rightarrow> cstr \<Rightarrow> down \<Rightarrow> down option" where
  "rule_update E properties d = do {
     (rm, m) \<leftarrow> RuleTrans_DeviceRuleUpdate (sdk_storage E) (sdk_zlib E) (sdk_parse E) (sdk_print E) (sdk_open E)
                  (sdk_rheap E) True True (sdk_mqtt E) properties (d_rules d) (d_mqtt d);
     Some (d \<lparr>d_rules := rm, d_mqtt := m\<rparr>) }"

definition detect_update :: "sdk \<Rightarrow> cstr \<Rightarrow> down \<Rightarrow> down option" where
  "detect_update E properties d = do {
     (events, det, rm, m) \<leftarrow> Detect_ParseShadowGetOrPropertiesSet E (\<lambda>_. True) properties (d_detect d) (d_rules d) (d_mqtt d);
     Some (d \<lparr>d_detect := det, d_rules := rm, d_mqtt := m,
       d_app := (if events = [] then d_app d else RuleEvents events # d_app d)\<rparr>) }"

text \<open>The calls made for a service besides filling its slot.\<close>

definition service_update :: "sdk \<Rightarrow> string \<Rightarrow> cstr \<Rightarrow> down \<Rightarrow> down option" where
  "service_update E service_id properties d =
    (if service_id = ''$device_rule'' then rule_update E properties d
     else if service_id = ''$security_detection_config'' then detect_update E properties d
     else Some d)"

fun set_services :: "sdk \<Rightarrow> json list \<Rightarrow> (cstr \<times> cstr) list \<Rightarrow> down \<Rightarrow> ((cstr \<times> cstr) list \<times> down) option" where
  "set_services E [] filled d = Some (filled, d)"
| "set_services E (service # rest) filled d =
    (case get_string (Some service) ''service_id'' of
       None \<Rightarrow> set_services E rest filled d
     | Some service_id \<Rightarrow> do {
         let properties = JSON_Print E (JSON_GetObjectFromObject (Some service) ''properties'');
         d' \<leftarrow> service_update E service_id properties d;
         set_services E rest (filled @ [(Some service_id, properties)]) d' })"

definition OnPropertiesSetArrived :: "sdk \<Rightarrow> msg_info \<Rightarrow> cstr \<Rightarrow> string \<Rightarrow> cstr \<Rightarrow> down \<Rightarrow> down option" where
  "OnPropertiesSetArrived E info bridgeDeviceId topic message d = do {
     request_id \<leftarrow> request_id_of topic;
     let doc = JSON_Parse E message;
     let services = JSON_GetObjectFromObject doc ''services'';
     if JSON_GetArraySize services \<ge> MAX_SERVICE_COUNT then Some d
     else do {
       (filled, d') \<leftarrow> set_services E (map snd (child_list services)) [] d;
       Some (notify onPropertiesSet (PropertySet info bridgeDeviceId (Some request_id)
               (or_minus_one doc ''object_device_id'') filled) d') } }"

definition OnPropertiesGetArrived :: "sdk \<Rightarrow> msg_info \<Rightarrow> cstr \<Rightarrow> string \<Rightarrow> cstr \<Rightarrow> down \<Rightarrow> down option" where
  "OnPropertiesGetArrived E info bridgeDeviceId topic message d = do {
     request_id \<leftarrow> request_id_of topic;
     let doc = JSON_Parse E message;
     Some (notify onPropertiesGet (PropertyGet info bridgeDeviceId (Some request_id)
       (or_minus_one doc ''object_device_id'') (or_minus_one doc ''service_id'')) d) }"

subsection \<open>The device shadow\<close>

text \<open>A slot of the zeroed array, filled from one entry: what the entry does not have
  stays as it was, and the event time of the reported part goes to the desired one.\<close>

definition shadow_zero :: shadow_data where
  "shadow_zero = \<lparr>sh_service_id = None, sh_desired_event_time = None, sh_desired_properties = Valid None,
     sh_reported_event_time = None, sh_reported_properties = Valid None, sh_version = 0\<rparr>"

definition fill_shadow :: "sdk \<Rightarrow> json \<Rightarrow> shadow_data \<Rightarrow> shadow_data" where
  "fill_shadow E entry s0 =
    (let s1 = s0 \<lparr>sh_service_id := or_minus_one (Some entry) ''service_id''\<rparr>;
         s2 = (case JSON_GetObjectFromObject (Some entry) ''desired'' of
                 None \<Rightarrow> s1
               | Some desired \<Rightarrow> s1 \<lparr>sh_desired_event_time := or_minus_one (Some desired) ''event_time'',
                   sh_desired_properties := Valid (JSON_Print E (JSON_GetObjectFromObject (Some desired) ''properties''))\<rparr>);
         s3 = (case JSON_GetObjectFromObject (Some entry) ''reported'' of
                 None \<Rightarrow> s2
               | Some rep \<Rightarrow> s2 \<lparr>sh_desired_event_time := or_minus_one (Some rep) ''event_time'',
                   sh_reported_properties := Valid (JSON_Print E (JSON_GetObjectFromObject (Some rep) ''properties''))\<rparr>)
     in s3 \<lparr>sh_version := JSON_GetIntFromObject (Some entry) ''version'' (-1)\<rparr>)"

text \<open>The slot after its texts were freed: the pointers to them remain.\<close>

definition free_shadow :: "json \<Rightarrow> shadow_data \<Rightarrow> shadow_data" where
  "free_shadow entry s =
    (let s1 = (if JSON_GetObjectFromObject (Some entry) ''desired'' \<noteq> None \<and> sh_desired_properties s \<noteq> Valid None
               then s \<lparr>sh_desired_properties := Dangling\<rparr> else s)
     in if JSON_GetObjectFromObject (Some entry) ''reported'' \<noteq> None \<and> sh_reported_properties s \<noteq> Valid None
        then s1 \<lparr>sh_reported_properties := Dangling\<rparr> else s1)"

text \<open>The text the entry itself desires, NULL when it has none.\<close>

definition desired_text :: "sdk \<Rightarrow> json \<Rightarrow> cstr" where
  "desired_text E entry = (case JSON_GetObjectFromObject (Some entry) ''desired'' of
     None \<Rightarrow> None | Some desired \<Rightarrow> JSON_Print E (JSON_GetObjectFromObject (Some desired) ''properties''))"

fun shadow_loop ::
  "sdk \<Rightarrow> json list \<Rightarrow> shadow_data \<Rightarrow> shadow_data list \<Rightarrow> down \<Rightarrow> (shadow_data list \<times> down) option" where
  "shadow_loop E [] slot filled d = Some (filled, d)"
| "shadow_loop E (entry # rest) slot filled d = do {
     let s = fill_shadow E entry slot;
     service_id \<leftarrow> deref (sh_service_id s);
     if service_id = ''$device_rule'' \<or> service_id = ''$security_detection_config'' then do {
       d' \<leftarrow> service_update E service_id (desired_text E entry) d;
       shadow_loop E rest (free_shadow entry s) filled d' }
     else shadow_loop E rest shadow_zero (filled @ [s]) d }"

definition OnShadowGetResponseArrived :: "sdk \<Rightarrow> msg_info \<Rightarrow> cstr \<Rightarrow> string \<Rightarrow> cstr \<Rightarrow> down \<Rightarrow> down option" where
  "OnShadowGetResponseArrived E info bridgeDeviceId topic message d = do {
     request_id \<leftarrow> request_id_of topic;
     let doc = JSON_Parse E message;
     let shadow = JSON_GetObjectFromObject doc ''shadow'';
     if JSON_GetArraySize shadow \<ge> MAX_SERVICE_COUNT then Some d
     else do {
       (filled, d') \<leftarrow> shadow_loop E (map snd (child_list shadow)) shadow_zero [] d;
       Some (notify onDeviceShadow (ShadowDown info bridgeDeviceId (Some request_id)
               (or_minus_one doc ''object_device_id'') filled) d') } }"

subsection \<open>User topics and bridges\<close>

definition OnUserTpoicRawMessage :: "msg_info \<Rightarrow> cstr \<Rightarrow> cstr \<Rightarrow> int \<Rightarrow> down \<Rightarrow> down" where
  "OnUserTpoicRawMessage info topicParas message messageLength d =
     notify onUserTopicRawMessage (UserTopicRaw info topicParas message messageLength) d"

definition OnUserTopicArrived ::
  "sdk \<Rightarrow> msg_info \<Rightarrow> string \<Rightarrow> cstr \<Rightarrow> int \<Rightarrow> down \<Rightarrow> down option" where
  "OnUserTopicArrived E info topic message messageLength d = do {
     topicParasValue \<leftarrow> strstr topic ''user/'';
     let topicParas = Some (drop 5 topicParasValue);
     let d1 = OnUserTpoicRawMessage info topicParas message messageLength d;
     Some (case GetMessageInSystemFormat E (JSON_Parse E message) of
             None \<Rightarrow> d1
           | Some (object_device_id, name, ident, content) \<Rightarrow>
               notify onUserTopicMessage (UserTopic info topicParas object_device_id name ident content) d1) }"

definition OnBridgesLoginOrLogoutArrived ::
  "sdk \<Rightarrow> msg_info \<Rightarrow> cstr \<Rightarrow> string \<Rightarrow> cstr \<Rightarrow> bool \<Rightarrow> down \<Rightarrow> down option" where
  "OnBridgesLoginOrLogoutArrived E info bridgeDeviceId topic message isLogin d = do {
     request_id \<leftarrow> request_id_of topic;
     let result_code = JSON_GetIntFromObject (JSON_Parse E message) ''result_code'' (-1);
     Some (if isLogin
           then notify onBridgesDeviceLogin (BridgeLogin info bridgeDeviceId (Some request_id) result_code) d
           else notify onBridgesDeviceLogout (BridgeLogout info bridgeDeviceId (Some request_id) result_code) d) }"

definition OnBridgesResetSecretArrived ::
  "sdk \<Rightarrow> msg_info \<Rightarrow> cstr \<Rightarrow> string \<Rightarrow> cstr \<Rightarrow> down \<Rightarrow> down option" where
  "OnBridgesResetSecretArrived E info bridgeDeviceId topic message d = do {
     request_id \<leftarrow> request_id_of topic;
     let doc = JSON_Parse E message;
     Some (notify onBridgesDeviceResetSecret (BridgeResetSecret info bridgeDeviceId (Some request_id)
       (JSON_GetIntFromObject doc ''result_code'' (-1)) (JSON_Print E (JSON_GetObjectFromObject doc ''paras''))
       (or_minus_one doc ''new_secret'')) d) }"

definition OnBridgesDeviceDisconnectArrived :: "msg_info \<Rightarrow> cstr \<Rightarrow> down \<Rightarrow> down" where
  "OnBridgesDeviceDisconnectArrived info bridgeDeviceId d =
     notify onBridgesDeviceDisconnect (BridgeDisconnect info bridgeDeviceId) d"

text \<open>The id between the first \<open>/devices/\<close> and the first \<open>/sys/\<close>; with the second and
  not the first of them the code computes with a NULL pointer.\<close>

definition getBridgeDeviceId :: "string \<Rightarrow> cstr option" where
  "getBridgeDeviceId topic =
    (case (strstr topic TOPIC_SUFFIX_DEVICES, strstr topic TOPIC_SUFFIX_SYS) of
       (None, None) \<Rightarrow> Some None
     | (None, Some _) \<Rightarrow> None
     | (Some _, None) \<Rightarrow> Some None
     | (Some a, Some b) \<Rightarrow>
         (let start = length topic - length a + length TOPIC_SUFFIX_DEVICES;
              finish = length topic - length b
          in if start \<ge> finish then Some None
             else Some (Some (take (finish - start) (drop start topic)))))"

definition has :: "string \<Rightarrow> string \<Rightarrow> bool" where
  "has topic suf \<longleftrightarrow> StringLength (StrInStr (Some topic) (Some suf)) > 0"

text \<open>The result is whether the topic is a bridge topic.\<close>

definition OnBridgeArrived ::
  "sdk \<Rightarrow> msg_info \<Rightarrow> string \<Rightarrow> cstr \<Rightarrow> cstr \<Rightarrow> down \<Rightarrow> (int \<times> down) option" where
  "OnBridgeArrived E info topic bridgeDeviceId message d =
    (if has topic TOPIC_SUFFIX_LOGIN then
       map_option (Pair 0) (OnBridgesLoginOrLogoutArrived E info bridgeDeviceId topic message True d)
     else if has topic TOPIC_SUFFIX_LOGOUT then
       map_option (Pair 0) (OnBridgesLoginOrLogoutArrived E info bridgeDeviceId topic message False d)
     else if has topic TOPIC_SUFFIX_RESET_SECRET then
       map_option (Pair 0) (OnBridgesResetSecretArrived E info bridgeDeviceId topic message d)
     else if has topic TOPIC_SUFFIX_DISCONNECT then
       Some (0, OnBridgesDeviceDisconnectArrived info bridgeDeviceId d)
     else Some (-1, d))"

section \<open>The choice of the handler\<close>

definition OnMessageArrived :: "sdk \<Rightarrow> msg_info \<Rightarrow> string \<Rightarrow> cstr \<Rightarrow> int \<Rightarrow> down \<Rightarrow> down option" where
  "OnMessageArrived E info topic message messageLength d = do {
     bridgeDeviceId \<leftarrow> (if StrInStr (Some topic) (Some TOPIC_PREFIX_BRIDGE) = Some topic
                        then getBridgeDeviceId topic else Some None);
     if has topic BOOTSTRAP_DOWN then Some (OnBootstrapDownArrived E info message d)
     else if has topic TOPIC_SUFFIX_MESSAGEDOWN then
       Some (OnMessagesDownArrived E info bridgeDeviceId message messageLength d)
     else if has topic TOPIC_PREFIX_V3 then Some (OnV1DevicesArrived E info message d)
     else if has topic TOPIC_SUFFIX_COMMAND then OnCommandsArrived E info bridgeDeviceId topic message d
     else if has topic TOPIC_SUFFIX_PROP_SET then OnPropertiesSetArrived E info bridgeDeviceId topic message d
     else if has topic TOPIC_SUFFIX_PROP_GET then OnPropertiesGetArrived E info bridgeDeviceId topic message d
     else if has topic TOPIC_SUFFIX_PROP_RSP then OnShadowGetResponseArrived E info bridgeDeviceId topic message d
     else if has topic TOPIC_SUFFIX_USER then OnUserTopicArrived E info topic message messageLength d
     else if has topic TOPIC_SUFFIX_EVENT_DOWN then OnEventsDownArrived E info bridgeDeviceId message d
     else if has topic TOPIC_PREFIX_M2M then Some (OnM2mMessagesDownArrived E info message d)
     else do {
       (handled, d') \<leftarrow> OnBridgeArrived E info topic bridgeDeviceId message d;
       Some (if handled < 0 then d' else OnOtherUndefinedTopicArrived info bridgeDeviceId message d') } }"

section \<open>Topics reach their handlers\<close>

lemma has_contains: "suf \<noteq> [] \<Longrightarrow> has topic suf \<longleftrightarrow> contains topic suf"
proof -
  assume s: "suf \<noteq> []"
  show ?thesis
  proof (cases "strstr topic suf")
    case (Some r)
    then have "r \<noteq> []" using strstr_prefix [OF Some] s by auto
    then show ?thesis using Some by (simp add: has_def StrInStr_def StringLength_def contains_def)
  qed (simp add: has_def StrInStr_def StringLength_def contains_def)
qed

text \<open>An id has no slash, so it can be skipped when a text that starts with one is looked
  for, and it ends at the next slash.\<close>

definition plain_id :: "string \<Rightarrow> bool" where
  "plain_id u \<longleftrightarrow> CHR ''/'' \<notin> set u"

lemma contains_Nil [simp]: "contains [] (c # t) = False"
  by (simp add: contains_iff)

lemma contains_Cons: "contains (a # x) t \<longleftrightarrow> prefix t (a # x) \<or> contains x t"
  by (auto simp: contains_iff sublist_Cons_right)

lemma contains_skip: "plain_id u \<Longrightarrow> contains (u @ x) (CHR ''/'' # t) \<longleftrightarrow> contains x (CHR ''/'' # t)"
  by (induction u) (auto simp: contains_Cons plain_id_def)

lemma contains_plain: "plain_id u \<Longrightarrow> \<not> contains u (CHR ''/'' # t)"
  using contains_skip [of u "[]" t] by simp

lemma prefix_slash:
  assumes "plain_id u"
  shows "prefix t (u @ CHR ''/'' # x) \<longleftrightarrow> prefix t u
    \<or> (CHR ''/'' \<in> set t \<and> takeWhile (\<lambda>c. c \<noteq> CHR ''/'') t = u \<and> prefix (tl (dropWhile (\<lambda>c. c \<noteq> CHR ''/'') t)) x)"
  using assms
proof (induction t arbitrary: u)
  case (Cons a t)
  then show ?case by (cases u) (auto simp: plain_id_def)
qed simp

lemma prefix_in_plain: "plain_id u \<Longrightarrow> CHR ''/'' \<in> set t \<Longrightarrow> \<not> prefix t u"
  by (auto simp: plain_id_def dest: set_mono_prefix)

lemma prefix_plain_end:
  "plain_id u \<Longrightarrow> CHR ''/'' \<in> set t \<Longrightarrow> prefix t (u @ CHR ''/'' # x) \<longleftrightarrow>
     takeWhile (\<lambda>c. c \<noteq> CHR ''/'') t = u \<and> prefix (tl (dropWhile (\<lambda>c. c \<noteq> CHR ''/'') t)) x"
  by (simp add: prefix_slash prefix_in_plain)

lemma starts_with: "StrInStr (Some s) (Some t) = Some s \<longleftrightarrow> prefix t s"
  using strstr_prefix [of s t s] strstr_self [of t s] by (auto simp: StrInStr_def)

lemmas topic_search = has_contains topic_defs contains_Cons contains_skip contains_plain prefix_plain_end prefix_in_plain




section \<open>Bridges\<close>

lemma strstr_plain_skip: "plain_id u \<Longrightarrow> strstr (u @ x) (CHR ''/'' # t) = strstr x (CHR ''/'' # t)"
  by (induction u) (auto simp: plain_id_def)

lemma contains_plain_skip:
  "plain_id u \<Longrightarrow> CHR ''/'' \<in> set t \<Longrightarrow> \<not> prefix (tl (dropWhile (\<lambda>c. c \<noteq> CHR ''/'') t)) x \<Longrightarrow>
     contains (u @ CHR ''/'' # x) t \<longleftrightarrow> contains (CHR ''/'' # x) t"
proof (induction u)
  case (Cons c u)
  then have "\<not> prefix t ((c # u) @ CHR ''/'' # x)" "plain_id u"
    using prefix_plain_end [of "c # u" t x] by (auto simp: plain_id_def)
  then show ?case using Cons by (simp add: contains_Cons)
qed simp

lemma contains_in_plain: "plain_id u \<Longrightarrow> CHR ''/'' \<in> set t \<Longrightarrow> \<not> contains u t"
  by (auto simp: contains_iff plain_id_def dest: set_mono_sublist)

text \<open>The id of the device in a topic of a bridge.\<close>

lemma getBridgeDeviceId_between:
  assumes "strstr (p @ TOPIC_SUFFIX_DEVICES @ u @ z) TOPIC_SUFFIX_DEVICES = Some (TOPIC_SUFFIX_DEVICES @ u @ z)"
    "strstr (p @ TOPIC_SUFFIX_DEVICES @ u @ z) TOPIC_SUFFIX_SYS = Some z" "u \<noteq> []"
  shows "getBridgeDeviceId (p @ TOPIC_SUFFIX_DEVICES @ u @ z) = Some (Some u)"
proof -
  have "drop (length p + length TOPIC_SUFFIX_DEVICES) (p @ TOPIC_SUFFIX_DEVICES @ u @ z) = u @ z" by simp
  then show ?thesis using assms by (simp add: getBridgeDeviceId_def)
qed

lemma getBridgeDeviceId_device:
  assumes "plain_id b" "plain_id u" "b \<noteq> ''devices''" "b \<noteq> ''sys''" "u \<noteq> ''sys''" "u \<noteq> []"
  shows "getBridgeDeviceId (''$oc/bridges/'' @ b @ ''/devices/'' @ u @ ''/sys/'' @ x) = Some (Some u)"
proof -
  let ?s = "''$oc/bridges/'' @ b @ ''/devices/'' @ u @ ''/sys/'' @ x"
  have "strstr ?s ''/devices/'' = Some (''/devices/'' @ u @ ''/sys/'' @ x)"
    using assms by (simp add: prefix_plain_end strstr_plain_skip)
  moreover have "strstr ?s ''/sys/'' = Some (''/sys/'' @ x)"
    using assms by (simp add: prefix_plain_end strstr_plain_skip)
  ultimately show ?thesis
    using getBridgeDeviceId_between [of "''$oc/bridges/'' @ b" u "''/sys/'' @ x"] assms(6) by (simp add: topic_defs)
qed

text \<open>
  An answer to the login or the logout of a device behind a bridge reaches its handler
  with the id of the device between /devices/ and /sys/, and is then also given to the
  handler of unknown topics, while a message whose topic is not known reaches no handler
  at all: the test on the result of OnBridgeArrived is the wrong way round.
\<close>

theorem OnMessageArrived_bridge_inverted:
  assumes "plain_id b" "plain_id u" "plain_id r" "b \<noteq> ''devices''" "b \<noteq> ''sys''" "b \<noteq> ''user''"
    "u \<noteq> []" "u \<noteq> ''sys''" "u \<noteq> ''user''"
  shows "OnMessageArrived E info (''$oc/bridges/'' @ b @ ''/devices/'' @ u @ ''/sys/login/response/request_id='' @ r) message n d =
      map_option (OnOtherUndefinedTopicArrived info (Some u) message)
        (OnBridgesLoginOrLogoutArrived E info (Some u)
           (''$oc/bridges/'' @ b @ ''/devices/'' @ u @ ''/sys/login/response/request_id='' @ r) message True d)
    \<and> OnMessageArrived E info (''$oc/bridges/'' @ b @ ''/devices/'' @ u @ ''/sys/logout/response/request_id='' @ r) message n d =
      map_option (OnOtherUndefinedTopicArrived info (Some u) message)
        (OnBridgesLoginOrLogoutArrived E info (Some u)
           (''$oc/bridges/'' @ b @ ''/devices/'' @ u @ ''/sys/logout/response/request_id='' @ r) message False d)
    \<and> OnMessageArrived E info (''$oc/devices/'' @ u @ ''/sys/unknown'') message n d = Some d"
  using assms getBridgeDeviceId_device [of b u "''login/response/request_id='' @ r"]
    getBridgeDeviceId_device [of b u "''logout/response/request_id='' @ r"]
  by (intro conjI)
    (simp_all add: OnMessageArrived_def topic_search starts_with OnBridgeArrived_def contains_plain_skip
      contains_in_plain bind_map_option map_conv_bind_option comp_def)


theorem OnMessageArrived_bridge_inverted_witness:
  "OnMessageArrived (sample_sdk (JObject [])) (0, 0) (''$oc/devices/'' @ ''d1'' @ ''/sys/unknown'') (Some ''x'') 1 sample_down =
     Some sample_down"
  using OnMessageArrived_bridge_inverted [of "''b''" "''d1''" "''r''" "sample_sdk (JObject [])" "(0, 0)" "Some ''x''" 1 sample_down]
  by (simp add: plain_id_def)

section \<open>The shadow\<close>

text \<open>
  The texts of a freed entry reach the application: when the shadow has the desired
  device rules and then a service that only reports, the application is given, as the
  desired properties of that service, the pointer to the rules that was freed.
\<close>

theorem OnShadowGetResponse_dangling:
  assumes doc: "sdk_parse E message = Some (JObject [(''shadow'', JArray
      [JObject [(''service_id'', JString ''$device_rule''), (''desired'', JObject [(''properties'', props)])],
       JObject [(''service_id'', JString service), (''reported'', JObject [(''properties'', values)])]])])"
    and service: "service \<noteq> ''$device_rule''" "service \<noteq> ''$security_detection_config''"
    and printed: "sdk_print E props = Some text" and upd: "rule_update E (Some text) d = Some d1"
    and handler: "onDeviceShadow (d_handlers d1)" and topic: "request_id_of topic = Some r"
  shows "OnShadowGetResponseArrived E info bridgeDeviceId topic (Some message) d =
    Some (d1 \<lparr>d_app := ShadowDown info bridgeDeviceId (Some r) (Some ''-1'')
      [\<lparr>sh_service_id = Some service, sh_desired_event_time = Some ''-1'', sh_desired_properties = Dangling,
         sh_reported_event_time = None, sh_reported_properties = Valid (sdk_print E values), sh_version = -1\<rparr>] # d_app d1\<rparr>)"
proof -
  have keys: "same_key ''properties'' ''properties''" "same_key ''desired'' ''desired''" "same_key ''reported'' ''reported''"
    "same_key ''service_id'' ''service_id''" "same_key ''shadow'' ''shadow''" "\<not> same_key ''desired'' ''service_id''"
    "\<not> same_key ''reported'' ''service_id''" "\<not> same_key ''reported'' ''desired''" "\<not> same_key ''desired'' ''reported''"
    "\<not> same_key ''version'' ''service_id''" "\<not> same_key ''version'' ''desired''" "\<not> same_key ''version'' ''reported''"
    "\<not> same_key ''event_time'' ''properties''" "\<not> same_key ''object_device_id'' ''shadow''"
    by code_simp+
  show ?thesis
    using assms by (simp add: OnShadowGetResponseArrived_def JSON_Parse_def JSON_Print_def json_getters keys MAX_SERVICE_COUNT_def
        fill_shadow_def free_shadow_def shadow_zero_def or_minus_one_def desired_text_def service_update_def notify_def deref_def)
qed


definition sample_shadow :: json where
  "sample_shadow = JObject [(''shadow'', JArray
     [JObject [(''service_id'', JString ''$device_rule''), (''desired'', JObject [(''properties'', JObject [])])],
      JObject [(''service_id'', JString ''Light''), (''reported'', JObject [(''properties'', JObject [])])]])]"

theorem OnShadowGetResponse_dangling_witness:
  "OnShadowGetResponseArrived (sample_sdk sample_shadow) (0, 0) None ''$oc/devices/d1/sys/shadow/get/response/request_id=7''
     (Some ''x'') sample_down =
   Some (sample_down \<lparr>d_app := [ShadowDown (0, 0) None (Some ''7'') (Some ''-1'')
      [\<lparr>sh_service_id = Some ''Light'', sh_desired_event_time = Some ''-1'', sh_desired_properties = Dangling,
         sh_reported_event_time = None, sh_reported_properties = Valid (Some ''{}''), sh_version = -1\<rparr>]]\<rparr>)"
proof -
  have "rule_update (sample_sdk sample_shadow) (Some ''{}'') sample_down = Some sample_down"
    by code_simp
  then show ?thesis
  using OnShadowGetResponse_dangling [of "sample_sdk sample_shadow" "''x''" "JObject []" "''Light''" "JObject []" "''{}''"
      sample_down sample_down "''$oc/devices/d1/sys/shadow/get/response/request_id=7''" "''7''" "(0, 0)" None]
  by (simp add: sample_sdk_def sample_shadow_def sample_down_def all_handlers_def request_id_of_def)
qed

end
