(* ===== verification/Ota.thy ===== *)
theory Ota
  imports AgentApi
begin

text \<open>
  The transfer of files in src/agentlite/iota\_datatrans.c: the download of an upgrade
  package over HTTPS, the check of its signature, and the upload and download with
  libcurl.  Sockets, OpenSSL, libcurl, SHA-256 and the file system are parameters: what
  each call answers, and for SSL\_read the texts it reads one after the other, \<open>None\<close> for an
  error; behind the list the connection is closed.
\<close>

section \<open>URLs and the request\<close>

definition IP_LENGTH :: nat where "IP_LENGTH = 50"
definition PORT_LENGTH :: nat where "PORT_LENGTH = 6"
definition PKGNAME_MAX :: nat where "PKGNAME_MAX = 1024"
definition PKG_LENGTH :: nat where "PKG_LENGTH = 10"
definition OTA_HTTP_GET :: string where "OTA_HTTP_GET = ''GET ''"
definition OTA_HTTP_VERSION :: string where "OTA_HTTP_VERSION = '' HTTP/1.1'' @ [CHR 0x0A]"
definition OTA_HTTP_HOST :: string where "OTA_HTTP_HOST = ''Host: ''"
definition OTA_LINEFEED :: string where "OTA_LINEFEED = [CHR 0x0A]"
definition OTA_CONTENT_TYPE :: string where "OTA_CONTENT_TYPE = ''Content-Type: application/json'' @ [CHR 0x0A]"
definition OTA_AUTH :: string where "OTA_AUTH = ''Authorization:Bearer ''"
definition OTA_CRLF :: string where "OTA_CRLF = [CHR 0x0D, CHR 0x0A, CHR 0x0D, CHR 0x0A]"
definition OTA_CONTENT_LENGTH :: string where "OTA_CONTENT_LENGTH = ''Content-Length: ''"
definition FILE_NAME_EQUAL :: string where "FILE_NAME_EQUAL = ''filename=''"

text \<open>The name between the last slash before the query and the query; without a query the
  code steps back from the NULL pointer.  The first character is not looked at.\<close>

definition IOTA_OTAv2GetFileNameFromUrl :: "string \<Rightarrow> nat \<Rightarrow> cstr option" where
  "IOTA_OTAv2GetFileNameFromUrl url fileNameBufferLength = do {
     queryStringStart \<leftarrow> strstr url ''?'';
     let q = length url - length queryStringStart;
     Some (case find (\<lambda>i. url ! i = CHR ''/'') (rev [1..<Suc q]) of
             None \<Rightarrow> None
           | Some i \<Rightarrow> strncpy_s fileNameBufferLength (Some (drop (Suc i) url)) (q - Suc i)) }"

text \<open>The address, the port and the path; an address without a path ends in the
  subtraction of a NULL pointer.\<close>

definition IOTA_GetUrlData :: "string \<Rightarrow> nat \<Rightarrow> nat \<Rightarrow> (string \<times> string \<times> string) option option" where
  "IOTA_GetUrlData url portBufferLength ipBufferLength =
    (case strstr url ''//'' of
       None \<Rightarrow> Some None
     | Some tmp \<Rightarrow> (case strstr tmp '':'' of
         None \<Rightarrow> Some None
       | Some tmpContainsColon \<Rightarrow>
          (case strncpy_s ipBufferLength (Some (drop 2 tmp)) (length tmp - length tmpContainsColon - 2) of
             None \<Rightarrow> Some None
           | Some ip \<Rightarrow> do {
               uri \<leftarrow> strstr tmpContainsColon ''/'';
               Some (case strncpy_s portBufferLength (Some (tl tmpContainsColon))
                            (length tmpContainsColon - length uri - 1) of
                       None \<Rightarrow> None | Some port \<Rightarrow> Some (uri, port, ip)) })))"

definition header_parts :: "string \<Rightarrow> string \<Rightarrow> cstr \<Rightarrow> string list" where
  "header_parts uri ip token =
     [OTA_HTTP_GET, uri, OTA_HTTP_VERSION, OTA_HTTP_HOST, ip, OTA_LINEFEED]
     @ (case token of None \<Rightarrow> [] | Some t \<Rightarrow> [OTA_CONTENT_TYPE, OTA_AUTH, t]) @ [OTA_CRLF]"

definition IOTA_GetHttpHeaderLength :: "string \<Rightarrow> string \<Rightarrow> cstr \<Rightarrow> nat" where
  "IOTA_GetHttpHeaderLength uri ip token =
     length OTA_HTTP_GET + length uri + length OTA_HTTP_VERSION + length OTA_HTTP_HOST + length ip + length OTA_LINEFEED
     + (case token of None \<Rightarrow> 0 | Some t \<Rightarrow> length OTA_CONTENT_TYPE + length OTA_AUTH + length t) + length OTA_CRLF"

text \<open>One strcat\_s after the other; \<open>None\<close> is IOTA\_FAILURE.\<close>

fun append_parts :: "nat \<Rightarrow> string list \<Rightarrow> string \<Rightarrow> cstr" where
  "append_parts destMax [] header = Some header"
| "append_parts destMax (part # parts) header =
     Option.bind (strcat_s header destMax (Some part)) (append_parts destMax parts)"

definition IOTA_GetHttpHeader :: "nat \<Rightarrow> string \<Rightarrow> string \<Rightarrow> cstr \<Rightarrow> cstr" where
  "IOTA_GetHttpHeader headerBufferLength uri ip token = append_parts headerBufferLength (header_parts uri ip token) []"

section \<open>The answer\<close>

text \<open>The text up to the first NUL of a buffer that is zero behind what was read.\<close>

definition c_text :: "string \<Rightarrow> string" where
  "c_text buf = takeWhile (\<lambda>c. c \<noteq> CHR 0x00) buf"

definition ends_value :: "char \<Rightarrow> bool" where
  "ends_value c \<longleftrightarrow> c = CHR 0x0D \<or> c = CHR 0x0A \<or> c = CHR '';''"

fun read_name :: "nat \<Rightarrow> string \<Rightarrow> string \<times> bool" where
  "read_name p [] = ([], True)"
| "read_name p (c # rest) =
    (if p \<ge> PKGNAME_MAX then ([], False)
     else if ends_value c then ([], True)
     else (let (name, ok) = read_name (Suc p) rest in (c # name, ok)))"

text \<open>The value behind a key that starts at \<open>i\<close>, in what was read but its last character.\<close>

definition value_region :: "string \<Rightarrow> int \<Rightarrow> string \<Rightarrow> string" where
  "value_region buf i key = drop (nat i + length key) (take (length buf - 1) buf)"

text \<open>The result, the name of the file and its size.  The size is copied into a buffer of
  ten characters.\<close>

definition IOTA_IotReadHeaderFlag :: "string \<Rightarrow> cstr \<Rightarrow> int \<Rightarrow> (int \<times> cstr \<times> int) option" where
  "IOTA_IotReadHeaderFlag buf fileName fileSize =
    (let rspStatusCode = take 3 (c_text (drop 9 buf));
         result = (if rspStatusCode \<noteq> ''200'' then IOTA_FAILURE else 0);
         content_Length_index = GetSubStrIndex (Some (c_text buf)) (Some OTA_CONTENT_LENGTH)
     in if content_Length_index < IOTA_SUCCESS then Some (IOTA_FAILURE, fileName, fileSize)
        else do {
          let pkgSize = takeWhile (\<lambda>c. \<not> ends_value c) (value_region buf content_Length_index OTA_CONTENT_LENGTH);
          guard_ub (length pkgSize < PKG_LENGTH);
          let size = strto64 (c_text pkgSize);
          let filename_index = GetSubStrIndex (Some (c_text buf)) (Some FILE_NAME_EQUAL);
          if filename_index < IOTA_SUCCESS then Some (result, fileName, size)
          else (let (name, ok) = read_name 0 (value_region buf filename_index FILE_NAME_EQUAL)
                in Some (if ok then result else IOTA_FAILURE, Some (c_text name), size)) })"

text \<open>How many characters a write appends to a file with the given content.\<close>

type_synonym disk = "string \<Rightarrow> string \<Rightarrow> nat"

definition fwrite :: "disk \<Rightarrow> string \<Rightarrow> string \<Rightarrow> nat \<times> string" where
  "fwrite disk content data = (let n = min (disk content data) (length data) in (n, content @ take n data))"

definition IOTA_IotReadHeaderData :: "disk \<Rightarrow> string \<Rightarrow> string \<Rightarrow> int \<times> nat \<times> string" where
  "IOTA_IotReadHeaderData disk buf content =
    (let httpHeaderLength = GetSubStrIndex (Some (c_text buf)) (Some OTA_CRLF)
     in if httpHeaderLength < 0 then (IOTA_PARAMETER_EMPTY, 0, content)
        else (let otaBody = drop (nat httpHeaderLength + length OTA_CRLF) buf;
                  (writeLength, content') = fwrite disk content otaBody
              in (if writeLength < length otaBody then IOTA_FAILURE else IOTA_SUCCESS, writeLength, content')))"

text \<open>The reads after the first: the content written in the end.  After an error the code
  writes as many bytes as the unsigned value of -1.\<close>

fun read_rest :: "disk \<Rightarrow> int \<Rightarrow> string option list \<Rightarrow> nat \<Rightarrow> string \<Rightarrow> string option" where
  "read_rest disk fileSize [] writeSize content = Some content"
| "read_rest disk fileSize (None # reads) writeSize content =
    (if int writeSize - 1 < fileSize then None else Some content)"
| "read_rest disk fileSize (Some buf # reads) writeSize content =
    (if int writeSize + int (length buf) < fileSize then
       (let (writeLength, content') = fwrite disk content buf
        in if writeLength < length buf \<or> buf = [] then Some content'
           else read_rest disk fileSize reads (writeSize + writeLength) content')
     else if int writeSize < fileSize then
       Some (snd (fwrite disk content (take (nat (fileSize - int writeSize)) buf)))
     else Some content)"

record net =
  net_addrinfo :: int
  net_addrs :: "(int \<times> bool \<times> bool) list"
  net_ssl :: "int \<Rightarrow> bool"
  net_write :: "string \<Rightarrow> int"
  net_reads :: "string option list"
  net_realpath :: "string \<Rightarrow> string"
  net_open :: "string \<Rightarrow> bool"
  net_disk :: disk

definition file_path :: "heap \<Rightarrow> cstr \<Rightarrow> string \<Rightarrow> cstr option" where
  "file_path mem dir name = (case dir of
     None \<Rightarrow> Some (Some name)
   | Some d \<Rightarrow> if StrEndWith dir (Some ''/'') then CombineStrings mem 2 dir [Some name]
               else CombineStrings mem 3 dir [Some ''/'', Some name])"

text \<open>The result, the name and the file written, with its content.  The result of the
  writes is not looked at.\<close>

definition IOTA_IotRead ::
  "net \<Rightarrow> heap \<Rightarrow> cstr \<Rightarrow> cstr \<Rightarrow> (int \<times> cstr \<times> (string \<times> string) option) option" where
  "IOTA_IotRead N mem otaFilePath otaFileNameOut =
    (let (buf, reads) = (case net_reads N of [] \<Rightarrow> ([], []) | None # rest \<Rightarrow> ([], rest) | Some s # rest \<Rightarrow> (s, rest))
     in do {
       (result, name, fileSize) \<leftarrow> IOTA_IotReadHeaderFlag buf otaFileNameOut 0;
       fileName \<leftarrow> deref name;
       if result < 0 then Some (result, name, None)
       else do {
         fileNameWithPath \<leftarrow> file_path mem otaFilePath fileName;
         case fileNameWithPath of
           None \<Rightarrow> Some (IOTA_FAILURE, name, None)
         | Some path \<Rightarrow>
            (let canonicalFilePath = net_realpath N path
             in if \<not> net_open N canonicalFilePath then Some (IOTA_FAILURE, name, None)
                else (let (ret, writeSize, content) = IOTA_IotReadHeaderData (net_disk N) buf []
                      in if ret = IOTA_FAILURE \<or> int writeSize \<ge> fileSize
                         then Some (result, name, Some (canonicalFilePath, content))
                         else do {
                           content' \<leftarrow> read_rest (net_disk N) fileSize reads writeSize content;
                           Some (result, name, Some (canonicalFilePath, content')) })) } })"

section \<open>The download of a package\<close>

text \<open>The socket of the first address that connects, -1 without one.\<close>

fun first_address :: "int \<Rightarrow> (int \<times> bool \<times> bool) list \<Rightarrow> int" where
  "first_address portInt [] = -1"
| "first_address portInt ((fd, timeout_set, is_connected) # addrs) =
    (if fd < 0 \<or> \<not> timeout_set \<or> portInt = 0 \<or> \<not> is_connected then first_address portInt addrs else fd)"

definition IOTA_ConnectionDomainName :: "net \<Rightarrow> string \<Rightarrow> int" where
  "IOTA_ConnectionDomainName N port =
    (if net_addrinfo N < 0 then IOTA_FAILURE else first_address (strto64 port mod 65536) (net_addrs N))"

definition IOTA_GetOTAPackages_Ext ::
  "net \<Rightarrow> heap \<Rightarrow> cstr \<Rightarrow> cstr \<Rightarrow> int \<Rightarrow> cstr \<Rightarrow> bool \<Rightarrow> cstr \<Rightarrow> (int \<times> cstr \<times> (string \<times> string) option) option" where
  "IOTA_GetOTAPackages_Ext N mem url token timeout otaFilePath hasNameOut otaFilenameOut =
    (case url of
       None \<Rightarrow> Some (IOTA_PARAMETER_ERROR, otaFilenameOut, None)
     | Some u \<Rightarrow>
        if \<not> hasNameOut \<or> timeout \<le> 300 then Some (IOTA_PARAMETER_ERROR, otaFilenameOut, None)
        else do {
          parts \<leftarrow> IOTA_GetUrlData u PORT_LENGTH IP_LENGTH;
          case parts of
            None \<Rightarrow> Some (IOTA_FAILURE, otaFilenameOut, None)
          | Some (uri, port, ip) \<Rightarrow>
              if \<not> net_ssl N (IOTA_ConnectionDomainName N port) then Some (IOTA_FAILURE, otaFilenameOut, None)
              else do {
                (named, name) \<leftarrow> (if token \<noteq> None then Some (True, otaFilenameOut)
                   else do {
                     fromUrl \<leftarrow> IOTA_OTAv2GetFileNameFromUrl u (PKGNAME_MAX + 1);
                     Some (fromUrl \<noteq> None, fromUrl) });
                if \<not> named then Some (IOTA_FAILURE, name, None)
                else (let httpHeaderLength = IOTA_GetHttpHeaderLength uri ip token
                      in if \<not> mem (httpHeaderLength + 1) then Some (IOTA_FAILURE, name, None)
                         else (case IOTA_GetHttpHeader (httpHeaderLength + 1) uri ip token of
                             None \<Rightarrow> Some (IOTA_FAILURE, name, None)
                           | Some httpHeader \<Rightarrow>
                               if net_write N httpHeader < 0 then Some (IOTA_FAILURE, name, None)
                               else IOTA_IotRead N mem otaFilePath name)) } })"

definition IOTA_GetOTAPackages ::
  "net \<Rightarrow> heap \<Rightarrow> cstr \<Rightarrow> cstr \<Rightarrow> int \<Rightarrow> (int \<times> cstr \<times> (string \<times> string) option) option" where
  "IOTA_GetOTAPackages N mem url token timeout = IOTA_GetOTAPackages_Ext N mem url token timeout None True None"

section \<open>The signature\<close>

text \<open>What snprintf\_s leaves in a buffer of the given size is a parameter; \<open>sha256\<close> is the
  digest of the content of a file.\<close>

definition hex02 :: "8 word \<Rightarrow> string" where
  "hex02 b = map (\<lambda>d. ''0123456789abcdef'' ! d) [unat b div 16, unat b mod 16]"

definition mac32_at :: "string \<Rightarrow> nat \<Rightarrow> char" where
  "mac32_at left j = (if j < length left then left ! j else CHR 0x00)"

fun verify_bytes :: "(nat \<Rightarrow> string \<Rightarrow> string) \<Rightarrow> string \<Rightarrow> 8 word list \<Rightarrow> int" where
  "verify_bytes snprintf sign [] = IOTA_SUCCESS"
| "verify_bytes snprintf sign (b # hash) =
    (let mac32 = snprintf 2 (hex02 b)
     in if sign ! 0 \<noteq> mac32_at mac32 0 \<or> sign ! 1 \<noteq> mac32_at mac32 1 then IOTA_FAILURE
        else verify_bytes snprintf (drop 2 sign) hash)"

definition IOTA_OTAVerifySign ::
  "(nat \<Rightarrow> string \<Rightarrow> string) \<Rightarrow> (string \<Rightarrow> 8 word list) \<Rightarrow> (string \<Rightarrow> string) \<Rightarrow> (string \<Rightarrow> cstr) \<Rightarrow> heap
    \<Rightarrow> cstr \<Rightarrow> cstr \<Rightarrow> string \<Rightarrow> int option" where
  "IOTA_OTAVerifySign snprintf sha256 realpath read_file mem sign otaFilePath otaFilename =
    (case sign of
       None \<Rightarrow> Some 0
     | Some s \<Rightarrow>
        if length s \<noteq> 64 then Some 0
        else do {
          fileNameWithPath \<leftarrow> file_path mem otaFilePath otaFilename;
          case fileNameWithPath of
            None \<Rightarrow> Some IOTA_FAILURE
          | Some path \<Rightarrow> (case read_file (realpath path) of
              None \<Rightarrow> Some IOTA_RESOURCE_NOT_AVAILABLE
            | Some content \<Rightarrow> Some (verify_bytes snprintf s (sha256 content))) })"

section \<open>Files with libcurl\<close>

text \<open>The last component of the URL before its query.  A URL of exactly 1024 characters
  before the query is copied without its NUL.\<close>

definition getFileNameToUrl :: "string \<Rightarrow> nat \<Rightarrow> cstr option" where
  "getFileNameToUrl url fileNameLen =
    (case strstr url ''?'' of
       None \<Rightarrow> Some None
     | Some begin_query \<Rightarrow>
        (let n = length url - length begin_query
         in if n > 1024 then Some None
            else do {
              guard_ub (n < 1024);
              Some (let data = take n url
                    in if CHR ''/'' \<notin> set data then None
                       else (let name = rev (takeWhile (\<lambda>c. c \<noteq> CHR ''/'') (rev data))
                             in if length name > fileNameLen then None else Some name)) }))"

record curl =
  curl_init :: bool
  curl_perform :: "string \<Rightarrow> string \<Rightarrow> int \<times> int"
  curl_strerror :: "int \<Rightarrow> string"
  curl_realpath :: "string \<Rightarrow> cstr"
  curl_open :: "string \<Rightarrow> bool"

definition CURLE_OK :: int where "CURLE_OK = 0"
definition CURLE_ABORTED_BY_CALLBACK :: int where "CURLE_ABORTED_BY_CALLBACK = 42"

definition transfer_result :: "int \<Rightarrow> int \<Rightarrow> int" where
  "transfer_result res http_code =
    (if res \<noteq> CURLE_OK \<or> http_code \<noteq> 200 \<and> http_code \<noteq> CURLE_ABORTED_BY_CALLBACK then IOTA_FAILURE else IOTA_SUCCESS)"

definition report_transfer :: "sdk \<Rightarrow> curl \<Rightarrow> cstr \<Rightarrow> int \<Rightarrow> int \<Rightarrow> bool \<Rightarrow> mqtt \<Rightarrow> (int \<times> mqtt) option" where
  "report_transfer E C fileName res http_code isUpload m =
    (let ret = transfer_result res http_code
     in case fileName of
          None \<Rightarrow> Some (ret, m)
        | Some _ \<Rightarrow> do {
            (_, m') \<leftarrow> IOTA_ResultReport E None fileName (if ret = IOTA_SUCCESS then 0 else 1) http_code
                         (Some (curl_strerror C res)) isUpload m;
            Some (ret, m') })"

definition IOTA_UploadFile :: "sdk \<Rightarrow> curl \<Rightarrow> cstr \<Rightarrow> string \<Rightarrow> mqtt \<Rightarrow> (int \<times> mqtt) option" where
  "IOTA_UploadFile E C filePath url m = do {
     urlFileName \<leftarrow> getFileNameToUrl url 1024;
     let path = (if filePath = None then urlFileName else filePath);
     case Option.bind path (curl_realpath C) of
       None \<Rightarrow> Some (IOTA_RESOURCE_NOT_AVAILABLE, m)
     | Some realFilePath \<Rightarrow>
         if \<not> curl_open C realFilePath then Some (IOTA_RESOURCE_NOT_AVAILABLE, m)
         else if \<not> curl_init C then Some (IOTA_FAILURE, m)
         else (let (res, http_code) = curl_perform C url realFilePath
               in report_transfer E C urlFileName res http_code True m) }"

definition IOTA_DownloadFile :: "sdk \<Rightarrow> curl \<Rightarrow> cstr \<Rightarrow> string \<Rightarrow> mqtt \<Rightarrow> (int \<times> mqtt) option" where
  "IOTA_DownloadFile E C filePath url m = do {
     path \<leftarrow> deref filePath;
     if \<not> curl_open C path then Some (IOTA_RESOURCE_NOT_AVAILABLE, m)
     else case curl_realpath C path of
       None \<Rightarrow> Some (IOTA_RESOURCE_NOT_AVAILABLE, m)
     | Some realFilePath \<Rightarrow>
         if \<not> curl_init C then Some (IOTA_FAILURE, m)
         else (let (res, http_code) = curl_perform C url realFilePath
               in do {
                 urlFileName \<leftarrow> getFileNameToUrl url 1024;
                 report_transfer E C urlFileName res http_code False m }) }"

section \<open>The request is whole\<close>

lemma append_parts_fit:
  "length header + length (concat parts) < destMax \<Longrightarrow> append_parts destMax parts header = Some (header @ concat parts)"
  by (induction parts arbitrary: header) (auto simp: strcat_s_def)

text \<open>The length computed for the request is that of its text, so it always fits.\<close>

lemma GetHttpHeader_fits:
  "IOTA_GetHttpHeader (IOTA_GetHttpHeaderLength uri ip token + 1) uri ip token = Some (concat (header_parts uri ip token))"
proof -
  have "length (concat (header_parts uri ip token)) = IOTA_GetHttpHeaderLength uri ip token"
    by (simp add: header_parts_def IOTA_GetHttpHeaderLength_def split: option.split)
  then show ?thesis using append_parts_fit [of "[]" "header_parts uri ip token"] by (simp add: IOTA_GetHttpHeader_def)
qed

lemma strstr_single: "c \<notin> set s \<Longrightarrow> strstr (s @ c # r) [c] = Some (c # r)"
  by (induction s) auto

lemma GetUrlData_reads:
  assumes "CHR ''/'' \<notin> set scheme" "CHR '':'' \<notin> set ip" "CHR ''/'' \<notin> set port" "length ip < 50" "length port < 6"
  shows "IOTA_GetUrlData (scheme @ ''//'' @ ip @ '':'' @ port @ ''/'' @ path) PORT_LENGTH IP_LENGTH = Some (Some (''/'' @ path, port, ip))"
proof -
  let ?rest = "''//'' @ ip @ '':'' @ port @ ''/'' @ path"
  have "strstr (scheme @ ?rest) ''//'' = Some ?rest"
    using assms(1) by (induction scheme) auto
  moreover have "strstr ?rest '':'' = Some ('':'' @ port @ ''/'' @ path)"
    using strstr_single [of "CHR '':''" "''//'' @ ip" "port @ ''/'' @ path"] assms(2) by simp
  moreover have "strstr ('':'' @ port @ ''/'' @ path) ''/'' = Some (''/'' @ path)"
    using strstr_single [of "CHR ''/''" "'':'' @ port" path] assms(3) by simp
  ultimately show ?thesis
    using assms(4,5) by (simp add: IOTA_GetUrlData_def strncpy_s_def IP_LENGTH_def PORT_LENGTH_def)
qed

section \<open>What is downloaded\<close>

lemma fwrite_whole: "length data \<le> disk content data \<Longrightarrow> fwrite disk content data = (length data, content @ data)"
  by (simp add: fwrite_def Let_def)

lemma read_rest_content:
  assumes "\<And>c d. length d \<le> disk c d" "[] \<notin> set bufs" "int (length content) < fileSize"
  shows "read_rest disk fileSize (map Some bufs) (length content) content = Some (take (nat fileSize) (content @ concat bufs))"
  using assms(2,3)
proof (induction bufs arbitrary: content)
  case (Cons buf bufs)
  show ?case
  proof (cases "int (length content) + int (length buf) < fileSize")
    case True
    then have "read_rest disk fileSize (map Some bufs) (length (content @ buf)) (content @ buf) =
        Some (take (nat fileSize) ((content @ buf) @ concat bufs))" using Cons.IH [of "content @ buf"] Cons.prems by simp
    then show ?thesis using True Cons.prems by (auto simp: fwrite_whole [OF assms(1)])
  next
    case False
    then have "nat (fileSize - int (length content)) = nat fileSize - length content"
      "nat fileSize - length content \<le> length buf" using Cons.prems by linarith+
    then show ?thesis using False Cons.prems by (simp add: fwrite_whole [OF assms(1)])
  qed
qed simp


section \<open>Signatures\<close>

text \<open>
  C24. No package is ever found to be signed rightly: the buffer for two digits and their NUL
  has two bytes, so whatever snprintf\_s leaves there, terminated as documented, differs
  from the digits of any signature; and the call answers 0, success, exactly when the
  signature is missing or of the wrong length.
\<close>

theorem IOTA_OTAVerifySign_inverted:
  assumes "\<And>n s. 0 < n \<Longrightarrow> length (snprintf n s) < n" "\<And>s. length (sha256 s) = 32"
    and "\<And>s. sign = Some s \<Longrightarrow> CHR 0x00 \<notin> set s"
    and "IOTA_OTAVerifySign snprintf sha256 realpath read_file mem sign otaFilePath otaFilename = Some r"
  shows "r = IOTA_SUCCESS \<longleftrightarrow> sign = None \<or> length (the sign) \<noteq> 64"
proof (cases sign)
  case (Some s)
  have "verify_bytes snprintf s (sha256 c) = IOTA_FAILURE" if "length s = 64" for c
  proof -
    obtain b bs where "sha256 c = b # bs" using assms(2) [of c] by (cases "sha256 c") auto
    moreover have "s ! 1 \<in> set s" using that by (intro nth_mem) simp
    then have "s ! 1 \<noteq> CHR 0x00" using assms(3) [OF Some] by auto
    moreover have "mac32_at (snprintf 2 (hex02 b)) 1 = CHR 0x00"
      using assms(1) [of 2 "hex02 b"] by (simp add: mac32_at_def)
    ultimately show ?thesis by simp
  qed
  then show ?thesis
    using assms(4) Some by (auto simp: IOTA_OTAVerifySign_def error_codes bind_eq_Some_conv split: option.splits if_splits)
qed (use assms(4) in \<open>simp add: IOTA_OTAVerifySign_def error_codes\<close>)

text \<open>A package of four bytes, in two reads.\<close>

definition sample_answer :: string where
  "sample_answer = ''HTTP/1.1 200 OK'' @ [CHR 0x0A] @ ''Content-Length: 4'' @ OTA_CRLF @ ''ab''"

definition sample_net :: net where
  "sample_net = \<lparr>net_addrinfo = 0, net_addrs = [(3, True, True)], net_ssl = (\<lambda>fd. fd \<ge> 0), net_write = (\<lambda>s. int (length s)),
     net_reads = [Some sample_answer, Some ''cdef''], net_realpath = (\<lambda>p. p), net_open = (\<lambda>_. True),
     net_disk = (\<lambda>_ d. length d)\<rparr>"


theorem IOTA_OTAVerifySign_inverted_witness:
  "IOTA_OTAVerifySign (\<lambda>n s. take (n - 1) s) (\<lambda>_. replicate 32 0) (\<lambda>p. p) (\<lambda>_. Some ''x'') (\<lambda>_. True)
     (Some (replicate 64 (CHR ''0''))) None ''pkg'' \<noteq> Some IOTA_SUCCESS"
proof
  assume eq: "IOTA_OTAVerifySign (\<lambda>n s. take (n - 1) s) (\<lambda>_. replicate 32 0) (\<lambda>p. p) (\<lambda>_. Some ''x'') (\<lambda>_. True)
     (Some (replicate 64 (CHR ''0''))) None ''pkg'' = Some IOTA_SUCCESS"
  have len: "0 < n \<Longrightarrow> length (take (n - 1) s) < n" for n and s :: string by auto
  have "IOTA_SUCCESS = IOTA_SUCCESS \<longleftrightarrow> Some (replicate 64 (CHR ''0'')) = None \<or> length (the (Some (replicate 64 (CHR ''0'')))) \<noteq> 64"
    by (rule IOTA_OTAVerifySign_inverted [OF len _ _ eq]) auto
  then show False by simp
qed

end
