(* ===== verification/Callbacks.thy ===== *)
theory Callbacks
  imports Downlink Ota
begin

text \<open>
  The callbacks: those the MQTT base gives to the Paho client (src/base/mqtt\_base.c), their
  registration (src/service/callback\_func.c and src/agentlite/iota\_init.c), and the default
  callbacks of src/agentlite/iota\_defaultCallback.c with the reconnection.  A function
  pointer is whether it is set for the callbacks of the messages, whose calls the state
  \<open>down\<close> logs, and a name for the callbacks of the protocol.  Response structures are
  allocated successfully; the context pointer is passed through and left out.
\<close>

section \<open>State\<close>

text \<open>The functions that can be registered for the protocol: those of
  iota\_defaultCallback.c and those of an application; the MQTT base can also be given
  \<open>OnLoginSuccess\<close>.\<close>

datatype app_handler = HandleConnectFailure | HandleConnectSuccess | HandleDisConnectSuccess
  | HandleDisConnectFailure | HandleSubscribeFailure | HandleReportFailure | Application nat

datatype base_handler = LoginSuccess | Handler app_handler

datatype callback_item = CONNECT_SUCCESS | CONNECT_FAILURE | DISCONNECT_SUCCESS | DISCONNECT_FAILURE
  | CONNECTION_LOST | PUBLISH_SUCCESS | PUBLISH_FAILURE | SUBSCRIBE_SUCCESS | SUBSCRIBE_FAILURE | OTHER_ITEM int

text \<open>The message id, the code and the message of a response.\<close>

type_synonym protocol_rsp = "int \<times> int \<times> cstr"

record client =
  c_down :: down
  onConnSuccess :: "app_handler option"
  onConnectS :: "base_handler option"
  onConnectF :: "base_handler option"
  onDisconnectS :: "base_handler option"
  onDisconnectF :: "base_handler option"
  onConnectionL :: "base_handler option"
  onSubscribeS :: "base_handler option"
  onSubscribeF :: "base_handler option"
  onPublishS :: "base_handler option"
  onPublishF :: "base_handler option"
  onMessageA :: bool
  retryTimes :: nat
  c_calls :: "(app_handler \<times> protocol_rsp) list"
  c_sleeps :: "int list"

section \<open>Registration\<close>

definition MqttBase_SetCallback :: "callback_item \<Rightarrow> base_handler option \<Rightarrow> client \<Rightarrow> client" where
  "MqttBase_SetCallback item handler c = (case item of
     CONNECT_SUCCESS \<Rightarrow> c \<lparr>onConnectS := handler\<rparr>
   | CONNECT_FAILURE \<Rightarrow> c \<lparr>onConnectF := handler\<rparr>
   | DISCONNECT_SUCCESS \<Rightarrow> c \<lparr>onDisconnectS := handler\<rparr>
   | DISCONNECT_FAILURE \<Rightarrow> c \<lparr>onDisconnectF := handler\<rparr>
   | CONNECTION_LOST \<Rightarrow> c \<lparr>onConnectionL := handler\<rparr>
   | PUBLISH_SUCCESS \<Rightarrow> c \<lparr>onPublishS := handler\<rparr>
   | PUBLISH_FAILURE \<Rightarrow> c \<lparr>onPublishF := handler\<rparr>
   | SUBSCRIBE_SUCCESS \<Rightarrow> c \<lparr>onSubscribeS := handler\<rparr>
   | SUBSCRIBE_FAILURE \<Rightarrow> c \<lparr>onSubscribeF := handler\<rparr>
   | OTHER_ITEM _ \<Rightarrow> c)"

definition MqttBase_SetMessageArrivedCallback :: "bool \<Rightarrow> client \<Rightarrow> client" where
  "MqttBase_SetMessageArrivedCallback handler c = c \<lparr>onMessageA := handler\<rparr>"

text \<open>The callback for a successful connection is wrapped; the others are handed on.\<close>

definition SetProtocolCallback :: "callback_item \<Rightarrow> app_handler option \<Rightarrow> client \<Rightarrow> client" where
  "SetProtocolCallback item callbackHandler c = (case item of
     CONNECT_SUCCESS \<Rightarrow> MqttBase_SetCallback CONNECT_SUCCESS (Some LoginSuccess) (c \<lparr>onConnSuccess := callbackHandler\<rparr>)
   | OTHER_ITEM _ \<Rightarrow> c
   | _ \<Rightarrow> MqttBase_SetCallback item (map_option Handler callbackHandler) c)"

definition IOTA_SetProtocolCallback :: "callback_item \<Rightarrow> app_handler option \<Rightarrow> client \<Rightarrow> client" where
  "IOTA_SetProtocolCallback item callbackHandler c = (case item of
     OTHER_ITEM _ \<Rightarrow> c | _ \<Rightarrow> SetProtocolCallback item callbackHandler c)"

text \<open>Setting a callback of the messages, after which messages are received.\<close>

definition set_handler :: "(handlers \<Rightarrow> handlers) \<Rightarrow> client \<Rightarrow> client" where
  "set_handler f c = MqttBase_SetMessageArrivedCallback True
     (c \<lparr>c_down := (c_down c) \<lparr>d_handlers := f (d_handlers (c_down c))\<rparr>\<rparr>)"

definition SetEventCallback :: "bool \<Rightarrow> client \<Rightarrow> client" where
  "SetEventCallback cb c = set_handler (onEventDown_update (\<lambda>_. cb)) c"

definition SetCmdCallback :: "bool \<Rightarrow> client \<Rightarrow> client" where
  "SetCmdCallback cb c = set_handler (onCmd_update (\<lambda>_. cb)) c"

definition SetCmdCallbackV3 :: "bool \<Rightarrow> client \<Rightarrow> client" where
  "SetCmdCallbackV3 cb c = set_handler (onCmdV3_update (\<lambda>_. cb)) c"

definition SetMessageCallback :: "bool \<Rightarrow> client \<Rightarrow> client" where
  "SetMessageCallback cb c = set_handler (onMessage_update (\<lambda>_. cb)) c"

definition SetRawMessageCallback :: "bool \<Rightarrow> client \<Rightarrow> client" where
  "SetRawMessageCallback cb c = set_handler (onRawMessage_update (\<lambda>_. cb)) c"

definition SetPropSetCallback :: "bool \<Rightarrow> client \<Rightarrow> client" where
  "SetPropSetCallback cb c = set_handler (onPropertiesSet_update (\<lambda>_. cb)) c"

definition SetPropGetCallback :: "bool \<Rightarrow> client \<Rightarrow> client" where
  "SetPropGetCallback cb c = set_handler (onPropertiesGet_update (\<lambda>_. cb)) c"

definition SetShadowGetCallback :: "bool \<Rightarrow> client \<Rightarrow> client" where
  "SetShadowGetCallback cb c = set_handler (onDeviceShadow_update (\<lambda>_. cb)) c"

definition SetUserTopicMsgCallback :: "bool \<Rightarrow> client \<Rightarrow> client" where
  "SetUserTopicMsgCallback cb c = set_handler (onUserTopicMessage_update (\<lambda>_. cb)) c"

definition SetUserTopicRawMsgCallback :: "bool \<Rightarrow> client \<Rightarrow> client" where
  "SetUserTopicRawMsgCallback cb c = set_handler (onUserTopicRawMessage_update (\<lambda>_. cb)) c"

definition SetBridgesDeviceLoginCallback :: "bool \<Rightarrow> client \<Rightarrow> client" where
  "SetBridgesDeviceLoginCallback cb c = set_handler (onBridgesDeviceLogin_update (\<lambda>_. cb)) c"

definition SetBridgesDeviceLogoutCallback :: "bool \<Rightarrow> client \<Rightarrow> client" where
  "SetBridgesDeviceLogoutCallback cb c = set_handler (onBridgesDeviceLogout_update (\<lambda>_. cb)) c"

definition SetBridgesDeviceResetSecretCallback :: "bool \<Rightarrow> client \<Rightarrow> client" where
  "SetBridgesDeviceResetSecretCallback cb c = set_handler (onBridgesDeviceResetSecret_update (\<lambda>_. cb)) c"

definition SetBridgesDevicePalletDisConnCallback :: "bool \<Rightarrow> client \<Rightarrow> client" where
  "SetBridgesDevicePalletDisConnCallback cb c = set_handler (onBridgesDeviceDisconnect_update (\<lambda>_. cb)) c"

definition SetUndefinedMessageCallback :: "bool \<Rightarrow> client \<Rightarrow> client" where
  "SetUndefinedMessageCallback cb c = set_handler (onOtherUndefined_update (\<lambda>_. cb)) c"

definition SetBootstrapCallback :: "bool \<Rightarrow> client \<Rightarrow> client" where
  "SetBootstrapCallback cb c = set_handler (onBootstrap_update (\<lambda>_. cb)) c"

definition SetM2mCallback :: "bool \<Rightarrow> client \<Rightarrow> client" where
  "SetM2mCallback cb c = set_handler (onM2mMessage_update (\<lambda>_. cb)) c"

definition SetEvenSubDeviceCallback :: "bool \<Rightarrow> client \<Rightarrow> client" where
  "SetEvenSubDeviceCallback cb c = set_handler (onSubDevice_update (\<lambda>_. cb)) c"

definition SetEvenOtaVersionUpCallback :: "bool \<Rightarrow> client \<Rightarrow> client" where
  "SetEvenOtaVersionUpCallback cb c = set_handler (onDeviceVersionUp_update (\<lambda>_. cb)) c"

definition SetEvenOtaUrlResponseCallback :: "bool \<Rightarrow> client \<Rightarrow> client" where
  "SetEvenOtaUrlResponseCallback cb c = set_handler (onUrlResponse_update (\<lambda>_. cb)) c"

definition SetNtpCallback :: "bool \<Rightarrow> client \<Rightarrow> client" where
  "SetNtpCallback cb c = set_handler (onNTP_update (\<lambda>_. cb)) c"

definition SetEvenDeviceLogCallback :: "bool \<Rightarrow> client \<Rightarrow> client" where
  "SetEvenDeviceLogCallback cb c = set_handler (onDeviceLog_update (\<lambda>_. cb)) c"

definition SetEvenSoftBusCallback :: "bool \<Rightarrow> client \<Rightarrow> client" where
  "SetEvenSoftBusCallback cb c = set_handler (onSoftBus_update (\<lambda>_. cb)) c"

definition SetEvenTunnelManagerCallback :: "bool \<Rightarrow> client \<Rightarrow> client" where
  "SetEvenTunnelManagerCallback cb c = set_handler (onTunnelManager_update (\<lambda>_. cb)) c"

definition SetEvenFileManagerCallback :: "bool \<Rightarrow> client \<Rightarrow> client" where
  "SetEvenFileManagerCallback cb c = set_handler (onFileManager_update (\<lambda>_. cb)) c"

text \<open>The callback of the remote configuration alone does not make messages be received.\<close>

definition SetDeviceConfigCallback :: "bool \<Rightarrow> client \<Rightarrow> client" where
  "SetDeviceConfigCallback cb c =
     c \<lparr>c_down := (c_down c) \<lparr>d_handlers := (d_handlers (c_down c)) \<lparr>onDeviceConfig := cb\<rparr>\<rparr>\<rparr>"

definition SetDeviceRuleSendMsgCallback :: "bool \<Rightarrow> client \<Rightarrow> client" where
  "SetDeviceRuleSendMsgCallback cb c =
     c \<lparr>c_down := (c_down c) \<lparr>d_rules := RuleMgr_SetSendMsgCallback cb (d_rules (c_down c))\<rparr>\<rparr>"

text \<open>All callbacks of the events at once; the one for device rules is never called.\<close>

record tag_events_ops =
  ops_onSubDevice :: bool
  ops_onNTP :: bool
  ops_onDeviceLog :: bool
  ops_onSoftBus :: bool
  ops_onTunnelManager :: bool
  ops_onFileManager :: bool
  ops_onDeviceRule :: bool

definition SetTagEventsOps :: "tag_events_ops \<Rightarrow> client \<Rightarrow> client" where
  "SetTagEventsOps ops c = set_handler (\<lambda>h. h \<lparr>onSubDevice := ops_onSubDevice ops, onNTP := ops_onNTP ops,
     onDeviceLog := ops_onDeviceLog ops, onSoftBus := ops_onSoftBus ops, onTunnelManager := ops_onTunnelManager ops,
     onFileManager := ops_onFileManager ops\<rparr>) c"

subsection \<open>The functions of iota\_init.c\<close>

definition IOTA_EnableDeviceRuleStorage :: "sdk \<Rightarrow> cstr \<Rightarrow> client \<Rightarrow> client option" where
  "IOTA_EnableDeviceRuleStorage E filepath c = do {
     rm \<leftarrow> RuleMgr_EnableDeviceRuleStorage (sdk_parse E) (sdk_open E) (sdk_rheap E) filepath (d_rules (c_down c));
     Some (c \<lparr>c_down := (c_down c) \<lparr>d_rules := rm\<rparr>\<rparr>) }"

text \<open>In a build with GLOBAL\_VAR\_CONFIG the environment overrides what was set.\<close>

definition set_from_env :: "heap \<Rightarrow> config_item \<Rightarrow> cstr \<Rightarrow> mqtt \<Rightarrow> mqtt option" where
  "set_from_env mem item val m = (if StringLength val = 0 then Some m else map_option snd (SetConfig mem item val m))"

definition GetConnectEnv :: "heap \<Rightarrow> (string \<Rightarrow> cstr) \<Rightarrow> mqtt \<Rightarrow> mqtt option" where
  "GetConnectEnv mem getenv m = do {
     m1 \<leftarrow> set_from_env mem CONFIG_SERVER_IP (getenv ''IOTDA_MQTTC_ADDRESS'') m;
     m2 \<leftarrow> set_from_env mem CONFIG_SERVER_PORT (getenv ''IOTDA_MQTTC_PORT'') m1;
     m3 \<leftarrow> set_from_env mem CONFIG_USERNAME (getenv ''IOTDA_MQTTC_DEVICEID'') m2;
     set_from_env mem CONFIG_PASSWORD (getenv ''IOTDA_MQTTC_PASSWOROD'') m3 }"

definition IOTA_SetCmdCallback :: "bool \<Rightarrow> client \<Rightarrow> client" where
  "IOTA_SetCmdCallback cb c =
     SetCmdCallback cb (c \<lparr>c_down := (c_down c) \<lparr>d_rules := RuleMgr_SetCommandCallbackHandler cb (d_rules (c_down c))\<rparr>\<rparr>)"

definition IOTA_SetEventCallback :: "bool \<Rightarrow> client \<Rightarrow> client" where
  "IOTA_SetEventCallback cb c = SetEventCallback cb c"

definition IOTA_SetCmdCallbackV3 :: "bool \<Rightarrow> client \<Rightarrow> client" where
  "IOTA_SetCmdCallbackV3 cb c = SetCmdCallbackV3 cb c"

definition IOTA_SetMessageCallback :: "bool \<Rightarrow> client \<Rightarrow> client" where
  "IOTA_SetMessageCallback cb c = SetMessageCallback cb c"

definition IOTA_SetRawMessageCallback :: "bool \<Rightarrow> client \<Rightarrow> client" where
  "IOTA_SetRawMessageCallback cb c = SetRawMessageCallback cb c"

definition IOTA_SetPropSetCallback :: "bool \<Rightarrow> client \<Rightarrow> client" where
  "IOTA_SetPropSetCallback cb c = SetPropSetCallback cb c"

definition IOTA_SetPropGetCallback :: "bool \<Rightarrow> client \<Rightarrow> client" where
  "IOTA_SetPropGetCallback cb c = SetPropGetCallback cb c"

definition IOTA_SetShadowGetCallback :: "bool \<Rightarrow> client \<Rightarrow> client" where
  "IOTA_SetShadowGetCallback cb c = SetShadowGetCallback cb c"

definition IOTA_SetUserTopicMsgCallback :: "bool \<Rightarrow> client \<Rightarrow> client" where
  "IOTA_SetUserTopicMsgCallback cb c = SetUserTopicMsgCallback cb c"

definition IOTA_SetUserTopicRawMsgCallback :: "bool \<Rightarrow> client \<Rightarrow> client" where
  "IOTA_SetUserTopicRawMsgCallback cb c = SetUserTopicRawMsgCallback cb c"

definition IOTA_SetBridgesDeviceLoginCallback :: "bool \<Rightarrow> client \<Rightarrow> client" where
  "IOTA_SetBridgesDeviceLoginCallback cb c = SetBridgesDeviceLoginCallback cb c"

definition IOTA_SetBridgesDeviceLogoutCallback :: "bool \<Rightarrow> client \<Rightarrow> client" where
  "IOTA_SetBridgesDeviceLogoutCallback cb c = SetBridgesDeviceLogoutCallback cb c"

definition IOTA_SetBridgesDeviceResetSecretCallback :: "bool \<Rightarrow> client \<Rightarrow> client" where
  "IOTA_SetBridgesDeviceResetSecretCallback cb c = SetBridgesDeviceResetSecretCallback cb c"

definition IOTA_SetBridgesDeviceDisConnCallback :: "bool \<Rightarrow> client \<Rightarrow> client" where
  "IOTA_SetBridgesDeviceDisConnCallback cb c = SetBridgesDevicePalletDisConnCallback cb c"

definition IOTA_SetUndefinedMessageCallback :: "bool \<Rightarrow> client \<Rightarrow> client" where
  "IOTA_SetUndefinedMessageCallback cb c = SetUndefinedMessageCallback cb c"

definition IOTA_SetBootstrapCallback :: "bool \<Rightarrow> client \<Rightarrow> client" where
  "IOTA_SetBootstrapCallback cb c = SetBootstrapCallback cb c"

definition IOTA_SetM2mCallback :: "bool \<Rightarrow> client \<Rightarrow> client" where
  "IOTA_SetM2mCallback cb c = SetM2mCallback cb c"

definition IOTA_SetEvenSubDeviceCallback :: "bool \<Rightarrow> client \<Rightarrow> client" where
  "IOTA_SetEvenSubDeviceCallback cb c = SetEvenSubDeviceCallback cb c"

definition IOTA_SetEvenOtaVersionUpCallback :: "bool \<Rightarrow> client \<Rightarrow> client" where
  "IOTA_SetEvenOtaVersionUpCallback cb c = SetEvenOtaVersionUpCallback cb c"

definition IOTA_SetEvenOtaUrlResponseCallback :: "bool \<Rightarrow> client \<Rightarrow> client" where
  "IOTA_SetEvenOtaUrlResponseCallback cb c = SetEvenOtaUrlResponseCallback cb c"

definition IOTA_SetNtpCallback :: "bool \<Rightarrow> client \<Rightarrow> client" where
  "IOTA_SetNtpCallback cb c = SetNtpCallback cb c"

definition IOTA_SetEvenDeviceLogCallback :: "bool \<Rightarrow> client \<Rightarrow> client" where
  "IOTA_SetEvenDeviceLogCallback cb c = SetEvenDeviceLogCallback cb c"

definition IOTA_SetEvenSoftBusCallback :: "bool \<Rightarrow> client \<Rightarrow> client" where
  "IOTA_SetEvenSoftBusCallback cb c = SetEvenSoftBusCallback cb c"

definition IOTA_SetEvenTunnelManagerCallback :: "bool \<Rightarrow> client \<Rightarrow> client" where
  "IOTA_SetEvenTunnelManagerCallback cb c = SetEvenTunnelManagerCallback cb c"

definition IOTA_SetEvenFileManagerCallback :: "bool \<Rightarrow> client \<Rightarrow> client" where
  "IOTA_SetEvenFileManagerCallback cb c = SetEvenFileManagerCallback cb c"

definition IOTA_SetDeviceConfigCallback :: "bool \<Rightarrow> client \<Rightarrow> client" where
  "IOTA_SetDeviceConfigCallback cb c = SetDeviceConfigCallback cb c"

definition IOTA_SetDeviceRuleSendMsgCallback :: "bool \<Rightarrow> client \<Rightarrow> client" where
  "IOTA_SetDeviceRuleSendMsgCallback cb c = SetDeviceRuleSendMsgCallback cb c"

section \<open>The default callbacks\<close>

definition IOTA_MIN_BACKOFF :: int where "IOTA_MIN_BACKOFF = 1000"
definition IOTA_MAX_BACKOFF :: int where "IOTA_MAX_BACKOFF = 30000"

text \<open>The time to wait in milliseconds; \<open>rand\<close> is the random number.  The products are
  those of unsigned 64-bit numbers, the sum and the comparison are signed.\<close>

definition reconnect_wait :: "nat \<Rightarrow> 64 word \<Rightarrow> int" where
  "reconnect_wait retry rand =
    (let lowBound = 800;
         highBound = 1000;
         randomBackOff = rand mod (highBound - lowBound) + lowBound;
         power = (if retry \<ge> 32 then 31 else retry);
         powParameter = 2 ^ power;
         backOffWithJitter = sint (powParameter * (randomBackOff + lowBound))
     in if IOTA_MIN_BACKOFF + backOffWithJitter > IOTA_MAX_BACKOFF then IOTA_MAX_BACKOFF
        else IOTA_MIN_BACKOFF + backOffWithJitter)"

text \<open>The number of retries is counted up and never set back.\<close>

definition IOTA_HandleConnectFailure :: "sdk \<Rightarrow> 64 word \<Rightarrow> client \<Rightarrow> client option" where
  "IOTA_HandleConnectFailure E rand c =
    (let c1 = c \<lparr>c_sleeps := reconnect_wait (retryTimes c) rand # c_sleeps c, retryTimes := retryTimes c + 1\<rparr>
     in do {
       (ret, m) \<leftarrow> IOTA_Connect (sdk_mqtt E) (sdk_heap E) (d_mqtt (c_down c1));
       Some (c1 \<lparr>c_down := (c_down c1) \<lparr>d_mqtt := m\<rparr>\<rparr>) })"

text \<open>The other defaults only write to the log, which a call of them stands for.\<close>

definition call_app :: "sdk \<Rightarrow> 64 word \<Rightarrow> app_handler \<Rightarrow> protocol_rsp \<Rightarrow> client \<Rightarrow> client option" where
  "call_app E rand h rsp c =
    (let c1 = c \<lparr>c_calls := (h, rsp) # c_calls c\<rparr>
     in if h = HandleConnectFailure then IOTA_HandleConnectFailure E rand c1 else Some c1)"

definition OnLoginSuccess :: "sdk \<Rightarrow> 64 word \<Rightarrow> protocol_rsp \<Rightarrow> client \<Rightarrow> client option" where
  "OnLoginSuccess E rand rsp c =
    (let c1 = c \<lparr>c_down := (c_down c) \<lparr>d_detect := snd (SysHalInit (d_detect (c_down c)))\<rparr>\<rparr>
     in case onConnSuccess c1 of None \<Rightarrow> Some c1 | Some h \<Rightarrow> call_app E rand h rsp c1)"

definition call_base :: "sdk \<Rightarrow> 64 word \<Rightarrow> base_handler option \<Rightarrow> protocol_rsp \<Rightarrow> client \<Rightarrow> client option" where
  "call_base E rand callback rsp c = (case callback of
     None \<Rightarrow> Some c
   | Some LoginSuccess \<Rightarrow> OnLoginSuccess E rand rsp c
   | Some (Handler h) \<Rightarrow> call_app E rand h rsp c)"

section \<open>The callbacks of the client\<close>

text \<open>The response of the Paho client: token, code and message of a failure, the token of
  a success, or NULL.\<close>

definition HandleCallbackFailure ::
  "sdk \<Rightarrow> 64 word \<Rightarrow> base_handler option \<Rightarrow> protocol_rsp option \<Rightarrow> client \<Rightarrow> client option" where
  "HandleCallbackFailure E rand callback response c =
     call_base E rand callback (case response of Some r \<Rightarrow> r | None \<Rightarrow> (0, IOTA_FAILURE, None)) c"

definition HandleCallbackSuccess ::
  "sdk \<Rightarrow> 64 word \<Rightarrow> base_handler option \<Rightarrow> int option \<Rightarrow> client \<Rightarrow> client option" where
  "HandleCallbackSuccess E rand callback response c =
     call_base E rand callback (case response of Some token \<Rightarrow> token | None \<Rightarrow> 0, IOTA_SUCCESS, None) c"

type_synonym on_success = "sdk \<Rightarrow> 64 word \<Rightarrow> int option \<Rightarrow> client \<Rightarrow> client option"
type_synonym on_failure = "sdk \<Rightarrow> 64 word \<Rightarrow> protocol_rsp option \<Rightarrow> client \<Rightarrow> client option"

definition MqttBase_OnConnectSuccess :: on_success where
  "MqttBase_OnConnectSuccess E rand response c = HandleCallbackSuccess E rand (onConnectS c) response c"

definition MqttBase_OnConnectFailure :: on_failure where
  "MqttBase_OnConnectFailure E rand response c = HandleCallbackFailure E rand (onConnectF c) response c"

definition MqttBase_OnSubscribeSuccess :: on_success where
  "MqttBase_OnSubscribeSuccess E rand response c = HandleCallbackSuccess E rand (onSubscribeS c) response c"

definition MqttBase_OnSubscribeFailure :: on_failure where
  "MqttBase_OnSubscribeFailure E rand response c = HandleCallbackFailure E rand (onSubscribeF c) response c"

definition MqttBase_OnPublishSuccess :: on_success where
  "MqttBase_OnPublishSuccess E rand response c = HandleCallbackSuccess E rand (onPublishS c) response c"

definition MqttBase_OnPublishFailure :: on_failure where
  "MqttBase_OnPublishFailure E rand response c = HandleCallbackFailure E rand (onPublishF c) response c"

definition MqttBase_OnDisconnectSuccess :: on_success where
  "MqttBase_OnDisconnectSuccess E rand response c = HandleCallbackSuccess E rand (onDisconnectS c) response c"

definition MqttBase_OnDisconnectFailure :: on_failure where
  "MqttBase_OnDisconnectFailure E rand response c = HandleCallbackFailure E rand (onDisconnectF c) response c"

definition MqttBase_OnConnectionLost :: "sdk \<Rightarrow> 64 word \<Rightarrow> cstr \<Rightarrow> client \<Rightarrow> client option" where
  "MqttBase_OnConnectionLost E rand cause c = call_base E rand (onConnectionL c) (0, IOTA_FAILURE, cause) c"

text \<open>With a NULL topic every search in it answers NULL, so no handler is called.\<close>

definition arrived :: "sdk \<Rightarrow> msg_info \<Rightarrow> cstr \<Rightarrow> cstr \<Rightarrow> int \<Rightarrow> down \<Rightarrow> down option" where
  "arrived E info topic message messageLength d =
    (case topic of None \<Rightarrow> Some d | Some t \<Rightarrow> OnMessageArrived E info t message messageLength d)"

text \<open>The copies have the lengths the client gives for the topic and the payload; the value
  tells the client that the message was taken.\<close>

definition MqttBase_OnMessageArrived :: "sdk \<Rightarrow> string \<Rightarrow> int \<Rightarrow> int \<Rightarrow> string \<Rightarrow> int \<Rightarrow> client \<Rightarrow> (int \<times> client) option" where
  "MqttBase_OnMessageArrived E topicName topicLen msgid payload payloadlen c =
    (let (r1, temp_topic) = CopyStrValue (sdk_heap E) (Some None) (Some topicName) topicLen;
         (r2, temp_payload) = CopyStrValue (sdk_heap E) (Some None) (Some payload) payloadlen
     in if r1 < 0 then Some (-1, c)
        else if r2 < 0 then Some (-1, c)
        else if \<not> onMessageA c then Some (1, c)
        else do {
          d \<leftarrow> arrived E (msgid, 0) (the temp_topic) (the temp_payload) payloadlen (c_down c);
          Some (1, c \<lparr>c_down := d\<rparr>) })"

section \<open>Upgrades and files\<close>

definition ReportOTAVersion :: "sdk \<Rightarrow> cstr \<Rightarrow> mqtt \<Rightarrow> mqtt option" where
  "ReportOTAVersion E object_device_id m = map_option snd (IOTA_OTAVersionReport E
     \<lparr>ov_event_time = None, ov_sw_version = Some ''v1.0'', ov_fw_version = Some ''v1.0'',
      ov_object_device_id = object_device_id\<rparr> m)"

definition ReportUpgradeStatus :: "sdk \<Rightarrow> int \<Rightarrow> cstr \<Rightarrow> cstr \<Rightarrow> mqtt \<Rightarrow> mqtt option" where
  "ReportUpgradeStatus E i version object_device_id m = map_option snd (IOTA_OTAStatusReport E
     (if i = 0
      then \<lparr>us_event_time = None, us_result_code = 0, us_progress = 100, us_description = Some ''success'',
            us_object_device_id = object_device_id, us_version = version\<rparr>
      else \<lparr>us_event_time = None, us_result_code = 1, us_progress = 0, us_description = Some ''failed'',
            us_object_device_id = object_device_id, us_version = version\<rparr>) m)"

definition HandleEvenOtaVersion :: "sdk \<Rightarrow> cstr \<Rightarrow> mqtt \<Rightarrow> mqtt option" where
  "HandleEvenOtaVersion E objectDeviceId m = ReportOTAVersion E objectDeviceId m"

definition HandleEvenOtaUrlResponse :: "net \<Rightarrow> sdk \<Rightarrow> cstr \<Rightarrow> ota_paras option \<Rightarrow> mqtt \<Rightarrow> mqtt option" where
  "HandleEvenOtaUrlResponse N E objectDeviceId ota_paras m = do {
     ota \<leftarrow> deref ota_paras;
     (ret, _, _) \<leftarrow> IOTA_GetOTAPackages_Ext N (sdk_heap E) (op_url ota) (op_access_token ota) 1000 (Some ''.'') True None;
     ReportUpgradeStatus E (if ret = 0 then 0 else -1) (op_version ota) objectDeviceId m }"

definition HandleEventFile :: "sdk \<Rightarrow> curl \<Rightarrow> service_event option \<Rightarrow> mqtt \<Rightarrow> mqtt option" where
  "HandleEventFile E C message m =
    (case message of
       None \<Rightarrow> Some m
     | Some ev \<Rightarrow> do {
         url \<leftarrow> (case se_body ev of FileMgr u \<Rightarrow> u | _ \<Rightarrow> None);
         map_option snd (if se_type ev = TYPE_GET_UPLOAD_URL_RESPONSE then IOTA_UploadFile E C None url m
                         else IOTA_DownloadFile E C None url m) })"

definition IOTA_DefaultCallbackInit :: "client \<Rightarrow> client" where
  "IOTA_DefaultCallbackInit c =
    (let c = SetProtocolCallback CONNECT_SUCCESS (Some HandleConnectSuccess) c;
         c = SetProtocolCallback CONNECT_FAILURE (Some HandleConnectFailure) c;
         c = SetProtocolCallback CONNECTION_LOST (Some HandleConnectFailure) c;
         c = SetProtocolCallback DISCONNECT_SUCCESS (Some HandleDisConnectSuccess) c;
         c = SetProtocolCallback DISCONNECT_FAILURE (Some HandleDisConnectFailure) c;
         c = SetProtocolCallback SUBSCRIBE_FAILURE (Some HandleSubscribeFailure) c;
         c = SetProtocolCallback PUBLISH_FAILURE (Some HandleReportFailure) c;
         c = IOTA_SetEvenOtaVersionUpCallback True c;
         c = IOTA_SetEvenOtaUrlResponseCallback True c
     in IOTA_SetEvenFileManagerCallback True c)"

section \<open>Properties\<close>

subsection \<open>Messages reach the router\<close>

lemma CopyStrValue_0: "CopyStrValue mem dst src 0 = (0, dst)"
  by (simp add: CopyStrValue_def)

text \<open>
  A message reaches the router whole exactly when the client gives the length of its
  topic: with that length and the one of the payload, the topic and the payload go to
  OnMessageArrived as they are and the message is taken; with length 0, which the
  interface of the client (MQTTAsync.h) announces for a topic without NUL characters,
  the message is taken as well but no handler ever sees it.
\<close>

theorem MqttBase_OnMessageArrived_topicLen:
  assumes "heap_ok (sdk_heap E)" "topic \<noteq> []" "payload \<noteq> []" "onMessageA c"
  shows "MqttBase_OnMessageArrived E topic (int (length topic)) msgid payload (int (length payload)) c =
      map_option (\<lambda>d. (1, c \<lparr>c_down := d\<rparr>))
        (OnMessageArrived E (msgid, 0) topic (Some payload) (int (length payload)) (c_down c))
    \<and> MqttBase_OnMessageArrived E topic 0 msgid payload (int (length payload)) c = Some (1, c)"
proof -
  have "CopyStrValue (sdk_heap E) (Some None) (Some topic) (int (length topic)) = (0, Some (Some topic))"
    "CopyStrValue (sdk_heap E) (Some None) (Some payload) (int (length payload)) = (0, Some (Some payload))"
    using CopyStrValue_text [OF assms(1)] assms(2,3) by simp_all
  then show ?thesis using assms(4)
    by (simp add: MqttBase_OnMessageArrived_def arrived_def CopyStrValue_0 map_conv_bind_option o_def)
qed

definition sample_client :: client where
  "sample_client = \<lparr>c_down = sample_down, onConnSuccess = None, onConnectS = None, onConnectF = None,
     onDisconnectS = None, onDisconnectF = None, onConnectionL = None, onSubscribeS = None, onSubscribeF = None,
     onPublishS = None, onPublishF = None, onMessageA = True, retryTimes = 0, c_calls = [], c_sleeps = []\<rparr>"

theorem MqttBase_OnMessageArrived_topicLen_witness:
  "MqttBase_OnMessageArrived (sample_sdk (JObject [])) ''$oc/devices/d1/sys/messages/down'' 0 7 ''x'' 1 sample_client
     = Some (1, sample_client)"
  using MqttBase_OnMessageArrived_topicLen
      [of "sample_sdk (JObject [])" "''$oc/devices/d1/sys/messages/down''" "''x''" sample_client 7]
  by (simp add: sample_sdk_def sample_client_def)

subsection \<open>The time before a new connection\<close>

lemma reconnect_wait_eq:
  "reconnect_wait retry rand = min 30000 (1000 + 2 ^ min retry 31 * (1600 + uint rand mod 200))"
proof -
  define k where "k = (if retry \<ge> 32 then 31 else retry)"
  have k: "k = min retry 31" by (simp add: k_def)
  define r where "r = uint rand mod 200"
  have r: "0 \<le> r" "r < 200" by (simp_all add: r_def)
  have "uint (rand mod 200) = r" by (simp add: uint_mod r_def)
  then have u1: "uint (rand mod 200 + 1600) = r + 1600"
    using r by (simp add: uint_word_ariths)
  have "(2::int) ^ k \<le> 2 ^ 31" unfolding k by (rule power_increasing) auto
  then have "2 ^ k * (r + 1600) \<le> 2 ^ 31 * (1800::int)" using r by (intro mult_mono) auto
  moreover have "0 \<le> 2 ^ k * (r + 1600)" using r by simp
  ultimately have b: "0 \<le> 2 ^ k * (r + 1600)" "2 ^ k * (r + 1600) < 2 ^ 63" by simp_all
  have "uint (2 ^ k * (rand mod 200 + 1600) :: 64 word) = (uint (2 ^ k :: 64 word) * (r + 1600)) mod 2 ^ 64"
    using uint_word_ariths(3) [of "2 ^ k :: 64 word" "rand mod 200 + 1600"] u1 by simp
  moreover have "uint (2 ^ k :: 64 word) = 2 ^ k" using k by (intro uint_2p) (simp add: word_greater_zero_iff)
  ultimately have "uint (2 ^ k * (rand mod 200 + 1600) :: 64 word) = 2 ^ k * (r + 1600)"
    using b by simp
  then have "sint (2 ^ k * (rand mod 200 + 1600) :: 64 word) = 2 ^ k * (r + 1600)"
    using b by (simp add: sint_uint signed_take_bit_int_eq_self)
  then show ?thesis
    by (simp add: reconnect_wait_def Let_def IOTA_MIN_BACKOFF_def IOTA_MAX_BACKOFF_def k_def [symmetric]
        k r_def add.commute min_def)
qed

lemma reconnect_wait_limits: "0 < reconnect_wait retry rand \<and> reconnect_wait retry rand \<le> 30000"
proof -
  define p where "p = 2 ^ min retry 31 * (1600 + uint rand mod 200)"
  have "0 \<le> p" by (simp add: p_def)
  then show ?thesis unfolding reconnect_wait_eq p_def [symmetric] by simp
qed

text \<open>
  C21. The time before a new connection is bounded and never wraps around: for any number
  of retries and any random number it is between 2.6 and 30 seconds, before the fifth
  retry it doubles each time, but for the jitter, and from the fifth on it is 30 seconds.
\<close>

theorem reconnect_wait_bounds:
  "2600 \<le> reconnect_wait retry rand \<and> reconnect_wait retry rand \<le> 30000
   \<and> (if retry < 5 then 1000 + 1600 * 2 ^ retry \<le> reconnect_wait retry rand
                      \<and> reconnect_wait retry rand \<le> 1000 + 1799 * 2 ^ retry
      else reconnect_wait retry rand = 30000)"
proof -
  define r where "r = uint rand mod 200"
  have r: "0 \<le> r" "r < 200" by (simp_all add: r_def)
  have eq: "reconnect_wait retry rand = min 30000 (1000 + 2 ^ min retry 31 * (1600 + r))"
    by (simp add: reconnect_wait_eq r_def)
  show ?thesis
  proof (cases "retry < 5")
    case True
    then have "retry \<in> {0, 1, 2, 3, 4}" by auto
    then show ?thesis using r unfolding eq by auto
  next
    case False
    then have "(2::int) ^ 5 \<le> 2 ^ min retry 31" by (intro power_increasing) auto
    then have "2 ^ 5 * 1600 \<le> 2 ^ min retry 31 * (1600 + r)" using r by (intro mult_mono) auto
    then show ?thesis using False unfolding eq by simp
  qed
qed

subsection \<open>Connecting again\<close>

text \<open>What the client reports of its connection, with the random number drawn then.\<close>

datatype conn_event = ConnectFailed "protocol_rsp option" | ConnectionLost cstr | ConnectSucceeded "int option"

fun on_conn_event :: "sdk \<Rightarrow> 64 word \<times> conn_event \<Rightarrow> client \<Rightarrow> client option" where
  "on_conn_event E (rand, ConnectFailed rsp) c = MqttBase_OnConnectFailure E rand rsp c"
| "on_conn_event E (rand, ConnectionLost cause) c = MqttBase_OnConnectionLost E rand cause c"
| "on_conn_event E (rand, ConnectSucceeded token) c = MqttBase_OnConnectSuccess E rand token c"

fun on_conn_events :: "sdk \<Rightarrow> (64 word \<times> conn_event) list \<Rightarrow> client \<Rightarrow> client option" where
  "on_conn_events E [] c = Some c"
| "on_conn_events E (e # es) c = do { c' \<leftarrow> on_conn_event E e c; on_conn_events E es c' }"

fun is_failure :: "64 word \<times> conn_event \<Rightarrow> bool" where
  "is_failure (_, ConnectSucceeded _) = False"
| "is_failure _ = True"

text \<open>A device that logged in with a password before and was not destroyed since.\<close>

definition logged_in :: "heap \<Rightarrow> string \<Rightarrow> string \<Rightarrow> mqtt \<Rightarrow> bool" where
  "logged_in mem u e m \<longleftrightarrow> heap_ok mem \<and> u \<noteq> [] \<and> g_workDir m \<noteq> None \<and> g_mqttClientCreateFlag m \<noteq> 0
     \<and> g_authMode m = 0 \<and> g_username m = Some u \<and> g_encryptedPassword m = Some e"

lemma logged_in_connects:
  assumes "logged_in mem u e m"
  shows "\<exists>ret. IOTA_Connect env mem m = Some (ret, m \<lparr>mqtt_log :=
    Connected (Some u) (Some (take 64 e)) (co_ssl (g_connOpts m)) # mqtt_log m\<rparr>)"
proof -
  from assms have "heap_ok mem" "g_username m = Some u" "u \<noteq> []" "g_authMode m = 0"
    by (simp_all add: logged_in_def)
  note connect_client_password [OF this, of env]
  moreover obtain w where "g_workDir m = Some w" using assms by (auto simp: logged_in_def)
  moreover have "g_mqttClientCreateFlag m \<noteq> 0" "g_authMode m = 0" "g_encryptedPassword m = Some e"
    using assms by (simp_all add: logged_in_def)
  ultimately show ?thesis
    by (simp add: IOTA_Connect_def CreateConnection_def MqttBase_CreateConnection_def with_cert_paths_def Let_def)
qed

definition default_callbacks :: "client \<Rightarrow> bool" where
  "default_callbacks c \<longleftrightarrow> onConnectF c = Some (Handler HandleConnectFailure)
     \<and> onConnectionL c = Some (Handler HandleConnectFailure)
     \<and> onConnectS c = Some LoginSuccess \<and> onConnSuccess c = Some HandleConnectSuccess"

lemma DefaultCallbackInit_callbacks: "default_callbacks (IOTA_DefaultCallbackInit c)"
  by (simp add: default_callbacks_def IOTA_DefaultCallbackInit_def SetProtocolCallback_def MqttBase_SetCallback_def
      IOTA_SetEvenOtaVersionUpCallback_def IOTA_SetEvenOtaUrlResponseCallback_def IOTA_SetEvenFileManagerCallback_def
      SetEvenOtaVersionUpCallback_def SetEvenOtaUrlResponseCallback_def SetEvenFileManagerCallback_def
      set_handler_def MqttBase_SetMessageArrivedCallback_def Let_def)

lemma DefaultCallbackInit_keeps [simp]:
  "d_mqtt (c_down (IOTA_DefaultCallbackInit c)) = d_mqtt (c_down c)"
  "c_sleeps (IOTA_DefaultCallbackInit c) = c_sleeps c"
  "retryTimes (IOTA_DefaultCallbackInit c) = retryTimes c"
  by (simp_all add: IOTA_DefaultCallbackInit_def SetProtocolCallback_def MqttBase_SetCallback_def
      IOTA_SetEvenOtaVersionUpCallback_def IOTA_SetEvenOtaUrlResponseCallback_def IOTA_SetEvenFileManagerCallback_def
      SetEvenOtaVersionUpCallback_def SetEvenOtaUrlResponseCallback_def SetEvenFileManagerCallback_def
      set_handler_def MqttBase_SetMessageArrivedCallback_def Let_def)

text \<open>One report of the client: a failure leads to one request after one wait.\<close>

lemma on_conn_event_step:
  assumes "default_callbacks c" "logged_in (sdk_heap E) u e (d_mqtt (c_down c))"
  shows "\<exists>c'. on_conn_event E ev c = Some c' \<and> default_callbacks c'
    \<and> logged_in (sdk_heap E) u e (d_mqtt (c_down c'))
    \<and> co_ssl (g_connOpts (d_mqtt (c_down c'))) = co_ssl (g_connOpts (d_mqtt (c_down c)))
    \<and> (if is_failure ev
        then mqtt_log (d_mqtt (c_down c')) =
               Connected (Some u) (Some (take 64 e)) (co_ssl (g_connOpts (d_mqtt (c_down c)))) # mqtt_log (d_mqtt (c_down c))
             \<and> c_sleeps c' = reconnect_wait (retryTimes c) (fst ev) # c_sleeps c \<and> retryTimes c' = retryTimes c + 1
        else mqtt_log (d_mqtt (c_down c')) = mqtt_log (d_mqtt (c_down c))
             \<and> c_sleeps c' = c_sleeps c \<and> retryTimes c' = retryTimes c)"
proof -
  obtain ret where con: "IOTA_Connect (sdk_mqtt E) (sdk_heap E) (d_mqtt (c_down c)) = Some (ret, (d_mqtt (c_down c))
      \<lparr>mqtt_log := Connected (Some u) (Some (take 64 e)) (co_ssl (g_connOpts (d_mqtt (c_down c)))) # mqtt_log (d_mqtt (c_down c))\<rparr>)"
    using logged_in_connects [OF assms(2)] by blast
  show ?thesis using assms con
    by (cases "(E, ev, c)" rule: on_conn_event.cases)
      (simp_all add: default_callbacks_def logged_in_def MqttBase_OnConnectFailure_def MqttBase_OnConnectionLost_def
        MqttBase_OnConnectSuccess_def HandleCallbackFailure_def HandleCallbackSuccess_def call_base_def
        OnLoginSuccess_def call_app_def IOTA_HandleConnectFailure_def Let_def)
qed

text \<open>
  C18. The device keeps trying to connect: with the default callbacks and a login behind it,
  whatever sequence of failed, lost and successful connections the client reports, every
  failure and loss is followed by exactly one more connection request, with the user name
  and encrypted password of the login, after a wait of 30 seconds at most, and no success
  starts the waits anew, since the number of retries is never set back.
\<close>

theorem default_callbacks_reconnect:
  assumes "logged_in (sdk_heap E) u e (d_mqtt (c_down c))"
  shows "\<exists>c' waits. on_conn_events E es (IOTA_DefaultCallbackInit c) = Some c'
    \<and> mqtt_log (d_mqtt (c_down c')) = replicate (length (filter is_failure es))
        (Connected (Some u) (Some (take 64 e)) (co_ssl (g_connOpts (d_mqtt (c_down c))))) @ mqtt_log (d_mqtt (c_down c))
    \<and> c_sleeps c' = waits @ c_sleeps c \<and> length waits = length (filter is_failure es)
    \<and> (\<forall>w \<in> set waits. 0 < w \<and> w \<le> 30000)
    \<and> retryTimes c' = retryTimes c + length (filter is_failure es)"
proof -
  have "\<exists>c' waits. on_conn_events E es c1 = Some c'
    \<and> mqtt_log (d_mqtt (c_down c')) = replicate (length (filter is_failure es))
        (Connected (Some u) (Some (take 64 e)) (co_ssl (g_connOpts (d_mqtt (c_down c1))))) @ mqtt_log (d_mqtt (c_down c1))
    \<and> c_sleeps c' = waits @ c_sleeps c1 \<and> length waits = length (filter is_failure es)
    \<and> (\<forall>w \<in> set waits. 0 < w \<and> w \<le> 30000)
    \<and> retryTimes c' = retryTimes c1 + length (filter is_failure es)"
    if "default_callbacks c1" "logged_in (sdk_heap E) u e (d_mqtt (c_down c1))" for c1
    using that
  proof (induction es arbitrary: c1)
    case (Cons ev es)
    from on_conn_event_step [OF Cons.prems, of ev] obtain c2 where c2: "on_conn_event E ev c1 = Some c2"
      "default_callbacks c2" "logged_in (sdk_heap E) u e (d_mqtt (c_down c2))"
      and step: "co_ssl (g_connOpts (d_mqtt (c_down c2))) = co_ssl (g_connOpts (d_mqtt (c_down c1)))"
      "if is_failure ev
       then mqtt_log (d_mqtt (c_down c2)) =
               Connected (Some u) (Some (take 64 e)) (co_ssl (g_connOpts (d_mqtt (c_down c1)))) # mqtt_log (d_mqtt (c_down c1))
             \<and> c_sleeps c2 = reconnect_wait (retryTimes c1) (fst ev) # c_sleeps c1 \<and> retryTimes c2 = retryTimes c1 + 1
        else mqtt_log (d_mqtt (c_down c2)) = mqtt_log (d_mqtt (c_down c1))
             \<and> c_sleeps c2 = c_sleeps c1 \<and> retryTimes c2 = retryTimes c1"
      by blast
    from Cons.IH [OF c2(2,3)] obtain c' waits where IH: "on_conn_events E es c2 = Some c'"
      "mqtt_log (d_mqtt (c_down c')) = replicate (length (filter is_failure es))
        (Connected (Some u) (Some (take 64 e)) (co_ssl (g_connOpts (d_mqtt (c_down c2))))) @ mqtt_log (d_mqtt (c_down c2))"
      "c_sleeps c' = waits @ c_sleeps c2" "length waits = length (filter is_failure es)"
      "\<forall>w \<in> set waits. 0 < w \<and> w \<le> 30000" "retryTimes c' = retryTimes c2 + length (filter is_failure es)"
      by blast
    show ?case
    proof (cases "is_failure ev")
      case True
      then show ?thesis using c2(1) step IH reconnect_wait_limits [of "retryTimes c1" "fst ev"]
        by (intro exI [of _ c'] exI [of _ "waits @ [reconnect_wait (retryTimes c1) (fst ev)]"])
          (auto simp: replicate_app_Cons_same)
    next
      case False
      then show ?thesis using c2(1) step IH by (intro exI [of _ c'] exI [of _ waits]) auto
    qed
  qed simp
  from this [OF DefaultCallbackInit_callbacks, of c] show ?thesis using assms by simp
qed

text \<open>A device whose login was accepted, loses its connection and fails to connect.\<close>

theorem default_callbacks_reconnect_witness:
  "\<exists>c' waits. on_conn_events (sample_sdk (JObject []))
      [(5, ConnectSucceeded (Some 1)), (77, ConnectionLost None), (1234, ConnectFailed None)]
      (IOTA_DefaultCallbackInit (sample_client \<lparr>c_down := sample_down \<lparr>d_mqtt := sample_mqtt
         \<lparr>g_client := True, g_mqttClientCreateFlag := 1, g_encryptedPassword := Some ''00ff''\<rparr>\<rparr>\<rparr>)) = Some c'
    \<and> c_sleeps c' = waits \<and> length waits = 2 \<and> retryTimes c' = 2"
proof -
  define c where "c = sample_client \<lparr>c_down := sample_down \<lparr>d_mqtt := sample_mqtt
         \<lparr>g_client := True, g_mqttClientCreateFlag := 1, g_encryptedPassword := Some ''00ff''\<rparr>\<rparr>\<rparr>"
  have "logged_in (sdk_heap (sample_sdk (JObject []))) ''dev1'' ''00ff'' (d_mqtt (c_down c))"
    by (simp add: c_def logged_in_def sample_sdk_def sample_mqtt_def mqtt_start_def)
  from default_callbacks_reconnect [OF this, of "[(5, ConnectSucceeded (Some 1)), (77, ConnectionLost None), (1234, ConnectFailed None)]"]
  show ?thesis unfolding c_def [symmetric] by (auto simp: c_def sample_client_def)
qed

end
