(* ===== verification/Bridge.thy ===== *)
theory Bridge
  imports Ota
begin

text \<open>
  The bridge: the topics of src/service/bridge/bridge\_topic\_data.c and the calls of
  src/agentlite/iota\_bridge.c, which build a payload and send it for one of the devices
  behind the bridge.  The counter of the request ids, a 32-bit number, is passed along
  with the state of the MQTT base.
\<close>

section \<open>Topics\<close>

datatype bridge_device_type = BRIDGE_DEVICE_LOGIN | BRIDGE_DEVICE_LOGOUT | BRIDGE_DEVICE_RESET_SECRET
  | BRIDGE_DEVICE_MESSAGES_UP | BRIDGE_DEVICE_COMMANDS_RESPONSE | BRIDGE_DEVICE_PROPERTIES
  | BRIDGE_DEVICE_GATEWAY_PROPERTIES | BRIDGE_DEVICE_SET_PROPERTIES | BRIDGE_DEVICE_GET_PROPERTIES
  | BRIDGE_DEVICE_GET_SHADOW | BRIDGE_DEVICE_EVENTS_UP | BRIDGE_DEVICE_OTHER int

text \<open>The macros of bridge\_topic\_data.h that end the topics: whether a request id follows.\<close>

fun bridge_suffix :: "bridge_device_type \<Rightarrow> string \<times> bool" where
  "bridge_suffix BRIDGE_DEVICE_LOGIN = (''/sys/login/request_id='', True)"
| "bridge_suffix BRIDGE_DEVICE_LOGOUT = (''/sys/logout/request_id='', True)"
| "bridge_suffix BRIDGE_DEVICE_RESET_SECRET = (''/sys/reset_secret/request_id='', True)"
| "bridge_suffix BRIDGE_DEVICE_MESSAGES_UP = (''/sys/messages/up'', False)"
| "bridge_suffix BRIDGE_DEVICE_COMMANDS_RESPONSE = (''/sys/commands/response/request_id='', True)"
| "bridge_suffix BRIDGE_DEVICE_PROPERTIES = (''/sys/properties/report'', False)"
| "bridge_suffix BRIDGE_DEVICE_GATEWAY_PROPERTIES = (''/gateway/sub_devices/properties/report'', False)"
| "bridge_suffix BRIDGE_DEVICE_SET_PROPERTIES = (''/sys/properties/set/response/request_id='', True)"
| "bridge_suffix BRIDGE_DEVICE_GET_PROPERTIES = (''/sys/properties/get/response/request_id='', True)"
| "bridge_suffix BRIDGE_DEVICE_GET_SHADOW = (''/sys/shadow/get/request_id='', True)"
| "bridge_suffix BRIDGE_DEVICE_EVENTS_UP = (''/sys/events/up'', False)"
| "bridge_suffix (BRIDGE_DEVICE_OTHER i) = ([], False)"

text \<open>The text the switch computes for a mode it names.\<close>

definition bridge_topic :: "heap \<Rightarrow> bridge_device_type \<Rightarrow> cstr \<Rightarrow> cstr \<Rightarrow> cstr \<Rightarrow> cstr option" where
  "bridge_topic mem mode username deviceId requestId =
    (let (suf, with_id) = bridge_suffix mode
     in if with_id
        then CombineStrings mem 6 (Some ''$oc/bridges/'') [username, Some ''/devices/'', deviceId, Some suf, requestId]
        else CombineStrings mem 5 (Some ''$oc/bridges/'') [username, Some ''/devices/'', deviceId, Some suf])"

text \<open>The return of the topic stands inside the switch, behind that of the default, and is
  never reached: for a mode it names the function ends without a value, which its caller
  uses.\<close>

definition Birdge_SetTopic :: "heap \<Rightarrow> bridge_device_type \<Rightarrow> cstr \<Rightarrow> cstr \<Rightarrow> mqtt \<Rightarrow> cstr option" where
  "Birdge_SetTopic mem mode deviceId requestId m =
    (let username = MqttBase_GetConfig CONFIG_USERNAME m
     in if username = None then Some None
        else case mode of
          BRIDGE_DEVICE_OTHER i \<Rightarrow> Some None
        | _ \<Rightarrow> do { topic \<leftarrow> bridge_topic mem mode username deviceId requestId; None })"

definition Bridge_ReportDeviceData :: "sdk \<Rightarrow> cstr \<Rightarrow> bridge_device_type \<Rightarrow> cstr \<Rightarrow> cstr \<Rightarrow> action" where
  "Bridge_ReportDeviceData E payload mode deviceId requestId m = do {
     topic \<leftarrow> Birdge_SetTopic (sdk_heap E) mode deviceId requestId m;
     Some (if topic = None then (IOTA_FAILURE, m) else ReportData (sdk_mqtt E) topic payload m) }"

section \<open>Request ids\<close>

text \<open>snprintf\_s writes \<open>count\<close> characters at most.\<close>

definition snprintf_s :: "nat \<Rightarrow> nat \<Rightarrow> string \<Rightarrow> string" where
  "snprintf_s destMax count s = take (min count (destMax - 1)) s"

definition getBridgeRequestId :: "nat \<Rightarrow> 32 word \<Rightarrow> string \<times> 32 word" where
  "getBridgeRequestId requestIdLen gBridgeRequestId =
    (snprintf_s requestIdLen (requestIdLen - 1) (dec_nat (unat gBridgeRequestId)),
     let n = gBridgeRequestId + 1 in if n > 65535 then 0 else n)"

definition gBridgeRequestId_start :: "32 word" where
  "gBridgeRequestId_start = 1"

text \<open>The id of the caller, or the next one in a buffer of six bytes.\<close>

definition request_id_or_next :: "cstr \<Rightarrow> 32 word \<Rightarrow> cstr \<times> 32 word" where
  "request_id_or_next requestId n =
    (if requestId = None then (let (r, n') = getBridgeRequestId 6 n in (Some r, n')) else (requestId, n))"

section \<open>Calls with a request id\<close>

type_synonym counted_action = "32 word \<Rightarrow> mqtt \<Rightarrow> (int \<times> 32 word \<times> mqtt) option"

text \<open>The last step: a payload that is there is sent.\<close>

definition bridge_send :: "sdk \<Rightarrow> bridge_device_type \<Rightarrow> cstr \<Rightarrow> cstr \<Rightarrow> cstr \<Rightarrow> action" where
  "bridge_send E mode deviceId requestId payload m =
     send_payload (\<lambda>p. Bridge_ReportDeviceData E p mode deviceId requestId) payload m"

definition counted :: "32 word \<Rightarrow> (int \<times> mqtt) option \<Rightarrow> (int \<times> 32 word \<times> mqtt) option" where
  "counted n r = map_option (\<lambda>(ret, m). (ret, n, m)) r"

text \<open>An id or a password that is NULL is only logged.\<close>

definition IOTA_BridgeDeviceLogin :: "sdk \<Rightarrow> cstr \<Rightarrow> cstr \<Rightarrow> cstr \<Rightarrow> counted_action" where
  "IOTA_BridgeDeviceLogin E deviceId password requestId n m = do {
     let (rid, n') = request_id_or_next requestId n;
     let timestamp = map_option stamp_buffer (GetClientTimesStamp (sdk_heap E) (sdk_gmtime E));
     let tempEncryptedPwd = StringMalloc (sdk_heap E) None 65;
     (ret, stampbuf, out) \<leftarrow> EncryptWithHMac (env_hmac (sdk_mqtt E)) password timestamp 32 (tempEncryptedPwd \<noteq> None) 0;
     let pwd = (if out = None then tempEncryptedPwd else out);
     let payload = sdk_print E (json_object
       [(''sign_type'', json_int 0), (''timestamp'', CreateString (map_option text_of stampbuf)),
        (''password'', CreateString pwd)]);
     counted n' (bridge_send E BRIDGE_DEVICE_LOGIN deviceId rid payload m) }"

definition IOTA_BridgeDeviceLogout :: "sdk \<Rightarrow> cstr \<Rightarrow> cstr \<Rightarrow> counted_action" where
  "IOTA_BridgeDeviceLogout E deviceId requestId n m =
    (let (rid, n') = request_id_or_next requestId n
     in counted n' (Bridge_ReportDeviceData E (Some []) BRIDGE_DEVICE_LOGOUT deviceId rid m))"

definition IOTA_BridgeDeviceResetSecret :: "sdk \<Rightarrow> cstr \<Rightarrow> cstr \<Rightarrow> cstr \<Rightarrow> cstr \<Rightarrow> counted_action" where
  "IOTA_BridgeDeviceResetSecret E deviceId oldSecret newSecret requestId n m =
    (if deviceId = None \<or> oldSecret = None then Some (IOTA_FAILURE, n, m)
     else (let (rid, n') = request_id_or_next requestId n;
               payload = sdk_print E (json_object
                 [(''old_secret'', CreateString oldSecret), (''new_secret'', CreateString newSecret)])
           in counted n' (bridge_send E BRIDGE_DEVICE_RESET_SECRET deviceId rid payload m)))"

definition IOTA_BridgeDeviceGetDeviceShadow :: "sdk \<Rightarrow> cstr \<Rightarrow> cstr \<Rightarrow> cstr \<Rightarrow> cstr \<Rightarrow> counted_action" where
  "IOTA_BridgeDeviceGetDeviceShadow E deviceId requestId object_device_id service_id n m =
    (if deviceId = None then Some (IOTA_PARAMETER_EMPTY, n, m)
     else (let (rid, n') = request_id_or_next requestId n
           in counted n' (bridge_send E BRIDGE_DEVICE_GET_SHADOW deviceId rid
                (IOTA_GetDeviceShadowPayload E object_device_id service_id) m)))"

section \<open>Messages, properties and responses\<close>

definition IOTA_BridgeDeviceMessagesReport :: "sdk \<Rightarrow> cstr \<Rightarrow> cstr \<Rightarrow> cstr \<Rightarrow> cstr \<Rightarrow> cstr \<Rightarrow> action" where
  "IOTA_BridgeDeviceMessagesReport E deviceId object_device_id name ident content m =
    (if deviceId = None then Some (IOTA_FAILURE, m)
     else bridge_send E BRIDGE_DEVICE_MESSAGES_UP deviceId None
            (IOTA_MessageReportPayload E object_device_id name ident content) m)"

text \<open>The properties of the device behind the bridge go through the payload builder of the
  bridge itself, with its rules.\<close>

definition IOTA_BridgeDevicePropertiesReport ::
  "sdk \<Rightarrow> (command_call \<Rightarrow> bool) \<Rightarrow> cstr \<Rightarrow> service_data list option \<Rightarrow> int \<Rightarrow> rule_mgr \<Rightarrow> mqtt
    \<Rightarrow> (int \<times> rule_event list \<times> rule_mgr \<times> mqtt) option" where
  "IOTA_BridgeDevicePropertiesReport E spawn deviceId pServiceData serviceNum rm m =
    (if deviceId = None then Some (IOTA_FAILURE, [], rm, m)
     else do {
       (payload, events, rm') \<leftarrow> IOTA_PropertiesReportPayload E spawn pServiceData serviceNum rm;
       (ret, m') \<leftarrow> bridge_send E BRIDGE_DEVICE_PROPERTIES deviceId None payload m;
       Some (ret, events, rm', m') })"

definition IOTA_BridgeDeviceBatchPropertiesReport ::
  "sdk \<Rightarrow> cstr \<Rightarrow> device_data list option \<Rightarrow> int \<Rightarrow> int list option \<Rightarrow> action" where
  "IOTA_BridgeDeviceBatchPropertiesReport E deviceId pServiceData serviceNum serviceLenList m =
    (if deviceId = None then Some (IOTA_FAILURE, m)
     else do {
       payload \<leftarrow> IOTA_BatchPropertiesReportPayload E pServiceData serviceNum serviceLenList;
       bridge_send E BRIDGE_DEVICE_GATEWAY_PROPERTIES deviceId None payload m })"

definition IOTA_BridgeDevicePropertiesSetResponse :: "sdk \<Rightarrow> cstr \<Rightarrow> cstr \<Rightarrow> int \<Rightarrow> cstr \<Rightarrow> action" where
  "IOTA_BridgeDevicePropertiesSetResponse E deviceId requestId result_code result_desc m =
    (if requestId = None \<or> deviceId = None then Some (IOTA_PARAMETER_EMPTY, m)
     else bridge_send E BRIDGE_DEVICE_SET_PROPERTIES deviceId requestId
            (IOTA_PropertiesSetResponsePayload E result_code result_desc) m)"

definition IOTA_BridgeDevicePropertiesGetResponse ::
  "sdk \<Rightarrow> cstr \<Rightarrow> cstr \<Rightarrow> service_data list \<Rightarrow> int \<Rightarrow> action" where
  "IOTA_BridgeDevicePropertiesGetResponse E deviceId requestId serviceProp serviceNum m =
    (if serviceNum \<le> 0 then Some (IOTA_FAILURE, m)
     else if requestId = None \<or> deviceId = None then Some (IOTA_PARAMETER_EMPTY, m)
     else do {
       payload \<leftarrow> IOTA_PropertiesGetResponsePayload E serviceProp serviceNum;
       bridge_send E BRIDGE_DEVICE_GET_PROPERTIES deviceId requestId payload m })"

definition IOTA_BridgeDeviceCommandResponse :: "sdk \<Rightarrow> cstr \<Rightarrow> cstr \<Rightarrow> int \<Rightarrow> cstr \<Rightarrow> cstr \<Rightarrow> action" where
  "IOTA_BridgeDeviceCommandResponse E deviceId requestId result_code response_name pcCommandResponse m =
    (if deviceId = None \<or> requestId = None then Some (IOTA_PARAMETER_EMPTY, m)
     else bridge_send E BRIDGE_DEVICE_COMMANDS_RESPONSE deviceId requestId
            (IOTA_CommandResponsePayload E result_code response_name pcCommandResponse) m)"

section \<open>Events\<close>

definition bridge_event :: "sdk \<Rightarrow> cstr \<Rightarrow> cstr \<Rightarrow> action" where
  "bridge_event E deviceId payload m = bridge_send E BRIDGE_DEVICE_EVENTS_UP deviceId None payload m"

definition IOTA_BridgeDeviceUpdateSubDeviceStatus :: "sdk \<Rightarrow> cstr \<Rightarrow> device_statuses option \<Rightarrow> int \<Rightarrow> action" where
  "IOTA_BridgeDeviceUpdateSubDeviceStatus E deviceId device_statuses deviceNum m =
    (if deviceId = None then Some (IOTA_PARAMETER_EMPTY, m)
     else do {
       payload \<leftarrow> IOTA_UpdateSubDeviceStatusPayload E device_statuses deviceNum;
       bridge_event E deviceId payload m })"

definition IOTA_BridgeDeviceAddSubDevice :: "sdk \<Rightarrow> cstr \<Rightarrow> sub_device_info option \<Rightarrow> int \<Rightarrow> action" where
  "IOTA_BridgeDeviceAddSubDevice E deviceId subDevicesInfo deviceNum m =
    (if deviceId = None then Some (IOTA_PARAMETER_EMPTY, m)
     else do {
       payload \<leftarrow> IOTA_AddSubDevicePayload E subDevicesInfo deviceNum;
       bridge_event E deviceId payload m })"

definition IOTA_BridgeDeviceDelSubDevice :: "sdk \<Rightarrow> cstr \<Rightarrow> del_sub_device option \<Rightarrow> int \<Rightarrow> action" where
  "IOTA_BridgeDeviceDelSubDevice E deviceId delSubDevices deviceNum m =
    (if deviceId = None then Some (IOTA_PARAMETER_EMPTY, m)
     else do {
       payload \<leftarrow> IOTA_DelSubDevicePayload E delSubDevices deviceNum;
       bridge_event E deviceId payload m })"

definition IOTA_BridgeDeviceGetUploadFileUrl :: "sdk \<Rightarrow> cstr \<Rightarrow> file_info option \<Rightarrow> action" where
  "IOTA_BridgeDeviceGetUploadFileUrl E deviceId upload m =
    (if deviceId = None then Some (IOTA_PARAMETER_EMPTY, m)
     else do { payload \<leftarrow> IOTA_GetFileUrlPayload E upload True; bridge_event E deviceId payload m })"

definition IOTA_BridgeDeviceGetDownloadFileUrl :: "sdk \<Rightarrow> cstr \<Rightarrow> file_info option \<Rightarrow> action" where
  "IOTA_BridgeDeviceGetDownloadFileUrl E deviceId download m =
    (if deviceId = None then Some (IOTA_PARAMETER_EMPTY, m)
     else do { payload \<leftarrow> IOTA_GetFileUrlPayload E download False; bridge_event E deviceId payload m })"

definition IOTA_BridgeDeviceGetNTPTime :: "sdk \<Rightarrow> cstr \<Rightarrow> action" where
  "IOTA_BridgeDeviceGetNTPTime E deviceId m = bridge_event E deviceId (IOTA_GetNTPTimePayload E) m"

definition IOTA_BridgeDeviceReportDeviceInfo :: "sdk \<Rightarrow> cstr \<Rightarrow> device_info_report option \<Rightarrow> action" where
  "IOTA_BridgeDeviceReportDeviceInfo E deviceId device_info_report m =
     bridge_event E deviceId (IOTA_ReportDeviceInfoPayload E device_info_report) m"

definition IOTA_BridgeDeviceGetLatestSoftBusInfo :: "sdk \<Rightarrow> cstr \<Rightarrow> cstr \<Rightarrow> cstr \<Rightarrow> action" where
  "IOTA_BridgeDeviceGetLatestSoftBusInfo E deviceId busId eventId m =
     bridge_event E deviceId (IOTA_GetLatestSoftBusInfoPayload E busId eventId) m"

definition IOTA_BridgeDeviceReportDeviceLog :: "sdk \<Rightarrow> cstr \<Rightarrow> cstr \<Rightarrow> cstr \<Rightarrow> cstr \<Rightarrow> action" where
  "IOTA_BridgeDeviceReportDeviceLog E deviceId kind content timestamp m =
     bridge_event E deviceId (IOTA_ReportDeviceLogPayload E kind content timestamp) m"

section \<open>The connection of the bridge\<close>

definition IOTA_BridgeConnect :: "mqtt_env \<Rightarrow> heap \<Rightarrow> mqtt \<Rightarrow> (int \<times> mqtt) option" where
  "IOTA_BridgeConnect env mem m = do {
     (_, m') \<leftarrow> IOTA_ConfigSetUint mem BRIDGE_MODE 1 m;
     CreateConnection env mem m' }"

definition IOTA_BridgeIsConnected :: "mqtt_env \<Rightarrow> bool" where
  "IOTA_BridgeIsConnected env = IsConnected env"

definition IOTA_BridgeDisConnect :: "mqtt_env \<Rightarrow> heap \<Rightarrow> mqtt \<Rightarrow> (int \<times> mqtt) option" where
  "IOTA_BridgeDisConnect env mem m = do {
     (_, m') \<leftarrow> IOTA_ConfigSetUint mem BRIDGE_MODE 0 m;
     Some (ReleaseConnection env m') }"

section \<open>The ids do not repeat\<close>

fun request_ids :: "nat \<Rightarrow> 32 word \<Rightarrow> string list" where
  "request_ids 0 n = []"
| "request_ids (Suc k) n = (let (r, n') = getBridgeRequestId 6 n in r # request_ids k n')"

lemma getBridgeRequestId_next:
  assumes "unat n \<le> 65535"
  shows "getBridgeRequestId 6 n = (dec_nat (unat n), word_of_nat ((unat n + 1) mod 65536))"
proof -
  have "length (dec_nat (unat n)) \<le> 5" using assms by (intro length_dec_nat) auto
  then have buf: "snprintf_s 6 (6 - 1) (dec_nat (unat n)) = dec_nat (unat n)" by (simp add: snprintf_s_def)
  define w where "w = n + 1"
  have w: "unat w = unat n + 1" unfolding w_def using assms by (subst unat_add_lem [THEN iffD1]) auto
  have "w > 65535 \<longleftrightarrow> 65535 < unat w" by (simp add: word_less_nat_alt)
  then have "w > 65535 \<longleftrightarrow> unat n = 65535" unfolding w using assms by linarith
  moreover have "w = word_of_nat (unat n + 1)" unfolding w [symmetric] by simp
  ultimately have "(if w > 65535 then 0 else w) = word_of_nat ((unat n + 1) mod 65536)"
    using assms by (cases "unat n = 65535") simp_all
  then show ?thesis unfolding getBridgeRequestId_def Let_def w_def [symmetric] buf by simp
qed

lemma request_ids_eq:
  "unat n \<le> 65535 \<Longrightarrow> request_ids k n = map (\<lambda>i. dec_nat ((unat n + i) mod 65536)) [0..<k]"
proof (induction k arbitrary: n)
  case (Suc k)
  let ?n' = "word_of_nat ((unat n + 1) mod 65536) :: 32 word"
  have u: "unat ?n' = (unat n + 1) mod 65536" by (simp add: unat_of_nat)
  then have "unat ?n' \<le> 65535" by simp
  from Suc.IH [OF this] have "request_ids k ?n' = map (\<lambda>i. dec_nat ((unat n + Suc i) mod 65536)) [0..<k]"
    unfolding u by (simp add: mod_simps)
  then show ?case using Suc.prems
    by (simp add: getBridgeRequestId_next upt_conv_Cons map_Suc_upt [symmetric] o_def del: upt_Suc)
qed simp

text \<open>
  C23. The ids the bridge makes up for its requests are decimal numbers that fit the buffer
  of six bytes, and no two of 65536 requests in a row have the same one, also when the
  counter starts again at 0 in between.
\<close>

theorem request_ids_distinct:
  assumes "n \<le> 65535" "k \<le> 65536"
  shows "distinct (request_ids k n) \<and> (\<forall>r \<in> set (request_ids k n). length r \<le> 5 \<and> list_all is_digit r)"
proof -
  have n: "unat n \<le> 65535" using assms(1) by (simp add: word_le_nat_alt)
  have "inj_on (\<lambda>i. dec_nat ((unat n + i) mod 65536)) {0..<k}"
  proof (rule inj_onI)
    fix i j assume ij: "i \<in> {0..<k}" "j \<in> {0..<k}"
      "dec_nat ((unat n + i) mod 65536) = dec_nat ((unat n + j) mod 65536)"
    then have "(unat n + i) mod 65536 = (unat n + j) mod 65536" by simp
    from arg_cong [OF this, of int] have "(uint n + int i) mod 65536 = (uint n + int j) mod 65536"
      by (simp add: zmod_int)
    from mod_diff_cong [OF this refl, of "uint n"] have "int i mod 65536 = int j mod 65536" by simp
    then show "i = j" using ij assms(2) by simp
  qed
  moreover have "length (dec_nat (x mod 65536)) \<le> 5" for x by (rule length_dec_nat) auto
  ultimately show ?thesis unfolding request_ids_eq [OF n] by (auto simp: distinct_map dec_nat_digits)
qed

theorem request_ids_distinct_witness:
  "request_ids 2 65535 = [''65535'', ''0''] \<and> distinct (request_ids 2 65535)"
proof
  show "request_ids 2 65535 = [''65535'', ''0'']"
    by (simp add: request_ids_eq upt_rec [of _ 2] dec_nat.simps exec_defs)
qed (rule conjunct1 [OF request_ids_distinct], simp_all)

section \<open>No request of a bridge is sent\<close>

text \<open>
  No request of a bridge is ever sent: for each of its modes the topic is built as
  documented, below the user name and the id of the device, but it is lost at the end of
  Birdge\_SetTopic, whose missing value Bridge\_ReportDeviceData then uses; without a user
  name the call fails.
\<close>

theorem Bridge_ReportDeviceData_loses_topic:
  assumes "heap_ok (sdk_heap E)" "\<forall>i. mode \<noteq> BRIDGE_DEVICE_OTHER i"
  shows "bridge_topic (sdk_heap E) mode (Some u) (Some d) (Some r) = Some (Some (''$oc/bridges/'' @ u @ ''/devices/'' @ d @
      fst (bridge_suffix mode) @ (if snd (bridge_suffix mode) then r else [])))
    \<and> Bridge_ReportDeviceData E payload mode deviceId requestId (m \<lparr>g_username := Some u\<rparr>) = None
    \<and> Bridge_ReportDeviceData E payload mode deviceId requestId (m \<lparr>g_username := None\<rparr>)
      = Some (IOTA_FAILURE, m \<lparr>g_username := None\<rparr>)"
proof (intro conjI)
  show "bridge_topic (sdk_heap E) mode (Some u) (Some d) (Some r) = Some (Some (''$oc/bridges/'' @ u @ ''/devices/'' @ d @
      fst (bridge_suffix mode) @ (if snd (bridge_suffix mode) then r else [])))"
    using CombineStrings_ok [OF assms(1), of "''$oc/bridges/''" 6 "[Some u, Some ''/devices/'', Some d, Some x, Some r]" for x]
      CombineStrings_ok [OF assms(1), of "''$oc/bridges/''" 5 "[Some u, Some ''/devices/'', Some d, Some x]" for x]
    by (simp add: bridge_topic_def split: prod.split)
  show "Bridge_ReportDeviceData E payload mode deviceId requestId (m \<lparr>g_username := Some u\<rparr>) = None"
    using assms(2) by (cases mode) (simp_all add: Bridge_ReportDeviceData_def Birdge_SetTopic_def MqttBase_GetConfig_def)
qed (simp add: Bridge_ReportDeviceData_def Birdge_SetTopic_def MqttBase_GetConfig_def)

theorem Bridge_ReportDeviceData_loses_topic_witness:
  "Bridge_ReportDeviceData (sample_sdk (JObject [])) (Some ''{}'') BRIDGE_DEVICE_LOGIN (Some ''d1'') (Some ''1'')
     (sample_mqtt \<lparr>g_username := Some ''b1''\<rparr>) = None"
  using Bridge_ReportDeviceData_loses_topic
      [of "sample_sdk (JObject [])" BRIDGE_DEVICE_LOGIN "''b1''" "''d1''" "''1''" "Some ''{}''" "Some ''d1''" "Some ''1''" sample_mqtt]
  by (simp add: sample_sdk_def)

end
