(* ===== verification/SoftBus.thy ===== *)
theory SoftBus
  imports AgentApi
begin

text \<open>
  The soft bus: the table of buses and devices of src/service/soft\_bus\_datatrans.c, the kits of
  src/service/soft\_bus\_init.c and the interface they call, src/dconncaseone\_interface.c, in a
  build with SOFT\_BUS\_OPTION2.
\<close>

section \<open>State\<close>

record soft_bus_info =
  sb_device_id :: cstr
  sb_device_ip :: cstr

record soft_bus_infos =
  sbi_count :: nat
  bus_key :: cstr
  bus_id :: cstr
  g_device_soft_bus_info :: "soft_bus_info list"
  sbi_version :: int

record soft_bus_total =
  g_soft_bus_info :: "soft_bus_infos list"
  sbt_count :: nat

definition BUS_KEY_LENGTH :: nat where "BUS_KEY_LENGTH = 20"
definition SOFTBUS_TOTAL_LEN :: nat where "SOFTBUS_TOTAL_LEN = 10"
definition SOFTBUS_INFO_LEN :: nat where "SOFTBUS_INFO_LEN = 50"

text \<open>The global table is zero at first.\<close>

definition no_bus :: soft_bus_infos where
  "no_bus = \<lparr>sbi_count = 0, bus_key = None, bus_id = None,
     g_device_soft_bus_info = replicate SOFTBUS_INFO_LEN \<lparr>sb_device_id = None, sb_device_ip = None\<rparr>, sbi_version = 0\<rparr>"

definition g_soft_bus_total :: soft_bus_total where
  "g_soft_bus_total = \<lparr>g_soft_bus_info = replicate SOFTBUS_TOTAL_LEN no_bus, sbt_count = 0\<rparr>"

section \<open>Looking up\<close>

text \<open>The entries the counts cover; the first whose field has the value, where a NULL field
  before it is undefined.\<close>

definition bus_devices :: "soft_bus_infos \<Rightarrow> soft_bus_info list" where
  "bus_devices b = take (sbi_count b) (g_device_soft_bus_info b)"

definition buses :: "soft_bus_total \<Rightarrow> soft_bus_infos list" where
  "buses t = take (sbt_count t) (g_soft_bus_info t)"

fun find_device :: "(soft_bus_info \<Rightarrow> cstr) \<Rightarrow> string \<Rightarrow> soft_bus_info list \<Rightarrow> soft_bus_info option option" where
  "find_device fld s [] = Some None"
| "find_device fld s (d # ds) = do {
     x \<leftarrow> deref (fld d);
     if x = s then Some (Some d) else find_device fld s ds }"

definition find_in_buses :: "(soft_bus_info \<Rightarrow> cstr) \<Rightarrow> string \<Rightarrow> soft_bus_total \<Rightarrow> soft_bus_info option option" where
  "find_in_buses fld s t = find_device fld s (concat (map bus_devices (buses t)))"

definition isValidIP :: "soft_bus_total \<Rightarrow> cstr \<Rightarrow> bool option" where
  "isValidIP t ip_addr = (case ip_addr of None \<Rightarrow> Some False
     | Some s \<Rightarrow> map_option (\<lambda>r. r \<noteq> None) (find_in_buses sb_device_ip s t))"

definition isValidDeviceID :: "soft_bus_total \<Rightarrow> cstr \<Rightarrow> bool option" where
  "isValidDeviceID t device_id = (case device_id of None \<Rightarrow> Some False
     | Some s \<Rightarrow> map_option (\<lambda>r. r \<noteq> None) (find_in_buses sb_device_id s t))"

text \<open>The copy is given the length of the address as the size of its buffer, so it fails and
  leaves an empty text.\<close>

definition getIpAddr :: "heap \<Rightarrow> soft_bus_total \<Rightarrow> cstr \<Rightarrow> cstr option" where
  "getIpAddr mem t device_id = (case device_id of None \<Rightarrow> Some None
     | Some s \<Rightarrow> do {
         r \<leftarrow> find_in_buses sb_device_id s t;
         case r of None \<Rightarrow> Some None
         | Some d \<Rightarrow> do {
             ip \<leftarrow> deref (sb_device_ip d);
             let sz = length ip;
             guard_ub (mem (sz + 1));
             Some (Some (case strncpy_s sz (Some ip) sz of None \<Rightarrow> [] | Some x \<Rightarrow> x)) } })"

text \<open>The keys of the buses the target is on, joined by commas.  With the text goes the size
  of its buffer: when a larger one cannot be had the old one is kept, and a write past its
  end is undefined.  A text that does not fit makes the joined text empty.\<close>

definition append_s :: "nat \<Rightarrow> nat \<Rightarrow> string \<Rightarrow> string \<Rightarrow> string option" where
  "append_s cap destMax s tail = (case strncat_s s destMax (Some tail) (length tail) of
     None \<Rightarrow> Some []
   | Some s' \<Rightarrow> do { guard_ub (length s' < cap); Some s' })"

fun auth_keys :: "heap \<Rightarrow> string \<Rightarrow> soft_bus_infos list \<Rightarrow> (string \<times> nat) option \<Rightarrow> (string \<times> nat) option option" where
  "auth_keys mem target [] result = Some result"
| "auth_keys mem target (b # bs) result = do {
     r \<leftarrow> find_device sb_device_id target (bus_devices b);
     if r = None then auth_keys mem target bs result
     else do {
       key \<leftarrow> deref (bus_key b);
       case result of
         None \<Rightarrow> do {
           guard_ub (mem (BUS_KEY_LENGTH + 1));
           auth_keys mem target bs (Some (case strncpy_s BUS_KEY_LENGTH (Some key) (length key + 1) of
             None \<Rightarrow> [] | Some x \<Rightarrow> x, BUS_KEY_LENGTH + 1)) }
       | Some (s, cap) \<Rightarrow> do {
           let resultLen = length s + (BUS_KEY_LENGTH + 1);
           let cap' = (if mem resultLen then resultLen else cap);
           s1 \<leftarrow> append_s cap' resultLen s '','';
           s2 \<leftarrow> append_s cap' resultLen s1 key;
           auth_keys mem target bs (Some (s2, cap')) } } }"

definition getAuthKey :: "heap \<Rightarrow> soft_bus_total \<Rightarrow> mqtt \<Rightarrow> cstr \<Rightarrow> cstr \<Rightarrow> cstr option" where
  "getAuthKey mem t m src_device_id target_device_id = (case (src_device_id, target_device_id) of
     (Some src, Some target) \<Rightarrow> do {
       username \<leftarrow> deref (MqttBase_GetConfig CONFIG_USERNAME m);
       if src \<noteq> username then Some None
       else do {
         r \<leftarrow> auth_keys mem target (buses t) None;
         Some (map_option fst r) } }
   | _ \<Rightarrow> Some None)"

definition getDeviceId :: "mqtt \<Rightarrow> cstr" where
  "getDeviceId m = MqttBase_GetConfig CONFIG_USERNAME m"

section \<open>Changing the table\<close>

definition release_device :: "soft_bus_info \<Rightarrow> soft_bus_info" where
  "release_device d = d \<lparr>sb_device_id := None, sb_device_ip := None\<rparr>"

definition release_bus :: "soft_bus_infos \<Rightarrow> soft_bus_infos" where
  "release_bus b = b \<lparr>g_device_soft_bus_info := map release_device (bus_devices b) @ drop (sbi_count b) (g_device_soft_bus_info b),
     sbi_count := 0, sbi_version := -1, bus_id := None, bus_key := None\<rparr>"

definition releaseSoftBusCache :: "soft_bus_total \<Rightarrow> int \<times> soft_bus_total" where
  "releaseSoftBusCache t = (0, t \<lparr>g_soft_bus_info := map release_bus (buses t) @ drop (sbt_count t) (g_soft_bus_info t),
     sbt_count := 0\<rparr>)"

text \<open>The devices of one bus.  An id that is no text cannot be compared; the address is not
  looked at when the id is missing.\<close>

fun fill_devices :: "heap \<Rightarrow> json list \<Rightarrow> nat \<Rightarrow> soft_bus_info list \<Rightarrow> (nat \<times> soft_bus_info list) option" where
  "fill_devices mem [] j ds = Some (j, ds)"
| "fill_devices mem (e # es) j ds = do {
     deviceId \<leftarrow> deref (JSON_GetStringFromObject (Some e) ''device_id'' (Some ''-1''));
     if deviceId = ''-1'' then fill_devices mem es j ds
     else do {
       deviceIp \<leftarrow> deref (JSON_GetStringFromObject (Some e) ''device_ip'' (Some ''-1''));
       if deviceIp = ''-1'' then fill_devices mem es j ds
       else do {
         d \<leftarrow> CombineStrings mem 1 (Some deviceId) [];
         ip \<leftarrow> CombineStrings mem 1 (Some deviceIp) [];
         let ds' = ds[j := \<lparr>sb_device_id = d, sb_device_ip = ip\<rparr>];
         if j + 1 \<ge> SOFTBUS_INFO_LEN then Some (j + 1, ds')
         else fill_devices mem es (j + 1) ds' } } }"

text \<open>The key and id of a bus are stored after the table was found to be full, so those of
  the last bus are not.\<close>

fun fill_buses :: "heap \<Rightarrow> json list \<Rightarrow> nat \<Rightarrow> soft_bus_infos list \<Rightarrow> (nat \<times> soft_bus_infos list) option" where
  "fill_buses mem [] i bs = Some (i, bs)"
| "fill_buses mem (e # es) i bs = do {
     let busKey = JSON_GetStringFromObject (Some e) ''bus_key'' (Some ''-1'');
     let busId = JSON_GetStringFromObject (Some e) ''bus_id'' (Some ''-1'');
     (j, ds) \<leftarrow> fill_devices mem (map snd (child_list (GetObjectItem (Some e) ''devices_info''))) 0
                  (g_device_soft_bus_info (bs ! i));
     let b = (bs ! i) \<lparr>g_device_soft_bus_info := ds, sbi_count := j\<rparr>;
     if i + 1 \<ge> SOFTBUS_TOTAL_LEN then Some (i + 1, bs[i := b])
     else do {
       k \<leftarrow> CombineStrings mem 1 busKey [];
       ident \<leftarrow> CombineStrings mem 1 busId [];
       fill_buses mem es (i + 1) (bs[i := b \<lparr>bus_key := k, bus_id := ident\<rparr>]) } }"

definition softBusParasToTotal :: "heap \<Rightarrow> json option \<Rightarrow> soft_bus_total \<Rightarrow> (int \<times> soft_bus_total) option" where
  "softBusParasToTotal mem paras t = (case GetObjectItem paras ''bus_infos'' of
     None \<Rightarrow> Some (-1, t)
   | Some busInfos \<Rightarrow> do {
       (i, bs) \<leftarrow> fill_buses mem (map snd (child_list (Some busInfos))) 0 (g_soft_bus_info t);
       Some (0, t \<lparr>g_soft_bus_info := bs, sbt_count := i\<rparr>) })"

section \<open>The kits\<close>

definition InitDConnCaseOne :: "32 word \<Rightarrow> cstr \<Rightarrow> cstr \<Rightarrow> 32 word \<times> cstr" where
  "InitDConnCaseOne ty ipAry errorIp =
     (-1, map_option (\<lambda>_. ''Please add proximal components.'') errorIp)"

definition DConnSendData :: "cstr \<Rightarrow> cstr \<Rightarrow> 32 word \<Rightarrow> 32 word" where
  "DConnSendData targetDeviceId data dataLen = -1"

definition GetDConnVersion :: cstr where "GetDConnVersion = None"

definition init_kit :: "32 word \<Rightarrow> cstr \<Rightarrow> cstr \<Rightarrow> int \<times> cstr" where
  "init_kit ty ipAry errorIp =
    (if ipAry = None then (-1, errorIp) else map_prod sint (\<lambda>e. e) (InitDConnCaseOne ty ipAry errorIp))"

definition InitServerKit :: "cstr \<Rightarrow> cstr \<Rightarrow> int \<times> cstr" where
  "InitServerKit ipAry errorIp = init_kit 0 ipAry errorIp"

definition InitClientKit :: "cstr \<Rightarrow> cstr \<Rightarrow> int \<times> cstr" where
  "InitClientKit ipAry errorIp = init_kit 1 ipAry errorIp"

section \<open>The table stays within its arrays\<close>

definition bus_ok :: "soft_bus_infos \<Rightarrow> bool" where
  "bus_ok b \<longleftrightarrow> length (g_device_soft_bus_info b) = SOFTBUS_INFO_LEN \<and> sbi_count b \<le> SOFTBUS_INFO_LEN
     \<and> (\<forall>d \<in> set (bus_devices b). sb_device_id d \<noteq> Some ''-1'' \<and> sb_device_ip d \<noteq> Some ''-1'')"

definition soft_bus_ok :: "soft_bus_total \<Rightarrow> bool" where
  "soft_bus_ok t \<longleftrightarrow> length (g_soft_bus_info t) = SOFTBUS_TOTAL_LEN \<and> sbt_count t \<le> SOFTBUS_TOTAL_LEN
     \<and> list_all bus_ok (g_soft_bus_info t)"

lemma CombineStrings_one:
  "CombineStrings mem 1 s [] = Some r \<Longrightarrow> r = None \<or> r = s"
  by (auto simp: CombineStrings_def c_defs StringLength_def Let_def split: if_splits option.splits)

lemma fill_devices_ok:
  assumes "fill_devices mem es j ds = Some (j', ds')" "length ds = SOFTBUS_INFO_LEN" "j < SOFTBUS_INFO_LEN"
    "\<forall>d \<in> set (take j ds). sb_device_id d \<noteq> Some ''-1'' \<and> sb_device_ip d \<noteq> Some ''-1''"
  shows "length ds' = SOFTBUS_INFO_LEN \<and> j' \<le> SOFTBUS_INFO_LEN
    \<and> (\<forall>d \<in> set (take j' ds'). sb_device_id d \<noteq> Some ''-1'' \<and> sb_device_ip d \<noteq> Some ''-1'')"
  using assms
proof (induction mem es j ds rule: fill_devices.induct)
  case (2 mem e es j ds)
  obtain i where i: "deref (JSON_GetStringFromObject (Some e) ''device_id'' (Some ''-1'')) = Some i"
    using 2(4) by (auto simp: bind_eq_Some_conv)
  show ?case
  proof (cases "i = ''-1''")
    case True
    then show ?thesis using 2(1) [OF i True] 2(4-7) i by simp
  next
    case False
    obtain ip where ip: "deref (JSON_GetStringFromObject (Some e) ''device_ip'' (Some ''-1'')) = Some ip"
      using 2(4) i False by (auto simp: bind_eq_Some_conv)
    show ?thesis
    proof (cases "ip = ''-1''")
      case True
      then show ?thesis using 2(2) [OF i False ip True] 2(4-7) i ip False by simp
    next
      case ipn: False
      obtain d a where c: "CombineStrings mem 1 (Some i) [] = Some d" "CombineStrings mem 1 (Some ip) [] = Some a"
        using 2(4) i ip False ipn by (auto simp: bind_eq_Some_conv)
      let ?ds = "ds[j := \<lparr>sb_device_id = d, sb_device_ip = a\<rparr>]"
      have "d \<noteq> Some ''-1''" "a \<noteq> Some ''-1''" using CombineStrings_one [OF c(1)] CombineStrings_one [OF c(2)] False ipn by auto
      then have new: "\<forall>x \<in> set (take (j + 1) ?ds). sb_device_id x \<noteq> Some ''-1'' \<and> sb_device_ip x \<noteq> Some ''-1''"
        using 2(5-7) by (auto simp: take_Suc_conv_app_nth)
      show ?thesis
      proof (cases "j + 1 \<ge> SOFTBUS_INFO_LEN")
        case True
        then show ?thesis using 2(4-6) i ip False ipn c new by auto
      next
        case more: False
        show ?thesis using 2(3) [OF i False ip ipn c refl more] 2(4-6) i ip False ipn c new more by simp
      qed
    qed
  qed
qed auto

lemma fill_buses_ok:
  assumes "fill_buses mem es i bs = Some (i', bs')" "length bs = SOFTBUS_TOTAL_LEN" "i < SOFTBUS_TOTAL_LEN"
    "list_all bus_ok bs"
  shows "length bs' = SOFTBUS_TOTAL_LEN \<and> i' \<le> SOFTBUS_TOTAL_LEN \<and> list_all bus_ok bs'"
  using assms
proof (induction mem es i bs rule: fill_buses.induct)
  case (2 mem e es i bs)
  obtain j ds where f: "fill_devices mem (map snd (child_list (GetObjectItem (Some e) ''devices_info''))) 0
      (g_device_soft_bus_info (bs ! i)) = Some (j, ds)"
    using 2(2) by (auto simp: bind_eq_Some_conv Let_def)
  have "bus_ok (bs ! i)" using 2(3-5) by (simp add: list_all_length)
  then have ds: "length ds = SOFTBUS_INFO_LEN" "j \<le> SOFTBUS_INFO_LEN"
      "\<forall>d \<in> set (take j ds). sb_device_id d \<noteq> Some ''-1'' \<and> sb_device_ip d \<noteq> Some ''-1''"
    using fill_devices_ok [OF f] by (auto simp: bus_ok_def SOFTBUS_INFO_LEN_def)
  let ?b = "(bs ! i) \<lparr>g_device_soft_bus_info := ds, sbi_count := j\<rparr>"
  have ok: "bus_ok (?b \<lparr>bus_key := k, bus_id := n\<rparr>)" "bus_ok ?b" for k n
    using ds by (simp_all add: bus_ok_def bus_devices_def)
  have upd: "list_all bus_ok (bs[i := b])" if "bus_ok b" for b
    using that 2(5) by (auto simp: list_all_iff dest: set_update_subset_insert [THEN subsetD])
  show ?case
  proof (cases "i + 1 \<ge> SOFTBUS_TOTAL_LEN")
    case True
    then show ?thesis using 2(2-4) f upd [OF ok(2)] by (auto simp: Let_def)
  next
    case False
    obtain k where k: "CombineStrings mem 1 (JSON_GetStringFromObject (Some e) ''bus_key'' (Some ''-1'')) [] = Some k"
      using 2(2) f False by (auto simp: bind_eq_Some_conv Let_def)
    obtain n where n: "CombineStrings mem 1 (JSON_GetStringFromObject (Some e) ''bus_id'' (Some ''-1'')) [] = Some n"
      using 2(2) f False k by (auto simp: bind_eq_Some_conv Let_def)
    show ?thesis
      using 2(1) [OF refl refl f refl refl False k n] 2(2-4) f False k n upd [OF ok(1)] by (simp add: Let_def)
  qed
qed auto

text \<open>
  The table of the soft bus stays within its arrays: whatever the platform sends, storing
  it or releasing the table leaves ten buses of fifty devices, counts that do not exceed
  them, and no counted device with the placeholder -1 for its id or address.
\<close>

theorem soft_bus_ok_kept:
  assumes "soft_bus_ok t"
  shows "(\<forall>ret t'. softBusParasToTotal mem paras t = Some (ret, t') \<longrightarrow> soft_bus_ok t')
    \<and> soft_bus_ok (snd (releaseSoftBusCache t))"
proof (intro conjI allI impI)
  fix ret t'
  assume "softBusParasToTotal mem paras t = Some (ret, t')"
  then show "soft_bus_ok t'"
    using assms fill_buses_ok [of mem _ 0 "g_soft_bus_info t"]
    by (auto simp: softBusParasToTotal_def soft_bus_ok_def SOFTBUS_TOTAL_LEN_def bind_eq_Some_conv split: option.splits)
next
  have "bus_ok (release_bus b)" if "bus_ok b" for b
    using that by (auto simp: bus_ok_def release_bus_def bus_devices_def)
  then show "soft_bus_ok (snd (releaseSoftBusCache t))" using assms
    by (auto simp: soft_bus_ok_def releaseSoftBusCache_def buses_def list_all_iff dest: in_set_takeD in_set_dropD)
qed

lemma soft_bus_ok_start: "soft_bus_ok g_soft_bus_total"
  by (simp add: soft_bus_ok_def g_soft_bus_total_def bus_ok_def no_bus_def bus_devices_def list_all_iff)

theorem soft_bus_ok_kept_witness:
  "soft_bus_ok g_soft_bus_total \<and> soft_bus_ok (snd (releaseSoftBusCache g_soft_bus_total))"
  using soft_bus_ok_kept [OF soft_bus_ok_start] soft_bus_ok_start by blast

section \<open>What the platform sends is what is looked up\<close>

text \<open>The message for a list of buses, each with key, id and its devices and their addresses.\<close>

type_synonym bus_table = "(string \<times> string \<times> (string \<times> string) list) list"

definition device_json :: "string \<times> string \<Rightarrow> json" where
  "device_json d = JObject [(''device_id'', JString (fst d)), (''device_ip'', JString (snd d))]"

definition bus_json :: "string \<times> string \<times> (string \<times> string) list \<Rightarrow> json" where
  "bus_json b = JObject [(''bus_key'', JString (fst b)), (''bus_id'', JString (fst (snd b))),
     (''devices_info'', JArray (map device_json (snd (snd b))))]"

definition bus_message :: "bus_table \<Rightarrow> json" where
  "bus_message bs = JObject [(''bus_infos'', JArray (map bus_json bs))]"

definition proper :: "string \<Rightarrow> bool" where
  "proper s \<longleftrightarrow> s \<noteq> [] \<and> s \<noteq> ''-1''"

definition proper_devices :: "(string \<times> string) list \<Rightarrow> bool" where
  "proper_devices ds \<longleftrightarrow> (\<forall>d \<in> set ds. proper (fst d) \<and> proper (snd d))"

lemma CombineStrings_copy: "heap_ok mem \<Longrightarrow> s \<noteq> [] \<Longrightarrow> CombineStrings mem 1 (Some s) [] = Some (Some s)"
  by (simp add: CombineStrings_def c_defs StringLength_def)

lemma bus_keys:
  "\<not> same_key ''device_ip'' ''device_id''" "\<not> same_key ''bus_id'' ''bus_key''"
  "\<not> same_key ''devices_info'' ''bus_key''" "\<not> same_key ''devices_info'' ''bus_id''"
  by code_simp+

lemma device_json_get:
  "JSON_GetStringFromObject (Some (device_json d)) ''device_id'' n = Some (fst d)"
  "JSON_GetStringFromObject (Some (device_json d)) ''device_ip'' n = Some (snd d)"
  by (simp_all add: device_json_def json_getters GetObjectItem_def bus_keys)

lemma bus_json_get:
  "JSON_GetStringFromObject (Some (bus_json b)) ''bus_key'' n = Some (fst b)"
  "JSON_GetStringFromObject (Some (bus_json b)) ''bus_id'' n = Some (fst (snd b))"
  "map snd (child_list (GetObjectItem (Some (bus_json b)) ''devices_info'')) = map device_json (snd (snd b))"
  by (simp_all add: bus_json_def json_getters GetObjectItem_def bus_keys child_list_def o_def)

definition stored :: "string \<times> string \<Rightarrow> soft_bus_info" where
  "stored d = \<lparr>sb_device_id = Some (fst d), sb_device_ip = Some (snd d)\<rparr>"

lemma fill_devices_spec:
  assumes "heap_ok mem" "proper_devices es" "length ds = SOFTBUS_INFO_LEN" "j < SOFTBUS_INFO_LEN"
  shows "fill_devices mem (map device_json es) j ds
    = Some (min SOFTBUS_INFO_LEN (j + length es),
        take j ds @ map stored (take (SOFTBUS_INFO_LEN - j) es) @ drop (min SOFTBUS_INFO_LEN (j + length es)) ds)"
  using assms(2-)
proof (induction es arbitrary: j ds)
  case (Cons e es)
  have p: "fst e \<noteq> []" "fst e \<noteq> ''-1''" "snd e \<noteq> []" "snd e \<noteq> ''-1''"
    using Cons.prems(1) by (simp_all add: proper_devices_def proper_def)
  have c: "CombineStrings mem 1 (Some (fst e)) [] = Some (Some (fst e))"
    "CombineStrings mem 1 (Some (snd e)) [] = Some (Some (snd e))"
    using CombineStrings_copy [OF assms(1)] p by simp_all
  have step: "fill_devices mem (map device_json (e # es)) j ds =
      (if j + 1 \<ge> SOFTBUS_INFO_LEN then Some (j + 1, ds[j := stored e])
       else fill_devices mem (map device_json es) (j + 1) (ds[j := stored e]))"
    using p c by (simp add: device_json_get stored_def)
  have upd: "ds[j := stored e] = take j ds @ stored e # drop (j + 1) ds"
    using Cons.prems(2,3) by (simp add: upd_conv_take_nth_drop)
  show ?case
  proof (cases "j + 1 \<ge> SOFTBUS_INFO_LEN")
    case True
    then have l: "SOFTBUS_INFO_LEN = j + 1" "SOFTBUS_INFO_LEN - j = 1" using Cons.prems(3) by simp_all
    then show ?thesis unfolding step l(2) using upd Cons.prems(2) by simp
  next
    case False
    have "proper_devices es" using Cons.prems(1) by (simp add: proper_devices_def)
    from Cons.IH [OF this, of "ds[j := stored e]" "j + 1"] False Cons.prems(2)
    show ?thesis unfolding step upd by (simp add: Suc_diff_le take_Cons' min_def add.commute)
  qed
qed simp

definition bus_entries :: "string \<times> string \<times> (string \<times> string) list \<Rightarrow> soft_bus_info list" where
  "bus_entries b = map stored (take SOFTBUS_INFO_LEN (snd (snd b)))"

lemma fill_buses_spec:
  assumes "heap_ok mem" "\<forall>b \<in> set es. proper_devices (snd (snd b))" "length bs = SOFTBUS_TOTAL_LEN"
    "i < SOFTBUS_TOTAL_LEN" "list_all bus_ok bs"
  shows "\<exists>bs'. fill_buses mem (map bus_json es) i bs = Some (min SOFTBUS_TOTAL_LEN (i + length es), bs')
    \<and> map bus_devices (take (min SOFTBUS_TOTAL_LEN (i + length es)) bs')
      = map bus_devices (take i bs) @ map bus_entries (take (SOFTBUS_TOTAL_LEN - i) es)"
  using assms(2-)
proof (induction es arbitrary: i bs)
  case (Cons e es)
  have "bus_ok (bs ! i)" using Cons.prems(2-4) by (simp add: list_all_length)
  then have len: "length (g_device_soft_bus_info (bs ! i)) = SOFTBUS_INFO_LEN" by (simp add: bus_ok_def)
  let ?j = "min SOFTBUS_INFO_LEN (length (snd (snd e)))"
  let ?ds = "bus_entries e @ drop ?j (g_device_soft_bus_info (bs ! i))"
  have f: "fill_devices mem (map device_json (snd (snd e))) 0 (g_device_soft_bus_info (bs ! i)) = Some (?j, ?ds)"
    using fill_devices_spec [OF assms(1) _ len, of "snd (snd e)" 0] Cons.prems(1)
    by (simp add: bus_entries_def SOFTBUS_INFO_LEN_def)
  let ?b = "(bs ! i) \<lparr>g_device_soft_bus_info := ?ds, sbi_count := ?j\<rparr>"
  have ents: "bus_devices (?b \<lparr>bus_key := k, bus_id := n\<rparr>) = bus_entries e" "bus_devices ?b = bus_entries e" for k n
    by (simp_all add: bus_devices_def bus_entries_def min.commute)
  show ?case
  proof (cases "i + 1 \<ge> SOFTBUS_TOTAL_LEN")
    case True
    then have l: "SOFTBUS_TOTAL_LEN = i + 1" "SOFTBUS_TOTAL_LEN - i = 1" using Cons.prems(3) by simp_all
    have "bs[i := ?b] = take i bs @ [?b]" using Cons.prems(2) l(1) by (simp add: upd_conv_take_nth_drop)
    then show ?thesis unfolding l(2) using f Cons.prems(2) ents(2) l(1) by (simp add: bus_json_get Let_def)
  next
    case False
    obtain k where k: "CombineStrings mem 1 (Some (fst e)) [] = Some k"
      using CombineStrings_copy [OF assms(1), of "fst e"] by (cases "fst e = []") (auto simp: CombineStrings_def StringLength_def)
    obtain n where n: "CombineStrings mem 1 (Some (fst (snd e))) [] = Some n"
      using CombineStrings_copy [OF assms(1), of "fst (snd e)"]
      by (cases "fst (snd e) = []") (auto simp: CombineStrings_def StringLength_def)
    let ?bs = "bs[i := ?b \<lparr>bus_key := k, bus_id := n\<rparr>]"
    have "fill_buses mem (map bus_json (e # es)) i bs = fill_buses mem (map bus_json es) (i + 1) ?bs"
      using f k n False by (simp add: bus_json_get Let_def)
    moreover have "list_all bus_ok ?bs"
    proof -
      have "bus_ok (?b \<lparr>bus_key := k, bus_id := n\<rparr>)" using len Cons.prems(1) ents(1)
        by (auto simp: bus_ok_def bus_entries_def stored_def proper_devices_def proper_def dest!: in_set_takeD)
      then show ?thesis using Cons.prems(4) by (auto simp: list_all_iff dest: set_update_subset_insert [THEN subsetD])
    qed
    moreover have "map bus_devices (take (i + 1) ?bs) = map bus_devices (take i bs) @ [bus_entries e]"
      using Cons.prems(2,3) ents(1) by (simp add: take_Suc_conv_app_nth)
    ultimately show ?thesis using Cons.IH [of ?bs "i + 1"] Cons.prems(1-3) False by (simp add: Suc_diff_le take_Cons')
  qed
qed simp

lemma find_device_stored:
  "(\<forall>d \<in> set ds. fld d \<noteq> None) \<Longrightarrow> find_device fld s ds = Some (find (\<lambda>d. fld d = Some s) ds)"
  by (induction ds) auto

lemma find_Some_iff_ex: "find P xs \<noteq> None \<longleftrightarrow> (\<exists>x \<in> set xs. P x)"
  by (induction xs) auto

text \<open>The devices of a message that are kept: the first fifty of each of the first ten buses.\<close>

definition kept_devices :: "bus_table \<Rightarrow> (string \<times> string) list" where
  "kept_devices bs = concat (map (\<lambda>b. take SOFTBUS_INFO_LEN (snd (snd b))) (take SOFTBUS_TOTAL_LEN bs))"

text \<open>
  C28. Looking up implements the table the platform sent: after a message with a list of
  buses whose devices have ids and addresses, an id or an address is valid exactly if one
  of the first fifty devices of the first ten buses has it, whatever was stored before; but
  the address that is looked up for such an id is always the empty text.
\<close>

theorem softBusParasToTotal_lookup:
  assumes "heap_ok mem" "\<forall>b \<in> set bs. proper_devices (snd (snd b))" "soft_bus_ok t"
  shows "\<exists>t'. softBusParasToTotal mem (Some (bus_message bs)) t = Some (0, t')
    \<and> isValidDeviceID t' (Some s) = Some (s \<in> fst ` set (kept_devices bs))
    \<and> isValidIP t' (Some s) = Some (s \<in> snd ` set (kept_devices bs))
    \<and> getIpAddr mem t' (Some s) = Some (if s \<in> fst ` set (kept_devices bs) then Some [] else None)"
proof -
  have t: "length (g_soft_bus_info t) = SOFTBUS_TOTAL_LEN" "list_all bus_ok (g_soft_bus_info t)" "0 < SOFTBUS_TOTAL_LEN"
    using assms(3) by (simp_all add: soft_bus_ok_def SOFTBUS_TOTAL_LEN_def)
  obtain bs' where f: "fill_buses mem (map bus_json bs) 0 (g_soft_bus_info t) = Some (min SOFTBUS_TOTAL_LEN (length bs), bs')"
    "map bus_devices (take (min SOFTBUS_TOTAL_LEN (length bs)) bs') = map bus_entries (take SOFTBUS_TOTAL_LEN bs)"
    using fill_buses_spec [OF assms(1,2) t(1,3,2)] by auto
  let ?t = "t \<lparr>g_soft_bus_info := bs', sbt_count := min SOFTBUS_TOTAL_LEN (length bs)\<rparr>"
  have run: "softBusParasToTotal mem (Some (bus_message bs)) t = Some (0, ?t)"
    using f(1) by (simp add: softBusParasToTotal_def bus_message_def GetObjectItem_def child_list_def o_def)
  have all: "concat (map bus_devices (buses ?t)) = map stored (kept_devices bs)"
    using f(2) by (simp add: buses_def kept_devices_def bus_entries_def [abs_def] map_concat o_def)
  have find: "find_in_buses sb_device_id s ?t = Some (find (\<lambda>d. sb_device_id d = Some s) (map stored (kept_devices bs)))"
    "find_in_buses sb_device_ip s ?t = Some (find (\<lambda>d. sb_device_ip d = Some s) (map stored (kept_devices bs)))"
    unfolding find_in_buses_def all by (rule find_device_stored; auto simp: stored_def)+
  have ex: "find (\<lambda>d. sb_device_id d = Some s) (map stored ds) \<noteq> None \<longleftrightarrow> s \<in> fst ` set ds"
    "find (\<lambda>d. sb_device_ip d = Some s) (map stored ds) \<noteq> None \<longleftrightarrow> s \<in> snd ` set ds" for ds
    unfolding find_Some_iff_ex by (auto simp: stored_def image_iff)
  have "getIpAddr mem ?t (Some s) = Some (if s \<in> fst ` set (kept_devices bs) then Some [] else None)"
  proof (cases "find (\<lambda>d. sb_device_id d = Some s) (map stored (kept_devices bs))")
    case None
    then show ?thesis using find(1) ex(1) [of "kept_devices bs"] by (simp add: getIpAddr_def)
  next
    case (Some d)
    then have "d \<in> set (map stored (kept_devices bs))" by (auto simp: find_Some_iff)
    then obtain ip where "sb_device_ip d = Some ip" by (auto simp: stored_def)
    then show ?thesis using find(1) ex(1) [of "kept_devices bs"] Some assms(1)
      by (simp add: getIpAddr_def strncpy_s_def)
  qed
  then show ?thesis using run find ex by (simp add: isValidDeviceID_def isValidIP_def)
qed

theorem softBusParasToTotal_lookup_witness:
  "\<exists>t'. softBusParasToTotal (\<lambda>_. True) (Some (bus_message [(''key'', ''bus'', [(''d1'', ''10.0.0.1''), (''d2'', ''10.0.0.2'')])]))
      g_soft_bus_total = Some (0, t')
    \<and> isValidDeviceID t' (Some ''d2'') = Some True \<and> getIpAddr (\<lambda>_. True) t' (Some ''d2'') = Some (Some [])"
  using softBusParasToTotal_lookup [of "\<lambda>_. True" "[(''key'', ''bus'', [(''d1'', ''10.0.0.1''), (''d2'', ''10.0.0.2'')])]"
      g_soft_bus_total "''d2''"]
  by (auto simp: soft_bus_ok_start proper_devices_def proper_def kept_devices_def SOFTBUS_INFO_LEN_def SOFTBUS_TOTAL_LEN_def)

section \<open>The tenth bus\<close>

lemma fill_buses_last_key:
  "fill_buses mem es i bs = Some (i', bs') \<Longrightarrow> length bs = SOFTBUS_TOTAL_LEN \<Longrightarrow> i < SOFTBUS_TOTAL_LEN \<Longrightarrow>
   length bs' = SOFTBUS_TOTAL_LEN \<and> bus_key (bs' ! 9) = bus_key (bs ! 9)"
proof (induction mem es i bs rule: fill_buses.induct)
  case (2 mem e es i bs)
  obtain j ds where f: "fill_devices mem (map snd (child_list (GetObjectItem (Some e) ''devices_info''))) 0
      (g_device_soft_bus_info (bs ! i)) = Some (j, ds)"
    using 2(2) by (auto simp: bind_eq_Some_conv Let_def)
  show ?case
  proof (cases "i + 1 \<ge> SOFTBUS_TOTAL_LEN")
    case True
    then show ?thesis using 2(2-4) f by (auto simp: Let_def nth_list_update)
  next
    case False
    then have i: "i \<noteq> 9" by (simp add: SOFTBUS_TOTAL_LEN_def)
    obtain k where k: "CombineStrings mem 1 (JSON_GetStringFromObject (Some e) ''bus_key'' (Some ''-1'')) [] = Some k"
      using 2(2) f False by (auto simp: bind_eq_Some_conv Let_def)
    obtain n where n: "CombineStrings mem 1 (JSON_GetStringFromObject (Some e) ''bus_id'' (Some ''-1'')) [] = Some n"
      using 2(2) f False k by (auto simp: bind_eq_Some_conv Let_def)
    show ?thesis using 2(1) [OF refl refl f refl refl False k n] 2(2-4) f False k n i by (simp add: Let_def)
  qed
qed auto

lemma auth_keys_skip:
  "\<forall>x \<in> set xs. find_device sb_device_id target (bus_devices x) = Some None \<Longrightarrow>
   auth_keys mem target (xs @ ys) r = auth_keys mem target ys r"
  by (induction xs) auto

lemma find_stored:
  "find_device sb_device_id target (bus_entries b) = Some (find (\<lambda>d. sb_device_id d = Some target) (bus_entries b))"
  by (rule find_device_stored) (auto simp: bus_entries_def stored_def)

lemma find_stored_None:
  "target \<notin> fst ` set (snd (snd b)) \<Longrightarrow> find_device sb_device_id target (bus_entries b) = Some None"
  unfolding find_stored by (auto simp: find_None_iff bus_entries_def stored_def dest: in_set_takeD)

text \<open>
  The tenth bus never gets its key: after a message with ten buses or more into a table
  whose last key is not set, asking for the key of a device that, of the ten, only the last
  bus has passes a NULL key on to strlen.
\<close>

theorem getAuthKey_tenth_bus:
  assumes "heap_ok mem" "\<forall>b \<in> set bs. proper_devices (snd (snd b))" "soft_bus_ok t"
    and bs: "10 \<le> length bs" "target \<in> fst ` set (take SOFTBUS_INFO_LEN (snd (snd (bs ! 9))))"
      "\<forall>b \<in> set (take 9 bs). target \<notin> fst ` set (snd (snd b))"
    and key: "bus_key (g_soft_bus_info t ! 9) = None" and u: "g_username m = Some u"
  shows "\<exists>t'. softBusParasToTotal mem (Some (bus_message bs)) t = Some (0, t')
    \<and> getAuthKey mem t' m (Some u) (Some target) = None"
proof -
  have t: "length (g_soft_bus_info t) = SOFTBUS_TOTAL_LEN" "list_all bus_ok (g_soft_bus_info t)" "0 < SOFTBUS_TOTAL_LEN"
    using assms(3) by (simp_all add: soft_bus_ok_def SOFTBUS_TOTAL_LEN_def)
  have ten: "min SOFTBUS_TOTAL_LEN (length bs) = 10" using bs(1) by (simp add: SOFTBUS_TOTAL_LEN_def)
  obtain bs' where f: "fill_buses mem (map bus_json bs) 0 (g_soft_bus_info t) = Some (10, bs')"
    "map bus_devices (take 10 bs') = map bus_entries (take 10 bs)"
    using fill_buses_spec [OF assms(1,2) t(1,3,2)] unfolding add_0 ten by (auto simp: SOFTBUS_TOTAL_LEN_def)
  from fill_buses_last_key [OF f(1) t(1,3)] have l: "length bs' = 10" "bus_key (bs' ! 9) = None"
    using key by (simp_all add: SOFTBUS_TOTAL_LEN_def)
  let ?t = "t \<lparr>g_soft_bus_info := bs', sbt_count := 10\<rparr>"
  have run: "softBusParasToTotal mem (Some (bus_message bs)) t = Some (0, ?t)"
    using f(1) by (simp add: softBusParasToTotal_def bus_message_def GetObjectItem_def child_list_def o_def)
  have dev: "bus_devices (bs' ! i) = bus_entries (bs ! i)" if "i < 10" for i
    using f(2) that l(1) bs(1) nth_map [of i "take 10 bs'" bus_devices] nth_map [of i "take 10 bs" bus_entries] by simp
  have split: "bs' = take 9 bs' @ [bs' ! 9]" using l(1) take_Suc_conv_app_nth [of 9 bs'] by simp
  have "find_device sb_device_id target (bus_devices x) = Some None" if "x \<in> set (take 9 bs')" for x
  proof -
    from that obtain i where i: "i < 9" "x = bs' ! i" using l(1) by (auto simp: in_set_conv_nth)
    then have "bs ! i \<in> set (take 9 bs)" using bs(1) by (auto simp: in_set_conv_nth intro!: exI [of _ i])
    then show ?thesis using i dev [of i] bs(3) find_stored_None by simp
  qed
  then have "auth_keys mem target bs' None = auth_keys mem target [bs' ! 9] None"
    by (subst split) (rule auth_keys_skip, blast)
  also have "\<dots> = None"
  proof -
    have "find (\<lambda>d. sb_device_id d = Some target) (bus_entries (bs ! 9)) \<noteq> None"
      unfolding find_Some_iff_ex using bs(2) by (force simp: bus_entries_def stored_def)
    then show ?thesis using dev [of 9] l(2) by (simp add: find_stored)
  qed
  finally show ?thesis using run u l(1) by (simp add: getAuthKey_def MqttBase_GetConfig_def buses_def)
qed

definition ten_buses :: bus_table where
  "ten_buses = replicate 9 (''key'', ''bus'', []) @ [(''key'', ''bus'', [(''d1'', ''10.0.0.1'')])]"

theorem getAuthKey_tenth_bus_witness:
  "\<exists>t'. softBusParasToTotal (\<lambda>_. True) (Some (bus_message ten_buses)) g_soft_bus_total = Some (0, t')
    \<and> getAuthKey (\<lambda>_. True) t' sample_mqtt (Some ''dev1'') (Some ''d1'') = None"
proof (rule getAuthKey_tenth_bus)
  have n: "ten_buses ! 9 = (''key'', ''bus'', [(''d1'', ''10.0.0.1'')])" by (simp add: ten_buses_def nth_append)
  show "''d1'' \<in> fst ` set (take SOFTBUS_INFO_LEN (snd (snd (ten_buses ! 9))))"
    unfolding n by (simp add: SOFTBUS_INFO_LEN_def)
  show "soft_bus_ok g_soft_bus_total" by (rule soft_bus_ok_start)
qed (auto simp: ten_buses_def proper_devices_def proper_def g_soft_bus_total_def no_bus_def
    SOFTBUS_TOTAL_LEN_def sample_mqtt_def)

end
