(* ===== verification/Tunnel.thy ===== *)
theory Tunnel
  imports AgentApi
begin

text \<open>
  The SSH tunnel of a build with SSH\_SWITCH: the websocket of src/tunnel/wss\_client.c, the SSH
  session of src/tunnel/ssh\_client.c and HandleTunnelMgr of src/agentlite/iota\_defaultCallback.c.
  What noPoll and libssh answer is in the record \<open>tunnel_env\<close>; what they call back, a
  message, the close of a connection, the close of a channel, is an operation of its own.
  A connection is the number it was opened under; sleeping and the requests to the libraries
  are entries of a log.
\<close>

section \<open>State\<close>

definition IOTA_WSS_CONNECT_FAILED :: int where "IOTA_WSS_CONNECT_FAILED = -113"
definition IOTA_THREAD_CREATE_FAILED :: int where "IOTA_THREAD_CREATE_FAILED = -114"

record url_info =
  u_site :: cstr
  u_port :: cstr
  u_path :: cstr
  u_token :: cstr

datatype ssh_known_hosts = SSH_KNOWN_HOSTS_OK | SSH_KNOWN_HOSTS_CHANGED | SSH_KNOWN_HOSTS_OTHER
  | SSH_KNOWN_HOSTS_NOT_FOUND | SSH_KNOWN_HOSTS_UNKNOWN | SSH_KNOWN_HOSTS_ERROR

datatype tunnel_event = Opened nat url_info | Closed nat | OnCloseSet nat | OnMsgSet nat | Sleep int | LoopStopped
  | Text "nat option" string | SshConnect string | SshAuth string int
  | HostChecked ssh_known_hosts | KnownHostAdded | ShellOpened | ShellWritten string
  | ChannelClosed | SessionClosed

record tunnel =
  g_Conn :: "nat option"
  g_Ctx :: bool
  g_UrlInfo :: url_info
  g_SSHSession :: bool
  g_SSHChannel :: bool
  g_reqId :: string
  t_opened :: nat
  t_log :: "tunnel_event list"

record conn_answer =
  a_created :: bool
  a_ready :: bool
  a_ping :: bool

text \<open>Whether a context is made, the connections it has, whether its thread starts, what
  becomes of each attempt to connect, and what libssh answers.\<close>

record tunnel_env =
  e_sdk :: sdk
  e_ctx :: bool
  e_ctx_conns :: int
  e_thread :: bool
  e_conn :: "nat \<Rightarrow> conn_answer"
  e_ssh_new :: bool
  e_ssh_connect :: int
  e_publickey :: int
  e_hash :: int
  e_known :: ssh_known_hosts
  e_update :: int
  e_auth :: "string \<Rightarrow> int"
  e_channel :: bool
  e_open :: int
  e_pty :: int
  e_pty_size :: int
  e_shell :: int

definition tunnel_start :: tunnel where
  "tunnel_start = \<lparr>g_Conn = None, g_Ctx = False, g_UrlInfo = \<lparr>u_site = None, u_port = None, u_path = None, u_token = None\<rparr>,
     g_SSHSession = False, g_SSHChannel = False, g_reqId = [], t_opened = 0, t_log = []\<rparr>"

definition tlog :: "tunnel_event \<Rightarrow> tunnel \<Rightarrow> tunnel" where
  "tlog e t = t \<lparr>t_log := e # t_log t\<rparr>"

section \<open>The address\<close>

text \<open>The text from the first occurrence of a character on.\<close>

definition strchr :: "string \<Rightarrow> char \<Rightarrow> cstr" where
  "strchr s c = (case dropWhile (\<lambda>x. x \<noteq> c) s of [] \<Rightarrow> None | r \<Rightarrow> Some r)"

definition url_none :: url_info where
  "url_none = \<lparr>u_site = None, u_port = None, u_path = None, u_token = None\<rparr>"

definition TUNNEL_HEADER :: string where
  "TUNNEL_HEADER = [CHR 0x0D, CHR 0x0A] @ ''tunnel_access_token:''"

text \<open>The length of the port is the distance from the colon to the path, which is negative
  for a colon in the path; a length that is not positive copies nothing.  The token is read
  before the address is looked at.\<close>

definition WssClientSplitUrl :: "heap \<Rightarrow> url_info \<Rightarrow> cstr \<Rightarrow> cstr \<Rightarrow> (int \<times> url_info) option" where
  "WssClientSplitUrl mem info url token = do {
     tok \<leftarrow> deref token;
     case url of None \<Rightarrow> Some (IOTA_PARAMETER_ERROR, info)
     | Some u \<Rightarrow>
         if \<not> contains u ''wss://'' then Some (IOTA_PARAMETER_ERROR, info)
         else let siteHead = drop (length ''wss://'') u in
           case strchr siteHead (CHR ''/'') of None \<Rightarrow> Some (IOTA_PARAMETER_ERROR, info)
           | Some pathHead \<Rightarrow>
               let pathAt = int (length siteHead) - int (length pathHead);
                   (r1, path) = CopyStrValue mem (Some (u_path info)) (Some pathHead) (int (length pathHead));
                   (portHead, siteLen, portLen) = (case strchr siteHead (CHR '':'') of
                      None \<Rightarrow> (''443'', pathAt, 3)
                    | Some p \<Rightarrow> (let portAt = int (length siteHead) - int (length p)
                               in (tl p, portAt, pathAt - (portAt + 1))));
                   (r2, site) = CopyStrValue mem (Some (u_site info)) (Some siteHead) siteLen;
                   (r3, port) = CopyStrValue mem (Some (u_port info)) (Some portHead) portLen;
                   tokenLen = length TUNNEL_HEADER + length tok + 1
               in if r1 \<noteq> IOTA_SUCCESS \<or> r2 \<noteq> IOTA_SUCCESS \<or> r3 \<noteq> IOTA_SUCCESS \<or> \<not> mem tokenLen
                  then Some (IOTA_FAILURE, url_none)
                  else Some (IOTA_SUCCESS, \<lparr>u_site = the site, u_port = the port, u_path = the path,
                         u_token = Some (TUNNEL_HEADER @ tok)\<rparr>) }"

definition save_field :: "heap \<Rightarrow> cstr \<Rightarrow> cstr option" where
  "save_field mem s = do {
     x \<leftarrow> deref s;
     Some (the (snd (CopyStrValue mem (Some None) (Some x) (int (length x))))) }"

definition WssClientSaveConfigInfo :: "heap \<Rightarrow> url_info \<Rightarrow> tunnel \<Rightarrow> tunnel option" where
  "WssClientSaveConfigInfo mem info t = do {
     path \<leftarrow> save_field mem (u_path info);
     port \<leftarrow> save_field mem (u_port info);
     site \<leftarrow> save_field mem (u_site info);
     token \<leftarrow> save_field mem (u_token info);
     Some (t \<lparr>g_UrlInfo := \<lparr>u_site = site, u_port = port, u_path = path, u_token = token\<rparr>\<rparr>) }"

section \<open>The websocket\<close>

definition SSHClientSessionDestroy :: "tunnel \<Rightarrow> tunnel" where
  "SSHClientSessionDestroy t =
    (let t1 = (if g_SSHChannel t then tlog ChannelClosed (t \<lparr>g_SSHChannel := False\<rparr>) else t)
     in if g_SSHSession t1 then tlog SessionClosed (t1 \<lparr>g_SSHSession := False\<rparr>) else t1)"

definition close_conn :: "tunnel \<Rightarrow> tunnel" where
  "close_conn t = (case g_Conn t of None \<Rightarrow> t | Some k \<Rightarrow> tlog (Closed k) (t \<lparr>g_Conn := None\<rparr>))"

text \<open>noPoll makes no connection without a context or a host.\<close>

definition WssClientConnect :: "tunnel_env \<Rightarrow> bool \<Rightarrow> tunnel \<Rightarrow> int \<times> tunnel" where
  "WssClientConnect E isRetry t =
    (let t1 = (if \<not> isRetry \<and> g_Conn t \<noteq> None then SSHClientSessionDestroy (close_conn t) else t);
         k = t_opened t1;
         answer = e_conn E k
     in if \<not> g_Ctx t1 \<or> u_site (g_UrlInfo t1) = None \<or> \<not> a_created answer then (IOTA_RESOURCE_NOT_AVAILABLE, t1 \<lparr>g_Conn := None, t_opened := k + 1\<rparr>)
        else
          let t2 = tlog (Opened k (g_UrlInfo t1)) (t1 \<lparr>g_Conn := Some k, t_opened := k + 1\<rparr>);
              t3 = (if isRetry then t2 else tlog (OnCloseSet k) t2)
          in if \<not> a_ready answer
             then (IOTA_WSS_CONNECT_FAILED, if isRetry then t3 else tlog (Closed k) t3)
             else (if a_ping answer then IOTA_SUCCESS else IOTA_THREAD_CREATE_FAILED, tlog (OnMsgSet k) t3))"

definition TUNNEL_WSSCLIENT_CONN_RETRY_TIMES :: nat where "TUNNEL_WSSCLIENT_CONN_RETRY_TIMES = 10"
definition TUNNEL_WSSCLIENT_CONN_RETRY_DELAY :: int where "TUNNEL_WSSCLIENT_CONN_RETRY_DELAY = 1000000"

text \<open>The attempts left: sleep, try, and wait longer before the next.\<close>

fun connect_attempts :: "tunnel_env \<Rightarrow> bool \<Rightarrow> nat \<Rightarrow> int \<Rightarrow> int \<Rightarrow> tunnel \<Rightarrow> int \<times> tunnel" where
  "connect_attempts E isRetry 0 delay ret t = (ret, t)"
| "connect_attempts E isRetry (Suc n) delay ret t =
    (let (ret', t') = WssClientConnect E isRetry (tlog (Sleep delay) t)
     in if ret' = IOTA_SUCCESS then (ret', t')
        else connect_attempts E isRetry n (delay + TUNNEL_WSSCLIENT_CONN_RETRY_DELAY) ret' t')"

definition WssClientDestroyWsClient :: "tunnel \<Rightarrow> tunnel" where
  "WssClientDestroyWsClient t =
    (let t1 = close_conn t in if g_Ctx t1 then tlog LoopStopped (t1 \<lparr>g_Ctx := False\<rparr>) else t1)"

definition WssClientCreate :: "tunnel_env \<Rightarrow> url_info \<Rightarrow> tunnel \<Rightarrow> tunnel option" where
  "WssClientCreate E urlInfo t =
    (if \<not> g_Ctx t \<and> (\<not> e_ctx E \<or> e_ctx_conns E \<noteq> 0)
     then Some (WssClientDestroyWsClient (t \<lparr>g_Ctx := e_ctx E\<rparr>))
     else if \<not> g_Ctx t \<and> \<not> e_thread E then Some (WssClientDestroyWsClient (t \<lparr>g_Ctx := True\<rparr>))
     else do {
       t1 \<leftarrow> WssClientSaveConfigInfo (sdk_heap (e_sdk E)) urlInfo (t \<lparr>g_Ctx := True\<rparr>);
       Some (snd (connect_attempts E False TUNNEL_WSSCLIENT_CONN_RETRY_TIMES 0 IOTA_SUCCESS t1)) })"

text \<open>The close of a connection with its status; the callback of another one returns.\<close>

definition WssClientListenerOnClose :: "tunnel_env \<Rightarrow> nat \<Rightarrow> int \<Rightarrow> tunnel \<Rightarrow> tunnel" where
  "WssClientListenerOnClose E conn closeStatus t =
    (if g_Conn t \<noteq> None \<and> g_Conn t \<noteq> Some conn then t
     else
       let t1 = SSHClientSessionDestroy t;
           (ret, t2) = (if closeStatus \<in> {1000, 1002, 4000} then (IOTA_FAILURE, t1)
                        else connect_attempts E True TUNNEL_WSSCLIENT_CONN_RETRY_TIMES
                               TUNNEL_WSSCLIENT_CONN_RETRY_DELAY IOTA_FAILURE t1)
       in if ret = IOTA_SUCCESS then tlog (OnCloseSet (the (g_Conn t2))) t2
          else tlog LoopStopped (t2 \<lparr>g_Conn := None, g_Ctx := False\<rparr>))"

definition send_text :: "string \<Rightarrow> tunnel \<Rightarrow> tunnel" where
  "send_text s t = tlog (Text (g_Conn t) s) t"

definition WssClientSendRsp :: "sdk \<Rightarrow> cstr \<Rightarrow> cstr \<Rightarrow> cstr \<Rightarrow> tunnel \<Rightarrow> tunnel" where
  "WssClientSendRsp E reqId opType buff t =
    (if g_Conn t = None then t
     else case sdk_print E (json_object
            [(''operation_type'', CreateString opType), (''tunnel_service_type'', CreateString (Some ''ssh'')),
             (''request_id'', CreateString reqId), (''data'', CreateString buff)]) of
       None \<Rightarrow> t | Some rspMsg \<Rightarrow> send_text rspMsg t)"

text \<open>The text is measured even when it could not be printed.\<close>

definition WssClientSendDisConn :: "sdk \<Rightarrow> cstr \<Rightarrow> string \<Rightarrow> string \<Rightarrow> tunnel \<Rightarrow> tunnel option" where
  "WssClientSendDisConn E reqId code message t = do {
     let data = json_object [(''status_code'', CreateString (Some code)), (''status_msg'', CreateString (Some message))];
     rspMsg \<leftarrow> sdk_print E (json_object
       [(''operation_type'', CreateString (Some ''disconnect'')), (''tunnel_service_type'', CreateString (Some ''ssh'')),
        (''request_id'', CreateString reqId), (''data'', Some data)]);
     Some (send_text rspMsg t) }"

section \<open>The SSH session\<close>

definition TUNNEL_SSH_RSPBUFF_LEN :: nat where "TUNNEL_SSH_RSPBUFF_LEN = 2048"
definition TUNNEL_SSH_REQID_LENGTH :: nat where "TUNNEL_SSH_REQID_LENGTH = 37"

definition SSHClientVerifyKnownhost :: "tunnel_env \<Rightarrow> tunnel \<Rightarrow> int \<times> tunnel" where
  "SSHClientVerifyKnownhost E t =
    (if e_publickey E < 0 \<or> e_hash E < 0 then (IOTA_FAILURE, t)
     else
       let t1 = tlog (HostChecked (e_known E)) t
       in case e_known E of
            SSH_KNOWN_HOSTS_OK \<Rightarrow> (0, t1)
          | SSH_KNOWN_HOSTS_CHANGED \<Rightarrow> (IOTA_FAILURE, t1)
          | SSH_KNOWN_HOSTS_OTHER \<Rightarrow> (IOTA_FAILURE, t1)
          | SSH_KNOWN_HOSTS_ERROR \<Rightarrow> (IOTA_FAILURE, t1)
          | _ \<Rightarrow> (if e_update E < 0 then (IOTA_FAILURE, t1) else (0, tlog KnownHostAdded t1)))"

definition SSHClientInteractiveShellSession :: "tunnel_env \<Rightarrow> tunnel \<Rightarrow> int \<times> tunnel" where
  "SSHClientInteractiveShellSession E t =
    (let t1 = t \<lparr>g_SSHChannel := e_channel E\<rparr>
     in if \<not> e_channel E then (IOTA_FAILURE, t1)
        else if e_open E \<noteq> 0 then (e_open E, t1)
        else if e_pty E \<noteq> 0 then (e_pty E, t1)
        else if e_pty_size E \<noteq> 0 then (e_pty_size E, t1)
        else if e_shell E \<noteq> 0 then (e_shell E, t1)
        else (IOTA_SUCCESS, tlog ShellOpened t1))"

definition SSHClientSessionInit :: "tunnel_env \<Rightarrow> string \<Rightarrow> string \<Rightarrow> tunnel \<Rightarrow> int \<times> tunnel" where
  "SSHClientSessionInit E userName passWord t =
    (let t1 = t \<lparr>g_SSHSession := e_ssh_new E\<rparr>
     in if \<not> e_ssh_new E then (IOTA_FAILURE, t1)
        else
          let t2 = tlog (SshConnect userName) t1;
              (known, t3) = SSHClientVerifyKnownhost E t2;
              t4 = tlog (SshAuth passWord (e_auth E passWord)) t3;
              (ret, t5) = (if e_ssh_connect E \<noteq> 0 then (e_ssh_connect E, t2)
                           else if known < 0 then (known, t3)
                           else if e_auth E passWord \<noteq> 0 then (e_auth E passWord, t4)
                           else SSHClientInteractiveShellSession E t4)
          in (ret, if ret \<noteq> 0 then SSHClientSessionDestroy t5 else t5))"

text \<open>The id of the request: 36 bytes are read, beyond the end of a shorter text.\<close>

definition set_reqId :: "string \<Rightarrow> tunnel \<Rightarrow> tunnel option" where
  "set_reqId reqId t = do {
     guard_ub (TUNNEL_SSH_REQID_LENGTH - 1 \<le> length reqId + 1);
     Some (t \<lparr>g_reqId := take (TUNNEL_SSH_REQID_LENGTH - 1) reqId\<rparr>) }"

definition SSHClientCreate :: "tunnel_env \<Rightarrow> json \<Rightarrow> tunnel \<Rightarrow> (int \<times> tunnel) option" where
  "SSHClientCreate E doc t =
    (case (JSON_GetObjectFromObject (Some doc) ''data'', JSON_GetStringFromObject (Some doc) ''request_id'' None) of
       (Some data, Some reqId) \<Rightarrow> do {
         t1 \<leftarrow> set_reqId reqId t;
         let t2 = SSHClientSessionDestroy t1;
         case (JSON_GetStringFromObject (Some data) ''username'' None, JSON_GetStringFromObject (Some data) ''password'' None) of
           (Some userName, Some passWord) \<Rightarrow> Some (SSHClientSessionInit E userName passWord t2)
         | _ \<Rightarrow> Some (IOTA_PARSE_JSON_FAILED, t2) }
     | _ \<Rightarrow> Some (IOTA_PARSE_JSON_FAILED, t))"

definition SSHClientRunCmd :: "json \<Rightarrow> tunnel \<Rightarrow> tunnel option" where
  "SSHClientRunCmd doc t =
    (case (JSON_GetStringFromObject (Some doc) ''data'' None, JSON_GetStringFromObject (Some doc) ''request_id'' None) of
       (Some cmd, Some reqId) \<Rightarrow> do {
         t1 \<leftarrow> set_reqId reqId t;
         Some (if \<not> g_SSHSession t1 then t1 else tlog (ShellWritten cmd) t1) }
     | _ \<Rightarrow> Some t)"

text \<open>What the thread reads of the shell: bytes, nothing yet, or the end.  The buffer is not
  terminated when all of it is filled.\<close>

datatype ssh_read = SshBytes string | SshNothing | SshEnd

definition buffer_text :: "string \<Rightarrow> string option" where
  "buffer_text bytes = do {
     guard_ub (length bytes < TUNNEL_SSH_RSPBUFF_LEN \<or> CHR 0x00 \<in> set bytes);
     Some (takeWhile (\<lambda>c. c \<noteq> CHR 0x00) bytes) }"

fun SSHClientRead :: "sdk \<Rightarrow> ssh_read list \<Rightarrow> tunnel \<Rightarrow> tunnel option" where
  "SSHClientRead E [] t = Some t"
| "SSHClientRead E (SshEnd # reads) t = Some t"
| "SSHClientRead E (SshNothing # reads) t = SSHClientRead E reads t"
| "SSHClientRead E (SshBytes bytes # reads) t =
    (if bytes = [] then SSHClientRead E reads t
     else do {
       s \<leftarrow> buffer_text bytes;
       SSHClientRead E reads (WssClientSendRsp E (Some (g_reqId t)) (Some ''command_response'') (Some s) t) })"

definition SSHClientOnChannelClose :: "sdk \<Rightarrow> tunnel \<Rightarrow> tunnel option" where
  "SSHClientOnChannelClose E t = do {
     t1 \<leftarrow> WssClientSendDisConn E (Some ''SSH_timeout_disconnect'') ''408''
              ''SSH idles for too long, the session will be closed'' t;
     Some (SSHClientSessionDestroy t1) }"

section \<open>Messages\<close>

record ws_msg =
  m_fragment :: bool
  m_final :: bool
  m_payload :: cstr

text \<open>The message put together so far is a local of the callback, so of a fragmented message
  only the last fragment is parsed.\<close>

definition WssClientListenerOnMsg :: "tunnel_env \<Rightarrow> ws_msg \<Rightarrow> tunnel \<Rightarrow> tunnel option" where
  "WssClientListenerOnMsg E message t =
    (if m_fragment message \<and> \<not> m_final message then Some t
     else case JSON_Parse (e_sdk E) (m_payload message) of
       None \<Rightarrow> Some t
     | Some doc \<Rightarrow> do {
         serviceType \<leftarrow> deref (get_string (Some doc) ''tunnel_service_type'');
         if serviceType \<noteq> ''ssh'' then Some t
         else do {
           let reqId = get_string (Some doc) ''request_id'';
           opType \<leftarrow> deref (get_string (Some doc) ''operation_type'');
           if opType = ''connect'' then do {
             let t1 = WssClientSendRsp (e_sdk E) reqId (Some ''connect_response'') None t;
             (ret, t2) \<leftarrow> SSHClientCreate E doc t1;
             if ret \<noteq> IOTA_SUCCESS
             then WssClientSendDisConn (e_sdk E) reqId ''400'' ''WssClientListenerOnMsg: Create SSH channel failed'' t2
             else Some t2 }
           else if opType = ''command'' then SSHClientRunCmd doc t
           else Some t } })"

definition HandleTunnelMgr :: "tunnel_env \<Rightarrow> service_event \<Rightarrow> tunnel \<Rightarrow> tunnel option" where
  "HandleTunnelMgr E message t =
    (if se_type message \<noteq> TYPE_TUNNEL_NOTIFY then Some t
     else do {
       (url, token) \<leftarrow> (case se_body message of Tunnel paras \<Rightarrow> paras | _ \<Rightarrow> None);
       (ret, info) \<leftarrow> WssClientSplitUrl (sdk_heap (e_sdk E)) url_none url token;
       if ret \<noteq> 0 then Some t else WssClientCreate E info t })"

section \<open>Properties\<close>

subsection \<open>Addresses\<close>

lemma strchr_app: "c \<notin> set a \<Longrightarrow> strchr (a @ c # r) c = Some (c # r)"
  by (induction a) (auto simp: strchr_def)

lemma strchr_absent: "c \<notin> set a \<Longrightarrow> strchr a c = None"
  by (induction a) (auto simp: strchr_def)

definition host_name :: "string \<Rightarrow> bool" where
  "host_name h \<longleftrightarrow> h \<noteq> [] \<and> CHR ''/'' \<notin> set h \<and> CHR '':'' \<notin> set h"

lemma contains_wss: "contains (''wss://'' @ s) ''wss://''"
  using strstr_self [of "''wss://''" "''wss://'' @ s"] by (simp add: contains_def)

lemma copy_text:
  "heap_ok mem \<Longrightarrow> s \<noteq> [] \<Longrightarrow> n = int (length s) \<Longrightarrow> CopyStrValue mem (Some d) (Some (s @ r)) n = (0, Some (Some s))"
  by (simp add: CopyStrValue_def strncat_s_def)

lemma copy_all:
  "heap_ok mem \<Longrightarrow> s \<noteq> [] \<Longrightarrow> CopyStrValue mem (Some d) (Some s) (int (length s)) = (0, Some (Some s))"
  using copy_text [of mem s _ d "[]"] by simp

text \<open>What the two searches and the three copies give determines the parts.\<close>

lemma WssClientSplitUrl_eq:
  assumes "heap_ok mem" "strchr s (CHR ''/'') = Some path" "path \<noteq> []"
    and port: "(case strchr s (CHR '':'') of
        None \<Rightarrow> (''443'', int (length s) - int (length path), 3)
      | Some p \<Rightarrow> (tl p, int (length s) - int (length p), int (length s) - int (length path) - (int (length s) - int (length p) + 1)))
      = (portHead, siteLen, portLen)"
    and copies: "CopyStrValue mem (Some None) (Some s) siteLen = (0, Some site)"
      "CopyStrValue mem (Some None) (Some portHead) portLen = (0, Some port)"
  shows "WssClientSplitUrl mem url_none (Some (''wss://'' @ s)) (Some token) =
    Some (0, \<lparr>u_site = site, u_port = port, u_path = Some path, u_token = Some (TUNNEL_HEADER @ token)\<rparr>)"
proof -
  have "mem (length TUNNEL_HEADER + length token + 1)" using assms(1) by blast
  moreover have "CopyStrValue mem (Some None) (Some path) (int (length path)) = (0, Some (Some path))"
    by (rule copy_all [OF assms(1,3)])
  ultimately show ?thesis using contains_wss [of s] assms(2) port copies
    by (auto simp: WssClientSplitUrl_def IOTA_SUCCESS_def Let_def url_none_def split: option.splits)
qed

text \<open>
  An address of the platform is split into its parts: wss://, a host, a colon, a port and
  a path give that host, port and path, and without a port the host, the port 443 and the
  path, if the path has no colon; the token becomes the header of the request.
\<close>

theorem WssClientSplitUrl_parts:
  assumes "heap_ok mem" "host_name host" "port \<noteq> []" "CHR ''/'' \<notin> set port" "CHR '':'' \<notin> set path"
  shows "WssClientSplitUrl mem url_none (Some (''wss://'' @ host @ '':'' @ port @ ''/'' @ rest)) (Some token) =
      Some (0, \<lparr>u_site = Some host, u_port = Some port, u_path = Some (''/'' @ rest), u_token = Some (TUNNEL_HEADER @ token)\<rparr>)
    \<and> WssClientSplitUrl mem url_none (Some (''wss://'' @ host @ ''/'' @ path)) (Some token) =
      Some (0, \<lparr>u_site = Some host, u_port = Some ''443'', u_path = Some (''/'' @ path), u_token = Some (TUNNEL_HEADER @ token)\<rparr>)"
proof
  have h: "host \<noteq> []" "CHR ''/'' \<notin> set host" "CHR '':'' \<notin> set host" using assms(2) by (simp_all add: host_name_def)
  let ?s = "host @ CHR '':'' # port @ CHR ''/'' # rest"
  have slash: "strchr ?s (CHR ''/'') = Some (CHR ''/'' # rest)"
    using strchr_app [of "CHR ''/''" "host @ CHR '':'' # port" rest] h assms(4) by simp
  have colon: "strchr ?s (CHR '':'') = Some (CHR '':'' # port @ CHR ''/'' # rest)"
    using strchr_app [of "CHR '':''" host] h by simp
  have c: "CopyStrValue mem (Some None) (Some ?s) (int (length host)) = (0, Some (Some host))"
    "CopyStrValue mem (Some None) (Some (port @ CHR ''/'' # rest)) (int (length port)) = (0, Some (Some port))"
    by (rule copy_text [OF assms(1)]; use h(1) assms(3) in simp)+
  show "WssClientSplitUrl mem url_none (Some (''wss://'' @ host @ '':'' @ port @ ''/'' @ rest)) (Some token) =
      Some (0, \<lparr>u_site = Some host, u_port = Some port, u_path = Some (''/'' @ rest), u_token = Some (TUNNEL_HEADER @ token)\<rparr>)"
    using WssClientSplitUrl_eq [OF assms(1) slash _ _ c, of token] by (simp add: colon)
next
  have h: "host \<noteq> []" "CHR ''/'' \<notin> set host" "CHR '':'' \<notin> set host" using assms(2) by (simp_all add: host_name_def)
  let ?s = "host @ CHR ''/'' # path"
  have slash: "strchr ?s (CHR ''/'') = Some (CHR ''/'' # path)"
    using strchr_app [of "CHR ''/''" host path] h by simp
  have colon: "strchr ?s (CHR '':'') = None" using strchr_absent [of "CHR '':''" ?s] h assms(5) by simp
  have c: "CopyStrValue mem (Some None) (Some ?s) (int (length host)) = (0, Some (Some host))"
    by (rule copy_text [OF assms(1)]; use h(1) in simp)
  have d: "CopyStrValue mem (Some None) (Some ''443'') 3 = (0, Some (Some ''443''))"
    using copy_all [OF assms(1), of "''443''" None] by simp
  show "WssClientSplitUrl mem url_none (Some (''wss://'' @ host @ ''/'' @ path)) (Some token) =
      Some (0, \<lparr>u_site = Some host, u_port = Some ''443'', u_path = Some (''/'' @ path), u_token = Some (TUNNEL_HEADER @ token)\<rparr>)"
    using WssClientSplitUrl_eq [OF assms(1) slash _ _ c d, of token] by (simp add: colon)
qed

theorem WssClientSplitUrl_parts_witness:
  "WssClientSplitUrl (\<lambda>_. True) url_none (Some (''wss://'' @ ''host'' @ '':'' @ ''8443'' @ ''/'' @ ''t:1'')) (Some ''tok'') =
      Some (0, \<lparr>u_site = Some ''host'', u_port = Some ''8443'', u_path = Some (''/'' @ ''t:1''),
        u_token = Some (TUNNEL_HEADER @ ''tok'')\<rparr>)"
  using WssClientSplitUrl_parts [of "\<lambda>_. True" "''host''" "''8443''" "''t''" "''t:1''" "''tok''"]
  by (simp add: host_name_def)

text \<open>
  A colon in the path of an address without a port brings the device down: the port is
  then left NULL with success, and its length is taken when the parts are saved.
\<close>

theorem HandleTunnelMgr_colon_in_path:
  assumes "heap_ok (sdk_heap (e_sdk E))" "host_name host" "CHR '':'' \<in> set path"
    and ctx: "g_Ctx t \<or> e_ctx E \<and> e_ctx_conns E = 0 \<and> e_thread E"
    and ev: "se_type message = TYPE_TUNNEL_NOTIFY"
      "se_body message = Tunnel (Some (Some (''wss://'' @ host @ ''/'' @ path), Some token))"
  shows "HandleTunnelMgr E message t = None"
proof -
  have h: "host \<noteq> []" "CHR ''/'' \<notin> set host" "CHR '':'' \<notin> set host" using assms(2) by (simp_all add: host_name_def)
  obtain p q where path: "path = p @ CHR '':'' # q" "CHR '':'' \<notin> set p" using split_list_first [OF assms(3)] by blast
  let ?s = "host @ CHR ''/'' # path"
  have slash: "strchr ?s (CHR ''/'') = Some (CHR ''/'' # path)"
    using strchr_app [of "CHR ''/''" host path] h by simp
  have colon: "strchr ?s (CHR '':'') = Some (CHR '':'' # q)"
    using strchr_app [of "CHR '':''" "host @ CHR ''/'' # p" q] h path by simp
  have c: "CopyStrValue (sdk_heap (e_sdk E)) (Some None) (Some ?s) (int (length (host @ CHR ''/'' # p)))
      = (0, Some (Some (host @ CHR ''/'' # p)))"
    using copy_text [OF assms(1), of "host @ CHR ''/'' # p" _ None "CHR '':'' # q"] path by simp
  have d: "CopyStrValue (sdk_heap (e_sdk E)) (Some None) (Some q) (- int (length p) - 2) = (0, Some None)"
    by (simp add: CopyStrValue_def)
  have "WssClientSplitUrl (sdk_heap (e_sdk E)) url_none (Some (''wss://'' @ host @ ''/'' @ path)) (Some token) =
      Some (0, \<lparr>u_site = Some (host @ CHR ''/'' # p), u_port = None, u_path = Some (''/'' @ path),
        u_token = Some (TUNNEL_HEADER @ token)\<rparr>)"
  proof -
    have "(case strchr ?s (CHR '':'') of
        None \<Rightarrow> (''443'', int (length ?s) - int (length (CHR ''/'' # path)), 3)
      | Some p \<Rightarrow> (tl p, int (length ?s) - int (length p),
          int (length ?s) - int (length (CHR ''/'' # path)) - (int (length ?s) - int (length p) + 1)))
      = (q, int (length (host @ CHR ''/'' # p)), - int (length p) - 2)"
      unfolding colon using path(1) by simp
    from WssClientSplitUrl_eq [OF assms(1) slash _ this c d, of token] show ?thesis by simp
  qed
  then show ?thesis using ev ctx
    by (auto simp: HandleTunnelMgr_def WssClientCreate_def WssClientSaveConfigInfo_def save_field_def bind_eq_None_conv)
qed

definition sample_tunnel_env :: tunnel_env where
  "sample_tunnel_env = \<lparr>e_sdk = sample_sdk (JObject []), e_ctx = True, e_ctx_conns = 0, e_thread = True,
     e_conn = (\<lambda>k. \<lparr>a_created = True, a_ready = (k \<ge> 2), a_ping = True\<rparr>), e_ssh_new = True, e_ssh_connect = 0,
     e_publickey = 0, e_hash = 0, e_known = SSH_KNOWN_HOSTS_OK, e_update = 0,
     e_auth = (\<lambda>p. if p = ''secret'' then 0 else 1), e_channel = True, e_open = 0, e_pty = 0, e_pty_size = 0, e_shell = 0\<rparr>"

theorem HandleTunnelMgr_colon_in_path_witness:
  "HandleTunnelMgr sample_tunnel_env \<lparr>se_service = SERVICE_TUNNEL_MANAGER, se_type = TYPE_TUNNEL_NOTIFY, se_time = None,
     se_id = None, se_body = Tunnel (Some (Some (''wss://'' @ ''host'' @ ''/'' @ ''a:b''), Some ''tok''))\<rparr> tunnel_start = None"
  by (rule HandleTunnelMgr_colon_in_path [of _ "''host''" "''a:b''" _ _ "''tok''"])
    (simp_all add: sample_tunnel_env_def sample_sdk_def host_name_def)

subsection \<open>Connecting\<close>

text \<open>The attempts from number \<open>k\<close> on that connect, and the waits of the first \<open>n\<close>.\<close>

definition connects :: "tunnel_env \<Rightarrow> nat \<Rightarrow> bool" where
  "connects E k \<longleftrightarrow> a_created (e_conn E k) \<and> a_ready (e_conn E k) \<and> a_ping (e_conn E k)"

fun sleeps :: "tunnel_event list \<Rightarrow> int list" where
  "sleeps [] = []"
| "sleeps (Sleep d # es) = d # sleeps es"
| "sleeps (_ # es) = sleeps es"

lemma SessionDestroy_simps [simp]:
  "g_Conn (SSHClientSessionDestroy t) = g_Conn t" "g_Ctx (SSHClientSessionDestroy t) = g_Ctx t"
  "g_UrlInfo (SSHClientSessionDestroy t) = g_UrlInfo t" "t_opened (SSHClientSessionDestroy t) = t_opened t"
  "g_reqId (SSHClientSessionDestroy t) = g_reqId t"
  "\<not> g_SSHSession (SSHClientSessionDestroy t)" "\<not> g_SSHChannel (SSHClientSessionDestroy t)"
  "sleeps (t_log (SSHClientSessionDestroy t)) = sleeps (t_log t)"
  by (simp_all add: SSHClientSessionDestroy_def tlog_def Let_def)

lemma retry_Connect:
  assumes "g_Ctx t" "u_site (g_UrlInfo t) \<noteq> None" "WssClientConnect E True t = (ret, t')"
  shows "(ret = IOTA_SUCCESS \<longleftrightarrow> connects E (t_opened t)) \<and> t_opened t' = t_opened t + 1
    \<and> sleeps (t_log t') = sleeps (t_log t) \<and> g_Ctx t' \<and> g_UrlInfo t' = g_UrlInfo t
    \<and> g_SSHSession t' = g_SSHSession t \<and> g_SSHChannel t' = g_SSHChannel t
    \<and> (ret = IOTA_SUCCESS \<longrightarrow> g_Conn t' = Some (t_opened t))"
  using assms
  by (auto simp: WssClientConnect_def connects_def tlog_def Let_def error_codes IOTA_WSS_CONNECT_FAILED_def
      IOTA_THREAD_CREATE_FAILED_def split: if_splits)

text \<open>The first of the next \<open>n\<close> attempts that connects, if one does.\<close>

definition first_connect :: "tunnel_env \<Rightarrow> nat \<Rightarrow> nat \<Rightarrow> nat option" where
  "first_connect E k n = find (connects E) [k..<k + n]"

lemma first_connect_Suc:
  "first_connect E k (Suc n) = (if connects E k then Some k else first_connect E (Suc k) n)"
  by (simp add: first_connect_def upt_conv_Cons del: upt_Suc)

text \<open>The waits grow by a second each.\<close>

definition waits :: "nat \<Rightarrow> int \<Rightarrow> int list" where
  "waits n delay = map (\<lambda>i. delay + int i * TUNNEL_WSSCLIENT_CONN_RETRY_DELAY) [0..<n]"

lemma waits_Suc: "waits (Suc n) delay = delay # waits n (delay + TUNNEL_WSSCLIENT_CONN_RETRY_DELAY)"
  unfolding waits_def by (simp only: upt_conv_Cons map_Suc_upt [symmetric] zero_less_Suc list.map map_map o_def)
    (simp add: algebra_simps)

lemma retry_attempts:
  assumes "connect_attempts E True n delay ret t = (r, t')" "g_Ctx t" "u_site (g_UrlInfo t) \<noteq> None" "ret \<noteq> IOTA_SUCCESS"
  shows "g_Ctx t' \<and> g_SSHSession t' = g_SSHSession t \<and> g_SSHChannel t' = g_SSHChannel t
    \<and> (case first_connect E (t_opened t) n of
         Some k \<Rightarrow> t_opened t \<le> k \<and> r = IOTA_SUCCESS \<and> g_Conn t' = Some k
           \<and> sleeps (t_log t') = rev (waits (Suc (k - t_opened t)) delay) @ sleeps (t_log t)
       | None \<Rightarrow> r \<noteq> IOTA_SUCCESS \<and> sleeps (t_log t') = rev (waits n delay) @ sleeps (t_log t))"
  using assms
proof (induction n arbitrary: delay ret t)
  case 0
  then show ?case by (auto simp: first_connect_def waits_def)
next
  case (Suc n)
  let ?t = "tlog (Sleep delay) t"
  obtain r1 t1 where c: "WssClientConnect E True ?t = (r1, t1)" by fastforce
  have pre: "g_Ctx ?t" "u_site (g_UrlInfo ?t) \<noteq> None" "t_opened ?t = t_opened t"
    "sleeps (t_log ?t) = delay # sleeps (t_log t)" "g_SSHSession ?t = g_SSHSession t" "g_SSHChannel ?t = g_SSHChannel t"
    using Suc.prems(2,3) by (simp_all add: tlog_def)
  note f = retry_Connect [OF pre(1,2) c]
  show ?case
  proof (cases "connects E (t_opened t)")
    case True
    then have "r1 = IOTA_SUCCESS" using f pre(3) by simp
    then have "r = r1" "t' = t1" using Suc.prems(1) c by simp_all
    then show ?thesis using f pre True by (simp add: first_connect_Suc waits_def)
  next
    case False
    then have n: "r1 \<noteq> IOTA_SUCCESS" using f pre(3) by simp
    then have rec: "connect_attempts E True n (delay + TUNNEL_WSSCLIENT_CONN_RETRY_DELAY) r1 t1 = (r, t')"
      using Suc.prems(1) c by simp
    have "Suc k - Suc m = k - m" for k m :: nat by simp
    have w: "waits (Suc (k - t_opened t)) delay
        = delay # waits (Suc (k - Suc (t_opened t))) (delay + TUNNEL_WSSCLIENT_CONN_RETRY_DELAY)"
      if "Suc (t_opened t) \<le> k" for k
    proof -
      have "k - t_opened t = Suc (k - Suc (t_opened t))" using that by simp
      then show ?thesis by (simp only: waits_Suc)
    qed
    have "g_Ctx t1" "u_site (g_UrlInfo t1) \<noteq> None" using f pre(2) by simp_all
    from Suc.IH [OF rec this n] show ?thesis using f pre False
      by (auto simp: first_connect_Suc waits_Suc [of n] w split: option.splits)
  qed
qed

text \<open>
  C29. A lost tunnel is connected again or given up, in a bounded time: when the connection is
  closed other than normally, for its token or by another one, the session is ended and the
  first of the next ten attempts that succeeds becomes the connection, after waits of one
  second, two seconds and so on; when none succeeds, which is known after 55 seconds of
  waiting, no connection and no context is left.
\<close>

theorem WssClientListenerOnClose_reconnects:
  assumes "g_Conn t = None \<or> g_Conn t = Some conn" "closeStatus \<notin> {1000, 1002, 4000}"
    "g_Ctx t" "u_site (g_UrlInfo t) \<noteq> None" "t' = WssClientListenerOnClose E conn closeStatus t"
  shows "\<not> g_SSHSession t' \<and> \<not> g_SSHChannel t' \<and>
    (case first_connect E (t_opened t) 10 of
       Some k \<Rightarrow> g_Conn t' = Some k \<and> g_Ctx t'
         \<and> sleeps (t_log t') = rev (map (\<lambda>i. 1000000 * int i) [1..<k - t_opened t + 2]) @ sleeps (t_log t)
     | None \<Rightarrow> g_Conn t' = None \<and> \<not> g_Ctx t'
         \<and> sleeps (t_log t') = rev (map (\<lambda>i. 1000000 * int i) [1..<11]) @ sleeps (t_log t))"
proof -
  let ?t = "SSHClientSessionDestroy t"
  obtain r t2 where c: "connect_attempts E True 10 1000000 IOTA_FAILURE ?t = (r, t2)" by fastforce
  have w: "waits n 1000000 = map (\<lambda>i. 1000000 * int i) [1..<Suc n]" for n
    by (rule nth_equalityI) (simp_all add: waits_def TUNNEL_WSSCLIENT_CONN_RETRY_DELAY_def algebra_simps del: upt_Suc)
  have "g_Ctx ?t" "u_site (g_UrlInfo ?t) \<noteq> None" "IOTA_FAILURE \<noteq> IOTA_SUCCESS"
    using assms(3,4) by (simp_all add: error_codes)
  note f = retry_attempts [OF c this]
  have "t' = (if r = IOTA_SUCCESS then tlog (OnCloseSet (the (g_Conn t2))) t2
      else tlog LoopStopped (t2 \<lparr>g_Conn := None, g_Ctx := False\<rparr>))"
    using assms(1,2,5) c by (auto simp: WssClientListenerOnClose_def TUNNEL_WSSCLIENT_CONN_RETRY_TIMES_def
        TUNNEL_WSSCLIENT_CONN_RETRY_DELAY_def Let_def)
  then show ?thesis using f by (auto simp: tlog_def w numeral_2_eq_2 split: option.splits)
qed

text \<open>The first two attempts fail and the third, number 2, succeeds.\<close>

theorem WssClientListenerOnClose_reconnects_witness:
  "let t = tunnel_start \<lparr>g_Ctx := True, g_UrlInfo := url_none \<lparr>u_site := Some ''host''\<rparr>\<rparr>;
       t' = WssClientListenerOnClose sample_tunnel_env 9 1006 t
   in g_Conn t' = Some 2 \<and> sleeps (t_log t') = [3000000, 2000000, 1000000]"
proof -
  let ?t = "tunnel_start \<lparr>g_Ctx := True, g_UrlInfo := url_none \<lparr>u_site := Some ''host''\<rparr>\<rparr>"
  have s: "t_opened ?t = 0" "sleeps (t_log ?t) = []" by (simp_all add: tunnel_start_def)
  have k: "first_connect sample_tunnel_env 0 10 = Some 2" by code_simp
  have "map (\<lambda>i. 1000000 * int i) [1..<2 - 0 + 2] = [1000000, 2000000, 3000000]" by code_simp
  then show ?thesis
    using WssClientListenerOnClose_reconnects [of ?t 9 1006 _ sample_tunnel_env, OF _ _ _ _ refl]
    unfolding s k by (simp add: tunnel_start_def Let_def)
qed

subsection \<open>Only a trusted shell runs commands\<close>

text \<open>Whether the log, the latest first, leaves a shell open; what comes before the opening of
  a shell; and the logs in which every command was written into an open shell and every
  shell opened after the key of the host and the password were accepted.\<close>

fun open_shell :: "tunnel_event list \<Rightarrow> bool" where
  "open_shell [] = False"
| "open_shell (ShellOpened # es) = True"
| "open_shell (SessionClosed # es) = False"
| "open_shell (_ # es) = open_shell es"

fun accepted :: "tunnel_event list \<Rightarrow> bool" where
  "accepted (SshAuth p r # HostChecked h # es) = (r = 0 \<and> h = SSH_KNOWN_HOSTS_OK)"
| "accepted (SshAuth p r # KnownHostAdded # HostChecked h # es) =
     (r = 0 \<and> h \<in> {SSH_KNOWN_HOSTS_NOT_FOUND, SSH_KNOWN_HOSTS_UNKNOWN})"
| "accepted _ = False"

fun trace_ok :: "tunnel_event list \<Rightarrow> bool" where
  "trace_ok [] = True"
| "trace_ok (ShellWritten cmd # es) = (open_shell es \<and> trace_ok es)"
| "trace_ok (ShellOpened # es) = (accepted es \<and> trace_ok es)"
| "trace_ok (_ # es) = trace_ok es"

definition tunnel_inv :: "tunnel \<Rightarrow> bool" where
  "tunnel_inv t \<longleftrightarrow> (g_SSHSession t \<longleftrightarrow> open_shell (t_log t)) \<and> (g_SSHChannel t \<longleftrightarrow> g_SSHSession t)
     \<and> trace_ok (t_log t) \<and> (g_Conn t \<noteq> None \<longrightarrow> g_Ctx t)"

inductive tunnel_step :: "tunnel \<Rightarrow> tunnel \<Rightarrow> bool" where
  notified: "HandleTunnelMgr E ev t = Some t' \<Longrightarrow> tunnel_step t t'"
| arrived: "WssClientListenerOnMsg E message t = Some t' \<Longrightarrow> tunnel_step t t'"
| closed: "t' = WssClientListenerOnClose E conn closeStatus t \<Longrightarrow> tunnel_step t t'"
| shell_output: "SSHClientRead E reads t = Some t' \<Longrightarrow> tunnel_step t t'"
| channel_closed: "SSHClientOnChannelClose E t = Some t' \<Longrightarrow> tunnel_step t t'"

inductive tunnel_reachable :: "tunnel \<Rightarrow> bool" where
  start: "tunnel_reachable tunnel_start"
| step: "tunnel_reachable t \<Longrightarrow> tunnel_step t t' \<Longrightarrow> tunnel_reachable t'"

lemmas inv_simps = tunnel_inv_def tlog_def

lemma SessionDestroy_inv:
  "trace_ok (t_log t) \<Longrightarrow> (open_shell (t_log t) \<longrightarrow> g_SSHSession t) \<Longrightarrow> (g_Conn t \<noteq> None \<longrightarrow> g_Ctx t) \<Longrightarrow>
   tunnel_inv (SSHClientSessionDestroy t)"
  by (auto simp: SSHClientSessionDestroy_def inv_simps Let_def)

lemma close_conn_inv: "tunnel_inv t \<Longrightarrow> tunnel_inv (close_conn t)"
  by (auto simp: close_conn_def inv_simps split: option.split)

lemma tunnel_inv_destroys: "tunnel_inv t \<Longrightarrow> tunnel_inv (SSHClientSessionDestroy t)"
  by (rule SessionDestroy_inv) (simp_all add: tunnel_inv_def)

lemma Connect_inv:
  assumes "tunnel_inv t" "WssClientConnect E isRetry t = (ret, t')"
  shows "tunnel_inv t'"
proof -
  let ?t1 = "if \<not> isRetry \<and> g_Conn t \<noteq> None then SSHClientSessionDestroy (close_conn t) else t"
  have "tunnel_inv ?t1" using assms(1) close_conn_inv tunnel_inv_destroys by simp
  then show ?thesis using assms(2) unfolding WssClientConnect_def Let_def
    by (auto simp: inv_simps simp del: SessionDestroy_simps split: if_splits)
qed

lemma tlog_Sleep_inv: "tunnel_inv (tlog (Sleep d) t) = tunnel_inv t"
  by (simp add: inv_simps)

lemma attempts_inv:
  "tunnel_inv t \<Longrightarrow> connect_attempts E isRetry n delay ret t = (r, t') \<Longrightarrow> tunnel_inv t'"
proof (induction n arbitrary: delay ret t)
  case (Suc n)
  obtain r1 t1 where c: "WssClientConnect E isRetry (tlog (Sleep delay) t) = (r1, t1)" by fastforce
  have "tunnel_inv t1" using Connect_inv [OF _ c] Suc.prems(1) tlog_Sleep_inv by blast
  then show ?case using Suc.IH Suc.prems(2) c by (auto split: if_splits)
qed auto

lemma HandleTunnelMgr_inv:
  assumes "HandleTunnelMgr E ev t = Some t'" "tunnel_inv t"
  shows "tunnel_inv t'"
proof -
  have destroy: "tunnel_inv (WssClientDestroyWsClient (t \<lparr>g_Ctx := c\<rparr>))" if "g_Conn t = None \<or> c" for c
    using assms(2) that by (auto simp: WssClientDestroyWsClient_def close_conn_def inv_simps Let_def split: option.splits)
  have create: "tunnel_inv t2" if c: "WssClientCreate E info t = Some t2" for info t2
  proof (cases "\<not> g_Ctx t \<and> (\<not> e_ctx E \<or> e_ctx_conns E \<noteq> 0 \<or> \<not> e_thread E)")
    case True
    then have "g_Conn t = None" using assms(2) by (auto simp: tunnel_inv_def)
    then show ?thesis using c True destroy by (auto simp: WssClientCreate_def split: if_splits)
  next
    case False
    then obtain t1 where t1: "WssClientSaveConfigInfo (sdk_heap (e_sdk E)) info (t \<lparr>g_Ctx := True\<rparr>) = Some t1"
      "t2 = snd (connect_attempts E False TUNNEL_WSSCLIENT_CONN_RETRY_TIMES 0 IOTA_SUCCESS t1)"
      using c by (auto simp: WssClientCreate_def bind_eq_Some_conv split: if_splits)
    then have "tunnel_inv t1" using assms(2) by (auto simp: WssClientSaveConfigInfo_def bind_eq_Some_conv tunnel_inv_def)
    then show ?thesis using attempts_inv t1(2) by (metis prod.collapse)
  qed
  show ?thesis using assms create by (auto simp: HandleTunnelMgr_def bind_eq_Some_conv split: if_splits prod.splits)
qed

lemma SendRsp_inv: "tunnel_inv (WssClientSendRsp E reqId opType buff t) = tunnel_inv t"
  by (auto simp: WssClientSendRsp_def send_text_def inv_simps split: option.split)

lemma SendDisConn_inv: "WssClientSendDisConn E reqId code message t = Some t' \<Longrightarrow> tunnel_inv t' = tunnel_inv t"
  by (auto simp: WssClientSendDisConn_def send_text_def inv_simps bind_eq_Some_conv Let_def)

lemma set_reqId_inv: "set_reqId reqId t = Some t' \<Longrightarrow> tunnel_inv t' = tunnel_inv t"
  by (auto simp: set_reqId_def tunnel_inv_def bind_eq_Some_conv)

lemma SessionInit_inv:
  assumes "tunnel_inv t" "\<not> g_SSHSession t" "SSHClientSessionInit E u p t = (ret, t')"
  shows "tunnel_inv t'"
proof -
  have c: "\<not> g_SSHChannel t" "\<not> open_shell (t_log t)" "trace_ok (t_log t)" "g_Conn t \<noteq> None \<longrightarrow> g_Ctx t"
    using assms(1,2) by (simp_all add: tunnel_inv_def)
  show ?thesis
  proof (cases "ret = 0")
    case True
    then show ?thesis using assms(2,3) c
      by (cases "e_known E") (auto simp: SSHClientSessionInit_def SSHClientVerifyKnownhost_def
          SSHClientInteractiveShellSession_def inv_simps error_codes Let_def split: if_splits)
  next
    case False
    show ?thesis
    proof (cases "e_ssh_new E")
      case True
      obtain t5 where "t' = SSHClientSessionDestroy t5" "trace_ok (t_log t5)" "\<not> open_shell (t_log t5)"
        "g_Conn t5 = g_Conn t" "g_Ctx t5 = g_Ctx t"
        using assms(3) False True c
        by (cases "e_known E") (auto simp: SSHClientSessionInit_def SSHClientVerifyKnownhost_def
          SSHClientInteractiveShellSession_def tlog_def error_codes Let_def split: if_splits)
      then show ?thesis using SessionDestroy_inv [of t5] c(4) by simp
    next
      case new: False
      then show ?thesis using assms c by (auto simp: SSHClientSessionInit_def inv_simps Let_def)
    qed
  qed
qed

lemma SSHClientCreate_inv:
  assumes "SSHClientCreate E doc t = Some (ret, t')" "tunnel_inv t"
  shows "tunnel_inv t'"
proof -
  have "tunnel_inv t2" if "set_reqId reqId t = Some t1" "SSHClientSessionInit E u p (SSHClientSessionDestroy t1) = (r, t2)"
    for reqId t1 u p r t2
    using SessionInit_inv [OF tunnel_inv_destroys _ that(2)] set_reqId_inv [OF that(1)] assms(2) by simp
  moreover have "tunnel_inv (SSHClientSessionDestroy t1)" if "set_reqId reqId t = Some t1" for reqId t1
    using tunnel_inv_destroys set_reqId_inv [OF that] assms(2) by blast
  moreover obtain data reqId where "t' = t \<or> JSON_GetObjectFromObject (Some doc) ''data'' = Some data
      \<and> JSON_GetStringFromObject (Some doc) ''request_id'' None = Some reqId"
    using assms(1) by (auto simp: SSHClientCreate_def split: option.splits)
  moreover have ?thesis if d: "JSON_GetObjectFromObject (Some doc) ''data'' = Some data"
      "JSON_GetStringFromObject (Some doc) ''request_id'' None = Some reqId"
  proof -
    obtain t1 where t1: "set_reqId reqId t = Some t1" using assms(1) d by (auto simp: SSHClientCreate_def bind_eq_Some_conv)
    show ?thesis
      using assms(1) d t1 calculation(1,2) [OF t1]
      by (cases "JSON_GetStringFromObject (Some data) ''username'' None";
          cases "JSON_GetStringFromObject (Some data) ''password'' None")
        (simp_all add: SSHClientCreate_def Let_def)
  qed
  ultimately show ?thesis using assms(2) by blast
qed

lemma RunCmd_inv: "SSHClientRunCmd doc t = Some t' \<Longrightarrow> tunnel_inv t \<Longrightarrow> tunnel_inv t'"
proof -
  assume r: "SSHClientRunCmd doc t = Some t'" and i: "tunnel_inv t"
  have "t' = t \<or> (\<exists>reqId t1 cmd. set_reqId reqId t = Some t1 \<and> t' = (if \<not> g_SSHSession t1 then t1 else tlog (ShellWritten cmd) t1))"
    using r by (auto simp: SSHClientRunCmd_def bind_eq_Some_conv split: option.splits split del: if_split)
  then show "tunnel_inv t'"
  proof (elim disjE exE conjE)
    fix reqId t1 cmd
    assume "set_reqId reqId t = Some t1" "t' = (if \<not> g_SSHSession t1 then t1 else tlog (ShellWritten cmd) t1)"
    then show ?thesis using set_reqId_inv [of reqId t t1] i by (auto simp: inv_simps)
  qed (use i in simp)
qed

lemma SSHClientRead_inv: "SSHClientRead E reads t = Some t' \<Longrightarrow> tunnel_inv t \<Longrightarrow> tunnel_inv t'"
  by (induction E reads t rule: SSHClientRead.induct) (auto simp: bind_eq_Some_conv SendRsp_inv split: if_splits)

lemma ListenerOnMsg_inv:
  assumes "WssClientListenerOnMsg E message t = Some t'" "tunnel_inv t"
  shows "tunnel_inv t'"
proof -
  have created: "tunnel_inv t2" if "SSHClientCreate E doc (WssClientSendRsp D reqId opType buff t) = Some (ret, t2)"
    for doc D reqId opType buff ret t2
    using SSHClientCreate_inv [OF that] assms(2) SendRsp_inv by blast
  have "t' = t \<or> (\<exists>doc. SSHClientRunCmd doc t = Some t')
    \<or> (\<exists>doc reqId ret t2. SSHClientCreate E doc (WssClientSendRsp (e_sdk E) reqId (Some ''connect_response'') None t) = Some (ret, t2)
        \<and> (t' = t2 \<or> (\<exists>code text. WssClientSendDisConn (e_sdk E) reqId code text t2 = Some t')))"
    using assms(1) unfolding WssClientListenerOnMsg_def Let_def
    by (force simp: bind_eq_Some_conv split: if_splits option.splits prod.splits)
  then show ?thesis using assms(2) created RunCmd_inv SendDisConn_inv by metis
qed

lemma ListenerOnClose_inv:
  assumes "tunnel_inv t"
  shows "tunnel_inv (WssClientListenerOnClose E conn closeStatus t)"
proof -
  let ?t1 = "SSHClientSessionDestroy t"
  obtain r t2 where c: "connect_attempts E True TUNNEL_WSSCLIENT_CONN_RETRY_TIMES TUNNEL_WSSCLIENT_CONN_RETRY_DELAY
      IOTA_FAILURE ?t1 = (r, t2)" by fastforce
  have "tunnel_inv t2" using attempts_inv [OF tunnel_inv_destroys [OF assms] c] .
  moreover have "tunnel_inv ?t1" by (rule tunnel_inv_destroys [OF assms])
  ultimately show ?thesis using assms c
    by (auto simp: WssClientListenerOnClose_def inv_simps Let_def simp del: SessionDestroy_simps split: if_splits)
qed

lemma OnChannelClose_inv: "SSHClientOnChannelClose E t = Some t' \<Longrightarrow> tunnel_inv t \<Longrightarrow> tunnel_inv t'"
  using SendDisConn_inv tunnel_inv_destroys by (auto simp: SSHClientOnChannelClose_def bind_eq_Some_conv)

text \<open>
  C25. Commands run only in a shell the platform logged in to: whatever notifications,
  messages, closes and output the tunnel sees, and whatever noPoll and libssh answer, every
  command was written while a shell was open, every shell was opened right after the
  password was accepted and the key of the host was known or newly stored, never after a
  changed key, and session and channel are there exactly while a shell is open.
\<close>

theorem tunnel_commands_trusted:
  assumes "tunnel_reachable t"
  shows "trace_ok (t_log t) \<and> (g_SSHSession t \<longleftrightarrow> open_shell (t_log t)) \<and> (g_SSHChannel t \<longleftrightarrow> g_SSHSession t)
    \<and> (g_Conn t \<noteq> None \<longrightarrow> g_Ctx t)"
proof -
  have "tunnel_inv t" using assms
  proof induction
    case start
    then show ?case by (simp add: tunnel_inv_def tunnel_start_def)
  next
    case (step t t')
    from step(2,3) show ?case
      by (induction rule: tunnel_step.induct)
        (auto intro: HandleTunnelMgr_inv ListenerOnMsg_inv ListenerOnClose_inv SSHClientRead_inv OnChannelClose_inv)
  qed
  then show ?thesis by (auto simp: tunnel_inv_def)
qed

text \<open>A login with the right password and a command.\<close>

definition sample_request :: "string \<Rightarrow> json \<Rightarrow> json" where
  "sample_request opType data = JObject [(''tunnel_service_type'', JString ''ssh''), (''operation_type'', JString opType),
     (''request_id'', JString ''00000000-0000-0000-0000-000000000000''), (''data'', data)]"

definition sample_answering :: "json \<Rightarrow> tunnel_env" where
  "sample_answering doc = sample_tunnel_env \<lparr>e_sdk := sample_sdk doc\<rparr>"

definition after_login :: "tunnel option" where
  "after_login = WssClientListenerOnMsg (sample_answering (sample_request ''connect''
     (JObject [(''username'', JString ''user''), (''password'', JString ''secret'')])))
     \<lparr>m_fragment = False, m_final = True, m_payload = Some ''x''\<rparr> tunnel_start"

definition after_command :: "tunnel option" where
  "after_command = Option.bind after_login (WssClientListenerOnMsg (sample_answering (sample_request ''command'' (JString ''ls'')))
     \<lparr>m_fragment = False, m_final = True, m_payload = Some ''x''\<rparr>)"

theorem tunnel_commands_trusted_witness:
  "\<exists>t. after_command = Some t \<and> t_log t = [ShellWritten ''ls'', ShellOpened, SshAuth ''secret'' 0,
      HostChecked SSH_KNOWN_HOSTS_OK, SshConnect ''user''] \<and> trace_ok (t_log t)"
proof -
  have "map_option t_log after_command = Some [ShellWritten ''ls'', ShellOpened, SshAuth ''secret'' 0,
      HostChecked SSH_KNOWN_HOSTS_OK, SshConnect ''user'']" by code_simp
  then obtain t where t: "after_command = Some t" "t_log t = [ShellWritten ''ls'', ShellOpened, SshAuth ''secret'' 0,
      HostChecked SSH_KNOWN_HOSTS_OK, SshConnect ''user'']" by auto
  then obtain t1 where "after_login = Some t1" "tunnel_step t1 t"
    by (auto simp: after_command_def bind_eq_Some_conv intro: tunnel_step.arrived)
  moreover from this(1) have "tunnel_step tunnel_start t1" unfolding after_login_def by (rule tunnel_step.arrived)
  ultimately have "tunnel_reachable t" using tunnel_reachable.start tunnel_reachable.step by blast
  from tunnel_commands_trusted [OF this] show ?thesis using t by blast
qed

end
