(* ===== verification/Mqtt5.thy ===== *)
theory Mqtt5
  imports Callbacks
begin

text \<open>
  The build with MQTTV5: the user properties and other properties of a message
  (src/base/mqtt\_base.c, DataConversion and DataConversionArrived), the callbacks of the Paho
  client for MQTT 5, and the release of the list of user properties (src/util/mqttv5\_util.c).
  The list is the list of its entries where it is only read and an explicit store of nodes
  where it is released.  The nodes of an arriving message are allocated successfully.
\<close>

section \<open>Properties of a message\<close>

record mqttv5_data =
  v5_properties :: "(cstr \<times> cstr) list"
  contnt_type :: cstr
  response_topic :: cstr
  correlation_data :: cstr
  topic_alias :: "32 word"

definition mqttv5_initializer :: mqttv5_data where
  "mqttv5_initializer = \<lparr>v5_properties = [], contnt_type = None, response_topic = None, correlation_data = None,
     topic_alias = -1\<rparr>"

text \<open>The properties of the Paho client that are used, by their identifiers.\<close>

datatype mqtt_property = UserProperty string string | ContentType string | ResponseTopic string
  | CorrelationData string | TopicAlias "32 word" | OtherProperty int

text \<open>The lengths are taken of the key and the value of every user property.\<close>

fun user_properties :: "(cstr \<times> cstr) list \<Rightarrow> mqtt_property list option" where
  "user_properties [] = Some []"
| "user_properties ((key, val) # users) = do {
     k \<leftarrow> deref key;
     v \<leftarrow> deref val;
     ps \<leftarrow> user_properties users;
     Some (UserProperty k v # ps) }"

definition text_property :: "(string \<Rightarrow> mqtt_property) \<Rightarrow> cstr \<Rightarrow> mqtt_property list" where
  "text_property f s = (case s of None \<Rightarrow> [] | Some x \<Rightarrow> [f x])"

definition DataConversion :: "mqttv5_data option \<Rightarrow> mqtt_property list option" where
  "DataConversion properties = (case properties of None \<Rightarrow> Some []
     | Some d \<Rightarrow> do {
         users \<leftarrow> user_properties (v5_properties d);
         Some (users @ text_property ContentType (contnt_type d) @ text_property ResponseTopic (response_topic d)
           @ text_property CorrelationData (correlation_data d)
           @ (if topic_alias d > 0 then [TopicAlias (scast (ucast (topic_alias d) :: 16 word))] else [])) })"

text \<open>The alias is read as the text pointer of the property, whose bytes the integer does not
  set: \<open>junk\<close>.  The head of the list is only set with the first user property.\<close>

fun arrived_step :: "32 word \<Rightarrow> mqtt_property \<Rightarrow> mqttv5_data \<Rightarrow> mqttv5_data" where
  "arrived_step junk (UserProperty k v) d = d \<lparr>v5_properties := v5_properties d @ [(Some k, Some v)]\<rparr>"
| "arrived_step junk (ContentType s) d = d \<lparr>contnt_type := Some s\<rparr>"
| "arrived_step junk (ResponseTopic s) d = d \<lparr>response_topic := Some s\<rparr>"
| "arrived_step junk (CorrelationData s) d = d \<lparr>correlation_data := Some s\<rparr>"
| "arrived_step junk (TopicAlias n) d = d \<lparr>topic_alias := junk\<rparr>"
| "arrived_step junk (OtherProperty i) d = d"

definition DataConversionArrived :: "32 word \<Rightarrow> mqtt_property list \<Rightarrow> mqttv5_data option" where
  "DataConversionArrived junk props =
    (if props = [] then Some mqttv5_initializer
     else do {
       let d = fold (arrived_step junk) props mqttv5_initializer;
       guard_ub (v5_properties d \<noteq> []);
       Some d })"

section \<open>Callbacks\<close>

text \<open>The response of a success is looked into even when it is NULL.\<close>

definition HandleCallbackFailure5 ::
  "sdk \<Rightarrow> 64 word \<Rightarrow> base_handler option \<Rightarrow> protocol_rsp option \<Rightarrow> client \<Rightarrow> client option" where
  "HandleCallbackFailure5 E rand callback response c =
     call_base E rand callback (case response of Some r \<Rightarrow> r | None \<Rightarrow> (0, IOTA_FAILURE, None)) c"

definition HandleCallbackSuccess5 ::
  "sdk \<Rightarrow> 64 word \<Rightarrow> base_handler option \<Rightarrow> int option \<Rightarrow> client \<Rightarrow> client option" where
  "HandleCallbackSuccess5 E rand callback response c = do {
     token \<leftarrow> deref response;
     call_base E rand callback (token, IOTA_SUCCESS, None) c }"

definition MqttBase_OnConnectSuccess5 :: on_success where
  "MqttBase_OnConnectSuccess5 E rand response c = HandleCallbackSuccess5 E rand (onConnectS c) response c"

definition MqttBase_OnConnectFailure5 :: on_failure where
  "MqttBase_OnConnectFailure5 E rand response c = HandleCallbackFailure5 E rand (onConnectF c) response c"

definition MqttBase_OnSubscribeSuccess5 :: on_success where
  "MqttBase_OnSubscribeSuccess5 E rand response c = HandleCallbackSuccess5 E rand (onSubscribeS c) response c"

definition MqttBase_OnSubscribeFailure5 :: on_failure where
  "MqttBase_OnSubscribeFailure5 E rand response c = HandleCallbackFailure5 E rand (onSubscribeF c) response c"

definition MqttBase_OnPublishSuccess5 :: on_success where
  "MqttBase_OnPublishSuccess5 E rand response c = HandleCallbackSuccess5 E rand (onPublishS c) response c"

definition MqttBase_OnPublishFailure5 :: on_failure where
  "MqttBase_OnPublishFailure5 E rand response c = HandleCallbackFailure5 E rand (onPublishF c) response c"

definition MqttBase_OnDisconnectSuccess5 :: on_success where
  "MqttBase_OnDisconnectSuccess5 E rand response c = HandleCallbackSuccess5 E rand (onDisconnectS c) response c"

definition MqttBase_OnDisconnectFailure5 :: on_failure where
  "MqttBase_OnDisconnectFailure5 E rand response c = HandleCallbackFailure5 E rand (onDisconnectF c) response c"

section \<open>What is sent is what arrives\<close>

lemma user_properties_arrive:
  "user_properties us = Some ps \<Longrightarrow> fold (arrived_step junk) ps d = d \<lparr>v5_properties := v5_properties d @ us\<rparr>"
  by (induction us arbitrary: ps d rule: user_properties.induct) (auto simp: bind_eq_Some_conv deref_def)



section \<open>The release of the list\<close>

text \<open>The store has the next pointers of the nodes that are allocated.  Reading or freeing a
  node that is not is undefined.\<close>

type_synonym nodes = "nat \<rightharpoonup> nat option"

partial_function (option) free_loop :: "nodes \<Rightarrow> nat option \<Rightarrow> nat option \<Rightarrow> nodes option" where
  "free_loop h a b = (case a of
     None \<Rightarrow> Some h
   | Some x \<Rightarrow> do {
       _ \<leftarrow> h x;
       let h' = h(x := None);
       b' \<leftarrow> (case b of None \<Rightarrow> Some b | Some y \<Rightarrow> h' y);
       free_loop h' b b' })"

definition mqttV5_listFree :: "nodes \<Rightarrow> nat option \<Rightarrow> nodes option" where
  "mqttV5_listFree h mqttData = (case mqttData of
     None \<Rightarrow> Some h
   | Some x \<Rightarrow> do { b \<leftarrow> h x; free_loop h mqttData b })"

text \<open>The nodes a list is made of.\<close>

fun chain :: "nodes \<Rightarrow> nat option \<Rightarrow> nat list \<Rightarrow> bool" where
  "chain h p [] = (p = None)"
| "chain h p (x # xs) = (p = Some x \<and> (case h x of None \<Rightarrow> False | Some n \<Rightarrow> chain h n xs))"

lemma chain_other: "x \<notin> set xs \<Longrightarrow> chain (h(x := v)) p xs = chain h p xs"
  by (induction xs arbitrary: p) (auto split: option.split)

lemma free_loop_chain:
  assumes "chain h (Some x) (x # xs)" "distinct (x # xs)" "h x = Some b"
  shows "free_loop h (Some x) b = Some (h |` (- set (x # xs)))"
  using assms
proof (induction xs arbitrary: h x b)
  case Nil
  then have "free_loop h (Some x) b = free_loop (h(x := None)) None None"
    by (subst free_loop.simps) simp
  then show ?case by (simp add: free_loop.simps restrict_map_def fun_eq_iff)
next
  case (Cons y ys)
  then have b: "b = Some y" and y: "chain h (Some y) (y # ys)" "x \<noteq> y" "x \<notin> set ys" by auto
  let ?h = "h(x := None)"
  obtain n where n: "h y = Some n" using y(1) by (auto split: option.splits)
  have "chain ?h (Some y) (y # ys)" using y chain_other [of x "y # ys" h None] by auto
  moreover have "?h y = Some n" using n y(2) by simp
  moreover have "distinct (y # ys)" using Cons.prems(2) by simp
  ultimately have "free_loop ?h (Some y) n = Some (?h |` (- set (y # ys)))" using Cons.IH by blast
  moreover have "free_loop h (Some x) b = free_loop ?h (Some y) n"
    using Cons.prems(3) b n y(2) by (subst free_loop.simps) simp
  ultimately show ?case by (auto simp: restrict_map_def fun_eq_iff)
qed

text \<open>
  Releasing the user properties ends, for every list, with exactly its nodes freed, each
  of them once, without reading a node after it was freed and without touching any other.
\<close>

theorem mqttV5_listFree_frees:
  assumes "chain h p xs" "distinct xs"
  shows "mqttV5_listFree h p = Some (h |` (- set xs))"
proof (cases xs)
  case Nil
  then show ?thesis using assms(1) by (simp add: mqttV5_listFree_def restrict_map_def fun_eq_iff)
next
  case (Cons x ys)
  then obtain b where "p = Some x" "h x = Some b" using assms(1) by (auto split: option.splits)
  then show ?thesis using free_loop_chain [of h x ys b] assms Cons by (simp add: mqttV5_listFree_def)
qed

theorem mqttV5_listFree_frees_witness:
  "mqttV5_listFree [3 \<mapsto> Some 5, 5 \<mapsto> Some 4, 4 \<mapsto> None, 9 \<mapsto> Some 3] (Some 3) = Some [9 \<mapsto> Some 3]"
proof -
  have "mqttV5_listFree [3 \<mapsto> Some 5, 5 \<mapsto> Some 4, 4 \<mapsto> None, 9 \<mapsto> Some 3] (Some 3)
      = Some ([3 \<mapsto> Some 5, 5 \<mapsto> Some 4, 4 \<mapsto> None, 9 \<mapsto> Some 3] |` (- set [3, 5, 4]))"
    by (rule mqttV5_listFree_frees) simp_all
  then show ?thesis by (simp add: restrict_map_def fun_eq_iff)
qed

end
