(* ===== verification/Report5.thy ===== *)
theory Report5
  imports Mqtt5
begin

text \<open>
  The reports of the build with MQTTV5: MqttBase\_publishSet with the properties of a message
  (src/base/mqtt\_base.c), the reports of src/service/data\_trans.c that pass them on, and the
  functions ending in V5 of src/agentlite/iota\_datatrans.c.  Beside the state of the client
  stand the properties of the messages sent so far, the latest first.
\<close>

section \<open>Publishing with properties\<close>

type_synonym mqtt5 = "mqtt \<times> mqtt_property list list"
type_synonym action5 = "mqtt5 \<Rightarrow> (int \<times> mqtt5) option"

definition MqttBase_publishSet5 ::
  "mqtt_env \<Rightarrow> cstr \<Rightarrow> string \<Rightarrow> int \<Rightarrow> int \<Rightarrow> mqttv5_data option \<Rightarrow> action5" where
  "MqttBase_publishSet5 env topic payload len qos properties s =
    (if \<not> g_client (fst s) then Some (IOTA_FAILURE, s)
     else do {
       pubmsg_properties \<leftarrow> DataConversion properties;
       let (ret, token) = env_send env topic payload len qos;
       let s' = ((fst s) \<lparr>mqtt_log := Published topic payload len qos # mqtt_log (fst s)\<rparr>, pubmsg_properties # snd s);
       Some (if ret \<noteq> 0 then IOTA_FAILURE else token, s') })"

definition MqttBase_publish5 :: "mqtt_env \<Rightarrow> cstr \<Rightarrow> string \<Rightarrow> int \<Rightarrow> mqttv5_data option \<Rightarrow> action5" where
  "MqttBase_publish5 env topic payload len properties s =
     MqttBase_publishSet5 env topic payload len (g_QoS (fst s)) properties s"

section \<open>Reports\<close>

definition ReportData5 :: "mqtt_env \<Rightarrow> cstr \<Rightarrow> cstr \<Rightarrow> mqttv5_data option \<Rightarrow> action5" where
  "ReportData5 env topic payload properties s =
    (case (topic, payload) of
       (Some _, Some p) \<Rightarrow> do {
         (ret, s') \<leftarrow> MqttBase_publish5 env topic p (int (length p)) properties s;
         Some (if ret < 0 then IOTA_FAILURE else IOTA_SUCCESS, s') }
     | _ \<Rightarrow> Some (IOTA_FAILURE, s))"

definition ReportCompressedData5 ::
  "zlib \<Rightarrow> mqtt_env \<Rightarrow> heap \<Rightarrow> cstr \<Rightarrow> cstr \<Rightarrow> mqttv5_data option \<Rightarrow> action5" where
  "ReportCompressedData5 zl env mem topic payload properties s = do {
     p \<leftarrow> deref payload;
     let len = int (length p);
     guard_ub (len * 2 \<le> 2147483647);
     let compressed = StringMalloc mem None (len * 2);
     if compressed = None then Some (IOTA_FAILURE, s)
     else do {
       (gz_size, out) \<leftarrow> gZIPCompress zl payload len True (len * 2);
       (ret, s') \<leftarrow> MqttBase_publish5 env topic out gz_size properties s;
       Some (if ret < 0 then IOTA_FAILURE else IOTA_SUCCESS, s') } }"

definition report_own5 ::
  "mqtt_env \<Rightarrow> heap \<Rightarrow> string \<Rightarrow> cstr list \<Rightarrow> cstr \<Rightarrow> mqttv5_data option \<Rightarrow> action5" where
  "report_own5 env mem pre sufs payload properties s = do {
     topic \<leftarrow> own_topic mem (fst s) pre sufs;
     case topic of
       None \<Rightarrow> Some (IOTA_FAILURE, s)
     | Some t \<Rightarrow> ReportData5 env t payload properties s }"

text \<open>A report that may be compressed, with the properties of either case.\<close>

definition report_flagged5 ::
  "zlib \<Rightarrow> mqtt_env \<Rightarrow> heap \<Rightarrow> string \<Rightarrow> cstr \<Rightarrow> int \<Rightarrow> mqttv5_data option \<Rightarrow> mqttv5_data option \<Rightarrow> action5" where
  "report_flagged5 zl env mem suf payload compressFlag plain compressed s =
    (if compressFlag = 0 then report_own5 env mem TOPIC_PREFIX [Some suf] payload plain s
     else if compressFlag = 1 then do {
       topic \<leftarrow> own_topic mem (fst s) TOPIC_PREFIX [Some suf, Some TOPIC_SUFFIX_COMPRESS];
       case topic of
         None \<Rightarrow> Some (IOTA_FAILURE, s)
       | Some t \<Rightarrow> ReportCompressedData5 zl env mem t payload compressed s }
     else Some (IOTA_FAILURE, s))"

definition ReportDeviceData5 ::
  "zlib \<Rightarrow> mqtt_env \<Rightarrow> heap \<Rightarrow> cstr \<Rightarrow> cstr \<Rightarrow> int \<Rightarrow> mqttv5_data option \<Rightarrow> action5" where
  "ReportDeviceData5 zl env mem payload topicParas compressFlag properties s =
    (if topicParas = None then report_flagged5 zl env mem TOPIC_SUFFIX_MESSAGEUP payload compressFlag properties properties s
     else report_own5 env mem TOPIC_PREFIX [Some TOPIC_SUFFIX_USER, topicParas] payload properties s)"

definition ReportDeviceProperties5 ::
  "zlib \<Rightarrow> mqtt_env \<Rightarrow> heap \<Rightarrow> cstr \<Rightarrow> int \<Rightarrow> mqttv5_data option \<Rightarrow> action5" where
  "ReportDeviceProperties5 zl env mem payload compressFlag properties s =
     report_flagged5 zl env mem TOPIC_SUFFIX_PROP_REP payload compressFlag properties properties s"

text \<open>Without compression the properties are not passed on.\<close>

definition ReportBatchDeviceProperties5 ::
  "zlib \<Rightarrow> mqtt_env \<Rightarrow> heap \<Rightarrow> cstr \<Rightarrow> int \<Rightarrow> mqttv5_data option \<Rightarrow> action5" where
  "ReportBatchDeviceProperties5 zl env mem payload compressFlag properties s =
     report_flagged5 zl env mem TOPIC_SUFFIX_PROPS_REP payload compressFlag None properties s"

definition ReportCommandReponse5 ::
  "mqtt_env \<Rightarrow> heap \<Rightarrow> cstr \<Rightarrow> cstr \<Rightarrow> mqttv5_data option \<Rightarrow> action5" where
  "ReportCommandReponse5 env mem requestId commandResponse properties s =
     report_own5 env mem TOPIC_PREFIX [Some TOPIC_SUFFIX_COMMAND_RSP_REQ, requestId] commandResponse properties s"

section \<open>The functions of the API\<close>

definition IOTA_MessageReportV5 :: "sdk \<Rightarrow> mess_rep_info \<Rightarrow> int \<Rightarrow> mqttv5_data option \<Rightarrow> action5" where
  "IOTA_MessageReportV5 E mass compressFlag mqttv5 s =
    (if mr_content mass = None then Some (IOTA_PARAMETER_EMPTY, s)
     else case IOTA_MessageReportPayload E (mr_object_device_id mass) (mr_name mass) (mr_id mass) (mr_content mass) of
       None \<Rightarrow> Some (IOTA_FAILURE, s)
     | Some payload \<Rightarrow> ReportDeviceData5 (sdk_zlib E) (sdk_mqtt E) (sdk_heap E) (Some payload) (mr_topicParas mass)
         compressFlag mqttv5 s)"

text \<open>The quality of service is not used.\<close>

definition IOTA_RawTopicMessageReportV5 :: "sdk \<Rightarrow> cstr \<Rightarrow> cstr \<Rightarrow> int \<Rightarrow> mqttv5_data option \<Rightarrow> action5" where
  "IOTA_RawTopicMessageReportV5 E topic payload qos mqttv5 s =
    (if topic = None \<or> payload = None then Some (IOTA_PARAMETER_EMPTY, s)
     else do {
       topicParas \<leftarrow> CombineStrings (sdk_heap E) 1 topic [];
       ReportData5 (sdk_mqtt E) topicParas payload mqttv5 s })"

definition IOTA_PropertiesReportV5 ::
  "sdk \<Rightarrow> (command_call \<Rightarrow> bool) \<Rightarrow> service_data list option \<Rightarrow> int \<Rightarrow> int \<Rightarrow> mqttv5_data option \<Rightarrow> rule_mgr \<Rightarrow> mqtt5
    \<Rightarrow> (int \<times> rule_event list \<times> rule_mgr \<times> mqtt5) option" where
  "IOTA_PropertiesReportV5 E spawn pServiceData serviceNum compressFlag mqttv5 rm s = do {
     (payload, events, rm') \<leftarrow> IOTA_PropertiesReportPayload E spawn pServiceData serviceNum rm;
     (ret, s') \<leftarrow> (case payload of
        None \<Rightarrow> Some (IOTA_FAILURE, s)
      | Some p \<Rightarrow> ReportDeviceProperties5 (sdk_zlib E) (sdk_mqtt E) (sdk_heap E) (Some p) compressFlag mqttv5 s);
     Some (ret, events, rm', s') }"

definition IOTA_BatchPropertiesReportV5 ::
  "sdk \<Rightarrow> device_data list option \<Rightarrow> int \<Rightarrow> int list option \<Rightarrow> int \<Rightarrow> mqttv5_data option \<Rightarrow> action5" where
  "IOTA_BatchPropertiesReportV5 E pDeviceData deviceNum serviceLenList compressFlag mqttv5 s = do {
     payload \<leftarrow> IOTA_BatchPropertiesReportPayload E pDeviceData deviceNum serviceLenList;
     case payload of
       None \<Rightarrow> Some (IOTA_FAILURE, s)
     | Some p \<Rightarrow>
         ReportBatchDeviceProperties5 (sdk_zlib E) (sdk_mqtt E) (sdk_heap E) (Some p) compressFlag mqttv5 s }"

definition IOTA_CommandResponseV5 ::
  "sdk \<Rightarrow> cstr \<Rightarrow> int \<Rightarrow> cstr \<Rightarrow> cstr \<Rightarrow> mqttv5_data option \<Rightarrow> action5" where
  "IOTA_CommandResponseV5 E requestId result_code response_name pcCommandResponse properties s =
    (if requestId = None then Some (IOTA_PARAMETER_EMPTY, s)
     else case IOTA_CommandResponsePayload E result_code response_name pcCommandResponse of
       None \<Rightarrow> Some (IOTA_FAILURE, s)
     | Some p \<Rightarrow> ReportCommandReponse5 (sdk_mqtt E) (sdk_heap E) requestId (Some p) properties s)"

section \<open>The two builds agree\<close>

text \<open>What a report of the build for MQTT 3.1.1 gives, with the properties of the message if
  one was sent.\<close>

definition attach :: "mqtt_property list \<Rightarrow> mqtt5 \<Rightarrow> int \<times> mqtt \<Rightarrow> int \<times> mqtt5" where
  "attach pro s r = (fst r, snd r, if mqtt_log (snd r) = mqtt_log (fst s) then snd s else pro # snd s)"

definition attaches :: "mqtt_property list \<Rightarrow> action5 \<Rightarrow> action \<Rightarrow> bool" where
  "attaches pro f5 f \<longleftrightarrow> (\<forall>s. f5 s = map_option (attach pro s) (f (fst s)))"

lemma attachesI: "(\<And>m ps. f5 (m, ps) = map_option (attach pro (m, ps)) (f m)) \<Longrightarrow> attaches pro f5 f"
  by (simp add: attaches_def)

lemma attachesD: "attaches pro f5 f \<Longrightarrow> f5 s = map_option (attach pro s) (f (fst s))"
  unfolding attaches_def by blast

lemma attach_same [simp]: "attach pro s (r, fst s) = (r, s)"
  by (simp add: attach_def)

lemma publish5_attaches:
  assumes "DataConversion properties = Some pro"
  shows "attaches pro (MqttBase_publish5 env topic payload len properties)
    (\<lambda>m. Some (MqttBase_publish env topic payload len m))"
  using assms
  by (auto simp: attaches_def attach_def MqttBase_publish5_def MqttBase_publishSet5_def MqttBase_publish_def
      MqttBase_publishSet_def Let_def split_beta)

lemma ReportData5_attaches:
  assumes "DataConversion properties = Some pro"
  shows "attaches pro (ReportData5 env topic payload properties) (\<lambda>m. Some (ReportData env topic payload m))"
  by (auto simp: attaches_def attach_def ReportData5_def ReportData_def attachesD [OF publish5_attaches [OF assms]]
      split_beta Let_def split: option.split)

lemma ReportCompressedData5_attaches:
  assumes "DataConversion properties = Some pro"
  shows "attaches pro (ReportCompressedData5 zl env mem topic payload properties) (ReportCompressedData zl env mem topic payload)"
  by (rule attachesI) (auto simp: attach_def ReportCompressedData5_def ReportCompressedData_def
      attachesD [OF publish5_attaches [OF assms]] split_beta Let_def split: option.split bind_split)

lemma report_own5_attaches:
  assumes "DataConversion properties = Some pro"
  shows "attaches pro (report_own5 env mem pre sufs payload properties) (report_own env mem pre sufs payload)"
  by (rule attachesI) (auto simp: report_own5_def report_own_def attachesD [OF ReportData5_attaches [OF assms]]
      attach_def split: option.split bind_split)

lemma report_flagged5_attaches:
  assumes "DataConversion plain = Some pro" "DataConversion compressed = Some cpro"
  shows "attaches (if compressFlag = 1 then cpro else pro) (report_flagged5 zl env mem suf payload compressFlag plain compressed)
    (report_flagged zl env mem suf payload compressFlag)"
  by (rule attachesI) (auto simp: report_flagged5_def report_flagged_def report_compressed_def
      attachesD [OF report_own5_attaches [OF assms(1)]] attachesD [OF ReportCompressedData5_attaches [OF assms(2)]]
      attach_def split: option.split bind_split)



end
