(* ===== verification/Log.thy ===== *)
theory Log
  imports Strings
begin

text \<open>
  The logging of src/util/log\_util.c without \_SYS\_LOG and with LOG\_FILE\_ENABLE 0: what the
  registered callback is given.  The arguments of a format are passed through and left out.
  The other theories leave the calls of the log out.
\<close>

section \<open>Levels\<close>

datatype log_level = EN_LOG_LEVEL_DEBUG | EN_LOG_LEVEL_INFO | EN_LOG_LEVEL_WARNING | EN_LOG_LEVEL_ERROR
  | EN_LOG_LEVEL_MQTT_MAXIMUM | EN_LOG_LEVEL_MQTT_MEDIUM | EN_LOG_LEVEL_MQTT_MINIMUM | EN_LOG_LEVEL_MQTT_PROTOCOL
  | EN_LOG_LEVEL_MQTT_ERROR | EN_LOG_LEVEL_MQTT_SEVERE | EN_LOG_LEVEL_MQTT_FATAL | OTHER_LEVEL int

fun level_value :: "log_level \<Rightarrow> int" where
  "level_value EN_LOG_LEVEL_DEBUG = 0"
| "level_value EN_LOG_LEVEL_INFO = 1"
| "level_value EN_LOG_LEVEL_WARNING = 2"
| "level_value EN_LOG_LEVEL_ERROR = 3"
| "level_value EN_LOG_LEVEL_MQTT_MAXIMUM = 8"
| "level_value EN_LOG_LEVEL_MQTT_MEDIUM = 9"
| "level_value EN_LOG_LEVEL_MQTT_MINIMUM = 10"
| "level_value EN_LOG_LEVEL_MQTT_PROTOCOL = 11"
| "level_value EN_LOG_LEVEL_MQTT_ERROR = 12"
| "level_value EN_LOG_LEVEL_MQTT_SEVERE = 13"
| "level_value EN_LOG_LEVEL_MQTT_FATAL = 14"
| "level_value (OTHER_LEVEL i) = i"

fun level_prefix :: "log_level \<Rightarrow> string" where
  "level_prefix EN_LOG_LEVEL_DEBUG = ''DEBUG ''"
| "level_prefix EN_LOG_LEVEL_INFO = ''INFO ''"
| "level_prefix EN_LOG_LEVEL_WARNING = ''WARNING ''"
| "level_prefix EN_LOG_LEVEL_ERROR = ''ERROR ''"
| "level_prefix EN_LOG_LEVEL_MQTT_MAXIMUM = ''MQTT_MAXIMUM ''"
| "level_prefix EN_LOG_LEVEL_MQTT_MEDIUM = ''MQTT_MEDIUM ''"
| "level_prefix EN_LOG_LEVEL_MQTT_MINIMUM = ''MQTT_MINIMUM ''"
| "level_prefix EN_LOG_LEVEL_MQTT_PROTOCOL = ''MQTT_PROTOCOL ''"
| "level_prefix EN_LOG_LEVEL_MQTT_ERROR = ''MQTT_ERROR ''"
| "level_prefix EN_LOG_LEVEL_MQTT_SEVERE = ''MQTT_SEVERE ''"
| "level_prefix EN_LOG_LEVEL_MQTT_FATAL = ''MQTT_FATAL ''"
| "level_prefix (OTHER_LEVEL i) = ''U ''"

section \<open>Printing\<close>

text \<open>Whether a callback is set, and what it was given, the latest first.\<close>

record logger =
  PrintfLogCb :: bool
  printed :: "(log_level \<times> string) list"

definition SetPrintfLogCallback :: "bool \<Rightarrow> logger \<Rightarrow> logger" where
  "SetPrintfLogCallback cb g = g \<lparr>PrintfLogCb := cb\<rparr>"

text \<open>The messages of the client library have no time stamp.\<close>

definition PrintfLog ::
  "heap \<Rightarrow> (int \<Rightarrow> tm option) \<Rightarrow> int \<times> int \<Rightarrow> log_level \<Rightarrow> cstr \<Rightarrow> logger \<Rightarrow> logger option" where
  "PrintfLog mem localtime now logLevel message g = (case message of
     None \<Rightarrow> Some g
   | Some msg \<Rightarrow> do {
       tempStr \<leftarrow> CombineStrings mem 2 (Some (level_prefix logLevel)) [Some msg];
       fmt \<leftarrow> (if level_value logLevel < level_value EN_LOG_LEVEL_MQTT_MAXIMUM
                  \<or> level_value logLevel > level_value EN_LOG_LEVEL_MQTT_FATAL
               then PrependLocalTimeWithMs mem localtime now tempStr else Some tempStr);
       Some (if PrintfLogCb g
             then g \<lparr>printed := (logLevel, case fmt of None \<Rightarrow> msg | Some s \<Rightarrow> s) # printed g\<rparr> else g) })"

text \<open>A message is never dropped for want of memory: without any the callback is given the
  message as it is.\<close>

lemma PrintfLog_no_memory:
  assumes "PrintfLogCb g" "\<And>n. \<not> mem n" "localtime (fst now) \<noteq> None"
  shows "PrintfLog mem localtime now logLevel (Some msg) g = Some (g \<lparr>printed := (logLevel, msg) # printed g\<rparr>)"
proof -
  have "CombineStrings mem 2 (Some (level_prefix logLevel)) [Some msg] = Some None"
    using assms(2) by (simp add: CombineStrings_def Let_def)
  moreover obtain lt where "localtime (fst now) = Some lt" using assms(3) by blast
  moreover have "PrependLocalTimeWithMs mem localtime now None = Some None"
    using calculation(2) assms(2) by (cases now) (simp add: PrependLocalTimeWithMs_def Timeval2Str_def split: option.split)
  ultimately show ?thesis using assms(1) by (simp add: PrintfLog_def)
qed

end
