(* ===== verification/DirWatch.thy ===== *)
theory DirWatch
  imports Prelude
begin

text \<open>
  The directories watched for changes (src/service/detect\_anomaly/detect\_anomaly.c, ListDir
  and FileTamperWatchListedDir).  The file system is a parameter: what opendir and readdir
  give for a path, each entry with whether it is a directory.  The recursion works in one
  buffer of PATH\_MAX bytes, whose text is passed through.  Whether it ends depends on the file
  system, so not ending is \<open>None\<close>.  The list of protected paths is empty in the sources, every
  path in it being commented out.
\<close>

section \<open>The walk\<close>

definition PATH_MAX :: nat where "PATH_MAX = 4096"

type_synonym file_system = "string \<Rightarrow> (string \<times> bool) list option"

text \<open>The safe concatenation empties the destination when the text does not fit.\<close>

definition strcat_s :: "string \<Rightarrow> nat \<Rightarrow> string \<Rightarrow> bool \<times> string" where
  "strcat_s dest destMax src = (if length dest + length src < destMax then (True, dest @ src) else (False, []))"

definition append_entry :: "string \<Rightarrow> string \<Rightarrow> bool \<times> string" where
  "append_entry path name = (case strcat_s path PATH_MAX ''/'' of
     (False, p) \<Rightarrow> (False, p) | (True, p) \<Rightarrow> strcat_s p PATH_MAX name)"

definition skipped :: "string \<times> bool \<Rightarrow> bool" where
  "skipped e \<longleftrightarrow> fst e = ''.'' \<or> fst e = ''..'' \<or> \<not> snd e"

text \<open>The loop over the entries of a directory that is open, and the call for one of them.
  The NUL that is put back at the old length shortens the text, unless it is shorter.\<close>

partial_function (option) list_entries ::
  "file_system \<Rightarrow> string \<Rightarrow> (string \<times> bool) list \<Rightarrow> string list \<Rightarrow> (string \<times> string list) option" where
  "list_entries fs path entries watched = (case entries of
     [] \<Rightarrow> Some (path, watched)
   | e # rest \<Rightarrow>
       if skipped e then list_entries fs path rest watched
       else do {
         (path', watched') \<leftarrow> (case append_entry path (fst e) of
            (fits, sub) \<Rightarrow>
              if fits then (case fs sub of
                None \<Rightarrow> Some (sub, watched @ [sub])
              | Some es \<Rightarrow> list_entries fs sub es (watched @ [sub]))
              else Some (sub, watched));
         list_entries fs (take (length path) path') rest watched' })"

definition ListDir :: "file_system \<Rightarrow> string \<Rightarrow> string list \<Rightarrow> (string \<times> string list) option" where
  "ListDir fs path watched = (case fs path of
     None \<Rightarrow> Some (path, watched @ [path])
   | Some entries \<Rightarrow> list_entries fs path entries (watched @ [path]))"

lemma list_entries_Nil [simp]: "list_entries fs path [] watched = Some (path, watched)"
  by (simp add: list_entries.simps)

lemma list_entries_Cons:
  "list_entries fs path (e # rest) watched =
    (if skipped e then list_entries fs path rest watched
     else do {
       (path', watched') \<leftarrow> (case append_entry path (fst e) of
          (fits, sub) \<Rightarrow> if fits then ListDir fs sub watched else Some (sub, watched));
       list_entries fs (take (length path) path') rest watched' })"
  by (subst list_entries.simps) (simp add: ListDir_def cong: if_cong)

section \<open>Specification\<close>

text \<open>A tree of directories, the paths in it from the top, and that the file system has it at
  a path.\<close>

datatype dir = Dir "(string \<times> dir) list"

fun all_paths :: "string \<Rightarrow> dir \<Rightarrow> string list" where
  "all_paths path (Dir subs) = path # concat (map (\<lambda>(n, d). all_paths (path @ ''/'' @ n) d) subs)"

fun holds_at :: "file_system \<Rightarrow> string \<Rightarrow> dir \<Rightarrow> bool" where
  "holds_at fs path (Dir subs) \<longleftrightarrow>
     (case fs path of None \<Rightarrow> subs = []
      | Some entries \<Rightarrow> map fst (filter (\<lambda>e. \<not> skipped e) entries) = map fst subs)
     \<and> (\<forall>s\<in>set subs. holds_at fs (path @ ''/'' @ fst s) (snd s))"

lemma append_entry_fits:
  "length (path @ ''/'' @ n) < PATH_MAX \<Longrightarrow> append_entry path n = (True, path @ ''/'' @ n)"
  by (simp add: append_entry_def strcat_s_def)

lemma all_paths_head: "path \<in> set (all_paths path d)"
  by (cases d) simp

lemma list_entries_subs:
  assumes "map fst (filter (\<lambda>e. \<not> skipped e) entries) = map fst subs"
    and "\<And>n d w. (n, d) \<in> set subs \<Longrightarrow>
      ListDir fs (path @ ''/'' @ n) w = Some (path @ ''/'' @ n, w @ all_paths (path @ ''/'' @ n) d)"
    and "\<And>n d. (n, d) \<in> set subs \<Longrightarrow> length (path @ ''/'' @ n) < PATH_MAX"
  shows "list_entries fs path entries w = Some (path, w @ concat (map (\<lambda>(n, d). all_paths (path @ ''/'' @ n) d) subs))"
  using assms
proof (induction entries arbitrary: subs w)
  case Nil
  then show ?case by simp
next
  case (Cons e rest)
  show ?case
  proof (cases "skipped e")
    case True
    then show ?thesis using Cons.IH [of subs w] Cons.prems by (simp add: list_entries_Cons)
  next
    case False
    then obtain d subs' where s: "subs = (fst e, d) # subs'" "map fst (filter (\<lambda>e. \<not> skipped e) rest) = map fst subs'"
      using Cons.prems(1) by (cases subs) auto
    have here: "append_entry path (fst e) = (True, path @ ''/'' @ fst e)"
      using Cons.prems(3) [of "fst e" d] s(1) by (intro append_entry_fits) simp
    have "list_entries fs path rest v = Some (path, v @ concat (map (\<lambda>(n, d). all_paths (path @ ''/'' @ n) d) subs'))" for v
    proof (rule Cons.IH [OF s(2)])
      show "ListDir fs (path @ ''/'' @ n) x = Some (path @ ''/'' @ n, x @ all_paths (path @ ''/'' @ n) d')"
        "length (path @ ''/'' @ n) < PATH_MAX" if "(n, d') \<in> set subs'" for n d' x
        using Cons.prems(2,3) [of n d'] that s(1) by simp_all
    qed
    then show ?thesis using False here Cons.prems(2) [of "fst e" d w] s(1) by (simp add: list_entries_Cons)
  qed
qed

text \<open>
  C32. Every directory below a protected path is watched, each of them once and before its
  subdirectories, the walk ends, and the path of the caller is restored, for every tree of
  directories whose paths are shorter than PATH\_MAX.
\<close>

theorem ListDir_watches_all:
  assumes "holds_at fs path d" "\<forall>p\<in>set (all_paths path d). length p < PATH_MAX"
  shows "ListDir fs path w = Some (path, w @ all_paths path d)"
  using assms
proof (induction d arbitrary: path w)
  case (Dir subs)
  have sub: "ListDir fs (path @ ''/'' @ n) v = Some (path @ ''/'' @ n, v @ all_paths (path @ ''/'' @ n) d)"
    and len: "length (path @ ''/'' @ n) < PATH_MAX" if "(n, d) \<in> set subs" for n d v
  proof -
    have fits: "\<forall>p\<in>set (all_paths (path @ ''/'' @ n) d). length p < PATH_MAX" using Dir.prems(2) that by fastforce
    then show "length (path @ ''/'' @ n) < PATH_MAX" using all_paths_head by blast
    show "ListDir fs (path @ ''/'' @ n) v = Some (path @ ''/'' @ n, v @ all_paths (path @ ''/'' @ n) d)"
      using Dir.IH [of "(n, d)" d] that Dir.prems(1) fits by (auto split: option.splits)
  qed
  show ?case
  proof (cases "fs path")
    case None
    then show ?thesis using Dir.prems(1) by (simp add: ListDir_def)
  next
    case (Some entries)
    then have "map fst (filter (\<lambda>e. \<not> skipped e) entries) = map fst subs" using Dir.prems(1) by simp
    from list_entries_subs [OF this sub len] Some show ?thesis by (simp add: ListDir_def)
  qed
qed

theorem ListDir_watches_all_witness:
  "ListDir [''/lib'' \<mapsto> [(''.'', True), (''a'', True), (''f'', False), (''b'', True)], ''/lib/a'' \<mapsto> [(''c'', True)]] ''/lib'' [] =
    Some (''/lib'', [''/lib'', ''/lib/a'', ''/lib/a/c'', ''/lib/b''])"
proof -
  let ?fs = "[''/lib'' \<mapsto> [(''.'', True), (''a'', True), (''f'', False), (''b'', True)], ''/lib/a'' \<mapsto> [(''c'', True)]]"
  let ?d = "Dir [(''a'', Dir [(''c'', Dir [])]), (''b'', Dir [])]"
  have "holds_at ?fs ''/lib'' ?d" "\<forall>p\<in>set (all_paths ''/lib'' ?d). length p < PATH_MAX"
    by (simp_all add: skipped_def PATH_MAX_def)
  from ListDir_watches_all [OF this, of "[]"] show ?thesis by simp
qed

text \<open>A path that does not fit empties the buffer, and the entries after it are looked for at
  the top of the file system.\<close>

lemma list_entries_too_long:
  assumes "\<not> skipped (n, True)" "length path + length n + 1 \<ge> PATH_MAX" "\<not> skipped (n', True)" "length n' + 1 < PATH_MAX"
  shows "list_entries fs path [(n, True), (n', True)] w = map_option (\<lambda>(p, w'). ([], w')) (ListDir fs (''/'' @ n') w)"
  using assms by (cases "ListDir fs (''/'' @ n') w")
    (auto simp: list_entries_Cons append_entry_def strcat_s_def PATH_MAX_def)

end
