(* ===== verification/DetectStore.thy ===== *)
theory DetectStore
  imports Detect
begin

text \<open>
  The file with the configuration of the detection, in a build with SECURITY\_AWARENESS\_ENABLE
  (src/service/detect\_anomaly/detect\_anomaly.c).  The file is its text, \<open>None\<close> when there is
  none.  The five further checks of that build have a name and a flag and no functions; they are
  left out, so the checks are those of the theory Detect.
\<close>

section \<open>The file\<close>

definition Detect_FileStoreRead :: "heap \<Rightarrow> cstr \<Rightarrow> cstr" where
  "Detect_FileStoreRead mem file = (case file of
     None \<Rightarrow> None
   | Some contents \<Rightarrow> if mem (length contents + 1) then Some contents else None)"

definition Detect_FileStoreWrite :: "bool \<Rightarrow> cstr \<Rightarrow> cstr \<Rightarrow> cstr option" where
  "Detect_FileStoreWrite can_open json_string file =
    (if \<not> can_open then Some file
     else do { contents \<leftarrow> deref json_string; Some (Some contents) })"

text \<open>Every configuration from the platform is applied on top of the stored one, and the outcome
  is stored before it is reported.\<close>

definition Detect_ParseShadow_stored ::
  "sdk \<Rightarrow> (command_call \<Rightarrow> bool) \<Rightarrow> bool \<Rightarrow> cstr \<Rightarrow> detect \<Rightarrow> cstr \<Rightarrow> rule_mgr \<Rightarrow> mqtt
    \<Rightarrow> (rule_event list \<times> detect \<times> cstr \<times> rule_mgr \<times> mqtt) option" where
  "Detect_ParseShadow_stored E spawn can_open propertiesDown d file rm m = do {
     d0 \<leftarrow> (case Detect_FileStoreRead (sdk_heap E) file of
        None \<Rightarrow> Some d | Some fileData \<Rightarrow> Detect_LoadJsonData E (Some fileData) d);
     d1 \<leftarrow> Detect_LoadJsonData E propertiesDown d0;
     let d2 = Detect_ReportDetectionInfo (sdk_os E) d1;
     file' \<leftarrow> Detect_FileStoreWrite can_open (sdk_print E (config_json d2)) file;
     (events, rm', m') \<leftarrow> Detect_ReportShadowDesired E spawn d2 rm m;
     Some (events, d2, file', rm', m') }"

section \<open>Reading a configuration back\<close>

lemma json_object_ints:
  "json_object (map (\<lambda>(k, i). (k, json_int i)) kis) = JObject (map (\<lambda>(k, i). (k, JNumber (of_int i))) kis)"
proof -
  have "foldl (\<lambda>obj (key, item). AddItemToObject obj key item) (JObject acc) (map (\<lambda>(k, i). (k, json_int i)) kis) =
      JObject (acc @ map (\<lambda>(k, i). (k, JNumber (of_int i))) kis)" for acc
    by (induction kis arbitrary: acc) (auto simp: json_int_def)
  then show ?thesis by (simp add: json_object_def)
qed

lemma find_key_distinct:
  assumes "distinct (map (map to_lower \<circ> fst) kvs)" "(k, v) \<in> set kvs"
  shows "find_key k kvs = Some v"
  using assms
proof (induction kvs)
  case (Cons kv kvs)
  show ?case
  proof (cases "kv = (k, v)")
    case False
    then have "(k, v) \<in> set kvs" using Cons.prems(2) by simp
    moreover from this have "map to_lower (fst kv) \<noteq> map to_lower k" using Cons.prems(1) by force
    ultimately show ?thesis using Cons by (cases kv) (auto simp: same_key_def)
  qed simp
qed simp

definition config_ints :: "detect \<Rightarrow> (string \<times> int) list" where
  "config_ints d = [(''memoryThreshold'', memoryThreshold d), (''cpuUsageThreshold'', cpuUsageThreshold d),
     (''diskSpaceThreshold'', diskSpaceThreshold d), (''batteryPercentageThreshold'', batteryPercentageThreshold d)]
   @ map (\<lambda>t. (checkName (t_kind t), alarm (t_newCheck t))) (g_mTasks d)"

lemma config_json_ints: "config_json d = JObject (map (\<lambda>(k, i). (k, JNumber (of_int i))) (config_ints d))"
proof -
  have "config_json d = json_object (map (\<lambda>(k, i). (k, json_int i)) (config_ints d))"
    by (simp add: config_json_def config_ints_def o_def)
  then show ?thesis by (simp only: json_object_ints)
qed

lemma config_keys_distinct:
  assumes "map t_kind (g_mTasks d) = all_checks"
  shows "distinct (map (map to_lower \<circ> fst) (config_ints d))"
proof -
  have "map fst (config_ints d) = [''memoryThreshold'', ''cpuUsageThreshold'', ''diskSpaceThreshold'', ''batteryPercentageThreshold'']
      @ map checkName (map t_kind (g_mTasks d))"
    by (simp add: config_ints_def o_def)
  moreover have "distinct (map (map to_lower) ([''memoryThreshold'', ''cpuUsageThreshold'', ''diskSpaceThreshold'',
      ''batteryPercentageThreshold''] @ map checkName all_checks))"
    by code_simp
  ultimately show ?thesis using assms by (metis map_map)
qed

lemma config_reads:
  assumes "map t_kind (g_mTasks d) = all_checks" "(k, i) \<in> set (config_ints d)"
  shows "GetObjectItem (Some (config_json d)) k = Some (JNumber (of_int i))"
proof -
  have "map fst (map (\<lambda>(k, i). (k, JNumber (of_int i))) (config_ints d)) = map fst (config_ints d)" by auto
  then have "distinct (map (map to_lower \<circ> fst) (map (\<lambda>(k, i). (k, JNumber (of_int i))) (config_ints d)))"
    using config_keys_distinct [OF assms(1)] by (metis map_map)
  from find_key_distinct [OF this, of k "JNumber (of_int i)"] assms(2) show ?thesis
    by (force simp: config_json_ints)
qed

definition thresholds :: "detect \<Rightarrow> int list" where
  "thresholds d = [memoryThreshold d, cpuUsageThreshold d, diskSpaceThreshold d, batteryPercentageThreshold d]"

definition thresholds_ok :: "detect \<Rightarrow> bool" where
  "thresholds_ok d \<longleftrightarrow> (\<forall>i \<in> set (thresholds d). INT_MIN \<le> i \<and> i \<le> INT_MAX)"

lemma number_to_int_of_int: "INT_MIN \<le> i \<Longrightarrow> i \<le> INT_MAX \<Longrightarrow> number_to_int (JNumber (of_int i)) = Some i"
  by (simp add: number_to_int_def)

lemma number_to_int_alarm: "number_to_int (JNumber (of_int (alarm b))) = Some (alarm b)"
  by (rule number_to_int_of_int) (simp_all add: alarm_def INT_MIN_def INT_MAX_def)

lemma load_checks_reads:
  assumes "map t_kind us = map t_kind ts"
    and "\<forall>t \<in> set ts. GetObjectItem (Some j) (checkName (t_kind t)) = Some (JNumber (of_int (alarm (t_newCheck t))))"
  shows "\<exists>us'. load_checks j us = Some us' \<and> map t_newCheck us' = map t_newCheck ts \<and> map t_kind us' = map t_kind ts
    \<and> map t_check us' = map t_check us"
  using assms
proof (induction us arbitrary: ts)
  case (Cons u us)
  then obtain t ts' where t: "ts = t # ts'" "t_kind u = t_kind t" "map t_kind us = map t_kind ts'" by (cases ts) auto
  obtain us' where us': "load_checks j us = Some us'" "map t_newCheck us' = map t_newCheck ts'"
    "map t_kind us' = map t_kind ts'" "map t_check us' = map t_check us"
    using Cons.IH [of ts'] Cons.prems(2) t by auto
  have "GetObjectItem (Some j) (checkName (t_kind u)) = Some (JNumber (of_int (alarm (t_newCheck t))))"
    using Cons.prems(2) t(1,2) by simp
  then show ?case using us' t(1,2) number_to_int_alarm [of "t_newCheck t"]
    by (simp add: alarm_def split: if_splits)
qed simp

lemma LoadJsonData_config:
  assumes kinds: "map t_kind (g_mTasks d) = all_checks" "map t_kind (g_mTasks c) = all_checks" and ok: "thresholds_ok d"
    and parse: "JSON_Parse E s = Some (config_json d)"
  shows "\<exists>c'. Detect_LoadJsonData E s c = Some c' \<and> thresholds c' = thresholds d
    \<and> map t_newCheck (g_mTasks c') = map t_newCheck (g_mTasks d)
    \<and> map t_kind (g_mTasks c') = all_checks \<and> map t_check (g_mTasks c') = map t_check (g_mTasks c)"
proof -
  note reads = config_reads [OF kinds(1)]
  have num: "number_to_int (JNumber (of_int i)) = Some i" if "i \<in> set (thresholds d)" for i
    using ok that number_to_int_of_int by (simp add: thresholds_ok_def)
  have load: "load_int (config_json d) k upd x = Some (upd i x)" if "(k, i) \<in> set (take 4 (config_ints d))" for k i upd x
  proof -
    have "(k, i) \<in> set (config_ints d)" "i \<in> set (thresholds d)"
      using that by (auto simp: config_ints_def thresholds_def)
    then show ?thesis using reads num by (simp add: load_int_def)
  qed
  let ?c = "c \<lparr>memoryThreshold := memoryThreshold d, cpuUsageThreshold := cpuUsageThreshold d,
    diskSpaceThreshold := diskSpaceThreshold d, batteryPercentageThreshold := batteryPercentageThreshold d\<rparr>"
  have tasks: "\<forall>t \<in> set (g_mTasks d). GetObjectItem (Some (config_json d)) (checkName (t_kind t)) =
      Some (JNumber (of_int (alarm (t_newCheck t))))"
    using reads by (auto simp: config_ints_def)
  obtain us' where us': "load_checks (config_json d) (g_mTasks c) = Some us'" "map t_newCheck us' = map t_newCheck (g_mTasks d)"
    "map t_kind us' = map t_kind (g_mTasks d)" "map t_check us' = map t_check (g_mTasks c)"
    using load_checks_reads [OF _ tasks, of "g_mTasks c"] kinds by auto
  have "Detect_LoadJsonData E s c = Some (?c \<lparr>g_mTasks := us'\<rparr>)"
    by (simp add: Detect_LoadJsonData_def parse load config_ints_def us'(1))
  then show ?thesis using us' kinds by (simp add: thresholds_def)
qed

lemma task_init_thresholds: "thresholds (task_init sys k d) = thresholds d"
  by (cases k) (auto simp: thresholds_def LocalLoginCheckInit_def FileTamperCheckInit_def LoginBruteForceCheckInit_def
      Let_def split: option.splits)

lemma task_destroy_thresholds: "thresholds (task_destroy k d) = thresholds d"
  by (cases k) (auto simp: thresholds_def FileTamperCheckDestroy_def)

lemma switch_tasks_thresholds: "switch_tasks sys ts d = (ts', d') \<Longrightarrow> thresholds d' = thresholds d"
  by (induction ts arbitrary: d ts')
    (auto simp: Let_def task_init_thresholds task_destroy_thresholds split: prod.splits if_splits)

lemma thresholds_update [simp]:
  "thresholds (d \<lparr>g_mTasks := ts\<rparr>) = thresholds d" "thresholds (d \<lparr>taskRunning := b\<rparr>) = thresholds d"
  by (simp_all add: thresholds_def)

lemma ReportDetectionInfo_settings:
  "thresholds (Detect_ReportDetectionInfo sys d) = thresholds d
   \<and> g_mTasks (Detect_ReportDetectionInfo sys d) = map (\<lambda>t. t \<lparr>t_check := t_newCheck t\<rparr>) (g_mTasks d)"
proof -
  obtain ts d' where "switch_tasks sys (g_mTasks d) d = (ts, d')" by fastforce
  then show ?thesis using switch_tasks_facts [of sys "g_mTasks d" d ts d'] switch_tasks_thresholds
    by (auto simp: Detect_ReportDetectionInfo_def Let_def)
qed

lemma number_to_int_range: "number_to_int j = Some i \<Longrightarrow> INT_MIN \<le> i \<and> i \<le> INT_MAX"
  by (auto simp: number_to_int_def guard_ub_def split: json.splits if_splits)

lemma LoadJsonData_ok:
  assumes "Detect_LoadJsonData E s d = Some d'" "thresholds_ok d"
  shows "thresholds_ok d'"
  using assms number_to_int_range
  by (force simp: Detect_LoadJsonData_def load_int_def thresholds_ok_def thresholds_def bind_eq_Some_conv split: option.splits)

lemma LoadJsonData_nothing:
  assumes "JSON_Parse E s = None \<or> JSON_Parse E s = Some (JObject [])"
  shows "Detect_LoadJsonData E s d = Some d"
proof -
  have "load_checks (JObject []) ts = Some ts" for ts by (induction ts) simp_all
  then show ?thesis using assms by (auto simp: Detect_LoadJsonData_def load_int_def)
qed


definition stored_config :: json where
  "stored_config = JObject
    [(''memoryThreshold'', JNumber 80), (''cpuUsageThreshold'', JNumber 0), (''diskSpaceThreshold'',
     JNumber 0), (''batteryPercentageThreshold'', JNumber 0), (''memoryCheck'', JNumber 1),
     (''portCheck'', JNumber 0), (''cpuUsageCheck'', JNumber 0), (''diskSpaceCheck'', JNumber 0),
     (''batteryPercentageCheck'', JNumber 0), (''loginLocalCheck'', JNumber 0), (''fileTamperCheck'',
     JNumber 0), (''loginBruteForceCheck'', JNumber 0), (''maliciousIPCheck'', JNumber 0)]"

definition restart_sdk :: sdk where
  "restart_sdk = (sample_sdk on_config) \<lparr>sdk_print := (\<lambda>_. Some ''c''),
     sdk_parse := (\<lambda>t. if t = ''c'' then Some stored_config else if t = ''x'' then Some on_config else None)\<rparr>"

lemma restart_sdk_facts:
  "sdk_print restart_sdk j = Some ''c''" "sdk_heap restart_sdk n" "JSON_Parse restart_sdk (Some ''c'') = Some stored_config"
  "JSON_Parse restart_sdk (Some ''x'') = Some on_config" "JSON_Parse restart_sdk None = None"
  by (simp_all add: restart_sdk_def sample_sdk_def JSON_Parse_def)

lemma restart_reports:
  "\<exists>events rm m. Detect_ReportShadowDesired restart_sdk (\<lambda>_. True) d (RuleMgr_Init None) (sample_mqtt \<lparr>g_client := True\<rparr>) =
    Some (events, rm, m)"
proof -
  have "Detect_ReportShadowDesired restart_sdk (\<lambda>_. True) d = Detect_ReportShadowDesired restart_sdk (\<lambda>_. True) detect_start"
    by (simp add: Detect_ReportShadowDesired_def fun_eq_iff restart_sdk_facts)
  moreover have "Detect_ReportShadowDesired restart_sdk (\<lambda>_. True) detect_start (RuleMgr_Init None)
      (sample_mqtt \<lparr>g_client := True\<rparr>) \<noteq> None"
    by code_simp
  ultimately show ?thesis by (metis option.exhaust prod_cases3)
qed


end
