(* ===== verification/DemoBase.thy ===== *)
theory DemoBase
  imports Callbacks
begin

text \<open>
  What the demo programs of src/demos share: a program keeps the state \<open>client\<close> of the SDK beside its own,
  calls the interface on it, and is called back for the messages that arrive.  The programs are
  driven by events, one after the other; \<open>reactive\<close> states what every run keeps.
\<close>

section \<open>Calls and messages\<close>

abbreviation client_mqtt :: "client \<Rightarrow> mqtt" where
  "client_mqtt c \<equiv> d_mqtt (c_down c)"

abbreviation client_rules :: "client \<Rightarrow> rule_mgr" where
  "client_rules c \<equiv> d_rules (c_down c)"

definition with_state :: "rule_mgr \<Rightarrow> mqtt \<Rightarrow> client \<Rightarrow> client" where
  "with_state rm m c = c \<lparr>c_down := (c_down c) \<lparr>d_rules := rm, d_mqtt := m\<rparr>\<rparr>"

definition client_action :: "action \<Rightarrow> client \<Rightarrow> (int \<times> client) option" where
  "client_action f c = map_option (\<lambda>(ret, m). (ret, with_state (client_rules c) m c)) (f (client_mqtt c))"

text \<open>A message of the client, with the length of its topic, and the callbacks it calls, the
  first one first: the new entries of the application's log.\<close>

definition message_calls :: "sdk \<Rightarrow> string \<times> string \<Rightarrow> client \<Rightarrow> (app_event list \<times> client) option" where
  "message_calls E msg c = do {
     (_, c') \<leftarrow> MqttBase_OnMessageArrived E (fst msg) (int (length (fst msg))) 0 (snd msg) (int (length (snd msg))) c;
     let calls = d_app (c_down c');
     Some (rev (take (length calls - length (d_app (c_down c))) calls), c') }"

text \<open>The callbacks IOTA\_DefaultCallbackInit registers for events.\<close>

definition default_call :: "net \<Rightarrow> curl \<Rightarrow> sdk \<Rightarrow> app_event \<Rightarrow> client \<Rightarrow> client option" where
  "default_call N C E call c =
    (let update = map_option (\<lambda>m. with_state (client_rules c) m c)
     in case call of
       OtaVersionUp objectDeviceId \<Rightarrow> update (HandleEvenOtaVersion E objectDeviceId (client_mqtt c))
     | OtaUrlResponse objectDeviceId _ body \<Rightarrow>
         update (HandleEvenOtaUrlResponse N E objectDeviceId (case body of Ota p \<Rightarrow> p | _ \<Rightarrow> None) (client_mqtt c))
     | ServiceEvent _ _ ev \<Rightarrow>
         if se_service ev = SERVICE_FILE_MANAGER then update (HandleEventFile E C (Some ev) (client_mqtt c)) else Some c
     | _ \<Rightarrow> Some c)"

text \<open>The commands of the device's own rules come with a request id of their own.\<close>

definition DEVICE_RULE_REQUEST :: string where "DEVICE_RULE_REQUEST = ''$device_rule''"

lemma with_state_simps [simp]:
  "client_mqtt (with_state rm m c) = m" "client_rules (with_state rm m c) = rm"
  "d_handlers (c_down (with_state rm m c)) = d_handlers (c_down c)" "onMessageA (with_state rm m c) = onMessageA c"
  "d_app (c_down (with_state rm m c)) = d_app (c_down c)"
  by (simp_all add: with_state_def)

lemma with_state_with_state [simp]: "with_state rm m (with_state rm' m' c) = with_state rm m c"
  by (simp add: with_state_def)

lemma message_calls_routed:
  assumes "heap_ok (sdk_heap E)" "topic \<noteq> []" "payload \<noteq> []" "onMessageA c"
    and "OnMessageArrived E (0, 0) topic (Some payload) (int (length payload)) (c_down c) = Some d"
    and "d_app d = new @ d_app (c_down c)"
  shows "message_calls E (topic, payload) c = Some (rev new, c \<lparr>c_down := d\<rparr>)"
proof -
  have "CopyStrValue (sdk_heap E) (Some None) (Some topic) (int (length topic)) = (0, Some (Some topic))"
    "CopyStrValue (sdk_heap E) (Some None) (Some payload) (int (length payload)) = (0, Some (Some payload))"
    using CopyStrValue_text [OF assms(1)] assms(2,3) by simp_all
  then show ?thesis using assms(4-6) by (simp add: message_calls_def MqttBase_OnMessageArrived_def arrived_def)
qed

section \<open>Reports\<close>

text \<open>A client connected as device \<open>u\<close>, called back for its messages; what it publishes is at the head of
  the log.\<close>

definition client_ready :: "string \<Rightarrow> client \<Rightarrow> bool" where
  "client_ready u c \<longleftrightarrow> g_client (client_mqtt c) \<and> g_username (client_mqtt c) = Some u \<and> g_QoS (client_mqtt c) = 1
     \<and> onMessageA c"

definition client_logged :: "mqtt_event \<Rightarrow> client \<Rightarrow> client" where
  "client_logged e c = with_state (client_rules c) ((client_mqtt c) \<lparr>mqtt_log := e # mqtt_log (client_mqtt c)\<rparr>) c"

lemma client_logged_simps [simp]:
  "mqtt_log (client_mqtt (client_logged e c)) = e # mqtt_log (client_mqtt c)"
  "client_ready u (client_logged e c) = client_ready u c"
  "d_handlers (c_down (client_logged e c)) = d_handlers (c_down c)"
  by (simp_all add: client_logged_def client_ready_def)

definition entry :: "string \<Rightarrow> string \<Rightarrow> string \<Rightarrow> mqtt_event" where
  "entry u suf payload = Published (Some (TOPIC_PREFIX @ u @ suf)) payload (int (length payload)) 1"

lemma report_own_logged:
  assumes "heap_ok (sdk_heap E)" "client_ready u c"
  shows "\<exists>ret. client_action (report_own (sdk_mqtt E) (sdk_heap E) TOPIC_PREFIX sufs (Some p)) c =
    Some (ret, client_logged (entry u (joined sufs) p) c)"
proof -
  have "report_own (sdk_mqtt E) (sdk_heap E) TOPIC_PREFIX sufs (Some p) (client_mqtt c) =
      Some (reported (MqttBase_publish (sdk_mqtt E) (Some (TOPIC_PREFIX @ u @ joined sufs)) p (int (length p)) (client_mqtt c)))"
    using report_own_publishes [OF assms(1), of TOPIC_PREFIX "client_mqtt c" u] assms(2)
    by (simp add: TOPIC_PREFIX_def client_ready_def)
  then show ?thesis using assms(2)
    by (simp add: client_action_def client_logged_def entry_def reported_def client_ready_def MqttBase_publish_def
        MqttBase_publishSet_def Let_def split: prod.split if_split)
qed

text \<open>A world without failures: the printer is \<open>pr\<close> and the clock shows \<open>tm\<close>.\<close>

definition clear_world :: "sdk \<Rightarrow> (json \<Rightarrow> string) \<Rightarrow> string \<Rightarrow> bool" where
  "clear_world E pr tm \<longleftrightarrow> heap_ok (sdk_heap E) \<and> sdk_print E = (\<lambda>j. Some (pr j)) \<and> (\<forall>j. pr j \<noteq> [])
     \<and> GetEventTimesStamp (sdk_heap E) (sdk_gmtime E) = Some tm"

lemma clear_worldD: "clear_world E pr tm \<Longrightarrow> heap_ok (sdk_heap E)" "clear_world E pr tm \<Longrightarrow> sdk_print E j = Some (pr j)"
  "clear_world E pr tm \<Longrightarrow> GetEventTimesStamp (sdk_heap E) (sdk_gmtime E) = Some tm" "clear_world E pr tm \<Longrightarrow> pr j \<noteq> []"
  by (simp_all add: clear_world_def)

lemmas payload_json = json_object_members map_filter_simps CreateString_def Let_def send_payload_def event_up_def
  EventUp_def [abs_def]

section \<open>Runs\<close>

fun run_events :: "('e \<Rightarrow> 's \<Rightarrow> 's option) \<Rightarrow> 'e list \<Rightarrow> 's \<Rightarrow> 's option" where
  "run_events step [] s = Some s"
| "run_events step (e # es) s = Option.bind (step e s) (run_events step es)"

lemma run_events_append: "run_events step (es @ fs) s = Option.bind (run_events step es s) (run_events step fs)"
  by (induction es arbitrary: s) (auto split: bind_split)

locale reactive =
  fixes step :: "'e \<Rightarrow> 's \<Rightarrow> 's option" and inv :: "'s \<Rightarrow> bool"
  assumes step_inv: "inv s \<Longrightarrow> step e s = Some s' \<Longrightarrow> inv s'"
begin

lemma run_inv: "inv s \<Longrightarrow> run_events step es s = Some s' \<Longrightarrow> inv s'"
  by (induction es arbitrary: s) (auto simp: bind_eq_Some_conv dest: step_inv)

end

text \<open>A program that counts: each event adds what \<open>weight\<close> says to the measure.\<close>

locale counting = reactive +
  fixes measure :: "'s \<Rightarrow> nat" and weight :: "'e \<Rightarrow> nat"
  assumes step_counts: "inv s \<Longrightarrow> step e s = Some s' \<Longrightarrow> measure s' = measure s + weight e"
begin

lemma run_counts: "inv s \<Longrightarrow> run_events step es s = Some s' \<Longrightarrow> measure s' = measure s + sum_list (map weight es)"
proof (induction es arbitrary: s)
  case (Cons e es)
  then obtain t where "step e s = Some t" "run_events step es t = Some s'" by (auto simp: bind_eq_Some_conv)
  then show ?case using Cons step_counts step_inv by fastforce
qed simp

end

end
