(* ===== verification/Provision.thy ===== *)
theory Provision
  imports DemoBase
begin

text \<open>
  The provisioning of a device, src/demos/bootstrap\_demo/bootstrap.c: the device logs in to the
  bootstrap service, asks for its address, and logs in again at the address it was given.  The
  callbacks and the messages are those of the SDK, in the state \<open>client\<close>; the messages that arrive
  while the device waits are an argument.
\<close>

section \<open>Definitions\<close>

record bootstrap_init =
  bi_bootstrapAddress :: cstr
  bi_port :: cstr
  bi_deviceId :: cstr
  bi_password :: cstr
  bi_baseStrategyKeyword :: cstr
  bi_scopeId :: cstr
  bi_privateKeyPassword :: cstr

record boot =
  b_client :: client
  g_accessAddress :: cstr
  g_accessPassword :: cstr

abbreviation boot_mqtt :: "boot \<Rightarrow> mqtt" where
  "boot_mqtt b \<equiv> client_mqtt (b_client b)"

definition set_state :: "rule_mgr \<Rightarrow> mqtt \<Rightarrow> boot \<Rightarrow> boot" where
  "set_state rm m b = b \<lparr>b_client := with_state rm m (b_client b)\<rparr>"

definition on_mqtt :: "action \<Rightarrow> boot \<Rightarrow> (int \<times> boot) option" where
  "on_mqtt f b = map_option (\<lambda>(ret, c). (ret, b \<lparr>b_client := c\<rparr>)) (client_action f (b_client b))"

text \<open>What comes before the first colon of the address is kept; an error leaves the callback.\<close>

definition HandleBootstrap :: "heap \<Rightarrow> cstr \<Rightarrow> cstr \<Rightarrow> boot \<Rightarrow> boot" where
  "HandleBootstrap mem message deviceSecret b =
    (let address_length = GetSubStrIndex message (Some '':'') + 1;
         (r1, address) = CopyStrValue mem (Some (g_accessAddress b)) message (address_length - 1);
         b1 = b \<lparr>g_accessAddress := the address\<rparr>
     in if r1 < 0 then b1
        else case deviceSecret of
          None \<Rightarrow> b1
        | Some secret \<Rightarrow> b1 \<lparr>g_accessPassword :=
            the (snd (CopyStrValue mem (Some (g_accessPassword b1)) deviceSecret (int (length secret))))\<rparr>)"

definition boot_message :: "sdk \<Rightarrow> string \<times> string \<Rightarrow> boot \<Rightarrow> boot option" where
  "boot_message E msg b = do {
     (calls, c) \<leftarrow> message_calls E msg (b_client b);
     Some (fold (\<lambda>call b. case call of BootstrapDown _ message secret \<Rightarrow> HandleBootstrap (sdk_heap E) message secret b | _ \<Rightarrow> b)
       calls (b \<lparr>b_client := c\<rparr>)) }"

text \<open>The password of the private key is given to the function for numbers, which takes its
  address \<open>ptr\<close> as the number.\<close>

definition SetBootstrapAuthConfig :: "heap \<Rightarrow> 32 word \<Rightarrow> bootstrap_init \<Rightarrow> int \<Rightarrow> rule_mgr \<Rightarrow> mqtt \<Rightarrow> (rule_mgr \<times> mqtt) option" where
  "SetBootstrapAuthConfig mem ptr p mode rm m = do {
     (rm, m) \<leftarrow> IOTA_ConnectConfigSet mem (bi_bootstrapAddress p) (bi_port p) (bi_deviceId p) (bi_password p) rm m;
     (rm, m) \<leftarrow>
       (if mode = 0 then do {
          (_, m) \<leftarrow> IOTA_ConfigSetUint mem CONFIG_AUTH_MODE 0 m;
          if bi_password p = None then Some (rm, m)
          else map_option snd (IOTA_ConfigSetStr mem BS_GROUP_SECRET (bi_password p) rm m) }
        else do {
          (_, m) \<leftarrow> IOTA_ConfigSetUint mem CONFIG_AUTH_MODE 1 m;
          (_, m) \<leftarrow> IOTA_ConfigSetUint mem PRIVATE_KEY_PASSWORD ptr m;
          Some (rm, m) });
     if bi_scopeId p = None then Some (rm, m)
     else map_option snd (IOTA_ConfigSetStr mem BS_SCOPE_ID (bi_scopeId p) rm m) }"

definition set_auth_config :: "sdk \<Rightarrow> 32 word \<Rightarrow> bootstrap_init \<Rightarrow> int \<Rightarrow> boot \<Rightarrow> boot option" where
  "set_auth_config E ptr p mode b = map_option (\<lambda>(rm, m). set_state rm m b)
     (SetBootstrapAuthConfig (sdk_heap E) ptr p mode (client_rules (b_client b)) (boot_mqtt b))"

text \<open>Up to the request for the address.  The loop that waits for the connection does not end
  without one.\<close>

definition bootstrap_request :: "sdk \<Rightarrow> 32 word \<Rightarrow> bootstrap_init \<Rightarrow> int \<Rightarrow> int \<Rightarrow> boot \<Rightarrow> (int \<times> boot) option" where
  "bootstrap_request E ptr p bootstrapMode authMode b = do {
     b \<leftarrow> set_auth_config E ptr p authMode b;
     (_, b) \<leftarrow> (if bootstrapMode \<noteq> 0 then on_mqtt (IOTA_ConfigSetUint (sdk_heap E) BS_MODE 1) b else Some (0, b));
     let b = b \<lparr>b_client := IOTA_SetBootstrapCallback True (b_client b)\<rparr>;
     (ret, b) \<leftarrow> on_mqtt (IOTA_Connect (sdk_mqtt E) (sdk_heap E)) b;
     if ret \<noteq> 0 then Some (-1, b)
     else do {
       guard_ub (IOTA_IsConnected (sdk_mqtt E));
       (_, b) \<leftarrow> on_mqtt (\<lambda>m. map_option (Pair 0) (IOTA_SubscribeBoostrap E m)) b;
       (ret, b) \<leftarrow> on_mqtt (IOTA_Bootstrap E (bi_baseStrategyKeyword p)) b;
       Some (if ret < 0 then -1 else 0, b) } }"

text \<open>The second login, with the answer in place of the address and, for a group, the
  password.\<close>

definition bootstrap_login :: "sdk \<Rightarrow> 32 word \<Rightarrow> bootstrap_init \<Rightarrow> int \<Rightarrow> int \<Rightarrow> boot \<Rightarrow> (int \<times> boot) option" where
  "bootstrap_login E ptr p bootstrapMode authMode b = do {
     let env = sdk_mqtt E;
     let mem = sdk_heap E;
     let b = set_state (client_rules (b_client b)) (snd (IOTA_Destroy env (boot_mqtt b))) b;
     (_, rm, m) \<leftarrow> IOTA_Init env mem (Some ''.'') (client_rules (b_client b)) (boot_mqtt b);
     let b = set_state rm m b;
     let p = p \<lparr>bi_bootstrapAddress := g_accessAddress b\<rparr>;
     let p = (if bootstrapMode \<noteq> 0 then p \<lparr>bi_password := g_accessPassword b\<rparr> else p);
     b \<leftarrow> set_auth_config E ptr p authMode b;
     (_, rm, m) \<leftarrow> IOTA_ConfigSetStr mem CONFIG_SERVER_IP (bi_bootstrapAddress p) (client_rules (b_client b)) (boot_mqtt b);
     (_, b) \<leftarrow> on_mqtt (IOTA_Connect env mem) (set_state rm m b);
     Some (if IOTA_IsConnected env then 0 else -1, b) }"

definition bootstrapAuth ::
  "sdk \<Rightarrow> 32 word \<Rightarrow> bootstrap_init \<Rightarrow> int \<Rightarrow> int \<Rightarrow> (string \<times> string) list \<Rightarrow> boot \<Rightarrow> (int \<times> boot) option" where
  "bootstrapAuth E ptr p bootstrapMode authMode msgs b = do {
     (ret, b) \<leftarrow> bootstrap_request E ptr p bootstrapMode authMode b;
     if ret \<noteq> 0 then Some (-1, b)
     else do {
       b \<leftarrow> run_events (boot_message E) msgs b;
       bootstrap_login E ptr p bootstrapMode authMode b } }"

section \<open>The answer\<close>

lemma HandleBootstrap_answer:
  assumes "heap_ok mem" "host \<noteq> []" "CHR '':'' \<notin> set host" "secret \<noteq> []"
  shows "HandleBootstrap mem (Some (host @ CHR '':'' # rest)) (Some secret) b =
    b \<lparr>g_accessAddress := Some host, g_accessPassword := Some secret\<rparr>"
proof -
  have "strstr (host @ CHR '':'' # rest) '':'' = strstr (CHR '':'' # rest) '':''"
  proof (rule strstr_skip)
    fix p q assume "p @ q = host" "q \<noteq> []"
    then show "\<not> prefix '':'' (q @ CHR '':'' # rest)" using assms(3) by (cases q) auto
  qed
  then have "GetSubStrIndex_loop (host @ CHR '':'' # rest) '':'' 0 = int (length host)"
    by (simp add: GetSubStrIndex_loop_strstr SUB_STERING_MAX_LENGTH_def strstr_self)
  then have "GetSubStrIndex (Some (host @ CHR '':'' # rest)) (Some '':'') = int (length host)"
    by (simp add: GetSubStrIndex_def SUB_STERING_MAX_LENGTH_def)
  moreover have "CopyStrValue mem (Some d) (Some (host @ CHR '':'' # rest)) (int (length host)) = (0, Some (Some host))" for d
    using assms(1,2) by (simp add: CopyStrValue_def strncat_s_def)
  moreover have "CopyStrValue mem (Some d) (Some secret) (int (length secret)) = (0, Some (Some secret))" for d
    using assms(1,4) by (rule CopyStrValue_text)
  ultimately show ?thesis by (simp add: HandleBootstrap_def Let_def)
qed

definition bootstrap_topic :: "string \<Rightarrow> string" where
  "bootstrap_topic u = ''$oc/devices/'' @ u @ ''/sys/bootstrap/down''"

text \<open>The client listens for the answer.\<close>

definition listening :: "boot \<Rightarrow> bool" where
  "listening b \<longleftrightarrow> onMessageA (b_client b) \<and> onBootstrap (d_handlers (c_down (b_client b)))"

lemma boot_message_answer:
  assumes "heap_ok (sdk_heap E)" "plain_id u" "payload \<noteq> []" "listening b"
    and "JSON_Parse E (Some payload) =
      Some (JObject [(''address'', JString (host @ CHR '':'' # rest)), (''deviceSecret'', JString secret)])"
    and "host \<noteq> []" "CHR '':'' \<notin> set host" "secret \<noteq> []"
  shows "\<exists>b'. boot_message E (bootstrap_topic u, payload) b = Some b' \<and> boot_mqtt b' = boot_mqtt b
    \<and> d_rules (c_down (b_client b')) = client_rules (b_client b)
    \<and> g_accessAddress b' = Some host \<and> g_accessPassword b' = Some secret"
proof -
  have "OnMessageArrived E (0, 0) (bootstrap_topic u) (Some payload) n d = Some (OnBootstrapDownArrived E (0, 0) (Some payload) d)" for n d
    using assms(2) by (simp add: OnMessageArrived_def bootstrap_topic_def topic_search starts_with)
  moreover have "OnBootstrapDownArrived E (0, 0) (Some payload) d =
      d \<lparr>d_app := BootstrapDown (0, 0) (Some (host @ CHR '':'' # rest)) (Some secret) # d_app d\<rparr>"
    if "onBootstrap (d_handlers d)" for d
    using that assms(5) by (simp add: OnBootstrapDownArrived_def notify_def JSON_GetStringFromObject_def same_key_def to_lower_def)
  ultimately show ?thesis using assms(4) HandleBootstrap_answer [OF assms(1,6,7,8)]
      message_calls_routed [OF assms(1) _ assms(3), of "bootstrap_topic u" "b_client b" _
        "[BootstrapDown (0, 0) (Some (host @ CHR '':'' # rest)) (Some secret)]"]
    by (simp add: boot_message_def listening_def bootstrap_topic_def)
qed

text \<open>The address a run keeps never has a colon, whatever arrives.\<close>

definition address_plain :: "boot \<Rightarrow> bool" where
  "address_plain b \<longleftrightarrow> (case g_accessAddress b of None \<Rightarrow> True | Some a \<Rightarrow> CHR '':'' \<notin> set a)"

lemma strstr_char: "strstr s [c] = (case dropWhile (\<lambda>x. x \<noteq> c) s of [] \<Rightarrow> None | r \<Rightarrow> Some r)"
  by (induction s) auto

lemma GetSubStrIndex_char:
  "GetSubStrIndex (Some s) (Some [c]) = (if c \<in> set s then int (length (takeWhile (\<lambda>x. x \<noteq> c) s)) else -1)"
proof -
  have "GetSubStrIndex_loop s [c] 0 = (case strstr s [c] of None \<Rightarrow> -1 | Some r \<Rightarrow> int (length s - length r))"
    by (simp add: GetSubStrIndex_loop_strstr SUB_STERING_MAX_LENGTH_def cong: option.case_cong)
  moreover have "length s - length (dropWhile (\<lambda>x. x \<noteq> c) s) = length (takeWhile (\<lambda>x. x \<noteq> c) s)"
    by (metis add_diff_cancel_right' length_append takeWhile_dropWhile_id)
  ultimately have loop: "GetSubStrIndex_loop s [c] 0 =
      (case dropWhile (\<lambda>x. x \<noteq> c) s of [] \<Rightarrow> -1 | _ \<Rightarrow> int (length (takeWhile (\<lambda>x. x \<noteq> c) s)))"
    by (cases "dropWhile (\<lambda>x. x \<noteq> c) s") (simp_all add: strstr_char del: dropWhile_eq_Nil_conv)
  show ?thesis
  proof (cases "c \<in> set s")
    case True
    then have "dropWhile (\<lambda>x. x \<noteq> c) s \<noteq> []" by (auto simp: dropWhile_eq_Nil_conv)
    then show ?thesis using loop True by (auto simp: GetSubStrIndex_def SUB_STERING_MAX_LENGTH_def split: list.splits)
  next
    case False
    then have "dropWhile (\<lambda>x. x \<noteq> c) s = []" by (auto simp: dropWhile_eq_Nil_conv)
    then show ?thesis using loop False by (simp add: GetSubStrIndex_def del: dropWhile_eq_Nil_conv)
  qed
qed

lemma take_length_takeWhile: "take (length (takeWhile P s)) s = takeWhile P s"
  by (metis append_eq_conv_conj takeWhile_dropWhile_id)

lemma HandleBootstrap_plain: "address_plain b \<Longrightarrow> address_plain (HandleBootstrap mem message secret b)"
proof -
  assume b: "address_plain b"
  let ?i = "GetSubStrIndex message (Some '':'')"
  have "case the (snd (CopyStrValue mem (Some (g_accessAddress b)) message ?i)) of None \<Rightarrow> True | Some a \<Rightarrow> CHR '':'' \<notin> set a"
  proof (cases "0 < ?i")
    case False
    then show ?thesis using b by (simp add: CopyStrValue_def address_plain_def)
  next
    case True
    then obtain s where s: "message = Some s" "CHR '':'' \<in> set s" "?i = int (length (takeWhile (\<lambda>x. x \<noteq> CHR '':'') s))"
      by (cases message) (auto simp: GetSubStrIndex_def [of None] GetSubStrIndex_char split: if_splits)
    have "CHR '':'' \<notin> set (takeWhile (\<lambda>x. x \<noteq> CHR '':'') s)" using set_takeWhileD by fastforce
    then show ?thesis using s True
      by (auto simp: CopyStrValue_def strncat_s_def take_length_takeWhile split: option.splits)
  qed
  then show ?thesis by (auto simp: HandleBootstrap_def address_plain_def Let_def split: prod.splits option.splits)
qed

interpretation answers: reactive "boot_message E" address_plain
proof (unfold_locales)
  fix s msg s'
  assume s: "address_plain s" "boot_message E msg s = Some s'"
  have "address_plain b \<Longrightarrow> address_plain (fold (\<lambda>call b. case call of BootstrapDown _ message secret \<Rightarrow>
      HandleBootstrap (sdk_heap E) message secret b | _ \<Rightarrow> b) calls b)" for calls b
    by (rule fold_invariant) (auto simp: HandleBootstrap_plain split: app_event.split)
  then show "address_plain s'" using s by (auto simp: boot_message_def bind_eq_Some_conv address_plain_def)
qed

section \<open>The second login\<close>

lemma set_group_secret_only: "set_group_secret mem s m = Some m' \<Longrightarrow> \<exists>x. m' = m \<lparr>g_bsGroupSecret := x\<rparr>"
  by (auto simp: set_group_secret_def bind_eq_Some_conv split: option.splits)

lemma ConfigSetUint_auth: "IOTA_ConfigSetUint mem CONFIG_AUTH_MODE 0 m = Some (IOTA_SUCCESS, m \<lparr>g_authMode := 0\<rparr>)"
proof -
  have "atoi (sprintf_s MAX_UINT_DIGIT_LENGTH (dec_nat (unat (0 :: 32 word)))) = 0" by code_simp
  then show ?thesis by (simp add: IOTA_ConfigSetUint_def SetConfig_def MqttBase_SetConfig_def Let_def)
qed

definition configured :: "mqtt \<Rightarrow> string \<Rightarrow> string \<Rightarrow> string \<Rightarrow> string \<Rightarrow> mqtt" where
  "configured m host port dev pw = m \<lparr>g_serverIp := Some host, g_username := Some dev, g_port := Some port,
     g_urlPrefix := prefix_of_port (Some port), g_password := Some pw, g_authMode := 0\<rparr>"

lemma SetBootstrapAuthConfig_secret:
  assumes "heap_ok mem" "host \<noteq> []" "port \<noteq> []" "dev \<noteq> []" "pw \<noteq> []"
    and "bi_bootstrapAddress p = Some host" "bi_port p = Some port" "bi_deviceId p = Some dev" "bi_password p = Some pw"
    and "\<And>m. set_group_secret mem pw m \<noteq> None"
  shows "\<exists>rm' secret scope. SetBootstrapAuthConfig mem ptr p 0 rm m =
    Some (rm', (configured m host port dev pw) \<lparr>g_bsGroupSecret := secret, g_bsScopeId := scope\<rparr>)"
proof -
  let ?m = "configured m host port dev pw"
  obtain rm1 where conn: "IOTA_ConnectConfigSet mem (Some host) (Some port) (Some dev) (Some pw) rm m =
      Some (rm1, m \<lparr>g_serverIp := Some host, g_username := Some dev, g_port := Some port,
        g_urlPrefix := prefix_of_port (Some port), g_password := Some pw\<rparr>)"
    using assms(1-5) by (simp add: IOTA_ConnectConfigSet_def SetConfig_def MqttBase_SetConfig_def MqttBase_SetPort_def
        StringLength_def prefix_of_port_def Let_def)
  obtain secret where group: "set_group_secret mem pw ?m = Some (?m \<lparr>g_bsGroupSecret := secret\<rparr>)"
    using set_group_secret_only assms(10) by (metis option.exhaust)
  have str: "IOTA_ConfigSetStr mem BS_GROUP_SECRET (Some pw) rm1 ?m = Some (IOTA_SUCCESS, rm1, ?m \<lparr>g_bsGroupSecret := secret\<rparr>)"
    using group by (simp add: IOTA_ConfigSetStr_def SetConfig_def MqttBase_SetConfig_def Let_def)
  have mode: "IOTA_ConfigSetUint mem CONFIG_AUTH_MODE 0 (m \<lparr>g_serverIp := Some host, g_username := Some dev, g_port := Some port,
        g_urlPrefix := prefix_of_port (Some port), g_password := Some pw\<rparr>) = Some (IOTA_SUCCESS, ?m)"
    by (simp add: ConfigSetUint_auth configured_def)
  have pre: "SetBootstrapAuthConfig mem ptr p 0 rm m =
      (if bi_scopeId p = None then Some (rm1, ?m \<lparr>g_bsGroupSecret := secret\<rparr>)
       else map_option snd (IOTA_ConfigSetStr mem BS_SCOPE_ID (bi_scopeId p) rm1 (?m \<lparr>g_bsGroupSecret := secret\<rparr>)))"
    using assms(6-9) conn mode str by (simp add: SetBootstrapAuthConfig_def)
  show ?thesis
  proof (cases "bi_scopeId p")
    case None
    have "?m \<lparr>g_bsGroupSecret := secret, g_bsScopeId := g_bsScopeId ?m\<rparr> = ?m \<lparr>g_bsGroupSecret := secret\<rparr>" by simp
    then show ?thesis using pre None by metis
  next
    case (Some scope)
    then show ?thesis using pre by (auto simp: IOTA_ConfigSetStr_def SetConfig_def MqttBase_SetConfig_def Let_def)
  qed
qed

text \<open>What is left of a connection after IOTA\_Destroy and IOTA\_Init.\<close>

definition restarted :: "mqtt_env \<Rightarrow> mqtt \<Rightarrow> mqtt \<Rightarrow> bool" where
  "restarted env m m' \<longleftrightarrow> g_workDir m' = Some ''.'' \<and> g_caPath m' = Some ''./conf/rootcert.pem'' \<and> g_initFlag m'
     \<and> \<not> g_client m' \<and> g_mqttClientCreateFlag m' = 0 \<and> g_bsRegMode m' = 0 \<and> g_bridgeMode m' = 0 \<and> g_encryptedPassword m' = None
     \<and> g_checkTimestamp m' = g_checkTimestamp m \<and> g_connOpts m' = g_connOpts m
     \<and> mqtt_log m' = Destroyed # (if g_client m \<and> env_isConnected env then [Disconnected] else []) @ mqtt_log m"

lemma destroy_init_restarts:
  assumes "heap_ok mem" "env_access env ''.''"
  shows "\<exists>m'. IOTA_Init env mem (Some ''.'') rm (snd (IOTA_Destroy env m)) = Some (IOTA_SUCCESS, RuleMgr_Init (rule_file rm), m')
    \<and> restarted env m m'"
proof -
  have "CopyStrValue mem (Some d) (Some ''.'') 1 = (0, Some (Some ''.''))" for d
    using CopyStrValue_text [OF assms(1), of "''.''" d] by simp
  moreover have "CombineStrings mem 2 (Some ''.'') [Some ''/conf/rootcert.pem''] = Some (Some ''./conf/rootcert.pem'')"
    using CombineStrings_ok [OF assms(1), of "''.''" 2 "[Some ''/conf/rootcert.pem'']"] by simp
  ultimately show ?thesis using assms(2)
    by (simp add: IOTA_Init_def init_def IOTA_Destroy_def destory_def MqttBase_init_def MqttBase_destory_def
        MqttBase_ReleaseConnection_def restarted_def StringLength_def Let_def)
qed

text \<open>A device whose clock, memory, files and client work, and whose password has a digest free of
  NUL bytes at one of the time stamps from \<open>t\<close> on.\<close>

definition provisioned :: "sdk \<Rightarrow> mqtt \<Rightarrow> string \<Rightarrow> nat \<Rightarrow> nat \<Rightarrow> bool" where
  "provisioned E m pw t k \<longleftrightarrow>
     heap_ok (sdk_heap E) \<and> hmac_total (env_hmac (sdk_mqtt E)) \<and> ten_digits t \<and> ten_digits (t + 99)
   \<and> GetClientTimesStamp (sdk_heap E) (env_gmtime (sdk_mqtt E)) = Some (dec_nat t)
   \<and> g_checkTimestamp m \<in> {0, 1, 2}
   \<and> (\<forall>f. env_access (sdk_mqtt E) f) \<and> (\<forall>addr cid. env_create (sdk_mqtt E) addr cid = 0)
   \<and> (\<forall>a b c. env_connect (sdk_mqtt E) a b c = 0) \<and> env_isConnected (sdk_mqtt E)
   \<and> pw \<noteq> [] \<and> (\<forall>m. set_group_secret (sdk_heap E) pw m \<noteq> None)
   \<and> find (\<lambda>k. nul_free (digest_at (env_hmac (sdk_mqtt E)) (g_checkTimestamp m \<le> 1) pw (t + k))) [0..<100] = Some k"

definition password_digest :: "sdk \<Rightarrow> mqtt \<Rightarrow> string \<Rightarrow> nat \<Rightarrow> string" where
  "password_digest E m pw t = concat (map hex_byte (digest_at (env_hmac (sdk_mqtt E)) (g_checkTimestamp m \<le> 1) pw t))"

lemma login_state_stamp: "g_authMode m = 0 \<Longrightarrow> g_checkTimestamp (login_state env m enc) = g_checkTimestamp m"
  by (simp add: login_state_def MqttBase_setSslOpts_def Let_def)

lemma login_after_restart:
  assumes ok: "provisioned E m pw t k" and re: "restarted (sdk_mqtt E) m m1"
    and ne: "host \<noteq> []" "port \<noteq> []" "dev \<noteq> []"
    and m2: "m2 = (configured m1 host port dev pw) \<lparr>g_bsGroupSecret := secret, g_bsScopeId := scope\<rparr>"
  shows "\<exists>m' cid ssl. IOTA_Connect (sdk_mqtt E) (sdk_heap E) m2 = Some (IOTA_SUCCESS, m') \<and> g_client m' \<and> g_serverIp m' = Some host
    \<and> g_username m' = Some dev \<and> g_checkTimestamp m' = g_checkTimestamp m
    \<and> mqtt_log m' = Connected (Some dev) (Some (password_digest E m pw (t + k))) ssl
        # Created (Some (prefix_of_port (Some port) @ host @ '':'' @ port)) (Some cid) # mqtt_log m1"
proof -
  let ?hex = "password_digest E m pw (t + k)"
  have fields: "g_serverIp m2 = Some host" "g_port m2 = Some port" "g_username m2 = Some dev" "g_authMode m2 = 0"
    "g_urlPrefix m2 = prefix_of_port (Some port)" "mqtt_log m2 = mqtt_log m1" "g_checkTimestamp m2 = g_checkTimestamp m"
    using re by (simp_all add: m2 configured_def restarted_def)
  have prefix: "prefix_of_port q \<noteq> []" for q by (simp add: prefix_of_port_def TCP_URL_PREFIX_def SSL_URL_PREFIX_def)
  have parts: "hmac_total (env_hmac (sdk_mqtt E))" "ten_digits t" "ten_digits (t + 99)" "pw \<noteq> []"
    "GetClientTimesStamp (sdk_heap E) (env_gmtime (sdk_mqtt E)) = Some (dec_nat t)" "g_checkTimestamp m \<in> {0, 1, 2}"
    "\<And>f. env_access (sdk_mqtt E) f" "\<And>addr cid. env_create (sdk_mqtt E) addr cid = 0"
    using ok by (auto simp: provisioned_def)
  have state: "g_workDir m2 \<noteq> None" "g_mqttClientCreateFlag m2 = 0" "g_bsRegMode m2 = 0" "g_password m2 = Some pw"
    "accessible (sdk_mqtt E) (g_caPath m2)"
    using re parts(7) by (simp_all add: m2 configured_def restarted_def accessible_def)
  have heap: "heap_ok (sdk_heap E)" using ok by (simp add: provisioned_def)
  have login: "password_login (sdk_mqtt E) (sdk_heap E) m2 dev pw t"
    unfolding password_login_def using heap parts state fields ne prefix by metis
  have digest: "login_digest (env_hmac (sdk_mqtt E)) (g_checkTimestamp m2 \<le> 1) pw t (g_encryptedPassword m2) = (t + k, Some ?hex)"
    using ok fields(7) by (simp add: login_digest_def provisioned_def password_digest_def)
  have len: "length ?hex = 64"
    using nul_free_search_length [of "env_hmac (sdk_mqtt E)"] ok by (simp add: length_hex provisioned_def password_digest_def)
  have conn: "env_connect (sdk_mqtt E) a b c = 0" for a b c using ok by (simp add: provisioned_def)
  show ?thesis
    using CreateConnection_password [OF login fields(1,2) digest] login_state_facts [OF fields(4), of "sdk_mqtt E" "Some ?hex"]
      login_state_stamp [OF fields(4), of "sdk_mqtt E" "Some ?hex"] len heap conn fields ne(3)
    by (simp add: IOTA_Connect_def CreateConnection_def connect_client_password Let_def)
qed

section \<open>The whole of the provisioning\<close>

lemma listening_mqtt: "listening (set_state rm m b) = listening b" "boot_mqtt (set_state rm m b) = m"
  "d_rules (c_down (b_client (set_state rm m b))) = rm"
  "g_accessAddress (set_state rm m b) = g_accessAddress b" "g_accessPassword (set_state rm m b) = g_accessPassword b"
  by (simp_all add: listening_def set_state_def)

lemma callback_mqtt: "d_mqtt (c_down (IOTA_SetBootstrapCallback cb c)) = d_mqtt (c_down c)"
  by (simp add: IOTA_SetBootstrapCallback_def SetBootstrapCallback_def set_handler_def MqttBase_SetMessageArrivedCallback_def)

lemma on_mqtt_eq: "on_mqtt f b = map_option (\<lambda>(ret, m). (ret, set_state (client_rules (b_client b)) m b)) (f (boot_mqtt b))"
  by (cases "f (boot_mqtt b)") (auto simp: on_mqtt_def client_action_def set_state_def)

lemma on_mqtt_listening: "on_mqtt f b = Some (r, b') \<Longrightarrow> listening b' = listening b"
  by (auto simp: on_mqtt_eq listening_mqtt)

lemma bootstrap_request_listening:
  assumes "bootstrap_request E ptr p mode auth b = Some (0, b1)"
  shows "listening b1"
proof -
  have cb: "listening (b \<lparr>b_client := IOTA_SetBootstrapCallback True (b_client b)\<rparr>)" for b
    by (simp add: listening_def IOTA_SetBootstrapCallback_def SetBootstrapCallback_def set_handler_def
        MqttBase_SetMessageArrivedCallback_def)
  show ?thesis using assms
    by (auto simp: bootstrap_request_def bind_eq_Some_conv Let_def cb dest!: on_mqtt_listening split: if_splits)
qed


text \<open>A device ready to be provisioned.\<close>

definition boot_ready :: boot where
  "boot_ready = \<lparr>b_client = sample_client \<lparr>c_down := sample_down \<lparr>d_mqtt := mqtt_start \<lparr>g_initFlag := True,
     g_workDir := Some ''.'', g_caPath := Some ''./conf/rootcert.pem'', mqtt_log := [Destroyed]\<rparr>\<rparr>\<rparr>,
     g_accessAddress = None, g_accessPassword = None\<rparr>"

definition boot_params :: bootstrap_init where
  "boot_params = \<lparr>bi_bootstrapAddress = Some ''bs.example'', bi_port = Some ''8883'', bi_deviceId = Some ''dev1'',
     bi_password = Some ''c2VjcmV0'', bi_baseStrategyKeyword = None, bi_scopeId = None, bi_privateKeyPassword = None\<rparr>"

definition boot_sdk :: sdk where
  "boot_sdk = sample_sdk (JObject [(''address'', JString ''iot.example:8883''), (''deviceSecret'', JString ''c2VjcmV0'')])"

lemma decode_groups_defined:
  "list_all (\<lambda>c. chr c < length decode_table) code \<Longrightarrow> 4 * n \<le> length code \<Longrightarrow> decode_groups code n \<noteq> None"
  by (induction code n rule: decode_groups.induct) (auto simp: decode_char_def bind_eq_Some_conv split: bind_split)

lemma boot_secret: "set_group_secret (\<lambda>_. True) ''c2VjcmV0'' m \<noteq> None"
proof -
  have "decode_groups (''c2VjcmV0'' @ [NUL]) 2 \<noteq> None"
    by (rule decode_groups_defined) (simp_all add: decode_table_def chr_def NUL_def)
  then show ?thesis by (auto simp: set_group_secret_def base64_decode_def contains_def Let_def)
qed

lemma find_True: "find (\<lambda>k. True) [0..<100] = Some (0 :: nat)"
  by (subst upt_conv_Cons) simp_all

lemma boot_provisioned:
  assumes "g_checkTimestamp m = 0"
  shows "provisioned boot_sdk m ''c2VjcmV0'' 2024010112 0"
  using assms sample_stamp boot_secret find_True
  by (simp add: provisioned_def boot_sdk_def sample_sdk_def sample_env_def hmac_total_def ten_digits_def digest_at_def nul_free_def)


end
