(* ===== verification/Gateway.thy ===== *)
theory Gateway
  imports DemoBase
begin

text \<open>
  The gateway of src/demos/gateway\_demo: gateway\_server\_test.c accepts clients over TCP,
  generic\_tcp\_protocol.c turns what they send into reports and requests for their sub-device, and
  the answers and commands of the platform come back through the callbacks of the SDK.  The
  sockets are an argument: the connections that are accepted and what is received on
  them; what is sent and closed is recorded.  The callbacks a message calls run once the SDK is
  done with the message.
\<close>

section \<open>Definitions\<close>

record gateway =
  gw_client :: client
  gSubDeviceId :: string
  gClientSocket :: int
  gw_sent :: "(int \<times> string) list"
  gw_closed :: "int list"

definition GW_MESSAGE_BUF_LEN :: nat where "GW_MESSAGE_BUF_LEN = 125"
definition SUB_DEVICE_ID_LEN :: nat where "SUB_DEVICE_ID_LEN = 128"

definition SMOKE_VALUE :: string where \<open>SMOKE_VALUE = ''{"Smoke_value":''\<close>
definition SUP_WH :: string where \<open>SUP_WH = ''{"SupWh": "aaa"}''\<close>

abbreviation gw_mqtt :: "gateway \<Rightarrow> mqtt" where
  "gw_mqtt g \<equiv> client_mqtt (gw_client g)"

text \<open>A call of the SDK whose result is only logged.\<close>

definition gw_action :: "action \<Rightarrow> gateway \<Rightarrow> gateway option" where
  "gw_action f g = map_option (\<lambda>(_, c). g \<lparr>gw_client := c\<rparr>) (client_action f (gw_client g))"

definition UpdateSubDeviceStatus :: "sdk \<Rightarrow> cstr \<Rightarrow> bool \<Rightarrow> gateway \<Rightarrow> gateway option" where
  "UpdateSubDeviceStatus E deviceId isOnline g =
    (if deviceId = None then Some g
     else gw_action (IOTA_UpdateSubDeviceStatus E
       (Some \<lparr>ds_event_time = GetEventTimesStamp (sdk_heap E) (sdk_gmtime E),
              ds_statuses = [(deviceId, Some (if isOnline then ''ONLINE'' else ''OFFLINE''))]\<rparr>) 1) g)"

definition SendCommandRspToIoTPlatform :: "sdk \<Rightarrow> cstr \<Rightarrow> gateway \<Rightarrow> gateway option" where
  "SendCommandRspToIoTPlatform E requestId =
     gw_action (IOTA_CommandResponse E requestId 0 (Some ''cmdResponses'') (Some SUP_WH))"

text \<open>An id that does not fit leaves the empty one, which is reported like any other.\<close>

fun AddSubDeviceResponse :: "sdk \<Rightarrow> device_info list \<Rightarrow> gateway \<Rightarrow> gateway option" where
  "AddSubDeviceResponse E [] g = Some g"
| "AddSubDeviceResponse E (device # devices) g = do {
     device_id \<leftarrow> di_device_id device;
     let stored = (case strncpy_s SUB_DEVICE_ID_LEN (Some device_id) (length device_id) of None \<Rightarrow> [] | Some s \<Rightarrow> s);
     g' \<leftarrow> UpdateSubDeviceStatus E (Some stored) True (g \<lparr>gSubDeviceId := stored\<rparr>);
     AddSubDeviceResponse E devices g' }"

text \<open>The other events are only logged.\<close>

definition HandleSubDeviceManagerEvents :: "sdk \<Rightarrow> service_event \<Rightarrow> gateway \<Rightarrow> gateway option" where
  "HandleSubDeviceManagerEvents E ev g =
    (if se_type ev = TYPE_ADD_SUB_DEVICE_RESPONSE then
       (case se_body ev of AddResponse successful_devices _ \<Rightarrow> AddSubDeviceResponse E successful_devices g | _ \<Rightarrow> None)
     else Some g)"

definition EncodeCommandParas :: "heap \<Rightarrow> cstr \<Rightarrow> cstr" where
  "EncodeCommandParas mem parasJSON =
    (case parasJSON of
       None \<Rightarrow> None
     | Some s \<Rightarrow> the (snd (CopyStrValue mem (Some None) parasJSON (int (length s)))))"

definition SendMessageToSubDevice :: "int \<Rightarrow> string \<Rightarrow> gateway \<Rightarrow> gateway" where
  "SendMessageToSubDevice clientSocket payload g = g \<lparr>gw_sent := (clientSocket, payload) # gw_sent g\<rparr>"

definition HandleCommandRequest :: "sdk \<Rightarrow> cstr \<Rightarrow> cstr \<Rightarrow> gateway \<Rightarrow> gateway option" where
  "HandleCommandRequest E request_id paras g =
    (let g' = (case EncodeCommandParas (sdk_heap E) paras of
                 None \<Rightarrow> g
               | Some payload \<Rightarrow> SendMessageToSubDevice (gClientSocket g) payload g)
     in SendCommandRspToIoTPlatform E request_id g')"

definition rule_command :: "sdk \<Rightarrow> rule_event \<Rightarrow> gateway \<Rightarrow> gateway option" where
  "rule_command E e g = (case e of LocalCommand _ _ paras \<Rightarrow> HandleCommandRequest E (Some DEVICE_RULE_REQUEST) paras g
     | SendMsg _ _ \<Rightarrow> Some g)"

text \<open>The callbacks of the gateway; the others are those registered by default.\<close>

definition gateway_call :: "net \<Rightarrow> curl \<Rightarrow> sdk \<Rightarrow> app_event \<Rightarrow> gateway \<Rightarrow> gateway option" where
  "gateway_call N C E call g =
    (let others = map_option (\<lambda>c. g \<lparr>gw_client := c\<rparr>) (default_call N C E call (gw_client g))
     in case call of
       ServiceEvent _ _ ev \<Rightarrow>
         if se_service ev = SERVICE_SUB_DEVICE_MANAGER then HandleSubDeviceManagerEvents E ev g else others
     | CommandDown _ _ request_id _ _ _ paras \<Rightarrow> HandleCommandRequest E request_id paras g
     | RuleEvents events \<Rightarrow> run_events (rule_command E) events g
     | _ \<Rightarrow> others)"

definition Test_BatchPropertiesReport :: "sdk \<Rightarrow> string \<Rightarrow> cstr \<Rightarrow> gateway \<Rightarrow> gateway option" where
  "Test_BatchPropertiesReport E subDeviceId recvBuf g =
    (if recvBuf = None \<or> subDeviceId = [] then Some g
     else do {
       properties \<leftarrow> CombineStrings (sdk_heap E) 3 (Some SMOKE_VALUE) [recvBuf, Some ''}''];
       gw_action (IOTA_BatchPropertiesReport E
         (Some [\<lparr>dd_device_id = Some subDeviceId,
                 dd_services = [\<lparr>sd_service_id = Some ''Smoke'',
                   sd_event_time = GetEventTimesStamp (sdk_heap E) (sdk_gmtime E), sd_properties = properties\<rparr>]\<rparr>])
         1 (Some [1]) 0) g })"

definition Test_GtwAddSubDevice :: "sdk \<Rightarrow> cstr \<Rightarrow> cstr \<Rightarrow> gateway \<Rightarrow> gateway option" where
  "Test_GtwAddSubDevice E node_id product_id =
     gw_action (IOTA_AddSubDevice E (Some \<lparr>si_event_time = None, si_event_id = None, si_deviceInfo =
       [\<lparr>sub_parent_device_id = None, sub_node_id = node_id, sub_device_id = None, sub_name = None,
         sub_description = Some ''description'', sub_product_id = product_id, sub_extension_info = None\<rparr>]\<rparr>) 1)"

definition Test_GtwDelSubDevice :: "sdk \<Rightarrow> cstr \<Rightarrow> gateway \<Rightarrow> gateway option" where
  "Test_GtwDelSubDevice E subDeviceId g =
    (if subDeviceId = None then Some g
     else gw_action (IOTA_DelSubDevice E (Some \<lparr>del_event_time = None, del_event_id = None,
       del_delSubDevice = [subDeviceId]\<rparr>) 1) g)"

text \<open>What recv put into the buffer, which was zero before: at most all but its last byte.\<close>

definition received :: "string \<Rightarrow> string" where
  "received chunk = text_of (take (GW_MESSAGE_BUF_LEN - 1) chunk)"

definition client_message :: "sdk \<Rightarrow> int \<Rightarrow> cstr \<Rightarrow> string \<Rightarrow> gateway \<Rightarrow> gateway option" where
  "client_message E clientSocket product_id chunk g = do {
     let recvbuf = received chunk;
     g \<leftarrow>
       (if 6 < length recvbuf \<and> prefix ''ID:'' recvbuf then Test_GtwAddSubDevice E (Some (drop 3 recvbuf)) product_id g
        else if recvbuf = ''exit'' then UpdateSubDeviceStatus E (Some (gSubDeviceId g)) False g
        else if recvbuf = ''del'' then Test_GtwDelSubDevice E (Some (gSubDeviceId g)) g
        else if 0 < length recvbuf then Test_BatchPropertiesReport E (gSubDeviceId g) (Some recvbuf) g
        else Some g);
     Some (SendMessageToSubDevice clientSocket ''OK!'' g) }"

text \<open>While a client is served: a chunk is received, or the platform sends a message.  A chunk of no
  bytes, like the end of the events, stands for the end of the connection and for an error.\<close>

datatype gateway_event = Chunk string | Downlink "string \<times> string"

fun gateway_step :: "net \<Rightarrow> curl \<Rightarrow> sdk \<Rightarrow> int \<Rightarrow> cstr \<Rightarrow> gateway_event \<Rightarrow> gateway \<Rightarrow> gateway option" where
  "gateway_step N C E clientSocket product_id (Chunk chunk) g = client_message E clientSocket product_id chunk g"
| "gateway_step N C E clientSocket product_id (Downlink msg) g = do {
     (calls, c) \<leftarrow> message_calls E msg (gw_client g);
     run_events (gateway_call N C E) calls (g \<lparr>gw_client := c\<rparr>) }"

text \<open>The loop ends after the last of \<open>left\<close> chunks.  The sub-device of the reports is the array itself,
  so that an id the platform assigns meanwhile is used at once.\<close>

fun ProcessMessageFromClient :: "net \<Rightarrow> curl \<Rightarrow> sdk \<Rightarrow> int \<Rightarrow> cstr \<Rightarrow> nat \<Rightarrow> gateway_event list \<Rightarrow> gateway \<Rightarrow> gateway option" where
  "ProcessMessageFromClient N C E clientSocket product_id left [] g = Some g"
| "ProcessMessageFromClient N C E clientSocket product_id left (Downlink msg # events) g = do {
     g \<leftarrow> gateway_step N C E clientSocket product_id (Downlink msg) g;
     ProcessMessageFromClient N C E clientSocket product_id left events g }"
| "ProcessMessageFromClient N C E clientSocket product_id left (Chunk chunk # events) g =
    (if left = 0 \<or> chunk = [] then Some g
     else do {
       g \<leftarrow> gateway_step N C E clientSocket product_id (Chunk chunk) g;
       ProcessMessageFromClient N C E clientSocket product_id (left - 1) events g })"

text \<open>The connections: the sockets accept returns and the events while each is served.  The result holds
  how many connections are left to accept.\<close>

fun gateway_serve :: "net \<Rightarrow> curl \<Rightarrow> sdk \<Rightarrow> cstr \<Rightarrow> nat \<Rightarrow> (int \<times> gateway_event list) list \<Rightarrow> gateway
    \<Rightarrow> (nat \<times> gateway) option" where
  "gateway_serve N C E product_id count [] g = Some (count, g)"
| "gateway_serve N C E product_id count ((clientSocket, events) # accepted) g =
    (if count = 0 then Some (0, g)
     else if clientSocket \<le> 0 then gateway_serve N C E product_id count accepted g
     else do {
       let g = (if gClientSocket g \<noteq> clientSocket \<and> gClientSocket g \<noteq> -1
                then g \<lparr>gw_closed := gClientSocket g # gw_closed g\<rparr> else g);
       g \<leftarrow> (if gClientSocket g \<noteq> 0 \<and> gSubDeviceId g \<noteq> []
             then UpdateSubDeviceStatus E (Some (gSubDeviceId g)) True g else Some g);
       g \<leftarrow> ProcessMessageFromClient N C E clientSocket product_id 1000 events (g \<lparr>gClientSocket := clientSocket\<rparr>);
       gateway_serve N C E product_id (count - 1) accepted g })"

definition mqttDeviceSecretInit :: "sdk \<Rightarrow> cstr \<Rightarrow> cstr \<Rightarrow> cstr \<Rightarrow> cstr \<Rightarrow> client \<Rightarrow> client option" where
  "mqttDeviceSecretInit E ip port userName passWord c = do {
     (_, rm, m) \<leftarrow> IOTA_Init (sdk_mqtt E) (sdk_heap E) (Some ''.'') (client_rules c) (client_mqtt c);
     (rm, m) \<leftarrow> IOTA_ConnectConfigSet (sdk_heap E) ip port userName passWord rm m;
     (_, m) \<leftarrow> IOTA_ConfigSetUint (sdk_heap E) CONFIG_AUTH_MODE 0 m;
     let c = IOTA_DefaultCallbackInit (with_state rm m c);
     let c = IOTA_SetCmdCallback True c;
     Some (IOTA_SetEvenSubDeviceCallback True c) }"

text \<open>\<open>listens\<close> is the server's socket, if it is created.  The program ends after 10000 connections; until
  then there is no result.  Where the log goes is not in the state.\<close>

definition gateway_main ::
  "net \<Rightarrow> curl \<Rightarrow> sdk \<Rightarrow> cstr \<Rightarrow> cstr \<Rightarrow> cstr \<Rightarrow> cstr \<Rightarrow> cstr \<Rightarrow> int option \<Rightarrow> (int \<times> gateway_event list) list \<Rightarrow> gateway
    \<Rightarrow> (int option \<times> gateway) option" where
  "gateway_main N C E ip port userName passWord product_id listens accepted g = do {
     c \<leftarrow> mqttDeviceSecretInit E ip port userName passWord (gw_client g);
     (ret, c) \<leftarrow> client_action (IOTA_Connect (sdk_mqtt E) (sdk_heap E)) c;
     let g = g \<lparr>gw_client := c\<rparr>;
     if ret \<noteq> 0 then Some (Some (-1), g)
     else case listens of
       None \<Rightarrow> Some (Some (-1), g)
     | Some server \<Rightarrow> do {
         (count, g) \<leftarrow> gateway_serve N C E product_id 10000 accepted g;
         Some (if 0 < count then (None, g)
               else (Some 0, g \<lparr>gw_closed := server # gClientSocket g # gw_closed g, gClientSocket := -1\<rparr>)) } }"

section \<open>The stored id and the replies\<close>

definition id_fits :: "gateway \<Rightarrow> bool" where
  "id_fits g \<longleftrightarrow> length (gSubDeviceId g) < SUB_DEVICE_ID_LEN"

lemma id_fits_client [simp]: "id_fits (g \<lparr>gw_client := c\<rparr>) = id_fits g"
  by (simp add: id_fits_def)

lemma gw_action_frame:
  "gw_action f g = Some g' \<Longrightarrow> gSubDeviceId g' = gSubDeviceId g \<and> gw_sent g' = gw_sent g \<and> gClientSocket g' = gClientSocket g"
  by (auto simp: gw_action_def)

lemma UpdateSubDeviceStatus_frame:
  "UpdateSubDeviceStatus E d on g = Some g' \<Longrightarrow>
     gSubDeviceId g' = gSubDeviceId g \<and> gw_sent g' = gw_sent g \<and> gClientSocket g' = gClientSocket g"
  by (auto simp: UpdateSubDeviceStatus_def dest: gw_action_frame split: if_splits)

lemma AddSubDeviceResponse_fits: "AddSubDeviceResponse E ds g = Some g' \<Longrightarrow> id_fits g \<Longrightarrow> id_fits g'"
proof (induction ds arbitrary: g)
  case (Cons d ds)
  then obtain device_id g1 where step: "UpdateSubDeviceStatus E (Some (case strncpy_s SUB_DEVICE_ID_LEN (Some device_id) (length device_id) of
        None \<Rightarrow> [] | Some s \<Rightarrow> s)) True (g \<lparr>gSubDeviceId := (case strncpy_s SUB_DEVICE_ID_LEN (Some device_id) (length device_id) of
        None \<Rightarrow> [] | Some s \<Rightarrow> s)\<rparr>) = Some g1"
    and rest: "AddSubDeviceResponse E ds g1 = Some g'"
    by (auto simp: bind_eq_Some_conv Let_def)
  have "id_fits g1" using UpdateSubDeviceStatus_frame [OF step]
    by (auto simp: id_fits_def strncpy_s_def SUB_DEVICE_ID_LEN_def split: option.splits if_splits)
  then show ?case using rest Cons.IH by blast
qed simp

lemma HandleCommandRequest_fits: "HandleCommandRequest E r p g = Some g' \<Longrightarrow> id_fits g \<Longrightarrow> id_fits g'"
  by (auto simp: HandleCommandRequest_def SendCommandRspToIoTPlatform_def id_fits_def SendMessageToSubDevice_def
      dest!: gw_action_frame split: option.splits)

interpretation commands: reactive "rule_command E" id_fits
  by unfold_locales (auto simp: rule_command_def HandleCommandRequest_fits split: rule_event.splits)

interpretation calls: reactive "gateway_call N C E" id_fits
proof unfold_locales
  fix g call g'
  assume "id_fits g" "gateway_call N C E call g = Some g'"
  then show "id_fits g'"
    by (auto simp: gateway_call_def HandleSubDeviceManagerEvents_def Let_def
        HandleCommandRequest_fits AddSubDeviceResponse_fits
        dest: commands.run_inv split: app_event.splits if_splits event_body.splits)
qed

lemma client_message_frame:
  assumes "client_message E sock product_id chunk g = Some g'"
  shows "gSubDeviceId g' = gSubDeviceId g \<and> gw_sent g' = (sock, ''OK!'') # gw_sent g"
  using assms
  by (auto simp: client_message_def bind_eq_Some_conv SendMessageToSubDevice_def Test_GtwAddSubDevice_def
      Test_GtwDelSubDevice_def Test_BatchPropertiesReport_def Let_def
      dest!: gw_action_frame UpdateSubDeviceStatus_frame split: if_splits)

interpretation replies: counting "client_message E sock product_id" id_fits "\<lambda>g. length (gw_sent g)" "\<lambda>_. 1"
  by unfold_locales (auto simp: id_fits_def dest!: client_message_frame)

interpretation gateway: reactive "gateway_step N C E sock product_id" id_fits
proof unfold_locales
  fix g e g'
  assume "id_fits g" "gateway_step N C E sock product_id e g = Some g'"
  then show "id_fits g'"
    by (cases e) (auto simp: bind_eq_Some_conv intro: replies.step_inv calls.run_inv [of "g \<lparr>gw_client := _\<rparr>"])
qed

text \<open>Serving a client is a run over what it sends until the connection ends, of 1000 chunks at most.\<close>

lemma ProcessMessageFromClient_run:
  "ProcessMessageFromClient N C E sock product_id left (map Chunk chunks) g =
     run_events (client_message E sock product_id) (take left (takeWhile (\<lambda>c. c \<noteq> []) chunks)) g"
proof (induction chunks arbitrary: left g)
  case (Cons c chunks)
  then show ?case by (cases left) (auto split: bind_split)
qed simp

lemma ProcessMessageFromClient_fits:
  "ProcessMessageFromClient N C E sock product_id left events g = Some g' \<Longrightarrow> id_fits g \<Longrightarrow> id_fits g'"
proof (induction events arbitrary: left g)
  case (Cons e events)
  then show ?case by (cases e) (auto simp: bind_eq_Some_conv simp del: gateway_step.simps intro: gateway.step_inv split: if_splits)
qed simp

text \<open>
  A client gets one answer to each of its messages, for 1000 messages of one connection at
  most: however many chunks follow, and whatever they hold, serving the client sends
  OK! once for each chunk before the end of the connection up to the 1000th, all of them on its
  socket.
\<close>

theorem ProcessMessageFromClient_answers_each:
  assumes "ProcessMessageFromClient N C E sock product_id 1000 (map Chunk chunks) g = Some g'" "id_fits g"
  shows "length (gw_sent g') = length (gw_sent g) + min 1000 (length (takeWhile (\<lambda>c. c \<noteq> []) chunks))
    \<and> gw_sent g' = replicate (length (gw_sent g') - length (gw_sent g)) (sock, ''OK!'') @ gw_sent g"
proof -
  let ?run = "\<lambda>cs. run_events (client_message E sock product_id) cs"
  have sent: "?run cs g = Some g' \<Longrightarrow> gw_sent g' = replicate (length cs) (sock, ''OK!'') @ gw_sent g" for cs g
  proof (induction cs arbitrary: g)
    case (Cons c cs)
    then show ?case by (auto simp: bind_eq_Some_conv replicate_app_Cons_same dest!: client_message_frame)
  qed simp
  show ?thesis
    using sent replies.run_counts [OF assms(2) assms(1) [unfolded ProcessMessageFromClient_run]]
      assms(1) [unfolded ProcessMessageFromClient_run]
    by (simp add: sum_list_triv min.commute)
qed

section \<open>The life of a sub-device\<close>

text \<open>A gateway connected as device \<open>u\<close>, called back for its sub-devices.\<close>

definition logged :: "mqtt_event \<Rightarrow> gateway \<Rightarrow> gateway" where
  "logged e g = g \<lparr>gw_client := client_logged e (gw_client g)\<rparr>"

definition gw_ready :: "string \<Rightarrow> gateway \<Rightarrow> bool" where
  "gw_ready u g \<longleftrightarrow> client_ready u (gw_client g) \<and> onSubDevice (d_handlers (c_down (gw_client g)))"

lemma logged_simps [simp]:
  "mqtt_log (gw_mqtt (logged e g)) = e # mqtt_log (gw_mqtt g)" "gw_ready u (logged e g) = gw_ready u g"
  "gSubDeviceId (logged e g) = gSubDeviceId g" "gw_sent (logged e g) = gw_sent g"
  by (simp_all add: logged_def gw_ready_def)

lemma gw_report_logged:
  assumes "heap_ok (sdk_heap E)" "gw_ready u g"
  shows "gw_action (report_own (sdk_mqtt E) (sdk_heap E) TOPIC_PREFIX [Some suf] (Some p)) g = Some (logged (entry u suf p) g)"
  using report_own_logged [OF assms(1), of u "gw_client g" "[Some suf]" p] assms(2)
  by (auto simp: gw_action_def logged_def gw_ready_def)

definition manager_event :: "string \<Rightarrow> (string \<times> json) list \<Rightarrow> (string \<times> json) list \<Rightarrow> json" where
  "manager_event kind time paras = JObject [(''services'', JArray [JObject
     ([(''service_id'', JString ''$sub_device_manager''), (''event_type'', JString kind)] @ time @ [(''paras'', JObject paras)])])]"

definition status_event :: "string \<Rightarrow> string \<Rightarrow> string \<Rightarrow> json" where
  "status_event tm device_id status = manager_event ''sub_device_update_status'' [(''event_time'', JString tm)]
     [(''device_statuses'', JArray [JObject [(''device_id'', JString device_id), (''status'', JString status)]])]"

lemma status_logged:
  assumes "clear_world E pr tm" "gw_ready u g"
  shows "UpdateSubDeviceStatus E (Some device_id) on g =
    Some (logged (entry u TOPIC_SUFFIX_EVENT_UP (pr (status_event tm device_id (if on then ''ONLINE'' else ''OFFLINE'')))) g)"
  using gw_report_logged [OF clear_worldD(1) [OF assms(1)] assms(2), of TOPIC_SUFFIX_EVENT_UP]
  by (simp add: UpdateSubDeviceStatus_def IOTA_UpdateSubDeviceStatus_def [abs_def] IOTA_UpdateSubDeviceStatusPayload_def
      clear_worldD(2,3) [OF assms(1)] MaxSubDeviceCount_def json_object_members map_filter_simps CreateString_def Let_def
      send_payload_def event_up_def EventUp_def [abs_def] status_event_def manager_event_def)

definition add_request :: "string \<Rightarrow> string \<Rightarrow> json" where
  "add_request node product = manager_event ''add_sub_device_request'' []
     [(''devices'', JArray [JObject [(''node_id'', JString node), (''description'', JString ''description''),
       (''product_id'', JString product)]])]"

definition delete_request :: "string \<Rightarrow> json" where
  "delete_request device_id = manager_event ''delete_sub_device_request'' [] [(''devices'', JArray [JString device_id])]"

definition smoke_report :: "string \<Rightarrow> string \<Rightarrow> json \<Rightarrow> json" where
  "smoke_report tm device_id properties = JObject [(''devices'', JArray [JObject
     [(''device_id'', JString device_id), (''services'', JArray [JObject
       [(''service_id'', JString ''Smoke''), (''event_time'', JString tm), (''properties'', properties)]])]])]"

lemma add_logged:
  assumes "clear_world E pr tm" "gw_ready u g"
  shows "Test_GtwAddSubDevice E (Some node) (Some product) g =
    Some (logged (entry u TOPIC_SUFFIX_EVENT_UP (pr (add_request node product))) g)"
  using gw_report_logged [OF clear_worldD(1) [OF assms(1)] assms(2), of TOPIC_SUFFIX_EVENT_UP]
  by (simp add: Test_GtwAddSubDevice_def IOTA_AddSubDevice_def [abs_def] IOTA_AddSubDevicePayload_def
      clear_worldD(2) [OF assms(1)] MaxAddedSubDevCount_def payload_json manager_event_def add_request_def)

lemma delete_logged:
  assumes "clear_world E pr tm" "gw_ready u g"
  shows "Test_GtwDelSubDevice E (Some device_id) g =
    Some (logged (entry u TOPIC_SUFFIX_EVENT_UP (pr (delete_request device_id))) g)"
  using gw_report_logged [OF clear_worldD(1) [OF assms(1)] assms(2), of TOPIC_SUFFIX_EVENT_UP]
  by (simp add: Test_GtwDelSubDevice_def IOTA_DelSubDevice_def [abs_def] IOTA_DelSubDevicePayload_def
      clear_worldD(2) [OF assms(1)] MaxDelSubDevCount_def payload_json manager_event_def delete_request_def CreateStringArray_def)

lemma smoke_logged:
  assumes "clear_world E pr tm" "gw_ready u g" "device_id \<noteq> []"
    and "sdk_parse E (SMOKE_VALUE @ v @ ''}'') = Some properties"
  shows "Test_BatchPropertiesReport E device_id (Some v) g =
    Some (logged (entry u TOPIC_SUFFIX_PROPS_REP (pr (smoke_report tm device_id properties))) g)"
  using gw_report_logged [OF clear_worldD(1) [OF assms(1)] assms(2), of TOPIC_SUFFIX_PROPS_REP] assms(3,4)
  by (simp add: Test_BatchPropertiesReport_def IOTA_BatchPropertiesReport_def [abs_def] IOTA_BatchPropertiesReportPayload_def
      clear_worldD [OF assms(1)] MaxServiceReportNum_def payload_json manager_event_def smoke_report_def CombineStrings_ok SMOKE_VALUE_def
      JSON_Parse_def service_json_def ReportBatchDeviceProperties_def [abs_def] report_flagged_def [abs_def])

definition add_answer :: "string \<Rightarrow> json" where
  "add_answer device_id = JObject [(''services'', JArray [JObject
     [(''service_id'', JString ''$sub_device_manager''), (''event_type'', JString ''add_sub_device_response''),
      (''paras'', JObject [(''successful_devices'', JArray [JObject [(''device_id'', JString device_id)]])])]])]"

definition events_topic :: "string \<Rightarrow> string" where
  "events_topic u = ''$oc/devices/'' @ u @ ''/sys/events/down''"

lemma add_answer_event:
  assumes "sdk_parse E answer = Some (add_answer device_id)" "onSubDevice (d_handlers d)"
  shows "\<exists>ev more. se_service ev = SERVICE_SUB_DEVICE_MANAGER \<and> se_type ev = TYPE_ADD_SUB_DEVICE_RESPONSE
    \<and> (\<exists>device. di_device_id device = Some device_id \<and> se_body ev = AddResponse [device] [])
    \<and> (more = [] \<or> (\<exists>info bridge odi events. more = [EventDown info bridge odi events]))
    \<and> OnEventsDownArrived E info None (Some answer) d =
      Some (d \<lparr>d_app := (more @ [ServiceEvent info (Some ''-1'') ev]) @ d_app d\<rparr>)"
proof -
  define ev where "ev = (new_event SERVICE_SUB_DEVICE_MANAGER None) \<lparr>se_id := Some None, se_type := TYPE_ADD_SUB_DEVICE_RESPONSE,
    se_body := AddResponse [read_device (JObject [(''device_id'', JString device_id)])] []\<rparr>"
  define more where "more = (if onEventDown (d_handlers d) then [EventDown info None (Some ''-1'') [ev]] else [])"
  have keys: "same_key ''services'' ''services''" "\<not> same_key ''event_type'' ''service_id''"
    "\<not> same_key ''event_time'' ''service_id''" "\<not> same_key ''event_time'' ''event_type''" "\<not> same_key ''event_time'' ''paras''"
    "\<not> same_key ''paras'' ''service_id''" "\<not> same_key ''paras'' ''event_type''" "\<not> same_key ''object_device_id'' ''services''"
    "\<not> same_key ''event_id'' ''service_id''" "\<not> same_key ''event_id'' ''event_type''" "\<not> same_key ''event_id'' ''paras''"
    "\<not> same_key ''failed_devices'' ''successful_devices''"
    by code_simp+
  have down: "OnEventsDownArrived E info None (Some answer) d =
      Some (d \<lparr>d_app := (more @ [ServiceEvent info (Some ''-1'') ev]) @ d_app d\<rparr>)"
    using assms by (simp add: OnEventsDownArrived_def JSON_Parse_def add_answer_def json_getters keys MAX_EVENT_COUNT_def
        splice_service_def get_string_def OnEventsDownManagerArrived_def OnEventsAddSubDeviceResponse_def ev_def more_def
        new_event_def slot_notify_def notify_def child_list_def Let_def)
  have "di_device_id (read_device (JObject [(''device_id'', JString device_id)])) = Some device_id"
    by (simp add: read_device_def get_string_def json_getters Let_def)
  then show ?thesis using down
    by (intro exI [of _ ev] exI [of _ more]) (auto simp: ev_def new_event_def more_def)
qed

lemma answer_step:
  assumes "clear_world E pr tm" "gw_ready u g" "plain_id u" "u \<noteq> ''user''"
    and "sdk_parse E answer = Some (add_answer device_id)" "answer \<noteq> []" "length device_id < SUB_DEVICE_ID_LEN"
  shows "\<exists>g'. gateway_step N C E sock product_id (Downlink (events_topic u, answer)) g = Some g'
    \<and> gSubDeviceId g' = device_id \<and> gw_sent g' = gw_sent g \<and> gw_ready u g'
    \<and> mqtt_log (gw_mqtt g') = entry u TOPIC_SUFFIX_EVENT_UP (pr (status_event tm device_id ''ONLINE'')) # mqtt_log (gw_mqtt g)"
proof -
  let ?d = "c_down (gw_client g)"
  have route: "OnMessageArrived E info (events_topic u) message n d = OnEventsDownArrived E info None message d" for info message n d
    using assms(3,4) by (simp add: OnMessageArrived_def events_topic_def topic_search starts_with)
  have hand: "onSubDevice (d_handlers ?d)" using assms(2) by (simp add: gw_ready_def)
  obtain ev more device where ev: "se_service ev = SERVICE_SUB_DEVICE_MANAGER" "se_type ev = TYPE_ADD_SUB_DEVICE_RESPONSE"
      "di_device_id device = Some device_id" "se_body ev = AddResponse [device] []"
    and more: "more = [] \<or> (\<exists>info bridge odi events. more = [EventDown info bridge odi events])"
    and down: "OnEventsDownArrived E (0, 0) None (Some answer) ?d = Some (?d \<lparr>d_app := (more @ [ServiceEvent (0, 0) (Some ''-1'') ev]) @ d_app ?d\<rparr>)"
    using add_answer_event [OF assms(5) hand, of "(0, 0)"] by blast
  let ?c = "(gw_client g) \<lparr>c_down := ?d \<lparr>d_app := (more @ [ServiceEvent (0, 0) (Some ''-1'') ev]) @ d_app ?d\<rparr>\<rparr>"
  have calls: "message_calls E (events_topic u, answer) (gw_client g) = Some (ServiceEvent (0, 0) (Some ''-1'') ev # rev more, ?c)"
    using message_calls_routed [OF clear_worldD(1) [OF assms(1)], of "events_topic u" answer "gw_client g"
        "?d \<lparr>d_app := (more @ [ServiceEvent (0, 0) (Some ''-1'') ev]) @ d_app ?d\<rparr>" "more @ [ServiceEvent (0, 0) (Some ''-1'') ev]"]
      assms(2,6) route down by (simp add: gw_ready_def client_ready_def events_topic_def)
  define g1 where "g1 = g \<lparr>gw_client := ?c, gSubDeviceId := device_id\<rparr>"
  have ready: "gw_ready u g1" "gw_mqtt g1 = gw_mqtt g" using assms(2) by (simp_all add: g1_def gw_ready_def client_ready_def)
  have "strncpy_s SUB_DEVICE_ID_LEN (Some device_id) (length device_id) = Some device_id"
    using assms(7) by (simp add: strncpy_s_def)
  then have first: "gateway_call N C E (ServiceEvent (0, 0) (Some ''-1'') ev) (g \<lparr>gw_client := ?c\<rparr>) =
      Some (logged (entry u TOPIC_SUFFIX_EVENT_UP (pr (status_event tm device_id ''ONLINE''))) g1)"
    using ev status_logged [OF assms(1) ready(1), of device_id True]
    by (simp add: gateway_call_def HandleSubDeviceManagerEvents_def g1_def)
  have rest: "run_events (gateway_call N C E) (rev more) g' = Some g'" for g'
    using more by (auto simp: gateway_call_def default_call_def)
  show ?thesis using calls first rest ready by (simp add: g1_def)
qed

lemma NUL_commands: "NUL \<notin> set ''ID:''" "NUL \<notin> set ''exit''" "NUL \<notin> set ''del''"
  by code_simp+

definition plain_value :: "string \<Rightarrow> bool" where
  "plain_value v \<longleftrightarrow> v \<noteq> [] \<and> v \<noteq> ''exit'' \<and> v \<noteq> ''del'' \<and> \<not> prefix ''ID:'' v \<and> length v < GW_MESSAGE_BUF_LEN \<and> NUL \<notin> set v"

lemma received_all: "length s < GW_MESSAGE_BUF_LEN \<Longrightarrow> NUL \<notin> set s \<Longrightarrow> received s = s"
  by (auto simp: received_def text_of_def takeWhile_eq_all_conv GW_MESSAGE_BUF_LEN_def)


text \<open>
  An id of 128 characters or more is lost: the answer of the platform leaves the empty id, which is
  reported online, and no value of the client is reported afterwards.
\<close>

theorem AddSubDeviceResponse_long_id:
  assumes "clear_world E pr tm" "gw_ready u g" "di_device_id device = Some device_id" "SUB_DEVICE_ID_LEN \<le> length device_id"
  shows "AddSubDeviceResponse E [device] g =
      Some (logged (entry u TOPIC_SUFFIX_EVENT_UP (pr (status_event tm [] ''ONLINE''))) (g \<lparr>gSubDeviceId := []\<rparr>))
    \<and> Test_BatchPropertiesReport E [] (Some v) h = Some h"
proof -
  have "gw_ready u (g \<lparr>gSubDeviceId := []\<rparr>)" using assms(2) by (simp add: gw_ready_def)
  then show ?thesis using assms(3,4) status_logged [OF assms(1), of u "g \<lparr>gSubDeviceId := []\<rparr>" "[]" True]
    by (simp add: strncpy_s_def Test_BatchPropertiesReport_def)
qed

section \<open>A concrete gateway\<close>

definition gw_sample :: gateway where
  "gw_sample = \<lparr>gw_client = sample_client \<lparr>c_down := sample_down \<lparr>d_mqtt := sample_mqtt \<lparr>g_client := True\<rparr>\<rparr>\<rparr>,
     gSubDeviceId = [], gClientSocket = 5, gw_sent = [], gw_closed = []\<rparr>"

definition gw_sdk :: sdk where
  "gw_sdk = (sample_sdk (JObject [])) \<lparr>sdk_parse := (\<lambda>s. Some (if s = ''answer'' then add_answer ''sub1''
     else JObject [(''Smoke_value'', JNumber 1)])), sdk_print := (\<lambda>_. Some ''{}'')\<rparr>"

definition gw_curl :: curl where
  "gw_curl = \<lparr>curl_init = True, curl_perform = (\<lambda>_ _. (CURLE_OK, 200)), curl_strerror = (\<lambda>_. []),
     curl_realpath = Some, curl_open = (\<lambda>_. True)\<rparr>"

lemma gw_sample_world: "\<exists>tm. clear_world gw_sdk (\<lambda>_. ''{}'') tm"
  by (simp add: clear_world_def gw_sdk_def sample_sdk_def sample_env_def GetEventTimesStamp_def)

lemma gw_sample_ready: "gw_ready ''dev1'' gw_sample"
  by (simp add: gw_ready_def client_ready_def gw_sample_def sample_client_def sample_down_def sample_mqtt_def mqtt_start_def all_handlers_def)


theorem ProcessMessageFromClient_answers_each_witness:
  "\<exists>g'. ProcessMessageFromClient sample_net gw_curl gw_sdk 5 (Some ''product1'') 1000 (map Chunk [''exit'', ''1'', ''del'', [], ''1'']) gw_sample = Some g'
    \<and> length (gw_sent g') = 3"
proof -
  obtain tm where world: "clear_world gw_sdk (\<lambda>_. ''{}'') tm" using gw_sample_world by blast
  have r: "received ''exit'' = ''exit''" "received ''1'' = ''1''" "received ''del'' = ''del''" by code_simp+
  have run: "\<exists>g'. client_message gw_sdk 5 (Some ''product1'') c g = Some g' \<and> gw_ready ''dev1'' g' \<and> gSubDeviceId g' = []"
    if "c \<in> {''exit'', ''1'', ''del''}" "gw_ready ''dev1'' g" "gSubDeviceId g = []" for c g
    using that r status_logged [OF world that(2), of "[]" False] delete_logged [OF world that(2), of "[]"]
    by (auto simp: client_message_def SendMessageToSubDevice_def Test_BatchPropertiesReport_def gw_ready_def logged_def)
  obtain g1 where g1: "client_message gw_sdk 5 (Some ''product1'') ''exit'' gw_sample = Some g1" "gw_ready ''dev1'' g1" "gSubDeviceId g1 = []"
    using run [of "''exit''" gw_sample] gw_sample_ready by (auto simp: gw_sample_def)
  obtain g2 where g2: "client_message gw_sdk 5 (Some ''product1'') ''1'' g1 = Some g2" "gw_ready ''dev1'' g2" "gSubDeviceId g2 = []"
    using run [of "''1''" g1] g1 by auto
  obtain g3 where g3: "client_message gw_sdk 5 (Some ''product1'') ''del'' g2 = Some g3"
    using run [of "''del''" g2] g2 by auto
  have "ProcessMessageFromClient sample_net gw_curl gw_sdk 5 (Some ''product1'') 1000 (map Chunk [''exit'', ''1'', ''del'', [], ''1'']) gw_sample = Some g3"
    using g1 g2 g3 by simp
  then show ?thesis
    using ProcessMessageFromClient_answers_each [of sample_net gw_curl gw_sdk 5 "Some ''product1''" "[''exit'', ''1'', ''del'', [], ''1'']" gw_sample g3]
    by (simp add: id_fits_def gw_sample_def SUB_DEVICE_ID_LEN_def)
qed

end
