(* ===== verification/SoftBusDemo.thy ===== *)
theory SoftBusDemo
  imports SoftBus DemoBase
begin

text \<open>
  A device on the soft bus, src/demos/softBus\_demo: soft\_bus\_data\_process.c chooses the role of the
  device on each bus of the table and sends to the others, soft\_bus\_test.c does so for every bus of a
  new table.  The first device of a bus is its master.  \<open>-1\<close> stands for the role before the first one.
\<close>

section \<open>Definitions\<close>

definition INIT_SERVICE :: int where "INIT_SERVICE = 0"
definition INIT_CLIENT :: int where "INIT_CLIENT = 1"

definition bus_of :: "soft_bus_total \<Rightarrow> int \<Rightarrow> soft_bus_infos" where
  "bus_of t i = g_soft_bus_info t ! nat i"

text \<open>The address of the entry is computed before the number is checked, but read only afterwards.\<close>

definition SoftBusInit :: "soft_bus_total \<Rightarrow> mqtt \<Rightarrow> int \<Rightarrow> int \<Rightarrow> (int \<times> int) option" where
  "SoftBusInit t m softBusInfoNumber role =
    (if softBusInfoNumber \<ge> int (sbt_count t) \<or> softBusInfoNumber < 0 then Some (-1, role)
     else do {
       let master = g_device_soft_bus_info (bus_of t softBusInfoNumber) ! 0;
       device_id \<leftarrow> deref (sb_device_id master);
       own \<leftarrow> deref (getDeviceId m);
       let ((ret, _), role) =
         (if device_id = own then (InitServerKit (sb_device_ip master) (Some []), INIT_SERVICE)
          else (InitClientKit (sb_device_ip master) (Some []), INIT_CLIENT));
       Some (if ret \<noteq> 0 then -1 else 0, role) })"

fun send_others :: "string \<Rightarrow> cstr \<Rightarrow> 32 word \<Rightarrow> soft_bus_info list \<Rightarrow> 32 word \<Rightarrow> 32 word \<times> string list" where
  "send_others own data dataLen [] ret = (ret, [])"
| "send_others own data dataLen (d # ds) ret =
    (case sb_device_id d of
       None \<Rightarrow> send_others own data dataLen ds ret
     | Some deviceId \<Rightarrow>
        if deviceId = own then send_others own data dataLen ds ret
        else let (r, sent) = send_others own data dataLen ds (DConnSendData (Some deviceId) data dataLen)
             in (r, deviceId # sent))"

text \<open>With the result come the devices the data was sent to.\<close>

definition SendDataToAllInfoDevice :: "soft_bus_total \<Rightarrow> mqtt \<Rightarrow> int \<Rightarrow> cstr \<Rightarrow> int \<Rightarrow> (int \<times> string list) option" where
  "SendDataToAllInfoDevice t m softBusInfoNumber data dataLen =
    (if data = None \<or> dataLen \<le> 0 then Some (-1, [])
     else if softBusInfoNumber \<ge> int (sbt_count t) \<or> softBusInfoNumber < 0 then Some (-1, [])
     else let b = bus_of t softBusInfoNumber
       in case sb_device_id (g_device_soft_bus_info b ! 0) of
            None \<Rightarrow> Some (-1, [])
          | Some master \<Rightarrow> do {
              own \<leftarrow> deref (getDeviceId m);
              if master \<noteq> own then Some (-1, [])
              else do {
                let (ret, sent) = send_others own data (word_of_int dataLen) (bus_devices b) 0;
                Some (sint ret, sent) } })"

definition SendDataToDevice :: "cstr \<Rightarrow> cstr \<Rightarrow> int \<Rightarrow> int" where
  "SendDataToDevice device_id data dataLen =
    (if data = None \<or> dataLen \<le> 0 then -1 else sint (DConnSendData device_id data (word_of_int dataLen)))"

fun slave_key :: "string \<Rightarrow> soft_bus_infos list \<Rightarrow> cstr option" where
  "slave_key target [] = Some None"
| "slave_key target (b # bs) = do {
     slaveDeviceId \<leftarrow> deref (sb_device_id (g_device_soft_bus_info b ! 0));
     if slaveDeviceId \<noteq> target then slave_key target bs else Some (bus_key b) }"

definition GetSlaveAuthKey :: "soft_bus_total \<Rightarrow> cstr \<Rightarrow> cstr option" where
  "GetSlaveAuthKey t target_device_id =
    (case target_device_id of None \<Rightarrow> Some None | Some target \<Rightarrow> slave_key target (buses t))"

text \<open>The callback for a new table; the results are not looked at.  CleanAllSoftBus comes first, which has no
  effect on the interface of this repository.\<close>

fun init_buses :: "soft_bus_total \<Rightarrow> mqtt \<Rightarrow> int list \<Rightarrow> int \<Rightarrow> int option" where
  "init_buses t m [] role = Some role"
| "init_buses t m (i # is) role = do {
     (_, role) \<leftarrow> SoftBusInit t m i role;
     init_buses t m is role }"

definition HandleEventSoftBus :: "soft_bus_total \<Rightarrow> mqtt \<Rightarrow> int \<Rightarrow> int option" where
  "HandleEventSoftBus t m role = init_buses t m (map int [0..<sbt_count t]) role"

text \<open>A network interface: whether a socket is opened, the address and whether there is a mask, by the
  name.  A name of 15 characters or more is refused, with the buffer of the name then empty.\<close>

record netif =
  if_socket :: bool
  if_addr :: "string \<Rightarrow> (int \<times> string)"
  if_mask :: "string \<Rightarrow> int"

definition IFNAMSIZ :: nat where "IFNAMSIZ = 16"

text \<open>The result and the address written; the address is empty before.\<close>

definition GetLocalNetworkIpv4 :: "netif \<Rightarrow> string \<Rightarrow> nat \<Rightarrow> int \<times> string" where
  "GetLocalNetworkIpv4 I ifname ipv4Len =
    (if \<not> if_socket I then (-1, [])
     else case strncpy_s (IFNAMSIZ - 1) (Some ifname) (IFNAMSIZ - 1) of
       None \<Rightarrow> (-1, [])
     | Some ifr_name \<Rightarrow>
        (let (rc, addr) = if_addr I ifr_name
         in if rc \<noteq> 0 then (rc, [])
            else case strncpy_s ipv4Len (Some addr) 16 of
              None \<Rightarrow> (rc, [])
            | Some ipv4 \<Rightarrow> (if_mask I ifr_name, ipv4)))"

text \<open>The result of the look-up is not used.\<close>

definition TestReportDeviceInfo :: "sdk \<Rightarrow> netif \<Rightarrow> string \<Rightarrow> client \<Rightarrow> client option" where
  "TestReportDeviceInfo E I ifname c =
    (let (_, ipv4) = GetLocalNetworkIpv4 I ifname 16
     in map_option snd (client_action (IOTA_ReportDeviceInfo E (Some
          \<lparr>ir_object_device_id = None, ir_event_time = None, ir_device_sdk_version = Some ''C_v1.2.1'',
           ir_sw_version = Some ''v1.0'', ir_fw_version = Some ''v1.0'', ir_device_ip = Some ipv4\<rparr>)) c))"

definition HandleConnectSuccess_bus :: "sdk \<Rightarrow> netif \<Rightarrow> string \<Rightarrow> client \<Rightarrow> client option" where
  "HandleConnectSuccess_bus E I networkInterfaceName c = TestReportDeviceInfo E I networkInterfaceName c"

definition MqttDeviceSecretInit :: "sdk \<Rightarrow> cstr \<Rightarrow> cstr \<Rightarrow> cstr \<Rightarrow> cstr \<Rightarrow> client \<Rightarrow> client option" where
  "MqttDeviceSecretInit E address port deviceId password c = do {
     (_, rm, m) \<leftarrow> IOTA_Init (sdk_mqtt E) (sdk_heap E) (Some ''.'') (client_rules c) (client_mqtt c);
     (rm, m) \<leftarrow> IOTA_ConnectConfigSet (sdk_heap E) address port deviceId password rm m;
     (_, m) \<leftarrow> IOTA_ConfigSetUint (sdk_heap E) CONFIG_AUTH_MODE 0 m;
     Some (IOTA_DefaultCallbackInit (with_state rm m c)) }"

text \<open>The callbacks of the soft bus are those of \<open>SoftBus\<close> and GetSlaveAuthKey.\<close>

definition SetSoftBusInit :: "client \<Rightarrow> client" where
  "SetSoftBusInit c = IOTA_SetEvenSoftBusCallback True (IOTA_SetProtocolCallback CONNECT_SUCCESS (Some (Application 0)) c)"

text \<open>Until the connection is asked for; the loop then sends to bus 0 every minute.\<close>

definition soft_bus_main :: "sdk \<Rightarrow> cstr \<Rightarrow> cstr \<Rightarrow> cstr \<Rightarrow> cstr \<Rightarrow> client \<Rightarrow> (int option \<times> client) option" where
  "soft_bus_main E address port deviceId secret c = do {
     c \<leftarrow> MqttDeviceSecretInit E address port deviceId secret c;
     (ret, c) \<leftarrow> client_action (IOTA_Connect (sdk_mqtt E) (sdk_heap E)) (SetSoftBusInit c);
     Some (if ret \<noteq> 0 then Some (-1) else None, c) }"

definition soft_bus_round :: "soft_bus_total \<Rightarrow> mqtt \<Rightarrow> (int \<times> string list) option" where
  "soft_bus_round t m = SendDataToAllInfoDevice t m 0 (Some ''hello!'') 6"

section \<open>The table of a message\<close>

lemma send_others_spec:
  "send_others own data dataLen (map stored ds) ret =
    (if filter (\<lambda>i. i \<noteq> own) (map fst ds) = [] then ret else -1, filter (\<lambda>i. i \<noteq> own) (map fst ds))"
  by (induction ds arbitrary: ret) (auto simp: stored_def DConnSendData_def)

definition message_devices :: "bus_table \<Rightarrow> nat \<Rightarrow> (string \<times> string) list" where
  "message_devices bs i = take SOFTBUS_INFO_LEN (snd (snd (bs ! i)))"

text \<open>Storing a message makes the devices of its buses those of the table, with the master in front.\<close>

lemma stored_table:
  assumes "heap_ok mem" "\<forall>b \<in> set bs. proper_devices (snd (snd b))" "soft_bus_ok t"
    and "i < min SOFTBUS_TOTAL_LEN (length bs)"
  shows "\<exists>t'. softBusParasToTotal mem (Some (bus_message bs)) t = Some (0, t')
    \<and> sbt_count t' = min SOFTBUS_TOTAL_LEN (length bs) \<and> bus_devices (bus_of t' (int i)) = map stored (message_devices bs i)
    \<and> (message_devices bs i \<noteq> [] \<longrightarrow> g_device_soft_bus_info (bus_of t' (int i)) ! 0 = stored (hd (message_devices bs i)))"
proof -
  have t: "length (g_soft_bus_info t) = SOFTBUS_TOTAL_LEN" "list_all bus_ok (g_soft_bus_info t)" "0 < SOFTBUS_TOTAL_LEN"
    using assms(3) by (simp_all add: soft_bus_ok_def SOFTBUS_TOTAL_LEN_def)
  let ?n = "min SOFTBUS_TOTAL_LEN (length bs)"
  obtain bs' where f: "fill_buses mem (map bus_json bs) 0 (g_soft_bus_info t) = Some (?n, bs')"
    "map bus_devices (take ?n bs') = map bus_entries (take SOFTBUS_TOTAL_LEN bs)"
    using fill_buses_spec [OF assms(1,2) t(1,3,2)] by auto
  let ?t = "t \<lparr>g_soft_bus_info := bs', sbt_count := ?n\<rparr>"
  have run: "softBusParasToTotal mem (Some (bus_message bs)) t = Some (0, ?t)"
    using f(1) by (simp add: softBusParasToTotal_def bus_message_def GetObjectItem_def child_list_def o_def)
  have len: "length bs' = SOFTBUS_TOTAL_LEN" using fill_buses_ok [OF f(1) t(1,3,2)] by simp
  have dev: "bus_devices (bs' ! i) = map stored (message_devices bs i)"
    using arg_cong [OF f(2), of "\<lambda>xs. xs ! i"] assms(4) len by (simp add: bus_entries_def message_devices_def)
  have first: "g_device_soft_bus_info b ! 0 = hd (bus_devices b)" if "bus_devices b \<noteq> []" for b
    using that by (cases "g_device_soft_bus_info b") (auto simp: bus_devices_def take_Cons' split: if_splits)
  show ?thesis using run dev first [of "bs' ! i"] by (auto simp: bus_of_def hd_map)
qed

text \<open>
  C38. The master of a bus addresses the others on it: after a message of the platform, the device that comes
  first on a bus sends its data to every other device of that bus, in their order, and every other device
  sends to none.  The interface of this repository refuses each of them, so that the result is 0 only when
  there is no other device.
\<close>

theorem SendDataToAllInfoDevice_reaches_others:
  assumes "heap_ok mem" "\<forall>b \<in> set bs. proper_devices (snd (snd b))" "soft_bus_ok t"
    and "i < min SOFTBUS_TOTAL_LEN (length bs)" "message_devices bs i = (master, ip) # others"
    and "getDeviceId m = Some own" "data \<noteq> []" "dataLen > 0"
  shows "\<exists>t'. softBusParasToTotal mem (Some (bus_message bs)) t = Some (0, t')
    \<and> SendDataToAllInfoDevice t' m (int i) (Some data) dataLen =
        Some (if own = master \<and> filter (\<lambda>d. d \<noteq> own) (map fst others) = [] then 0 else -1,
              if own = master then filter (\<lambda>d. d \<noteq> own) (map fst others) else [])
    \<and> (\<exists>ret'. SoftBusInit t' m (int i) role = Some (ret', if own = master then INIT_SERVICE else INIT_CLIENT))"
proof -
  obtain t' where run: "softBusParasToTotal mem (Some (bus_message bs)) t = Some (0, t')"
    and t': "sbt_count t' = min SOFTBUS_TOTAL_LEN (length bs)" "bus_devices (bus_of t' (int i)) = map stored ((master, ip) # others)"
      "g_device_soft_bus_info (bus_of t' (int i)) ! 0 = stored (master, ip)"
    using stored_table [OF assms(1-4)] assms(5) by auto
  have send: "SendDataToAllInfoDevice t' m (int i) (Some data) dataLen =
      Some (if own = master \<and> filter (\<lambda>d. d \<noteq> own) (map fst others) = [] then 0 else -1, if own = master then filter (\<lambda>d. d \<noteq> own) (map fst others) else [])"
    using send_others_spec [of own "Some data" "word_of_int dataLen" "(master, ip) # others" 0] t' assms(4,6,8)
    by (auto simp: SendDataToAllInfoDevice_def stored_def deref_def Let_def)
  have init: "\<exists>ret'. SoftBusInit t' m (int i) role = Some (ret', if own = master then INIT_SERVICE else INIT_CLIENT)"
    using t' assms(4,6) by (auto simp: SoftBusInit_def stored_def deref_def Let_def split: prod.split)
  show ?thesis using run send init by blast
qed

theorem SendDataToAllInfoDevice_reaches_others_witness:
  "\<exists>t'. softBusParasToTotal (\<lambda>_. True) (Some (bus_message [(''key'', ''bus'', [(''dev1'', ''10.0.0.1''), (''d2'', ''10.0.0.2'')])]))
      g_soft_bus_total = Some (0, t')
    \<and> SendDataToAllInfoDevice t' sample_mqtt 0 (Some ''hello!'') 6 = Some (-1, [''d2''])"
proof -
  let ?bs = "[(''key'', ''bus'', [(''dev1'', ''10.0.0.1''), (''d2'', ''10.0.0.2'')])]"
  have "\<forall>b \<in> set ?bs. proper_devices (snd (snd b))" by (simp add: proper_devices_def proper_def)
  moreover have "0 < min SOFTBUS_TOTAL_LEN (length ?bs)" by (simp add: SOFTBUS_TOTAL_LEN_def)
  moreover have "message_devices ?bs 0 = (''dev1'', ''10.0.0.1'') # [(''d2'', ''10.0.0.2'')]"
    by (simp add: message_devices_def SOFTBUS_INFO_LEN_def)
  moreover have "getDeviceId sample_mqtt = Some ''dev1''"
    by (simp add: getDeviceId_def MqttBase_GetConfig_def sample_mqtt_def)
  ultimately show ?thesis
    using SendDataToAllInfoDevice_reaches_others [of "\<lambda>_. True" ?bs g_soft_bus_total 0 "''dev1''" "''10.0.0.1''" "[(''d2'', ''10.0.0.2'')]"
        sample_mqtt "''dev1''" "''hello!''" 6 "-1"] soft_bus_ok_start by auto
qed

text \<open>No soft bus is ever up: the interface of this repository refuses every kit.\<close>

lemma SoftBusInit_fails: "SoftBusInit t m i role = Some (ret, role') \<Longrightarrow> ret = -1"
  by (auto simp: SoftBusInit_def InitServerKit_def InitClientKit_def init_kit_def InitDConnCaseOne_def bind_eq_Some_conv Let_def
      split: if_splits prod.splits)

end
