(* ===== verification/DeviceDemo.thy ===== *)
theory DeviceDemo
  imports DemoBase
begin

text \<open>
  The sample device of src/device\_demo/device\_demo.c: its reports, its callbacks and its main program, in
  the default build (MQTT 3.1.1, without SSH\_SWITCH, SOFT\_BUS\_OPTION2 and CUSTOM\_RECONNECT\_SWITCH).  The
  addresses and names to be filled in are an argument.  The pauses are recorded; what is only printed
  is left out.  The functions that have a namesake elsewhere end in \<open>_demo\<close>.
\<close>

section \<open>State\<close>

record device_names =
  dn_serverIp :: cstr
  dn_username :: cstr
  dn_secret :: cstr
  dn_subDeviceId :: cstr
  dn_uploadFilePath :: cstr

record device_app =
  da_client :: client
  g_connectFailedTimes :: int
  da_sleeps :: "int list"

abbreviation da_mqtt :: "device_app \<Rightarrow> mqtt" where
  "da_mqtt a \<equiv> client_mqtt (da_client a)"

text \<open>A call of the SDK whose result is only logged.\<close>

definition da_action :: "action \<Rightarrow> device_app \<Rightarrow> device_app option" where
  "da_action f a = map_option (\<lambda>(_, c). a \<lparr>da_client := c\<rparr>) (client_action f (da_client a))"

definition TimeSleep :: "int \<Rightarrow> device_app \<Rightarrow> device_app" where
  "TimeSleep ms a = a \<lparr>da_sleeps := ms # da_sleeps a\<rparr>"

section \<open>Reports\<close>

definition LOAD_6_7 :: string where \<open>LOAD_6_7 = ''{"Load":"6","ImbA_strVal":"7"}''\<close>
definition PHV_9_8 :: string where \<open>PHV_9_8 = ''{"PhV_phsA":"9","PhV_phsB":"8"}''\<close>
definition LOAD_1_3 :: string where \<open>LOAD_1_3 = ''{"Load":"1","ImbA_strVal":"3"}''\<close>
definition PHV_2_4 :: string where \<open>PHV_2_4 = ''{"PhV_phsA":"2","PhV_phsB":"4"}''\<close>
definition LOAD_5_6 :: string where \<open>LOAD_5_6 = ''{"Load":"5","ImbA_strVal":"6"}''\<close>
definition SUP_WH_AAA :: string where \<open>SUP_WH_AAA = ''{"SupWh": "aaa"}''\<close>
definition RESULT_0 :: string where \<open>RESULT_0 = ''{"result":"0"}''\<close>

definition now_stamp :: "sdk \<Rightarrow> cstr" where
  "now_stamp E = GetEventTimesStamp (sdk_heap E) (sdk_gmtime E)"

definition Test_MessageReport :: "sdk \<Rightarrow> device_app \<Rightarrow> device_app option" where
  "Test_MessageReport E = da_action (IOTA_MessageDataReport E
     \<lparr>mr_object_device_id = None, mr_name = Some ''name'', mr_id = Some ''id'', mr_content = Some ''content'', mr_topicParas = None\<rparr>)"

definition Test_ReportJson :: "sdk \<Rightarrow> device_app \<Rightarrow> device_app option" where
  "Test_ReportJson E = da_action (IOTA_PropertiesReportV3 E (Some
     [\<lparr>sd_service_id = Some ''LTE'', sd_event_time = now_stamp E, sd_properties = Some LOAD_6_7\<rparr>,
      \<lparr>sd_service_id = Some ''CPU'', sd_event_time = None, sd_properties = Some PHV_9_8\<rparr>]) 2)"

definition Test_ReportBinary :: "sdk \<Rightarrow> device_app \<Rightarrow> device_app option" where
  "Test_ReportBinary E = da_action (IOTA_BinaryReportV3 E (Some ''1234567890''))"

definition Test_CmdRspV3 :: "sdk \<Rightarrow> bool \<Rightarrow> device_app \<Rightarrow> device_app option" where
  "Test_CmdRspV3 E allocated a =
    (if \<not> allocated then Some a else da_action (IOTA_CmdRspV3 E (Some (1, 0, Some RESULT_0))) a)"

definition Test_BatchPropertiesReport_demo :: "sdk \<Rightarrow> cstr \<Rightarrow> device_app \<Rightarrow> device_app option" where
  "Test_BatchPropertiesReport_demo E deviceId = da_action (IOTA_BatchPropertiesReport E (Some
     [\<lparr>dd_device_id = deviceId, dd_services =
        [\<lparr>sd_service_id = Some ''parameter'', sd_event_time = now_stamp E, sd_properties = Some LOAD_1_3\<rparr>,
         \<lparr>sd_service_id = Some ''analog'', sd_event_time = now_stamp E, sd_properties = Some PHV_2_4\<rparr>]\<rparr>]) 1 (Some [2]) 0)"

definition Test_UpdateSubDeviceStatus :: "sdk \<Rightarrow> cstr \<Rightarrow> device_app \<Rightarrow> device_app option" where
  "Test_UpdateSubDeviceStatus E deviceId = da_action (IOTA_UpdateSubDeviceStatus E (Some
     \<lparr>ds_event_time = now_stamp E, ds_statuses = [(deviceId, Some ''ONLINE'')]\<rparr>) 1)"

definition Test_CommandResponse :: "sdk \<Rightarrow> cstr \<Rightarrow> device_app \<Rightarrow> device_app option" where
  "Test_CommandResponse E requestId =
     da_action (IOTA_CommandResponse E requestId 0 (Some ''cmdResponses'') (Some SUP_WH_AAA))"

definition Test_PropSetResponse :: "sdk \<Rightarrow> cstr \<Rightarrow> device_app \<Rightarrow> device_app option" where
  "Test_PropSetResponse E requestId = da_action (IOTA_PropertiesSetResponse E requestId 0 (Some ''success''))"

definition Test_PropGetResponse :: "sdk \<Rightarrow> cstr \<Rightarrow> device_app \<Rightarrow> device_app option" where
  "Test_PropGetResponse E requestId = da_action (IOTA_PropertiesGetResponse E requestId
     [\<lparr>sd_service_id = Some ''parameter'', sd_event_time = now_stamp E, sd_properties = Some LOAD_5_6\<rparr>,
      \<lparr>sd_service_id = Some ''analog'', sd_event_time = now_stamp E, sd_properties = Some PHV_2_4\<rparr>] 2)"

definition Test_ReportOTAVersion :: "sdk \<Rightarrow> cstr \<Rightarrow> device_app \<Rightarrow> device_app option" where
  "Test_ReportOTAVersion E object_device_id = da_action (IOTA_OTAVersionReport E
     \<lparr>ov_event_time = None, ov_sw_version = Some ''v1.0'', ov_fw_version = Some ''v1.0'', ov_object_device_id = object_device_id\<rparr>)"

definition Test_ReportUpgradeStatus :: "sdk \<Rightarrow> int \<Rightarrow> cstr \<Rightarrow> cstr \<Rightarrow> device_app \<Rightarrow> device_app option" where
  "Test_ReportUpgradeStatus E i version object_device_id = da_action (IOTA_OTAStatusReport E
    (if i = 0
     then \<lparr>us_event_time = None, us_result_code = 0, us_progress = 100, us_description = Some ''success'',
           us_object_device_id = object_device_id, us_version = version\<rparr>
     else \<lparr>us_event_time = None, us_result_code = 1, us_progress = 0, us_description = Some ''failed'',
           us_object_device_id = object_device_id, us_version = version\<rparr>))"

text \<open>The other fields of the file are zero.\<close>

definition Test_GetUploadFileUrl :: "sdk \<Rightarrow> device_names \<Rightarrow> device_app \<Rightarrow> device_app option" where
  "Test_GetUploadFileUrl E n a =
    (if dn_uploadFilePath n = None then Some a
     else da_action (IOTA_GetUploadFileUrl E (Some \<lparr>fi_file_name = dn_uploadFilePath n, fi_hash_code = None, fi_size = 0\<rparr>)) a)"

definition demo_sub_device :: "string \<Rightarrow> string \<Rightarrow> sub_device" where
  "demo_sub_device device_id name =
     \<lparr>sub_parent_device_id = None, sub_node_id = Some ''node_id123'', sub_device_id = Some device_id, sub_name = Some name,
      sub_description = Some ''description'', sub_product_id = Some ''your_product_id'', sub_extension_info = None\<rparr>"

definition Test_GtwAddSubDevice_demo :: "sdk \<Rightarrow> device_app \<Rightarrow> device_app option" where
  "Test_GtwAddSubDevice_demo E = da_action (IOTA_AddSubDevice E (Some
     \<lparr>si_event_time = None, si_event_id = Some ''123123'',
      si_deviceInfo = [demo_sub_device ''device_id123'' ''sub_device111'', demo_sub_device ''device_id1234'' ''sub_device222'']\<rparr>) 2)"

definition Test_GtwDelSubDevice_demo :: "sdk \<Rightarrow> device_app \<Rightarrow> device_app option" where
  "Test_GtwDelSubDevice_demo E = da_action (IOTA_DelSubDevice E (Some \<lparr>del_event_time = None, del_event_id = None,
     del_delSubDevice = [Some ''device_id123'', Some ''device_id1234'', Some ''device_id12345'']\<rparr>) 3)"

definition Test_ReportDeviceInfo :: "sdk \<Rightarrow> device_app \<Rightarrow> device_app option" where
  "Test_ReportDeviceInfo E = da_action (IOTA_ReportDeviceInfo E (Some
     \<lparr>ir_object_device_id = None, ir_event_time = None, ir_device_sdk_version = Some ''C_v1.2.1'',
      ir_sw_version = Some ''v1.0'', ir_fw_version = Some ''v1.0'', ir_device_ip = None\<rparr>))"

definition Test_M2MSendMsg :: "sdk \<Rightarrow> device_names \<Rightarrow> device_app \<Rightarrow> device_app option" where
  "Test_M2MSendMsg E n = da_action (IOTA_M2MSendMsg E (Some ''deviceA'') (dn_username n) (Some ''hello deviceB'')
     (Some ''demoIdToDeviceB''))"

section \<open>Callbacks\<close>

definition HandleConnectSuccess_demo :: "sdk \<Rightarrow> device_app \<Rightarrow> device_app option" where
  "HandleConnectSuccess_demo E = da_action (\<lambda>m. map_option (Pair 0) (SubscribeAllQos (sdk_mqtt E) (sdk_heap E) 1 m))"

definition HandleConnectionBroken :: "sdk \<Rightarrow> device_app \<Rightarrow> device_app option" where
  "HandleConnectionBroken E a =
    (let a1 = a \<lparr>g_connectFailedTimes := g_connectFailedTimes a + 1\<rparr>;
         a2 = TimeSleep (if g_connectFailedTimes a1 < 10 then 5000 else 25000) a1
     in da_action (IOTA_Connect (sdk_mqtt E) (sdk_heap E)) a2)"

text \<open>The callbacks of the connection, in the order they are registered; most of them only print.\<close>

definition protocol_call :: "sdk \<Rightarrow> app_handler \<Rightarrow> device_app \<Rightarrow> device_app option" where
  "protocol_call E h a =
    (if h = Application 0 then HandleConnectSuccess_demo E a
     else if h = Application 1 \<or> h = Application 4 then HandleConnectionBroken E a
     else Some a)"

definition HandleCommandRequest_demo :: "sdk \<Rightarrow> cstr \<Rightarrow> device_app \<Rightarrow> device_app option" where
  "HandleCommandRequest_demo E request_id = Test_CommandResponse E request_id"

definition HandlePropertiesSet :: "sdk \<Rightarrow> cstr \<Rightarrow> device_app \<Rightarrow> device_app option" where
  "HandlePropertiesSet E request_id = Test_PropSetResponse E request_id"

definition HandlePropertiesGet :: "sdk \<Rightarrow> cstr \<Rightarrow> device_app \<Rightarrow> device_app option" where
  "HandlePropertiesGet E request_id = Test_PropGetResponse E request_id"

fun report_added :: "sdk \<Rightarrow> device_info list \<Rightarrow> device_app \<Rightarrow> device_app option" where
  "report_added E [] a = Some a"
| "report_added E (d # ds) a = do {
     a \<leftarrow> Test_UpdateSubDeviceStatus E (di_device_id d) a;
     a \<leftarrow> Test_BatchPropertiesReport_demo E (di_device_id d) a;
     report_added E ds a }"

definition HandleSubDeviceManager :: "sdk \<Rightarrow> service_event \<Rightarrow> device_app \<Rightarrow> device_app option" where
  "HandleSubDeviceManager E ev a =
    (if se_type ev = TYPE_ADD_SUB_DEVICE_NOTIFY then
       (case se_body ev of AddDevices _ devices \<Rightarrow> report_added E devices a | _ \<Rightarrow> None)
     else Some a)"

text \<open>A signature that differs from the one of the program is reported, and the upgrade goes on.\<close>

definition HandleEventOta :: "net \<Rightarrow> sdk \<Rightarrow> cstr \<Rightarrow> service_event \<Rightarrow> device_app \<Rightarrow> device_app option" where
  "HandleEventOta N E object_device_id ev a = do {
     a \<leftarrow> (if se_type ev = TYPE_VERSION_QUERY then Test_ReportOTAVersion E object_device_id a else Some a);
     if is_upgrade (se_type ev) then do {
       ota \<leftarrow> (case se_body ev of Ota p \<Rightarrow> p | _ \<Rightarrow> None);
       a \<leftarrow> (case op_sign ota of
               None \<Rightarrow> Some a
             | Some sign \<Rightarrow> if sign \<noteq> ''your package sha256''
                            then Test_ReportUpgradeStatus E (-1) (op_version ota) object_device_id a else Some a);
       (ret, _, _) \<leftarrow> IOTA_GetOTAPackages_Ext N (sdk_heap E) (op_url ota) (op_access_token ota) 1000 (Some ''.'') True None;
       if ret = 0 then Test_ReportUpgradeStatus E 0 (op_version ota) object_device_id (TimeSleep 3000 a)
       else Test_ReportUpgradeStatus E (-1) (op_version ota) object_device_id a }
     else Some a }"

definition HandleFileMgr :: "curl \<Rightarrow> sdk \<Rightarrow> device_names \<Rightarrow> service_event \<Rightarrow> device_app \<Rightarrow> device_app option" where
  "HandleFileMgr C E n ev a = do {
     url \<leftarrow> (case se_body ev of FileMgr u \<Rightarrow> u | _ \<Rightarrow> None);
     da_action (IOTA_UploadFile E C (dn_uploadFilePath n) url) a }"

fun HandleEventsDown :: "net \<Rightarrow> curl \<Rightarrow> sdk \<Rightarrow> device_names \<Rightarrow> cstr \<Rightarrow> service_event list \<Rightarrow> device_app \<Rightarrow> device_app option" where
  "HandleEventsDown N C E n object_device_id [] a = Some a"
| "HandleEventsDown N C E n object_device_id (ev # evs) a = do {
     a \<leftarrow> (case se_service ev of
             SERVICE_SUB_DEVICE_MANAGER \<Rightarrow> HandleSubDeviceManager E ev a
           | SERVICE_OTA \<Rightarrow> HandleEventOta N E object_device_id ev a
           | SERVICE_FILE_MANAGER \<Rightarrow> HandleFileMgr C E n ev a
           | _ \<Rightarrow> Some a);
     HandleEventsDown N C E n object_device_id evs a }"

definition HandleDeviceConfig :: "json \<Rightarrow> int \<times> string" where
  "HandleDeviceConfig cfg = (0, ''update config success'')"

definition rule_call :: "sdk \<Rightarrow> rule_event \<Rightarrow> device_app \<Rightarrow> device_app option" where
  "rule_call E e a = (case e of LocalCommand _ _ _ \<Rightarrow> HandleCommandRequest_demo E (Some DEVICE_RULE_REQUEST) a
     | SendMsg _ _ \<Rightarrow> Some a)"

text \<open>The callbacks for messages; most of them only print.\<close>

definition device_call :: "net \<Rightarrow> curl \<Rightarrow> sdk \<Rightarrow> device_names \<Rightarrow> app_event \<Rightarrow> device_app \<Rightarrow> device_app option" where
  "device_call N C E n call a =
    (case call of
       CommandDown _ _ request_id _ _ _ _ \<Rightarrow> HandleCommandRequest_demo E request_id a
     | PropertySet _ _ request_id _ _ \<Rightarrow> HandlePropertiesSet E request_id a
     | PropertyGet _ _ request_id _ _ \<Rightarrow> HandlePropertiesGet E request_id a
     | EventDown _ _ object_device_id events \<Rightarrow> HandleEventsDown N C E n object_device_id events a
     | RuleEvents events \<Rightarrow> run_events (rule_call E) events a
     | _ \<Rightarrow> Some a)"

section \<open>The program\<close>

definition SetAuthConfig :: "heap \<Rightarrow> device_names \<Rightarrow> rule_mgr \<Rightarrow> mqtt \<Rightarrow> (rule_mgr \<times> mqtt) option" where
  "SetAuthConfig mem n rm m = do {
     (_, rm, m) \<leftarrow> IOTA_ConfigSetStr mem CONFIG_SERVER_IP (dn_serverIp n) rm m;
     (_, m) \<leftarrow> IOTA_ConfigSetUint mem CONFIG_SERVER_PORT 8883 m;
     (_, rm, m) \<leftarrow> IOTA_ConfigSetStr mem CONFIG_USERNAME (dn_username n) rm m;
     (_, rm, m) \<leftarrow> IOTA_ConfigSetStr mem CONFIG_PASSWORD (dn_secret n) rm m;
     (_, m) \<leftarrow> IOTA_ConfigSetUint mem CONFIG_AUTH_MODE 0 m;
     (_, m) \<leftarrow> IOTA_ConfigSetUint mem CHECK_STAMP 0 m;
     Some (rm, m) }"

definition SetMyCallbacks :: "client \<Rightarrow> client" where
  "SetMyCallbacks c =
    (let c = IOTA_SetProtocolCallback CONNECT_SUCCESS (Some (Application 0)) c;
         c = IOTA_SetProtocolCallback CONNECT_FAILURE (Some (Application 1)) c;
         c = IOTA_SetProtocolCallback DISCONNECT_SUCCESS (Some (Application 2)) c;
         c = IOTA_SetProtocolCallback DISCONNECT_FAILURE (Some (Application 3)) c;
         c = IOTA_SetProtocolCallback CONNECTION_LOST (Some (Application 4)) c;
         c = IOTA_SetProtocolCallback SUBSCRIBE_SUCCESS (Some (Application 5)) c;
         c = IOTA_SetProtocolCallback SUBSCRIBE_FAILURE (Some (Application 6)) c;
         c = IOTA_SetProtocolCallback PUBLISH_SUCCESS (Some (Application 7)) c;
         c = IOTA_SetProtocolCallback PUBLISH_FAILURE (Some (Application 8)) c;
         c = IOTA_SetMessageCallback True c;
         c = IOTA_SetRawMessageCallback True c;
         c = IOTA_SetM2mCallback True c;
         c = IOTA_SetUserTopicMsgCallback True c;
         c = IOTA_SetUndefinedMessageCallback True c;
         c = IOTA_SetUserTopicRawMsgCallback True c;
         c = IOTA_SetCmdCallback True c;
         c = IOTA_SetPropSetCallback True c;
         c = IOTA_SetPropGetCallback True c;
         c = IOTA_SetEventCallback True c;
         c = IOTA_SetShadowGetCallback True c;
         c = IOTA_SetDeviceRuleSendMsgCallback True c
     in IOTA_SetDeviceConfigCallback True c)"

text \<open>The commands the rules issue are carried out after the report.\<close>

definition Test_PropertiesReport :: "sdk \<Rightarrow> device_app \<Rightarrow> device_app option" where
  "Test_PropertiesReport E a = do {
     let c = da_client a;
     (_, events, rm, m) \<leftarrow> IOTA_PropertiesReport E (\<lambda>_. True) (Some
       [\<lparr>sd_service_id = Some ''parameter'', sd_event_time = now_stamp E, sd_properties = Some LOAD_6_7\<rparr>,
        \<lparr>sd_service_id = Some ''analog'', sd_event_time = None, sd_properties = Some PHV_9_8\<rparr>]) 2 0
       (client_rules c) (client_mqtt c);
     run_events (rule_call E) events (a \<lparr>da_client := with_state rm m c\<rparr>) }"

text \<open>One round of the reports of the main loop.\<close>

definition report_round :: "sdk \<Rightarrow> device_names \<Rightarrow> device_app \<Rightarrow> device_app option" where
  "report_round E n a = do {
     a \<leftarrow> da_action (IOTA_GetNTPTime E) a;
     let timeStampStr = sprintf_s 14 (dec_nat (unat (sdk_now E)));
     a \<leftarrow> da_action (IOTA_ReportDeviceLog E (Some ''DEVICE_STATUS'') (Some ''device log'') (Some timeStampStr)) (TimeSleep 1500 a);
     a \<leftarrow> Test_MessageReport E a;
     a \<leftarrow> Test_PropertiesReport E (TimeSleep 1500 a);
     a \<leftarrow> Test_BatchPropertiesReport_demo E (dn_subDeviceId n) (TimeSleep 1500 a);
     Test_M2MSendMsg E n (TimeSleep 1500 a) }"

text \<open>What happens while the device runs.  The callbacks of the connection are those the client records.\<close>

datatype device_event =
    MessageArrives "string \<times> string"
  | ConnectSucceeds "int option"
  | ConnectFails "protocol_rsp option"
  | ConnectionIsLost cstr
  | Reports

definition protocol_calls :: "sdk \<Rightarrow> (client \<Rightarrow> client option) \<Rightarrow> device_app \<Rightarrow> device_app option" where
  "protocol_calls E f a = do {
     c \<leftarrow> f (da_client a);
     let calls = take (length (c_calls c) - length (c_calls (da_client a))) (c_calls c);
     run_events (protocol_call E) (map fst (rev calls)) (a \<lparr>da_client := c\<rparr>) }"

fun device_step :: "net \<Rightarrow> curl \<Rightarrow> sdk \<Rightarrow> device_names \<Rightarrow> device_event \<Rightarrow> device_app \<Rightarrow> device_app option" where
  "device_step N C E n (MessageArrives msg) a = do {
     (calls, c) \<leftarrow> message_calls E msg (da_client a);
     run_events (device_call N C E n) calls (a \<lparr>da_client := c\<rparr>) }"
| "device_step N C E n (ConnectSucceeds response) a = protocol_calls E (MqttBase_OnConnectSuccess E 0 response) a"
| "device_step N C E n (ConnectFails response) a = protocol_calls E (MqttBase_OnConnectFailure E 0 response) a"
| "device_step N C E n (ConnectionIsLost cause) a = protocol_calls E (MqttBase_OnConnectionLost E 0 cause) a"
| "device_step N C E n Reports a = report_round E n a"

text \<open>From the start to the request for the connection, and from the connection to the first round.\<close>

definition device_start :: "sdk \<Rightarrow> device_names \<Rightarrow> device_app \<Rightarrow> (int \<times> device_app) option" where
  "device_start E n a = do {
     let c = da_client a;
     (ret, rm, m) \<leftarrow> IOTA_Init (sdk_mqtt E) (sdk_heap E) (Some ''.'') (client_rules c) (client_mqtt c);
     if ret < 0 then Some (1, a \<lparr>da_client := with_state rm m c\<rparr>)
     else do {
       (rm, m) \<leftarrow> SetAuthConfig (sdk_heap E) n rm m;
       c \<leftarrow> IOTA_EnableDeviceRuleStorage E (Some ''testdata.txt'') (SetMyCallbacks (with_state rm m c));
       a \<leftarrow> da_action (IOTA_Connect (sdk_mqtt E) (sdk_heap E)) (a \<lparr>da_client := c\<rparr>);
       Some (0, a) } }"

definition device_connected :: "sdk \<Rightarrow> device_names \<Rightarrow> device_app \<Rightarrow> device_app option" where
  "device_connected E n a = do {
     a \<leftarrow> Test_GetUploadFileUrl E n a;
     a \<leftarrow> Test_ReportDeviceInfo E a;
     Some (TimeSleep 1500 a) }"

section \<open>Reconnection\<close>

lemma da_action_frame: "da_action f a = Some a' \<Longrightarrow> g_connectFailedTimes a' = g_connectFailedTimes a \<and> da_sleeps a' = da_sleeps a"
  by (auto simp: da_action_def)

definition broken_call :: "app_handler \<Rightarrow> bool" where
  "broken_call h \<longleftrightarrow> h = Application 1 \<or> h = Application 4"

lemma protocol_call_frame:
  assumes "protocol_call E h a = Some a'"
  shows "g_connectFailedTimes a' = g_connectFailedTimes a + (if broken_call h then 1 else 0)
    \<and> da_sleeps a' = (if broken_call h then [if g_connectFailedTimes a < 9 then 5000 else 25000] else []) @ da_sleeps a"
  using assms
  by (auto simp: protocol_call_def broken_call_def HandleConnectSuccess_demo_def HandleConnectionBroken_def TimeSleep_def Let_def
      dest!: da_action_frame split: if_splits)

text \<open>The pauses follow from the number of failures.\<close>

definition pauses :: "nat \<Rightarrow> int list" where
  "pauses n = replicate (n - 9) 25000 @ replicate (min n 9) 5000"

lemma pauses_Suc: "pauses (Suc n) = (if n < 9 then 5000 else 25000) # pauses n"
proof (cases "n < 9")
  case False
  then obtain k where "n = 9 + k" using le_Suc_ex by (metis not_less)
  then show ?thesis by (simp add: pauses_def)
qed (simp add: pauses_def)

definition paused :: "device_app \<Rightarrow> bool" where
  "paused a \<longleftrightarrow> 0 \<le> g_connectFailedTimes a \<and> da_sleeps a = pauses (nat (g_connectFailedTimes a))"

interpretation failures: counting "protocol_call E" paused "\<lambda>a. nat (g_connectFailedTimes a)" "\<lambda>h. if broken_call h then 1 else 0"
proof unfold_locales
  fix a h a' assume a: "paused a" and run: "protocol_call E h a = Some a'"
  have "nat (g_connectFailedTimes a + 1) = Suc (nat (g_connectFailedTimes a))" using a by (simp add: paused_def nat_add_distrib)
  then show "paused a'" using a protocol_call_frame [OF run] by (auto simp: paused_def pauses_Suc)
  show "nat (g_connectFailedTimes a') = nat (g_connectFailedTimes a) + (if broken_call h then 1 else 0)"
    using a protocol_call_frame [OF run] by (auto simp: paused_def)
qed

text \<open>
  C40. The device backs off once and for all: whatever callbacks of the connection come, from the start on the
  device pauses for 5 seconds before each of its first nine attempts to connect again and for 25 seconds
  before each later one; a connection that succeeds in between does not bring the short pause back.
\<close>

theorem HandleConnectionBroken_backoff:
  assumes "run_events (protocol_call E) hs a = Some a'" "g_connectFailedTimes a = 0" "da_sleeps a = []"
  shows "g_connectFailedTimes a' = int (length (filter (\<lambda>h. h \<in> {Application 1, Application 4}) hs))
    \<and> da_sleeps a' = (let n = length (filter (\<lambda>h. h \<in> {Application 1, Application 4}) hs)
                        in replicate (n - 9) 25000 @ replicate (min n 9) 5000)"
proof -
  have "paused a" using assms(2,3) by (simp add: paused_def pauses_def)
  note run = failures.run_counts [OF this assms(1)] failures.run_inv [OF this assms(1)]
  have "sum_list (map (\<lambda>h. if broken_call h then 1 else 0) hs) = length (filter (\<lambda>h. h \<in> {Application 1, Application 4}) hs)"
    by (induction hs) (auto simp: broken_call_def)
  then show ?thesis using run assms(2) by (auto simp: paused_def pauses_def Let_def)
qed

section \<open>The answers\<close>

definition device_ready :: "string \<Rightarrow> device_app \<Rightarrow> bool" where
  "device_ready u a \<longleftrightarrow> client_ready u (da_client a) \<and> onCmd (d_handlers (c_down (da_client a)))
     \<and> onPropertiesSet (d_handlers (c_down (da_client a))) \<and> onPropertiesGet (d_handlers (c_down (da_client a)))
     \<and> onEventDown (d_handlers (c_down (da_client a)))"

definition device_logged :: "mqtt_event \<Rightarrow> device_app \<Rightarrow> device_app" where
  "device_logged e a = a \<lparr>da_client := client_logged e (da_client a)\<rparr>"

lemma device_logged_simps [simp]:
  "mqtt_log (da_mqtt (device_logged e a)) = e # mqtt_log (da_mqtt a)" "device_ready u (device_logged e a) = device_ready u a"
  "da_sleeps (device_logged e a) = da_sleeps a"
  by (simp_all add: device_logged_def device_ready_def)

lemma da_report_logged:
  assumes "heap_ok (sdk_heap E)" "device_ready u a"
  shows "da_action (report_own (sdk_mqtt E) (sdk_heap E) TOPIC_PREFIX sufs (Some p)) a = Some (device_logged (entry u (joined sufs) p) a)"
  using report_own_logged [OF assms(1), of u "da_client a" sufs p] assms(2)
  by (auto simp: da_action_def device_logged_def device_ready_def)

text \<open>What the sample device answers.\<close>

definition command_answer :: "json \<Rightarrow> json" where
  "command_answer paras = JObject [(''result_code'', JNumber 0), (''response_name'', JString ''cmdResponses''), (''paras'', paras)]"

definition set_answer :: json where
  "set_answer = JObject [(''result_code'', JNumber 0), (''result_desc'', JString ''success'')]"

definition get_answer :: "string \<Rightarrow> json \<Rightarrow> json \<Rightarrow> json" where
  "get_answer tm parameter analog = JObject [(''services'', JArray
     [JObject [(''service_id'', JString ''parameter''), (''event_time'', JString tm), (''properties'', parameter)],
      JObject [(''service_id'', JString ''analog''), (''event_time'', JString tm), (''properties'', analog)]])]"

lemma command_logged:
  assumes "clear_world E pr tm" "device_ready u a" "sdk_parse E SUP_WH_AAA = Some paras"
  shows "HandleCommandRequest_demo E (Some r) a =
    Some (device_logged (entry u (TOPIC_SUFFIX_COMMAND_RSP_REQ @ r) (pr (command_answer paras))) a)"
  using da_report_logged [OF clear_worldD(1) [OF assms(1)] assms(2), of "[Some TOPIC_SUFFIX_COMMAND_RSP_REQ, Some r]"] assms(3)
  by (simp add: HandleCommandRequest_demo_def Test_CommandResponse_def IOTA_CommandResponse_def [abs_def]
      IOTA_CommandResponsePayload_def clear_worldD(2) [OF assms(1)] payload_json ReportCommandReponse_def [abs_def]
      command_answer_def json_int_def)

lemma set_logged:
  assumes "clear_world E pr tm" "device_ready u a"
  shows "HandlePropertiesSet E (Some r) a =
    Some (device_logged (entry u (TOPIC_SUFFIX_PROP_SET_RSP_REQ @ r) (pr set_answer)) a)"
  using da_report_logged [OF clear_worldD(1) [OF assms(1)] assms(2), of "[Some TOPIC_SUFFIX_PROP_SET_RSP_REQ, Some r]"]
  by (simp add: HandlePropertiesSet_def Test_PropSetResponse_def IOTA_PropertiesSetResponse_def [abs_def]
      IOTA_PropertiesSetResponsePayload_def clear_worldD(2) [OF assms(1)] payload_json ReportPropSetReponse_def [abs_def]
      set_answer_def json_int_def)

lemma get_logged:
  assumes "clear_world E pr tm" "device_ready u a" "sdk_parse E LOAD_5_6 = Some parameter" "sdk_parse E PHV_2_4 = Some analog"
  shows "HandlePropertiesGet E (Some r) a =
    Some (device_logged (entry u (TOPIC_SUFFIX_PROP_GET_RSP_REQ @ r) (pr (get_answer tm parameter analog))) a)"
  using da_report_logged [OF clear_worldD(1) [OF assms(1)] assms(2), of "[Some TOPIC_SUFFIX_PROP_GET_RSP_REQ, Some r]"] assms(3,4)
  by (simp add: HandlePropertiesGet_def Test_PropGetResponse_def IOTA_PropertiesGetResponse_def [abs_def] now_stamp_def
      IOTA_PropertiesGetResponsePayload_def clear_worldD(2,3) [OF assms(1)] payload_json ReportPropGetReponse_def [abs_def]
      get_answer_def service_json_def JSON_Parse_def numeral_2_eq_2 LOAD_5_6_def PHV_2_4_def)

text \<open>A message of the device that makes one call.\<close>

lemma device_message:
  assumes "clear_world E pr tm" "device_ready u a" "topic \<noteq> []" "payload \<noteq> []"
    and "OnMessageArrived E (0, 0) topic (Some payload) (int (length payload)) (c_down (da_client a)) =
      Some ((c_down (da_client a)) \<lparr>d_app := call # d_app (c_down (da_client a))\<rparr>)"
    and "\<And>b. device_ready u b \<Longrightarrow> device_call N C E n call b = Some (device_logged e b)"
  shows "\<exists>a'. device_step N C E n (MessageArrives (topic, payload)) a = Some a' \<and> mqtt_log (da_mqtt a') = e # mqtt_log (da_mqtt a)"
proof -
  let ?d = "(c_down (da_client a)) \<lparr>d_app := call # d_app (c_down (da_client a))\<rparr>"
  have "message_calls E (topic, payload) (da_client a) = Some ([call], (da_client a) \<lparr>c_down := ?d\<rparr>)"
    using message_calls_routed [OF clear_worldD(1) [OF assms(1)] assms(3,4), of "da_client a" ?d "[call]"] assms(2,5)
    by (simp add: device_ready_def client_ready_def)
  moreover have "device_ready u (a \<lparr>da_client := (da_client a) \<lparr>c_down := ?d\<rparr>\<rparr>)"
    using assms(2) by (simp add: device_ready_def client_ready_def)
  ultimately show ?thesis using assms(6) by simp
qed

lemma strstr_char_skip: "c \<notin> set u \<Longrightarrow> strstr (u @ x) [c] = strstr x [c]"
  by (induction u) auto

definition request_topic :: "string \<Rightarrow> string \<Rightarrow> string \<Rightarrow> string" where
  "request_topic u request r = ''$oc/devices/'' @ u @ request @ ''request_id='' @ r"

lemma request_id_of_topic:
  assumes "CHR ''='' \<notin> set u" "CHR ''='' \<notin> set request"
  shows "request_id_of (request_topic u request r) = Some r"
proof -
  have "CHR ''='' \<notin> set ''$oc/devices/''" "CHR ''='' \<notin> set ''request_id''" by code_simp+
  note skip = this [THEN strstr_char_skip]
  have "strstr (''$oc/devices/'' @ u @ request @ ''request_id'' @ ''='' @ r) ''='' = Some (''='' @ r)"
    unfolding skip strstr_char_skip [OF assms(1)] strstr_char_skip [OF assms(2)] by simp
  then show ?thesis by (simp add: request_id_of_def request_topic_def)
qed

text \<open>The services of a set request that are neither the rules nor the detection of the device.\<close>

definition own_service :: "json \<Rightarrow> bool" where
  "own_service service \<longleftrightarrow>
     get_string (Some service) ''service_id'' \<notin> {Some ''$device_rule'', Some ''$security_detection_config''}"

lemma set_services_own: "list_all own_service services \<Longrightarrow> \<exists>filled'. set_services E services filled d = Some (filled', d)"
  by (induction services arbitrary: filled) (auto simp: own_service_def service_update_def Let_def split: option.split)


section \<open>The upgrade\<close>

definition upgrade_event :: "bool \<Rightarrow> string \<Rightarrow> string \<Rightarrow> json" where
  "upgrade_event success version object_device_id = JObject
     [(''object_device_id'', JString object_device_id), (''services'', JArray [JObject
       [(''service_id'', JString ''$ota''), (''event_type'', JString ''upgrade_progress_report''),
        (''paras'', JObject [(''result_code'', JNumber (if success then 0 else 1)),
           (''progress'', JNumber (if success then 100 else 0)), (''version'', JString version),
           (''description'', JString (if success then ''success'' else ''failed''))])]])]"

lemma upgrade_logged:
  assumes "clear_world E pr tm" "device_ready u a"
  shows "Test_ReportUpgradeStatus E i (Some version) (Some object_device_id) a = Some (device_logged
    (entry u TOPIC_SUFFIX_EVENT_UP (pr (upgrade_event (i = 0) version object_device_id))) a)"
  using da_report_logged [OF clear_worldD(1) [OF assms(1)] assms(2), of "[Some TOPIC_SUFFIX_EVENT_UP]"]
  by (simp add: Test_ReportUpgradeStatus_def IOTA_OTAStatusReport_def [abs_def] IOTA_OTAStatusReportPayload_def
      clear_worldD(2) [OF assms(1)] payload_json upgrade_event_def json_int_def)

lemma device_ready_TimeSleep [simp]:
  "device_ready u (TimeSleep ms a) = device_ready u a" "da_mqtt (TimeSleep ms a) = da_mqtt a"
  by (simp_all add: TimeSleep_def device_ready_def)

text \<open>
  C39. A package with the wrong signature is installed: on an upgrade whose signature is not the one of the
  program the device publishes that the upgrade failed and fetches the package all the same; when it
  arrives the device then publishes, for the same version, that the upgrade succeeded.
\<close>

theorem HandleEventOta_wrong_signature:
  assumes "clear_world E pr tm" "device_ready u a" "is_upgrade (se_type ev)" "se_body ev = Ota (Some ota)"
    and "op_sign ota = Some sign" "op_version ota = Some version"
    and "IOTA_GetOTAPackages_Ext N (sdk_heap E) (op_url ota) (op_access_token ota) 1000 (Some ''.'') True None = Some (ret, out)"
  shows "\<exists>a'. HandleEventOta N E (Some object_device_id) ev a = Some a' \<and>
    mqtt_log (da_mqtt a') = entry u TOPIC_SUFFIX_EVENT_UP (pr (upgrade_event (ret = 0) version object_device_id))
      # (if sign = ''your package sha256'' then []
         else [entry u TOPIC_SUFFIX_EVENT_UP (pr (upgrade_event False version object_device_id))]) @ mqtt_log (da_mqtt a)"
proof -
  note status = upgrade_logged [OF assms(1), of u]
  obtain b where b: "(if sign \<noteq> ''your package sha256''
      then Test_ReportUpgradeStatus E (-1) (op_version ota) (Some object_device_id) a else Some a) = Some b"
    and ready: "device_ready u b" and log: "mqtt_log (da_mqtt b) = (if sign = ''your package sha256'' then []
      else [entry u TOPIC_SUFFIX_EVENT_UP (pr (upgrade_event False version object_device_id))]) @ mqtt_log (da_mqtt a)"
    using status [OF assms(2)] assms(2,6) by (cases "sign = ''your package sha256''") simp_all
  have "se_type ev \<noteq> TYPE_VERSION_QUERY" using assms(3) by (auto simp: is_upgrade_def)
  then have "HandleEventOta N E (Some object_device_id) ev a =
      (if ret = 0 then Test_ReportUpgradeStatus E 0 (op_version ota) (Some object_device_id) (TimeSleep 3000 b)
       else Test_ReportUpgradeStatus E (-1) (op_version ota) (Some object_device_id) b)"
    using b assms(3-5,7) by (cases out) (simp add: HandleEventOta_def)
  then show ?thesis using status ready log assms(6) by simp
qed

section \<open>A concrete device\<close>

definition da_sample :: device_app where
  "da_sample = \<lparr>da_client = SetMyCallbacks (sample_client \<lparr>c_down := sample_down \<lparr>d_mqtt := sample_mqtt \<lparr>g_client := True\<rparr>\<rparr>\<rparr>),
     g_connectFailedTimes = 0, da_sleeps = []\<rparr>"

lemma da_sample_ready: "device_ready ''dev1'' da_sample"
  by code_simp

lemma da_sample_world: "\<exists>tm. clear_world (sample_sdk doc) (\<lambda>_. ''{}'') tm"
  by (simp add: clear_world_def sample_sdk_def sample_env_def GetEventTimesStamp_def)

definition da_curl :: curl where
  "da_curl = \<lparr>curl_init = True, curl_perform = (\<lambda>_ _. (CURLE_OK, 200)), curl_strerror = (\<lambda>_. []),
     curl_realpath = Some, curl_open = (\<lambda>_. True)\<rparr>"

definition da_names :: device_names where
  "da_names = \<lparr>dn_serverIp = Some ''iot.example'', dn_username = Some ''dev1'', dn_secret = Some ''secret'',
     dn_subDeviceId = Some ''sub1'', dn_uploadFilePath = None\<rparr>"


definition da_ota :: ota_paras where
  "da_ota = \<lparr>op_version = Some ''v2'', op_url = Some ''https://1.2.3.4:8443/d/pkg?a=1'', op_file_size = 4, op_file_name = None,
     op_task_id = None, op_sub_device_count = 0, op_task_ext_info = None, op_access_token = None, op_expires = 0,
     op_sign = Some ''other''\<rparr>"

lemma da_fetch: "IOTA_GetOTAPackages_Ext sample_net (\<lambda>_. True) (op_url da_ota) (op_access_token da_ota) 1000 (Some ''.'') True None =
    Some (0, Some ''pkg'', Some (''./pkg'', ''abcd''))"
  by code_simp

theorem HandleEventOta_wrong_signature_witness:
  "\<exists>a'. HandleEventOta sample_net (sample_sdk (JObject [])) (Some ''dev1'')
      ((new_event SERVICE_OTA None) \<lparr>se_type := TYPE_SOFTWARE_UPGRADE, se_body := Ota (Some da_ota)\<rparr>) da_sample = Some a'
    \<and> length (mqtt_log (da_mqtt a')) = length (mqtt_log (da_mqtt da_sample)) + 2"
proof -
  obtain tm where world: "clear_world (sample_sdk (JObject [])) (\<lambda>_. ''{}'') tm" using da_sample_world by blast
  have heap: "sdk_heap (sample_sdk (JObject [])) = (\<lambda>_. True)" by (simp add: sample_sdk_def)
  show ?thesis
    using HandleEventOta_wrong_signature [OF world da_sample_ready, of
        "(new_event SERVICE_OTA None) \<lparr>se_type := TYPE_SOFTWARE_UPGRADE, se_body := Ota (Some da_ota)\<rparr>" da_ota "''other''" "''v2''"
        sample_net, unfolded heap, OF _ _ _ _ da_fetch, of "''dev1''"]
    by (auto simp: is_upgrade_def da_ota_def)
qed

text \<open>A device without a working directory, which cannot connect, after ten failures.\<close>

definition da_lost :: device_app where
  "da_lost = da_sample \<lparr>da_client := sample_client \<lparr>c_down := sample_down \<lparr>d_mqtt := sample_mqtt \<lparr>g_workDir := None\<rparr>\<rparr>\<rparr>\<rparr>"

theorem HandleConnectionBroken_backoff_witness:
  "\<exists>a'. run_events (protocol_call (sample_sdk (JObject []))) (Application 7 # replicate 10 (Application 1)) da_lost = Some a'
    \<and> g_connectFailedTimes a' = 10 \<and> da_sleeps a' = [25000, 5000, 5000, 5000, 5000, 5000, 5000, 5000, 5000, 5000]"
proof -
  define m where "m = sample_mqtt \<lparr>g_workDir := None\<rparr>"
  have fails: "protocol_call E (Application 1) a = Some (TimeSleep (if g_connectFailedTimes a + 1 < 10 then 5000 else 25000)
      (a \<lparr>g_connectFailedTimes := g_connectFailedTimes a + 1, da_client := with_state (client_rules (da_client a)) m (da_client a)\<rparr>))"
    if "da_mqtt a = m" for a E
    using that by (simp add: protocol_call_def HandleConnectionBroken_def da_action_def client_action_def IOTA_Connect_def
        CreateConnection_def MqttBase_CreateConnection_def m_def TimeSleep_def Let_def)
  have "\<exists>a'. run_events (protocol_call E) (replicate k (Application 1)) a = Some a'" if "da_mqtt a = m" for k a E
    using that by (induction k arbitrary: a) (simp_all add: fails [simplified] TimeSleep_def)
  moreover have "da_mqtt da_lost = m" by (simp add: da_lost_def m_def sample_client_def sample_down_def)
  ultimately obtain a' where "run_events (protocol_call (sample_sdk (JObject []))) (replicate 10 (Application 1)) da_lost = Some a'"
    by blast
  then have "run_events (protocol_call (sample_sdk (JObject []))) (Application 7 # replicate 10 (Application 1)) da_lost = Some a'"
    by (simp add: protocol_call_def)
  from HandleConnectionBroken_backoff [OF this] this show ?thesis
    by (auto simp: da_lost_def da_sample_def numeral_eq_Suc)
qed

end
