(* ===== verification/OfflineCache.thy ===== *)
theory OfflineCache
  imports DeviceDemo
begin

text \<open>
  The offline cache of src/device\_demo/device\_demo.c, which STORE\_DATA\_SWITCH turns on: a report is kept until its
  publication is acknowledged, and what is kept is reported again after each connection and each
  acknowledgement.  A pointer to a report is a number with the report behind it; the handlers run one
  after the other.
\<close>

section \<open>Definitions\<close>

definition CACHE_SPACE_MAX :: nat where "CACHE_SPACE_MAX = 100"

record cache_slot =
  slot_services :: "(nat \<times> service_data list) option"
  slot_serviceNum :: int

record cache_app =
  ca_device :: device_app
  g_cacheSpace :: "cache_slot list"
  g_cacheSpaceLen :: int
  g_cachePosition :: nat

definition free_slot :: cache_slot where
  "free_slot = \<lparr>slot_services = None, slot_serviceNum = 0\<rparr>"

definition cache_start :: "device_app \<Rightarrow> cache_app" where
  "cache_start a = \<lparr>ca_device = a, g_cacheSpace = replicate CACHE_SPACE_MAX free_slot, g_cacheSpaceLen = 0, g_cachePosition = 0\<rparr>"

text \<open>A report of the kept services; their pointer is the context of the publication.\<close>

definition cache_report :: "sdk \<Rightarrow> service_data list \<Rightarrow> int \<Rightarrow> device_app \<Rightarrow> device_app option" where
  "cache_report E services serviceNum a = do {
     let c = da_client a;
     (_, events, rm, m) \<leftarrow> IOTA_PropertiesReport E (\<lambda>_. True) (Some services) serviceNum 0 (client_rules c) (client_mqtt c);
     run_events (rule_call E) events (a \<lparr>da_client := with_state rm m c\<rparr>) }"

text \<open>The first free slot.\<close>

fun keep_in :: "cache_slot \<Rightarrow> cache_slot list \<Rightarrow> (cache_slot list \<times> bool)" where
  "keep_in new [] = ([], False)"
| "keep_in new (s # ss) =
    (if slot_services s = None then (new # ss, True) else (let (ss', kept) = keep_in new ss in (s # ss', kept)))"

definition keep_slot :: "cache_slot \<Rightarrow> cache_app \<Rightarrow> cache_app option" where
  "keep_slot new ca =
    (if g_cacheSpaceLen ca > int CACHE_SPACE_MAX then do {
       guard_ub (g_cachePosition ca < CACHE_SPACE_MAX);
       Some (ca \<lparr>g_cacheSpace := (g_cacheSpace ca)[g_cachePosition ca := new], g_cachePosition := g_cachePosition ca + 1\<rparr>) }
     else (let (cache, kept) = keep_in new (g_cacheSpace ca)
           in Some (ca \<lparr>g_cacheSpace := cache, g_cacheSpaceLen := g_cacheSpaceLen ca + (if kept then 1 else 0),
                        g_cachePosition := 0\<rparr>)))"

definition Test_PropertiesStoreData :: "sdk \<Rightarrow> nat option \<Rightarrow> cache_app \<Rightarrow> cache_app option" where
  "Test_PropertiesStoreData E pointer ca =
    (case pointer of
       None \<Rightarrow> Some ca
     | Some p \<Rightarrow> do {
         let services =
           [\<lparr>sd_service_id = Some ''parameter'', sd_event_time = now_stamp E, sd_properties = Some LOAD_6_7\<rparr>,
            \<lparr>sd_service_id = Some ''analog'', sd_event_time = None, sd_properties = Some PHV_9_8\<rparr>];
         ca \<leftarrow> keep_slot \<lparr>slot_services = Some (p, services), slot_serviceNum = 2\<rparr> ca;
         a \<leftarrow> cache_report E services 2 (ca_device ca);
         Some (ca \<lparr>ca_device := a\<rparr>) })"

text \<open>A slot that is not empty is reported again.\<close>

definition resend :: "sdk \<Rightarrow> cache_slot \<Rightarrow> device_app \<Rightarrow> device_app option" where
  "resend E s a = (case slot_services s of
     None \<Rightarrow> Some a
   | Some (_, services) \<Rightarrow> map_option (TimeSleep 100) (cache_report E services (slot_serviceNum s) a))"

definition HandleConnectSuccess_cached :: "sdk \<Rightarrow> cache_app \<Rightarrow> cache_app option" where
  "HandleConnectSuccess_cached E ca = do {
     a \<leftarrow> HandleConnectSuccess_demo E (ca_device ca);
     a \<leftarrow> (if g_cacheSpaceLen ca \<le> 0 then Some a else run_events (resend E) (g_cacheSpace ca) a);
     Some (ca \<lparr>ca_device := a\<rparr>) }"

text \<open>The slots up to the acknowledged one are reported again; that one is freed.\<close>

fun acknowledge :: "sdk \<Rightarrow> nat \<Rightarrow> cache_slot list \<Rightarrow> device_app \<Rightarrow> (cache_slot list \<times> bool \<times> device_app) option" where
  "acknowledge E p [] a = Some ([], False, a)"
| "acknowledge E p (s # ss) a =
    (if map_option fst (slot_services s) = Some p then Some (free_slot # ss, True, a)
     else do {
       a \<leftarrow> resend E s a;
       (ss', found, a) \<leftarrow> acknowledge E p ss a;
       Some (s # ss', found, a) })"

definition HandlePublishSuccess :: "sdk \<Rightarrow> nat option \<Rightarrow> cache_app \<Rightarrow> cache_app option" where
  "HandlePublishSuccess E ctx ca =
    (case ctx of
       None \<Rightarrow> Some ca
     | Some p \<Rightarrow>
         if g_cacheSpaceLen ca \<le> 0 then Some ca
         else do {
           (cache, found, a) \<leftarrow> acknowledge E p (g_cacheSpace ca) (ca_device ca);
           Some (ca \<lparr>ca_device := a, g_cacheSpace := cache,
                     g_cacheSpaceLen := g_cacheSpaceLen ca - (if found then 1 else 0)\<rparr>) })"

datatype cache_event = Stored "nat option" | ConnectedAgain | Acknowledged "nat option"

fun cache_step :: "sdk \<Rightarrow> cache_event \<Rightarrow> cache_app \<Rightarrow> cache_app option" where
  "cache_step E (Stored pointer) ca = Test_PropertiesStoreData E pointer ca"
| "cache_step E ConnectedAgain ca = HandleConnectSuccess_cached E ca"
| "cache_step E (Acknowledged ctx) ca = HandlePublishSuccess E ctx ca"

section \<open>The count of the slots\<close>

definition used :: "cache_slot list \<Rightarrow> nat" where
  "used ss = length (filter (\<lambda>s. slot_services s \<noteq> None) ss)"

definition cached :: "cache_slot list \<Rightarrow> nat set" where
  "cached ss = {p. \<exists>s \<in> set ss. map_option fst (slot_services s) = Some p}"

lemma used_simps [simp]:
  "used [] = 0" "used (s # ss) = (if slot_services s = None then 0 else 1) + used ss" "used (replicate n free_slot) = 0"
  by (simp_all add: used_def free_slot_def)

lemma used_le: "used ss \<le> length ss"
  by (simp add: used_def)

lemma cached_simps [simp]:
  "cached [] = {}" "cached (s # ss) = set_option (map_option fst (slot_services s)) \<union> cached ss"
  by (auto simp: cached_def)

lemma keep_in_effect:
  assumes "keep_in new ss = (ss', kept)" "slot_services new = Some (p, services)"
  shows "length ss' = length ss" "used ss' = used ss + (if kept then 1 else 0)"
    "cached ss' = cached ss \<union> (if kept then {p} else {})" "kept \<longleftrightarrow> used ss < length ss" "\<not> kept \<Longrightarrow> ss' = ss"
proof -
  have "length ss' = length ss \<and> used ss' = used ss + (if kept then 1 else 0)
      \<and> cached ss' = cached ss \<union> (if kept then {p} else {}) \<and> (kept \<longleftrightarrow> used ss < length ss) \<and> (\<not> kept \<longrightarrow> ss' = ss)"
    using assms(1)
  proof (induction ss arbitrary: ss')
    case (Cons s ss)
    then show ?case using assms(2) used_le [of ss]
      by (fastforce simp: le_imp_less_Suc split: if_splits prod.splits)
  qed auto
  then show "length ss' = length ss" "used ss' = used ss + (if kept then 1 else 0)"
    "cached ss' = cached ss \<union> (if kept then {p} else {})" "kept \<longleftrightarrow> used ss < length ss" "\<not> kept \<Longrightarrow> ss' = ss"
    by blast+
qed

lemma acknowledge_effect:
  assumes "acknowledge E p ss a = Some (ss', found, a')"
  shows "length ss' = length ss \<and> used ss = used ss' + (if found then 1 else 0) \<and> (found \<longleftrightarrow> p \<in> cached ss)
    \<and> cached ss - {p} \<subseteq> cached ss'"
  using assms
proof (induction ss arbitrary: a ss')
  case (Cons s ss)
  then show ?case by (fastforce simp: bind_eq_Some_conv free_slot_def split: if_splits)
qed auto

definition cache_counted :: "cache_app \<Rightarrow> bool" where
  "cache_counted ca \<longleftrightarrow> length (g_cacheSpace ca) = CACHE_SPACE_MAX \<and> g_cacheSpaceLen ca = int (used (g_cacheSpace ca))"

lemma cache_counted_le: "cache_counted ca \<Longrightarrow> g_cacheSpaceLen ca \<le> int CACHE_SPACE_MAX"
  using used_le [of "g_cacheSpace ca"] by (simp add: cache_counted_def)

lemma cache_start_counted: "cache_counted (cache_start a)"
  by (simp add: cache_counted_def cache_start_def)

text \<open>A counted cache is never over its size, so that the oldest report is never replaced.\<close>

lemma keep_slot_effect:
  assumes "cache_counted ca" "keep_slot new ca = Some ca'" "slot_services new = Some (p, services)"
  shows "cache_counted ca' \<and> cached (g_cacheSpace ca') = cached (g_cacheSpace ca)
    \<union> (if g_cacheSpaceLen ca < int CACHE_SPACE_MAX then {p} else {})"
proof -
  obtain cache kept where k: "keep_in new (g_cacheSpace ca) = (cache, kept)" by fastforce
  then have "ca' = ca \<lparr>g_cacheSpace := cache, g_cacheSpaceLen := g_cacheSpaceLen ca + (if kept then 1 else 0), g_cachePosition := 0\<rparr>"
    using assms(2) cache_counted_le [OF assms(1)] by (simp add: keep_slot_def)
  then show ?thesis using keep_in_effect [OF k assms(3)] assms(1) by (simp add: cache_counted_def)
qed

lemma store_effect:
  assumes "cache_counted ca" "Test_PropertiesStoreData E (Some p) ca = Some ca'"
  shows "cache_counted ca' \<and> cached (g_cacheSpace ca') = cached (g_cacheSpace ca)
    \<union> (if g_cacheSpaceLen ca < int CACHE_SPACE_MAX then {p} else {})"
proof -
  obtain services b a where k: "keep_slot \<lparr>slot_services = Some (p, services), slot_serviceNum = 2\<rparr> ca = Some b"
    and ca': "ca' = b \<lparr>ca_device := a\<rparr>"
    using assms(2) by (auto simp: Test_PropertiesStoreData_def bind_eq_Some_conv Let_def)
  have "slot_services \<lparr>slot_services = Some (p, services), slot_serviceNum = 2\<rparr> = Some (p, services)" by simp
  from keep_slot_effect [OF assms(1) k this] show ?thesis by (simp add: ca' cache_counted_def)
qed

lemma cache_step_effect:
  assumes "cache_counted ca" "cache_step E e ca = Some ca'"
  shows "cache_counted ca' \<and> (\<forall>p. p \<in> cached (g_cacheSpace ca) \<longrightarrow> e \<noteq> Acknowledged (Some p) \<longrightarrow> p \<in> cached (g_cacheSpace ca'))"
proof (cases e)
  case (Stored pointer)
  then show ?thesis using assms store_effect [OF assms(1)]
    by (cases pointer) (auto simp: Test_PropertiesStoreData_def)
next
  case ConnectedAgain
  then show ?thesis using assms by (auto simp: HandleConnectSuccess_cached_def bind_eq_Some_conv cache_counted_def)
next
  case (Acknowledged ctx)
  show ?thesis
  proof (cases "ctx = None \<or> g_cacheSpaceLen ca \<le> 0")
    case True
    then show ?thesis using assms Acknowledged by (auto simp: HandlePublishSuccess_def split: option.splits)
  next
    case False
    then obtain p cache found a where p: "ctx = Some p"
      and ack: "acknowledge E p (g_cacheSpace ca) (ca_device ca) = Some (cache, found, a)"
      and ca': "ca' = ca \<lparr>ca_device := a, g_cacheSpace := cache, g_cacheSpaceLen := g_cacheSpaceLen ca - (if found then 1 else 0)\<rparr>"
      using assms(2) Acknowledged by (auto simp: HandlePublishSuccess_def bind_eq_Some_conv)
    then show ?thesis using acknowledge_effect [OF ack] assms(1) Acknowledged by (auto simp: cache_counted_def)
  qed
qed

interpretation cache: reactive "cache_step E" cache_counted
  by unfold_locales (blast dest: cache_step_effect)

lemma cached_until_acknowledged:
  "cache_counted ca \<Longrightarrow> run_events (cache_step E) es ca = Some ca' \<Longrightarrow> p \<in> cached (g_cacheSpace ca) \<Longrightarrow>
     Acknowledged (Some p) \<notin> set es \<Longrightarrow> p \<in> cached (g_cacheSpace ca')"
proof (induction es arbitrary: ca)
  case (Cons e es)
  then obtain b where "cache_step E e ca = Some b" "run_events (cache_step E) es b = Some ca'" by (auto simp: bind_eq_Some_conv)
  then show ?case using Cons cache_step_effect [of ca E e b] by auto
qed simp

text \<open>
  C37. What the cache keeps is kept until it is acknowledged, and a full cache keeps nothing more: after any events
  the count of the cache is the number of its reports, at most 100, and each of them survives all events
  but the acknowledgement of its own publication; a further report is kept just when the count is below 100.
\<close>

theorem cache_keeps_until_acknowledged:
  assumes "run_events (cache_step E) es (cache_start a) = Some ca"
  shows "g_cacheSpaceLen ca = int (length (filter (\<lambda>s. slot_services s \<noteq> None) (g_cacheSpace ca))) \<and> g_cacheSpaceLen ca \<le> 100
    \<and> (\<forall>fs ca' p. run_events (cache_step E) fs ca = Some ca' \<longrightarrow> p \<in> cached (g_cacheSpace ca) \<longrightarrow>
         Acknowledged (Some p) \<notin> set fs \<longrightarrow> p \<in> cached (g_cacheSpace ca'))
    \<and> (\<forall>p ca'. cache_step E (Stored (Some p)) ca = Some ca' \<longrightarrow>
         cached (g_cacheSpace ca') = cached (g_cacheSpace ca) \<union> (if g_cacheSpaceLen ca < 100 then {p} else {}))"
proof -
  have ok: "cache_counted ca" using cache.run_inv [OF cache_start_counted assms] .
  then show ?thesis
    using cache_counted_le [OF ok] cached_until_acknowledged [OF ok] store_effect [OF ok]
    by (auto simp: cache_counted_def used_def CACHE_SPACE_MAX_def)
qed

section \<open>What is reported again\<close>

lemma rule_call_sleeps: "run_events (rule_call E) events a = Some a' \<Longrightarrow> da_sleeps a' = da_sleeps a"
  by (induction events arbitrary: a)
     (auto simp: bind_eq_Some_conv rule_call_def HandleCommandRequest_demo_def Test_CommandResponse_def
       dest!: da_action_frame split: rule_event.splits)

lemma resend_sleeps:
  "resend E s a = Some a' \<Longrightarrow> da_sleeps a' = (if slot_services s = None then [] else [100]) @ da_sleeps a"
  by (auto simp: resend_def cache_report_def bind_eq_Some_conv Let_def TimeSleep_def dest!: rule_call_sleeps
      split: option.splits)

text \<open>Each connection reports every report that is kept again, with a pause after each.\<close>

lemma HandleConnectSuccess_resends_all:
  assumes "cache_counted ca" "HandleConnectSuccess_cached E ca = Some ca'"
  shows "da_sleeps (ca_device ca') = replicate (nat (g_cacheSpaceLen ca)) 100 @ da_sleeps (ca_device ca)"
proof -
  have run: "run_events (resend E) ss a = Some a' \<Longrightarrow> da_sleeps a' = replicate (used ss) 100 @ da_sleeps a" for ss a a'
    by (induction ss arbitrary: a) (auto simp: bind_eq_Some_conv replicate_app_Cons_same dest!: resend_sleeps)
  obtain a where a: "HandleConnectSuccess_demo E (ca_device ca) = Some a"
      "(if g_cacheSpaceLen ca \<le> 0 then Some a else run_events (resend E) (g_cacheSpace ca) a) = Some (ca_device ca')"
    using assms(2) by (auto simp: HandleConnectSuccess_cached_def bind_eq_Some_conv)
  then have "da_sleeps a = da_sleeps (ca_device ca)" by (auto simp: HandleConnectSuccess_demo_def dest: da_action_frame)
  then show ?thesis using run [of "g_cacheSpace ca" a "ca_device ca'"] a(2) assms(1)
    by (simp add: cache_counted_def split: if_splits)
qed

section \<open>A concrete cache\<close>

definition quiet_sample :: device_app where
  "quiet_sample = \<lparr>da_client = sample_client \<lparr>c_down := sample_down
     \<lparr>d_rules := RuleMgr_Init None, d_mqtt := sample_mqtt \<lparr>g_client := True\<rparr>\<rparr>\<rparr>, g_connectFailedTimes = 0, da_sleeps = []\<rparr>"

lemma quiet_report:
  assumes "sd_service_id d \<noteq> None" "sd_properties d \<noteq> None" "sd_service_id e \<noteq> None" "sd_properties e \<noteq> None"
  shows "\<exists>a. cache_report (sample_sdk (JObject [])) [d, e] 2 quiet_sample = Some a"
  using assms
  by (auto simp: cache_report_def quiet_sample_def sample_client_def sample_down_def Let_def
      IOTA_PropertiesReport_def IOTA_PropertiesReportPayload_def JSON_Parse_def sample_sdk_def
        RuleMgr_CheckAndExecuteNoTimers_def run_rules_def RuleMgr_Init_def report_defs report_own_publishes
        sample_mqtt_def mqtt_start_def reported_def MqttBase_publish_def MqttBase_publishSet_def sample_env_def
        topic_defs error_codes numeral_2_eq_2)

theorem cache_keeps_until_acknowledged_witness:
  "\<exists>ca. run_events (cache_step (sample_sdk (JObject []))) [Stored None, Stored (Some 7)] (cache_start quiet_sample) = Some ca
    \<and> 7 \<in> cached (g_cacheSpace ca) \<and> g_cacheSpaceLen ca \<le> 100"
proof -
  have first: "run_events (cache_step (sample_sdk (JObject []))) [Stored None] (cache_start quiet_sample) = Some (cache_start quiet_sample)"
    by (simp add: Test_PropertiesStoreData_def)
  have "\<exists>ca. cache_step (sample_sdk (JObject [])) (Stored (Some 7)) (cache_start quiet_sample) = Some ca"
    using quiet_report [of "\<lparr>sd_service_id = Some ''parameter'', sd_event_time = now_stamp (sample_sdk (JObject [])), sd_properties = Some LOAD_6_7\<rparr>"
        "\<lparr>sd_service_id = Some ''analog'', sd_event_time = None, sd_properties = Some PHV_9_8\<rparr>"]
    by (auto simp: Test_PropertiesStoreData_def keep_slot_def cache_start_def Let_def split: prod.split)
  then obtain ca where ca: "cache_step (sample_sdk (JObject [])) (Stored (Some 7)) (cache_start quiet_sample) = Some ca" by blast
  have run: "run_events (cache_step (sample_sdk (JObject []))) ([Stored None] @ [Stored (Some 7)]) (cache_start quiet_sample) = Some ca"
    unfolding run_events_append first using ca by simp
  have "7 \<in> cached (g_cacheSpace ca)"
    using cache_keeps_until_acknowledged [OF first] ca by (simp add: cache_start_def)
  moreover have "g_cacheSpaceLen ca \<le> 100" using cache_keeps_until_acknowledged [OF run] by blast
  ultimately show ?thesis using run unfolding append.simps by blast
qed

end
