(* ===== verification/Spec2Isabelle.thy ===== *)
theory Spec2Isabelle
  imports Callbacks Bridge SoftBus Tunnel Report5 Log DirWatch DetectStore
    Provision Gateway SoftBusDemo DeviceDemo OfflineCache
begin

text \<open>
  The Huawei Cloud IoT device SDK for C (src/).  A device links this library to talk to the
  IoT platform over MQTT: it logs in, reports messages, properties and events, and receives
  commands, settings, rules, upgrades and tunnels.  This library of theories models the code
  of src/src, without the vendored cJSON, and the demo programs with a state of their own, and proves
  what they guarantee, and where they fall short of what they mean to do.

  \<^bold>\<open>The program and its theories.\<close>  The layers, from the bottom, with the theory of each:

  \<^item> util: \<open>Strings\<close> and \<open>Gzip\<close> (string\_util.c: building, searching and copying of strings,
    time stamps, compression), \<open>Json\<close> (json\_util.c over cJSON trees), \<open>Log\<close> (log\_util.c),
    \<open>Mqtt5\<close> (mqttv5\_util.c);
  \<^item> base: \<open>Crypto\<close> (hmac\_sha256.c: the digest of the password and base64), \<open>MqttBase\<close>
    (mqtt\_base.c: configuration, login, subscribe, publish, release).  \<open>Callbacks\<close> has the
    callbacks the MQTT base registers with the client library, \<open>Mqtt5\<close> the conversion of the
    MQTT 5 properties and the callbacks of that build;
  \<^item> service, upwards: \<open>Transport\<close> (subscribe.c and data\_trans.c: the topics and the reports),
    \<open>Report5\<close> (the same with MQTT 5 properties);
  \<^item> service, downwards: \<open>EventsDown\<close> and \<open>Downlink\<close> (callback\_func.c: which handler a message
    goes to, and its parsing into the structures an application is given);
  \<^item> service, device rules: \<open>DynArray\<close> (rule\_util.c, the growable array), \<open>RuleModel\<close>
    (rule\_condition.c, rule\_action.c, rule\_info.c), \<open>RuleParser\<close> (rule\_parser.c), \<open>RuleExec\<close>
    (rule\_execution.c), \<open>RuleManager\<close> (rule\_manager.c), \<open>RuleTrans\<close> (rule\_trans.c);
  \<^item> service, anomaly detection: \<open>DetectModel\<close> and \<open>Detect\<close> (detect\_anomaly.c, report\_anomaly.c,
    sys\_hal.c, sys\_hal\_imp.c), \<open>DirWatch\<close> (its walk through directories), \<open>DetectStore\<close> (the file its
    configuration is kept in);
  \<^item> service, bridge and soft bus: \<open>Bridge\<close> (iota\_bridge.c, bridge\_topic\_data.c), \<open>SoftBus\<close>
    (soft\_bus\_datatrans.c, soft\_bus\_init.c and dconncaseone\_interface.c);
  \<^item> agentlite, the functions an application calls: \<open>Payload\<close> (iota\_payload.c), \<open>AgentApi\<close>
    (iota\_datatrans.c, iota\_init.c, iota\_login.c, login.c, base.c), \<open>Ota\<close> (the transfer of
    files in iota\_datatrans.c), \<open>Callbacks\<close> (iota\_defaultCallback.c with the reconnection);
  \<^item> tunnel: \<open>Tunnel\<close> (wss\_client.c, ssh\_client.c, HandleTunnelMgr);
  \<^item> programs on top of the interface: \<open>Provision\<close> (src/demos/bootstrap\_demo/bootstrap.c: the two logins of a
    device that asks for its address), \<open>Gateway\<close> (src/demos/gateway\_demo: a gateway for TCP clients),
    \<open>SoftBusDemo\<close> (src/demos/softBus\_demo: master and slaves of a bus), \<open>DeviceDemo\<close> and \<open>OfflineCache\<close>
    (src/src/device\_demo/device\_demo.c: the sample device, and the cache of its build with
    STORE\_DATA\_SWITCH); \<open>DemoBase\<close> has what they share, calls on the client, the callbacks of a message
    and runs of events.

  \<open>Prelude\<close> holds what all of them share: C strings, the heap, the functions of the C library
  and of securec, the collections \<open>ub_simps\<close>, \<open>c_defs\<close> and \<open>exec_defs\<close>, and generic lemmas.

  \<^bold>\<open>How the parts interact.\<close>  A report goes from a function \<open>IOTA_...\<close> of \<open>AgentApi\<close> through its
  payload (\<open>Payload\<close>), which for properties also fills the cache of the device rules and
  evaluates them (\<open>RuleManager\<close>, \<open>RuleExec\<close>), to a topic (\<open>Transport\<close>) and to the client
  (\<open>MqttBase\<close>).  An arriving message goes from the callback of the client
  (\<open>MqttBase_OnMessageArrived\<close> in \<open>Callbacks\<close>) to \<open>OnMessageArrived\<close> (\<open>Downlink\<close>), which by
  its topic hands it to the application, to the device rules (\<open>RuleManager\<close>, \<open>RuleTrans\<close>),
  to the detection (\<open>Detect\<close>) or to the events (\<open>EventsDown\<close>).  A failed or lost connection
  goes to the default callbacks, which connect again.  A demo program is a state around the \<open>client\<close> and a
  step for each event; a message first runs through the client, and the calls it makes are then
  carried out by the callbacks of the program, which report back through \<open>AgentApi\<close>.

  \<^bold>\<open>State and operations.\<close>  The global variables of a file are a record with the names of the
  code: \<open>mqtt\<close> (mqtt\_base.c), \<open>rule_mgr\<close> (rule\_manager.c), \<open>detect\<close> (detect\_anomaly.c),
  \<open>soft_bus_total\<close>, \<open>tunnel\<close>, \<open>logger\<close>; \<open>down\<close> joins those the arriving messages touch and
  \<open>client\<close> adds the MQTT base and the callbacks.  A function is the definition of its name, from
  its arguments and the state to its answer and the new state.  \<^term>\<open>None\<close> as the result of
  a definition is undefined behaviour (a NULL pointer read, a buffer overrun, a division by zero, an
  overflow, an uninitialised value); as a value it is the NULL pointer.  Integers that may wrap
  are words (\<open>8 word\<close> for the days of a timer, \<open>32 word\<close> for the counter of a bridge and the
  alias of a topic, \<open>64 word\<close> for the random part of the wait); others are integers, with
  the range written out where the code can leave it.  What leaves the program (requests to the client,
  calls of the application, commands) is a log in the state or a list that is returned.
  Mallocs of strings are decided by a heap oracle on their size, so running out of memory is a
  branch like any other.

  \<^bold>\<open>What is shown.\<close>
  Rules: parsing keeps the list well formed and never downgrades a rule, an update of versions
  is answered in full, timers and conditions mean what they say, exactly the commands of the
  rules that fire are issued, and the file mirrors the rules in force (\<open>RuleParser\<close> to
  \<open>RuleTrans\<close>); the array refines a list (\<open>DynArray\<close>).
  Base: the parts of a login fit together, the invariant of every reachable state, base64, the
  properties of MQTT 5 and the stored configuration of the detection are round trips, compression ends, the search for a substring agrees with strstr.
  Messages: every report has its topic and whole payload, subscriptions are exactly the six of a
  device, every message reaches its one handler, payloads are well typed, a time
  synchronisation is exact, properties reported are those the rules read, the MQTT 5 build
  agrees with the one for MQTT 3.1.1.
  Liveness and bounds: every failed connection is tried again after a bounded wait, a lost
  tunnel is connected again or given up after ten attempts, the tables and
  counters stay within their arrays.
  Safety: commands reach a shell only after the host key and the password were accepted; the
  detection runs its thread exactly while a check is on, and its ring of failures is a sliding
  window.
  Programs: the provisioned device logs in at the host it was given, a sub-device of the gateway lives
  from its request to its deletion, the sample device answers every request once, its cache
  keeps a report until it is acknowledged, the master of a bus reaches all others on it.
  Errors: theorems on single faults say on which inputs the code fails.

  \<^bold>\<open>Interfaces.\<close>  The locale \<open>seq_store\<close> (an array as the rules use it) is interpreted on
  rule\_util.c, \<open>keyed_store\<close> on the objects of cJSON, \<open>property_cache\<close> (what the rule
  conditions read after a report) on the cache of rule\_manager.c, and \<open>topic_client\<close> (what a
  request to the client does) on subscribing and on publishing in mqtt\_base.c.  \<open>reactive\<close> (what every run
  of events keeps) and its extension \<open>counting\<close> (how much a run adds) are interpreted on the steps of the
  provisioning, the gateway, the reconnection of the sample device and its cache.  Machines are
  inductive step relations with their reachable states: \<open>mqtt_reachable\<close>, \<open>detect_reachable\<close>,
  \<open>tunnel_reachable\<close>.  The reports of the two MQTT versions are related by \<open>attaches\<close>.

  \<^bold>\<open>Parameters and assumptions.\<close>  Code outside the repository is a parameter: the Paho client, OpenSSL,
  HMAC and SHA-256, zlib, libcurl, noPoll, libssh, sockets, files, clocks and the text parser
  and printer of cJSON.  Theorems that need more of them than a result name it as a hypothesis,
  with a witness.  cJSON trees and securec have their documented behaviour; cJSON nodes,
  structures and arrays of the SDK are allocated successfully, mutexes and threads too.  A
  thread runs its body at once.  Finite doubles are exact rationals.  A string has fewer than
  2147483648 characters.  Arrays of rules are lists in the theories on top of \<open>DynArray\<close>, as
  its refinement allows.  The build is the default one (Linux, MQTT 3.1.1); \<open>SoftBus\<close> is the
  build with SOFT\_BUS\_OPTION2, \<open>Tunnel\<close> with SSH\_SWITCH, \<open>Mqtt5\<close> and \<open>Report5\<close> with MQTTV5,
  \<open>DetectStore\<close> and the reports of report\_anomaly.c with SECURITY\_AWARENESS\_ENABLE.

  \<^bold>\<open>Loops.\<close>  No fuel is used.  Recursion is structural or has a measure; loops that depend on a
  parameter (deflate, the walk through directories, a linked list) are partial functions,
  \<^term>\<open>None\<close> when they do not end, and shown to end where they do.

  \<^bold>\<open>Not modelled.\<close>  The other programs of src/demos and src/src: the tests of single calls under
  src/demos/device\_demo, the clients, the TCP protocol of the bridge, and the earlier gateway and
  bootstrap programs of src/src.  Of device\_demo.c the tests of the MQTT 5 build and the thread of
  CUSTOM\_RECONNECT\_SWITCH.  cJSON is vendored.  Left out of the modelled files: what is only logged
  or printed, the syslog and file output of log\_util.c, the options of the login and the logging of
  properties with MQTTV5, Windows branches, the pings that keep a tunnel alive, the release of
  structures that are values here, and RuleMgr\_Destroy, which no code calls.
\<close>

end
